(* ===== verification/Prelude.thy ===== *)
theory Prelude
  imports Main "HOL-Library.AList" "HOL-Library.List_Lexorder" "HOL-Library.Char_ord"
begin

text \<open>
  Shared vocabulary of the development: the exceptions the Python code raises, the two
  result shapes every operation uses (a pure result that may be an exception, and a stateful
  operation that returns a result together with the state it leaves behind), insertion-ordered
  dictionaries, and the generic lemmas the component theories rely on.

  A stateful operation is a function \<open>'s \<Rightarrow> (exn + 'a) \<times> 's\<close>: as in Python, an exception does
  not undo the assignments made before it was raised, so the state is returned in both cases.
\<close>

section \<open>Exceptions\<close>

text \<open>
  The exception classes the modelled code raises or lets through, with the message where the
  source writes one.  \<open>DecimalOverflow\<close>, \<open>InvalidOperation\<close> and \<open>DivisionByZero\<close> are the
  trapped signals of the default context of Python's decimal module; \<open>OverflowError\<close> is the
  builtin one.
\<close>

datatype exn =
    ValueError string
  | TypeError string
  | KeyError string
  | IndexError
  | AttributeError
  | NotImplementedError string
  | OverflowError
  | OSError
  | DecimalOverflow
  | InvalidOperation
  | DivisionByZero
  | MarketDataProviderError string
  | ConfigurationError string
  | AuthenticationError string
  | PermissionDenied string
  | OIDCError string
  | HTTPError
  | PyJWTError
  | IntegrityError
  | DataError
  | MultipleResultsFound
  | RecursionError
  | RuntimeError string

section \<open>Results\<close>

type_synonym 'a res = "exn + 'a"
type_synonym ('s, 'a) op = "'s \<Rightarrow> 'a res \<times> 's"

named_theorems op_defs "definitions of the result and state combinators"

definition rbind :: "'a res \<Rightarrow> ('a \<Rightarrow> 'b res) \<Rightarrow> 'b res" where
  "rbind r f = (case r of Inl e \<Rightarrow> Inl e | Inr x \<Rightarrow> f x)"

definition ret :: "'a \<Rightarrow> ('s, 'a) op" where
  "ret x s = (Inr x, s)"

definition raise :: "exn \<Rightarrow> ('s, 'a) op" where
  "raise e s = (Inl e, s)"

definition bind :: "('s, 'a) op \<Rightarrow> ('a \<Rightarrow> ('s, 'b) op) \<Rightarrow> ('s, 'b) op" where
  "bind m f s = (case m s of (Inl e, t) \<Rightarrow> (Inl e, t) | (Inr x, t) \<Rightarrow> f x t)"

definition lift :: "'a res \<Rightarrow> ('s, 'a) op" where
  "lift r s = (r, s)"

definition gets :: "('s \<Rightarrow> 'a) \<Rightarrow> ('s, 'a) op" where
  "gets f s = (Inr (f s), s)"

definition modify :: "('s \<Rightarrow> 's) \<Rightarrow> ('s, unit) op" where
  "modify f s = (Inr (), f s)"

declare ret_def [op_defs] raise_def [op_defs] lift_def [op_defs] gets_def [op_defs]
  modify_def [op_defs]

lemma rbind_simps [simp]:
  "rbind (Inl e) f = Inl e"
  "rbind (Inr x) f = f x"
  by (simp_all add: rbind_def)

lemma rbind_Inr_iff: "rbind r f = Inr y \<longleftrightarrow> (\<exists>x. r = Inr x \<and> f x = Inr y)"
  by (cases r) auto

lemma guard_Inr_iff: "(if c then Inl e else r) = Inr y \<longleftrightarrow> \<not> c \<and> r = Inr y"
  by simp

lemma rbind_Inl_iff: "rbind r f = Inl e \<longleftrightarrow> r = Inl e \<or> (\<exists>x. r = Inr x \<and> f x = Inl e)"
  by (cases r) auto

lemma bind_simps [simp]:
  "bind (ret x) f = f x"
  "bind (raise e) f = raise e"
  "bind (lift (Inl e)) f = raise e"
  "bind (lift (Inr x)) f = f x"
  by (simp_all add: bind_def ret_def raise_def lift_def fun_eq_iff)

lemma bind_modify: "bind (modify g) f s = f () (g s)"
  by (simp add: bind_def modify_def)

lemma bind_modify_fun: "bind (modify g) f = (\<lambda>s. f () (g s))"
  by (simp add: fun_eq_iff bind_modify)

lemma bind_gets: "bind (gets g) f s = f (g s) s"
  by (simp add: bind_def gets_def)

lemma bind_assoc: "bind (bind m f) g = bind m (\<lambda>x. bind (f x) g)"
  by (auto simp: bind_def fun_eq_iff split: prod.splits sum.splits)

lemma bind_Inr_iff:
  "bind m f s = (Inr y, u) \<longleftrightarrow> (\<exists>x t. m s = (Inr x, t) \<and> f x t = (Inr y, u))"
  by (auto simp: bind_def split: prod.splits sum.splits)

lemma bind_Inl_iff:
  "bind m f s = (Inl e, u) \<longleftrightarrow>
     m s = (Inl e, u) \<or> (\<exists>x t. m s = (Inr x, t) \<and> f x t = (Inl e, u))"
  by (auto simp: bind_def split: prod.splits sum.splits)

lemmas bind_iffs = bind_Inr_iff bind_Inl_iff

lemma lift_eq [simp]: "lift r s = (r', t) \<longleftrightarrow> r = r' \<and> s = t"
  by (auto simp: lift_def)

lemma raise_eq [simp]: "raise e s = (r, t) \<longleftrightarrow> r = Inl e \<and> s = t"
  by (auto simp: raise_def)

lemma ret_eq [simp]: "ret x s = (r, t) \<longleftrightarrow> r = Inr x \<and> s = t"
  by (auto simp: ret_def)

lemma modify_eq [simp]: "modify f s = (r, t) \<longleftrightarrow> r = Inr () \<and> t = f s"
  by (auto simp: modify_def)

lemma gets_eq [simp]: "gets f s = (r, t) \<longleftrightarrow> r = Inr (f s) \<and> s = t"
  by (auto simp: gets_def)

section \<open>Insertion-ordered dictionaries\<close>

text \<open>
  A Python dict keeps its keys in insertion order, replaces a value in place and forgets the
  position of a deleted key.  \<open>AList.update\<close> and \<open>AList.delete\<close> on a list of pairs with
  distinct keys behave in exactly this way.
\<close>

type_synonym ('k, 'v) dict = "('k \<times> 'v) list"

abbreviation dict_ok :: "('k, 'v) dict \<Rightarrow> bool" where
  "dict_ok d \<equiv> distinct (map fst d)"

lemma dict_ok_update: "dict_ok d \<Longrightarrow> dict_ok (AList.update k v d)"
  by (rule distinct_update)

lemma dict_ok_delete: "dict_ok d \<Longrightarrow> dict_ok (AList.delete k d)"
  by (rule distinct_delete)

lemma keys_update: "set (map fst (AList.update k v d)) = insert k (set (map fst d))"
  by (induction d) auto

lemma keys_delete: "set (map fst (AList.delete k d)) = set (map fst d) - {k}"
  by (induction d) (auto simp: AList.delete_eq)

lemma set_update:
  "dict_ok d \<Longrightarrow> set (AList.update k v d) = {p \<in> set d. fst p \<noteq> k} \<union> {(k, v)}"
  by (induction d) (auto simp: image_iff)

lemma set_delete: "set (AList.delete k d) = {p \<in> set d. fst p \<noteq> k}"
  by (auto simp: AList.delete_eq)

lemma dict_update_all:
  "dict_ok d \<Longrightarrow> \<forall>p \<in> set d. P p \<Longrightarrow> P (k, v) \<Longrightarrow> \<forall>p \<in> set (AList.update k v d). P p"
  by (auto simp: set_update)

lemma dict_delete_all: "\<forall>p \<in> set d. P p \<Longrightarrow> \<forall>p \<in> set (AList.delete k d). P p"
  by (auto simp: set_delete)

text \<open>
  Summing a function over the values of a dictionary: the change made by an update and by a
  deletion.
\<close>

lemma sum_list_update:
  fixes f :: "'v \<Rightarrow> 'n :: ab_group_add"
  assumes "dict_ok d"
  shows "(\<Sum>p \<leftarrow> AList.update k v d. f (snd p)) =
    (\<Sum>p \<leftarrow> d. f (snd p)) - (case map_of d k of None \<Rightarrow> 0 | Some w \<Rightarrow> f w) + f v"
  using assms by (induction d) (auto split: option.splits)

lemma sum_list_delete:
  fixes f :: "'v \<Rightarrow> 'n :: ab_group_add"
  assumes "dict_ok d"
  shows "(\<Sum>p \<leftarrow> AList.delete k d. f (snd p)) =
    (\<Sum>p \<leftarrow> d. f (snd p)) - (case map_of d k of None \<Rightarrow> 0 | Some w \<Rightarrow> f w)"
proof (use assms in \<open>induction d\<close>)
  case (Cons p d)
  show ?case
  proof (cases "fst p = k")
    case True
    with Cons.prems have "AList.delete k d = d"
      by auto
    with True show ?thesis by (cases p) simp
  next
    case False
    with Cons show ?thesis by (cases p) (auto split: option.splits)
  qed
qed simp

section \<open>Searching and sums on lists\<close>

lemma find_Some_set: "List.find P xs = Some x \<Longrightarrow> x \<in> set xs \<and> P x"
  by (induction xs) (auto split: if_splits)

lemma find_None_all: "List.find P xs = None \<longleftrightarrow> (\<forall>x \<in> set xs. \<not> P x)"
  by (induction xs) auto

end
