(* ===== verification/PyDecimal.thy ===== *)
theory PyDecimal
  imports Prelude Complex_Main
begin

text \<open>
  The part of Python's \<open>decimal\<close> module that the broker and strategy packages use: numbers of
  the form coefficient times a power of ten, the two infinities and the NaNs, comparison, and
  addition, subtraction, multiplication and division under the default context (28 significant
  digits, \<open>ROUND_HALF_EVEN\<close>, exponents between \<open>-999999\<close> and \<open>999999\<close>, with the signals
  \<open>InvalidOperation\<close>, \<open>DivisionByZero\<close> and \<open>Overflow\<close> trapped).  The sign of a zero is not
  kept; no modelled operation can observe it.

  The lemmas relate the rounded operations to exact rational arithmetic: the rounded result has
  the sign of the exact one, it is exact when the exact one fits in 28 digits, and a result that
  does not fit is large.
\<close>

section \<open>Numbers and context\<close>

text \<open>\<open>Fin c e\<close> is \<open>c * 10^e\<close>; \<open>Infty True\<close> is minus infinity; \<open>NaN True\<close> is signalling.\<close>

datatype decimal = Fin int int | Infty bool | NaN bool

definition prec :: nat where "prec = 28"
definition Emax :: int where "Emax = 999999"
definition Emin :: int where "Emin = -999999"
definition Etiny :: int where "Etiny = Emin - int prec + 1"
definition Etop :: int where "Etop = Emax - int prec + 1"

lemmas context_defs = prec_def Emax_def Emin_def Etiny_def Etop_def

function ndigits :: "int \<Rightarrow> nat" where
  "ndigits n = (if n < 10 then 1 else Suc (ndigits (n div 10)))"
  by pat_completeness auto
termination
  by (relation "measure nat") auto

declare ndigits.simps [simp del]

text \<open>\<open>len(str(n))\<close> for \<open>n \<ge> 0\<close>, and the quotient of two such numbers rounded half to even.\<close>

definition round_half_even :: "int \<Rightarrow> int \<Rightarrow> int" where
  "round_half_even n d =
     (let q = n div d; r = n mod d
      in if d < 2 * r \<or> (2 * r = d \<and> odd q) then q + 1 else q)"

text \<open>
  \<open>dfix\<close> is \<open>Decimal._fix\<close>: round a finite number to the context.  A coefficient that rounds up
  to 29 digits loses its last one (a zero), as \<open>coeff[:-1]\<close> does.
\<close>

definition dfix :: "int \<Rightarrow> int \<Rightarrow> decimal res" where
  "dfix c e =
     (if c = 0 then Inr (Fin 0 (min (max e Etiny) Emax))
      else
        let n = \<bar>c\<bar>; m0 = int (ndigits n) + e - int prec
        in if Etop < m0 then Inl DecimalOverflow
           else
             let m = max m0 Etiny
             in if e < m then
                  let q = round_half_even n (10 ^ nat (m - e));
                      (q', m') = (if prec < ndigits q then (q div 10, m + 1) else (q, m))
                  in if Etop < m' then Inl DecimalOverflow
                     else Inr (Fin (sgn c * q') m')
                else Inr (Fin c e))"

section \<open>Comparison\<close>

definition align :: "int \<Rightarrow> int \<Rightarrow> int \<Rightarrow> int" where
  "align c e m = c * 10 ^ nat (e - m)"

text \<open>The three-way comparison of two numbers that are not NaN.\<close>

fun dec_cmp :: "decimal \<Rightarrow> decimal \<Rightarrow> int" where
  "dec_cmp (Fin c d) (Fin c' d') =
     (let m = min d d' in sgn (align c d m - align c' d' m))"
| "dec_cmp (Infty s) (Infty t) = (if s = t then 0 else if s then -1 else 1)"
| "dec_cmp (Infty s) _ = (if s then -1 else 1)"
| "dec_cmp _ (Infty t) = (if t then 1 else -1)"
| "dec_cmp _ _ = 0"

fun is_nan :: "decimal \<Rightarrow> bool" where
  "is_nan (NaN _) = True"
| "is_nan _ = False"

text \<open>The ordering operators raise on any NaN; \<open>==\<close> only on a signalling one.\<close>

definition dec_le :: "decimal \<Rightarrow> decimal \<Rightarrow> bool res" where
  "dec_le a b = (if is_nan a \<or> is_nan b then Inl InvalidOperation else Inr (dec_cmp a b \<le> 0))"

definition dec_lt :: "decimal \<Rightarrow> decimal \<Rightarrow> bool res" where
  "dec_lt a b = (if is_nan a \<or> is_nan b then Inl InvalidOperation else Inr (dec_cmp a b < 0))"

definition dec_gt :: "decimal \<Rightarrow> decimal \<Rightarrow> bool res" where
  "dec_gt a b = (if is_nan a \<or> is_nan b then Inl InvalidOperation else Inr (0 < dec_cmp a b))"

definition dec_eq :: "decimal \<Rightarrow> decimal \<Rightarrow> bool res" where
  "dec_eq a b =
     (if a = NaN True \<or> b = NaN True then Inl InvalidOperation
      else if is_nan a \<or> is_nan b then Inr False
      else Inr (dec_cmp a b = 0))"

section \<open>Arithmetic\<close>

text \<open>A NaN operand: a signalling one raises, a quiet one is the result.\<close>

definition nan_result :: "decimal \<Rightarrow> decimal \<Rightarrow> decimal res" where
  "nan_result a b =
     (if a = NaN True \<or> b = NaN True then Inl InvalidOperation else Inr (NaN False))"

fun dec_neg :: "decimal \<Rightarrow> decimal" where
  "dec_neg (Fin c e) = Fin (- c) e"
| "dec_neg (Infty s) = Infty (\<not> s)"
| "dec_neg (NaN s) = NaN s"

fun dec_add :: "decimal \<Rightarrow> decimal \<Rightarrow> decimal res" where
  "dec_add (Fin c d) (Fin c' d') =
     (let m = min d d' in dfix (align c d m + align c' d' m) m)"
| "dec_add (Infty s) (Infty t) = (if s = t then Inr (Infty s) else Inl InvalidOperation)"
| "dec_add (Infty s) (Fin _ _) = Inr (Infty s)"
| "dec_add (Fin _ _) (Infty t) = Inr (Infty t)"
| "dec_add a b = nan_result a b"

text \<open>Subtraction adds the negation, after the NaN check.\<close>

definition dec_sub :: "decimal \<Rightarrow> decimal \<Rightarrow> decimal res" where
  "dec_sub a b = (if is_nan a \<or> is_nan b then nan_result a b else dec_add a (dec_neg b))"

fun dec_mul :: "decimal \<Rightarrow> decimal \<Rightarrow> decimal res" where
  "dec_mul (Fin c d) (Fin c' d') = dfix (c * c') (d + d')"
| "dec_mul (Infty s) (Infty t) = Inr (Infty (s \<noteq> t))"
| "dec_mul (Infty s) (Fin c _) =
     (if c = 0 then Inl InvalidOperation else Inr (Infty (s \<noteq> (c < 0))))"
| "dec_mul (Fin c _) (Infty t) =
     (if c = 0 then Inl InvalidOperation else Inr (Infty (t \<noteq> (c < 0))))"
| "dec_mul a b = nan_result a b"

text \<open>
  Division of nonzero finite numbers: one digit more than the precision, a coefficient that is
  bumped off a rounding tie when there is a remainder, and trailing zeros removed towards the
  ideal exponent when the quotient is exact.
\<close>

fun strip_zeros :: "nat \<Rightarrow> int \<Rightarrow> int \<Rightarrow> int \<times> int" where
  "strip_zeros 0 c e = (c, e)"
| "strip_zeros (Suc k) c e =
     (if c mod 10 = 0 then strip_zeros k (c div 10) (e + 1) else (c, e))"

definition div_coeff :: "int \<Rightarrow> int \<Rightarrow> int \<Rightarrow> int \<Rightarrow> int \<times> int" where
  "div_coeff a d b d' =
     (let shift = int (ndigits b) - int (ndigits a) + int prec + 1;
          e = d - d' - shift;
          n = (if 0 \<le> shift then a * 10 ^ nat shift else a);
          m = (if 0 \<le> shift then b else b * 10 ^ nat (- shift));
          q = n div m
      in if n mod m \<noteq> 0 then (if q mod 5 = 0 then q + 1 else q, e)
         else strip_zeros (nat (d - d' - e)) q e)"

fun dec_div :: "decimal \<Rightarrow> decimal \<Rightarrow> decimal res" where
  "dec_div (Fin c d) (Fin c' d') =
     (if c' = 0 then (if c = 0 then Inl InvalidOperation else Inl DivisionByZero)
      else if c = 0 then dfix 0 (d - d')
      else let (q, e) = div_coeff \<bar>c\<bar> d \<bar>c'\<bar> d'
           in dfix (sgn c * sgn c' * q) e)"
| "dec_div (Infty s) (Infty t) = Inl InvalidOperation"
| "dec_div (Infty s) (Fin c _) = Inr (Infty (s \<noteq> (c < 0)))"
| "dec_div (Fin _ _) (Infty _) = Inr (Fin 0 Etiny)"
| "dec_div a b = nan_result a b"

text \<open>\<open>sum(values, start)\<close>: additions from the left.\<close>

fun dec_sum :: "decimal \<Rightarrow> decimal list \<Rightarrow> decimal res" where
  "dec_sum acc [] = Inr acc"
| "dec_sum acc (x # xs) = rbind (dec_add acc x) (\<lambda>acc'. dec_sum acc' xs)"

section \<open>Rational value\<close>

text \<open>The number a finite decimal denotes.\<close>

fun dval :: "decimal \<Rightarrow> rat" where
  "dval (Fin c e) = of_int c * 10 powi e"
| "dval _ = 0"

fun is_fin :: "decimal \<Rightarrow> bool" where
  "is_fin (Fin _ _) = True"
| "is_fin _ = False"

lemma is_fin_iff: "is_fin x \<longleftrightarrow> (\<exists>c e. x = Fin c e)"
  by (cases x) auto

lemma powi_10_pos [simp]: "0 < (10 :: rat) powi e" "\<not> (10 :: rat) powi e \<le> 0"
    "\<not> (10 :: rat) powi e < 0"
  by (simp_all add: zero_less_power_int not_le less_imp_not_less)

lemma align_value:
  assumes "m \<le> e"
  shows "of_int (align c e m) * 10 powi m = (of_int c * 10 powi e :: rat)"
proof -
  have "(10 :: rat) powi e = 10 powi ((e - m) + m)" by simp
  also have "\<dots> = 10 powi (e - m) * 10 powi m" by (rule power_int_add) simp
  also have "(10 :: rat) powi (e - m) = 10 ^ nat (e - m)"
    using assms by (simp add: power_int_def)
  finally show ?thesis by (simp add: align_def)
qed

lemma sgn_mult_pos: "0 < (b :: rat) \<Longrightarrow> sgn (a * b) = sgn a"
  by (simp add: sgn_mult)

lemma of_int_sgn_rat: "of_int (sgn x) = sgn (of_int x :: rat)"
  by (simp add: sgn_if)

text \<open>Comparison compares values.\<close>

lemma dec_cmp_value:
  "of_int (dec_cmp (Fin c d) (Fin c' d')) = sgn (dval (Fin c d) - dval (Fin c' d'))"
proof -
  let ?m = "min d d'"
  have "dval (Fin c d) - dval (Fin c' d')
      = of_int (align c d ?m - align c' d' ?m) * 10 powi ?m"
    using align_value [of ?m d c] align_value [of ?m d' c']
    by (simp add: left_diff_distrib)
  then have "sgn (dval (Fin c d) - dval (Fin c' d'))
      = sgn (of_int (align c d ?m - align c' d' ?m) :: rat)"
    by (simp only: sgn_mult_pos zero_less_power_int zero_less_numeral)
  then show ?thesis by (simp add: Let_def of_int_sgn_rat)
qed

lemma dec_cmp_zero:
  "dec_cmp x y = 0 \<longleftrightarrow> dval x = dval y" if "is_fin x" "is_fin y"
  using that dec_cmp_value unfolding is_fin_iff
  by (metis eq_iff_diff_eq_0 of_int_eq_0_iff sgn_0_0)

lemma dec_cmp_pos:
  "0 < dec_cmp x y \<longleftrightarrow> dval y < dval x" if "is_fin x" "is_fin y"
  using that dec_cmp_value unfolding is_fin_iff
  by (metis diff_gt_0_iff_gt of_int_0_less_iff sgn_greater)

lemma dec_cmp_neg:
  "dec_cmp x y < 0 \<longleftrightarrow> dval x < dval y" if "is_fin x" "is_fin y"
  using that dec_cmp_value unfolding is_fin_iff
  by (metis diff_less_0_iff_less of_int_less_0_iff sgn_less)

lemma dec_le_fin: "is_fin x \<Longrightarrow> is_fin y \<Longrightarrow> dec_le x y = Inr (dval x \<le> dval y)"
  using dec_cmp_pos [of x y] by (auto simp: dec_le_def is_fin_iff not_less [symmetric])

lemma dec_lt_fin: "is_fin x \<Longrightarrow> is_fin y \<Longrightarrow> dec_lt x y = Inr (dval x < dval y)"
  using dec_cmp_neg [of x y] by (auto simp: dec_lt_def is_fin_iff)

lemma dec_gt_fin: "is_fin x \<Longrightarrow> is_fin y \<Longrightarrow> dec_gt x y = Inr (dval y < dval x)"
  using dec_cmp_pos [of x y] by (auto simp: dec_gt_def is_fin_iff)

lemma dec_eq_fin: "is_fin x \<Longrightarrow> is_fin y \<Longrightarrow> dec_eq x y = Inr (dval x = dval y)"
  using dec_cmp_zero [of x y] by (auto simp: dec_eq_def is_fin_iff)

lemmas dec_cmp_fin = dec_le_fin dec_lt_fin dec_gt_fin dec_eq_fin

section \<open>Digits and rounding\<close>

lemma ndigits_pos: "0 < ndigits n"
  by (subst ndigits.simps) simp

lemma ndigits_lower: "0 < n \<Longrightarrow> 10 ^ (ndigits n - 1) \<le> n"
proof (induction n rule: ndigits.induct)
  case (1 n)
  show ?case
  proof (cases "n < 10")
    case True
    then show ?thesis using 1 by (simp add: ndigits.simps [of n])
  next
    case False
    then have IH: "10 ^ (ndigits (n div 10) - 1) \<le> n div 10" using 1 by simp
    have "10 ^ (ndigits n - 1) = 10 * 10 ^ (ndigits (n div 10) - 1)"
      using False ndigits_pos [of "n div 10"]
      by (simp add: ndigits.simps [of n] power_eq_if)
    also have "\<dots> \<le> 10 * (n div 10)" using IH by simp
    also have "\<dots> \<le> n" by simp
    finally show ?thesis .
  qed
qed

lemma ndigits_upper: "n < 10 ^ ndigits n"
proof (induction n rule: ndigits.induct)
  case (1 n)
  show ?case
  proof (cases "n < 10")
    case True
    then show ?thesis by (simp add: ndigits.simps [of n])
  next
    case False
    then have "n div 10 < 10 ^ ndigits (n div 10)" using 1 by simp
    then have "n < 10 * 10 ^ ndigits (n div 10)" by linarith
    with False show ?thesis by (simp add: ndigits.simps [of n])
  qed
qed

lemma ndigits_le: "n < 10 ^ k \<Longrightarrow> 0 < k \<Longrightarrow> ndigits n \<le> k"
proof (rule ccontr)
  assume n: "n < 10 ^ k" and k: "0 < k" and "\<not> ndigits n \<le> k"
  then have big: "k < ndigits n" by simp
  then have "0 < n" using k ndigits.simps [of n] by (auto split: if_splits)
  then have "10 ^ (ndigits n - 1) \<le> n" by (rule ndigits_lower)
  moreover have "(10 :: int) ^ k \<le> 10 ^ (ndigits n - 1)"
    using big by (intro power_increasing) auto
  ultimately show False using n by linarith
qed

lemma ndigits_gt: "10 ^ k \<le> n \<Longrightarrow> k < ndigits n"
  using ndigits_upper [of n] power_increasing [of "ndigits n" k "10 :: int"] 
  by (metis leI le_less_trans less_irrefl one_le_numeral)

lemma round_half_even_nonneg: "0 \<le> n \<Longrightarrow> 0 < d \<Longrightarrow> 0 \<le> round_half_even n d"
  by (auto simp: round_half_even_def Let_def pos_imp_zdiv_nonneg_iff add_nonneg_nonneg)

lemma round_half_even_lower: "n div d \<le> round_half_even n d"
  by (auto simp: round_half_even_def Let_def)

lemma dfix_exact:
  assumes "\<bar>c\<bar> < 10 ^ 28" "Etiny \<le> e" "e \<le> Etop"
  shows "dfix c e = Inr (Fin c e)"
proof (cases "c = 0")
  case True
  with assms show ?thesis by (simp add: dfix_def context_defs)
next
  case False
  have "ndigits \<bar>c\<bar> \<le> 28" using assms(1) by (intro ndigits_le) auto
  then have "int (ndigits \<bar>c\<bar>) + e - int prec \<le> e" by (simp add: prec_def)
  then have "\<not> Etop < int (ndigits \<bar>c\<bar>) + e - int prec"
    and "\<not> e < max (int (ndigits \<bar>c\<bar>) + e - int prec) Etiny"
    using assms by auto
  with False show ?thesis unfolding dfix_def Let_def by (simp only: if_False)
qed

text \<open>A rounded number is finite and on the same side of zero.\<close>

lemma dfix_sign:
  assumes "dfix c e = Inr x"
  shows "\<exists>c' e'. x = Fin c' e' \<and> (0 \<le> c \<longrightarrow> 0 \<le> c') \<and> (c \<le> 0 \<longrightarrow> c' \<le> 0)"
proof -
  have r: "0 \<le> round_half_even \<bar>c\<bar> (10 ^ k)" for k
    by (rule round_half_even_nonneg) auto
  show ?thesis
    using assms r
    by (auto simp: dfix_def Let_def sgn_if pos_imp_zdiv_nonneg_iff
        split: if_splits prod.splits)
qed

text \<open>
  A number whose coefficient does not fit in 28 digits keeps a 28-digit coefficient and a
  larger exponent, so its rounded value is at least \<open>10^27\<close> times its old unit.
\<close>

lemma dfix_big:
  assumes big: "10 ^ 28 \<le> \<bar>c\<bar>" and e: "Etiny \<le> e" and fixed: "dfix c e = Inr x"
  shows "\<exists>c' e'. x = Fin c' e' \<and> 10 ^ 27 \<le> \<bar>c'\<bar> \<and> e < e' \<and> sgn c' = sgn c"
proof -
  define m where "m = int (ndigits \<bar>c\<bar>) + e - int prec"
  define q where "q = round_half_even \<bar>c\<bar> (10 ^ nat (m - e))"
  have nd: "28 < ndigits \<bar>c\<bar>" using big by (rule ndigits_gt)
  then have em: "e < m" by (simp add: m_def prec_def)
  have c: "c \<noteq> 0" using big by auto
  have "10 ^ nat (m - e) * 10 ^ 27 = (10 :: int) ^ (ndigits \<bar>c\<bar> - 1)"
    using nd by (subst power_add [symmetric]) (simp add: m_def prec_def nat_diff_distrib)
  also have "\<dots> \<le> \<bar>c\<bar>" using c by (intro ndigits_lower) simp
  finally have "10 ^ nat (m - e) * 10 ^ 27 div 10 ^ nat (m - e) \<le> \<bar>c\<bar> div 10 ^ nat (m - e)"
    by (rule zdiv_mono1) simp
  then have "10 ^ 27 \<le> \<bar>c\<bar> div 10 ^ nat (m - e)" by simp
  also have "\<bar>c\<bar> div 10 ^ nat (m - e) \<le> q" unfolding q_def by (rule round_half_even_lower)
  finally have q: "10 ^ 27 \<le> q" .
  have q': "10 ^ 27 \<le> q div 10" if "prec < ndigits q"
  proof -
    have "(10 :: int) ^ 28 \<le> 10 ^ (ndigits q - 1)"
      using that by (intro power_increasing) (auto simp: prec_def)
    also have "\<dots> \<le> q" using q by (intro ndigits_lower) simp
    finally show ?thesis by simp
  qed
  have "dfix c e = (if Etop < m then Inl DecimalOverflow else
     let (q', m') = (if prec < ndigits q then (q div 10, m + 1) else (q, m))
     in if Etop < m' then Inl DecimalOverflow else Inr (Fin (sgn c * q') m'))"
    using c e em by (simp add: dfix_def Let_def m_def [symmetric] q_def [symmetric])
  then show ?thesis
    using fixed c q q' em
    by (auto simp: Let_def sgn_mult abs_mult abs_sgn_eq split: if_splits)
qed

text \<open>Either nothing had to be rounded, or the number is large in units of its exponent.\<close>

lemma dfix_cases:
  assumes "Etiny \<le> e" "dfix c e = Inr x"
  shows "(\<exists>e'. x = Fin c e' \<and> dval x = dval (Fin c e) \<and> (c \<noteq> 0 \<longrightarrow> e' = e) \<and> min e Emax \<le> e') \<or>
    10 ^ 28 \<le> \<bar>c\<bar> \<and> (\<exists>c' e'. x = Fin c' e' \<and> 10 ^ 27 \<le> \<bar>c'\<bar> \<and> e < e' \<and> sgn c' = sgn c)"
proof (cases "10 ^ 28 \<le> \<bar>c\<bar>")
  case True
  then show ?thesis using dfix_big [OF True assms] by blast
next
  case False
  show ?thesis
  proof (cases "c = 0")
    case True
    then show ?thesis using assms by (auto simp: dfix_def)
  next
    case c: False
    have "ndigits \<bar>c\<bar> \<le> 28" using False by (intro ndigits_le) auto
    then have "\<not> e < max (int (ndigits \<bar>c\<bar>) + e - int prec) Etiny"
      using assms(1) by (auto simp: prec_def)
    then have "x = Fin c e"
      using c assms(2) unfolding dfix_def Let_def by (simp split: if_splits)
    then show ?thesis by auto
  qed
qed

section \<open>Numbers with at most twelve decimals\<close>

text \<open>
  Below \<open>10^16\<close> in absolute value such numbers are added, subtracted and multiplied by whole
  numbers without rounding; twelve decimals is the scale of the database's quantity columns.
\<close>

fun scaled :: "decimal \<Rightarrow> bool" where
  "scaled (Fin _ e) = (-12 \<le> e)"
| "scaled _ = False"

lemma scaled_fin: "scaled x \<Longrightarrow> is_fin x"
  by (cases x) auto

lemma powi_12: "(10 :: rat) powi (-12) = 1 / 10 ^ 12"
  by (simp add: power_int_minus field_simps)

lemma scaled_coeff:
  assumes "-12 \<le> e" "10 ^ 28 \<le> \<bar>c\<bar>"
  shows "10 ^ 16 \<le> \<bar>dval (Fin c e)\<bar>"
proof -
  have "(10 :: rat) ^ 16 = 10 ^ 28 * 10 powi (-12)" by (simp add: powi_12)
  also have "\<dots> \<le> \<bar>of_int c\<bar> * 10 powi e"
  proof (rule mult_mono)
    show "(10 :: rat) ^ 28 \<le> \<bar>of_int c\<bar>"
      using assms(2) by (metis of_int_abs of_int_le_iff of_int_numeral of_int_power)
    show "(10 :: rat) powi (-12) \<le> 10 powi e"
      using assms(1) by (intro power_int_increasing) auto
  qed auto
  finally show ?thesis by (simp add: abs_mult)
qed

lemma dfix_scaled:
  assumes e: "-12 \<le> e" and v: "\<bar>dval (Fin c e)\<bar> < 10 ^ 16"
  shows "\<exists>x. dfix c e = Inr x \<and> scaled x \<and> dval x = dval (Fin c e)"
proof (cases "c = 0")
  case True
  then show ?thesis using e by (simp add: dfix_def context_defs)
next
  case False
  have small: "\<bar>c\<bar> < 10 ^ 28" using scaled_coeff [OF e] v by (meson not_le)
  have "e < 16"
  proof (rule ccontr)
    assume "\<not> e < 16"
    then have "(10 :: rat) powi 16 \<le> 10 powi e" by (intro power_int_increasing) auto
    also have "\<dots> \<le> \<bar>of_int c\<bar> * 10 powi e"
      using False by (simp add: mult_le_cancel_right1 flip: of_int_abs)
    finally show False using v by (simp add: abs_mult)
  qed
  then have "dfix c e = Inr (Fin c e)"
    using small e by (intro dfix_exact) (auto simp: context_defs)
  then show ?thesis using e by simp
qed

lemma dec_add_scaled:
  assumes "scaled x" "scaled y" "\<bar>dval x + dval y\<bar> < 10 ^ 16"
  shows "\<exists>z. dec_add x y = Inr z \<and> scaled z \<and> dval z = dval x + dval y"
proof -
  obtain c d where x: "x = Fin c d" "-12 \<le> d" using assms(1) by (cases x) auto
  obtain c' d' where y: "y = Fin c' d'" "-12 \<le> d'" using assms(2) by (cases y) auto
  let ?m = "min d d'"
  have "dval (Fin (align c d ?m + align c' d' ?m) ?m) = dval x + dval y"
    using align_value [of ?m d c] align_value [of ?m d' c'] x y by (simp add: distrib_right)
  then show ?thesis
    using dfix_scaled [of ?m "align c d ?m + align c' d' ?m"] assms(3) x y by (simp add: Let_def)
qed

lemma dval_neg: "dval (dec_neg x) = - dval x"
  by (cases x) auto

lemma dec_sub_scaled:
  assumes "scaled x" "scaled y" "\<bar>dval x - dval y\<bar> < 10 ^ 16"
  shows "\<exists>z. dec_sub x y = Inr z \<and> scaled z \<and> dval z = dval x - dval y"
proof -
  have "scaled (dec_neg y)" "\<not> is_nan x" "\<not> is_nan y"
    using assms by (cases x; cases y; simp)+
  then show ?thesis
    using dec_add_scaled [of x "dec_neg y"] assms by (simp add: dec_sub_def dval_neg)
qed

lemma dval_mult: "dval (Fin c d) * dval (Fin c' d') = dval (Fin (c * c') (d + d'))"
  by (simp add: power_int_add)

lemma dec_mul_scaled:
  assumes "scaled x" "0 \<le> d'" "\<bar>dval x * dval (Fin c' d')\<bar> < 10 ^ 16"
  shows "\<exists>z. dec_mul x (Fin c' d') = Inr z \<and> scaled z \<and> dval z = dval x * dval (Fin c' d')"
proof -
  obtain c d where x: "x = Fin c d" "-12 \<le> d" using assms(1) by (cases x) auto
  then show ?thesis
    using dfix_scaled [of "d + d'" "c * c'"] assms by (simp del: dval.simps add: dval_mult)
qed

text \<open>A product that had to be rounded is at least \<open>10^16\<close>.\<close>

lemma dec_mul_scaled_cases:
  assumes "scaled x" "0 \<le> d'" "dec_mul x (Fin c' d') = Inr z"
  shows "is_fin z \<and> (dval z = dval x * dval (Fin c' d') \<or> 10 ^ 16 \<le> \<bar>dval z\<bar>)"
proof -
  obtain c d where x: "x = Fin c d" "-12 \<le> d" using assms(1) by (cases x) auto
  have e: "Etiny \<le> d + d'" using x assms(2) by (simp add: context_defs)
  have fixed: "dfix (c * c') (d + d') = Inr z" using assms(3) x by simp
  have big: "10 ^ 16 \<le> \<bar>dval (Fin c1 e1)\<bar>"
    if "10 ^ 27 \<le> \<bar>c1\<bar>" "d + d' < e1" for c1 e1
  proof -
    have "10 ^ 28 \<le> \<bar>c1 * 10\<bar>" using that(1) by (simp add: abs_mult)
    then have "10 ^ 16 \<le> \<bar>dval (Fin (c1 * 10) (e1 - 1))\<bar>"
      using that(2) x assms(2) by (intro scaled_coeff) auto
    also have "dval (Fin (c1 * 10) (e1 - 1)) = dval (Fin c1 e1)"
      using power_int_add [of "10 :: rat" 1 "e1 - 1"] by simp
    finally show ?thesis .
  qed
  from dfix_cases [OF e fixed] show ?thesis
    using big x by (fastforce simp del: dval.simps simp: dval_mult)
qed

section \<open>Signs and finiteness of results\<close>

lemma dec_add_fin: "dec_add x y = Inr z \<Longrightarrow> is_fin x \<Longrightarrow> is_fin y \<Longrightarrow> is_fin z"
  by (cases x; cases y) (auto simp: Let_def dest: dfix_sign)

lemma is_fin_neg [simp]: "is_fin (dec_neg x) = is_fin x"
  by (cases x) auto

lemma dec_sub_finite: "is_fin x \<Longrightarrow> is_fin y \<Longrightarrow> dec_sub x y = dec_add x (dec_neg y)"
  by (auto simp: dec_sub_def is_fin_iff)

lemma dec_sub_fin: "dec_sub x y = Inr z \<Longrightarrow> is_fin x \<Longrightarrow> is_fin y \<Longrightarrow> is_fin z"
  using dec_add_fin [of x "dec_neg y" z] by (simp add: dec_sub_finite)

lemma dec_mul_fin: "dec_mul x y = Inr z \<Longrightarrow> is_fin x \<Longrightarrow> is_fin y \<Longrightarrow> is_fin z"
  by (cases x; cases y) (auto dest: dfix_sign)

lemma dfix_value_sign:
  "dfix c e = Inr x \<Longrightarrow> 0 \<le> dval (Fin c e) \<Longrightarrow> 0 \<le> dval x"
  using dfix_sign [of c e x] by (auto simp: zero_le_mult_iff)

lemma dec_add_nonneg:
  assumes "dec_add x y = Inr z" "is_fin x" "is_fin y" "0 \<le> dval x + dval y"
  shows "0 \<le> dval z"
proof -
  obtain c d c' d' where x: "x = Fin c d" and y: "y = Fin c' d'"
    using assms by (auto simp: is_fin_iff)
  let ?m = "min d d'"
  have "dval (Fin (align c d ?m + align c' d' ?m) ?m) = dval x + dval y"
    using align_value [of ?m d c] align_value [of ?m d' c'] x y by (simp add: distrib_right)
  then show ?thesis using dfix_value_sign assms x y by (simp add: Let_def)
qed

lemma dec_sub_nonneg:
  assumes "dec_sub x y = Inr z" "is_fin x" "is_fin y" "dval y \<le> dval x"
  shows "0 \<le> dval z"
proof -
  have "\<not> is_nan x" "\<not> is_nan y" "is_fin (dec_neg y)"
    using assms by (cases x; cases y; simp)+
  then show ?thesis
    using dec_add_nonneg [of x "dec_neg y" z] assms by (simp add: dec_sub_def dval_neg)
qed

lemma dec_mul_nonneg:
  assumes "dec_mul x y = Inr z" "is_fin x" "is_fin y" "0 \<le> dval x" "0 \<le> dval y"
  shows "0 \<le> dval z"
proof -
  obtain c d c' d' where x: "x = Fin c d" and y: "y = Fin c' d'"
    using assms by (auto simp: is_fin_iff)
  have "0 \<le> dval (Fin (c * c') (d + d'))"
    using assms x y by (simp del: dval.simps flip: dval_mult)
  then show ?thesis using dfix_value_sign assms x y by (simp del: dval.simps)
qed

text \<open>The only signal finite addition, subtraction and multiplication can raise is overflow.\<close>

lemma dfix_error: "dfix c e = Inl x \<Longrightarrow> x = DecimalOverflow"
  by (auto simp: dfix_def Let_def split: if_splits prod.splits)

lemma dec_add_error: "dec_add x y = Inl e \<Longrightarrow> is_fin x \<Longrightarrow> is_fin y \<Longrightarrow> e = DecimalOverflow"
  by (cases x; cases y) (auto simp: Let_def dest: dfix_error)

lemma dec_sub_error: "dec_sub x y = Inl e \<Longrightarrow> is_fin x \<Longrightarrow> is_fin y \<Longrightarrow> e = DecimalOverflow"
  using dec_add_error [of x "dec_neg y" e] by (simp add: dec_sub_finite)

lemma dec_mul_error: "dec_mul x y = Inl e \<Longrightarrow> is_fin x \<Longrightarrow> is_fin y \<Longrightarrow> e = DecimalOverflow"
  by (cases x; cases y) (auto dest: dfix_error)

lemma dec_sum_fin:
  "dec_sum acc xs = Inr z \<Longrightarrow> is_fin acc \<Longrightarrow> \<forall>x \<in> set xs. is_fin x \<Longrightarrow> is_fin z"
  by (induction xs arbitrary: acc) (auto simp: rbind_Inr_iff dest: dec_add_fin)

lemma dec_sum_error:
  "dec_sum acc xs = Inl e \<Longrightarrow> is_fin acc \<Longrightarrow> \<forall>x \<in> set xs. is_fin x \<Longrightarrow> e = DecimalOverflow"
  by (induction xs arbitrary: acc) (auto simp: rbind_Inl_iff dest: dec_add_fin dec_add_error)

lemmas dec_fin = dec_add_fin dec_sub_fin dec_mul_fin dec_sum_fin
lemmas dec_error = dec_add_error dec_sub_error dec_mul_error dec_sum_error

text \<open>A sum of nonnegative numbers below the limit is exact.\<close>

lemma dec_sum_scaled:
  assumes "scaled acc" "0 \<le> dval acc" "\<forall>x \<in> set xs. scaled x \<and> 0 \<le> dval x"
    and "dval acc + (\<Sum>x \<leftarrow> xs. dval x) < 10 ^ 16"
  shows "\<exists>z. dec_sum acc xs = Inr z \<and> scaled z \<and> dval z = dval acc + (\<Sum>x \<leftarrow> xs. dval x)"
  using assms
proof (induction xs arbitrary: acc)
  case (Cons x xs)
  have rest: "0 \<le> (\<Sum>x \<leftarrow> xs. dval x)" using Cons.prems(3) by (intro sum_list_nonneg) auto
  with Cons.prems have "\<bar>dval acc + dval x\<bar> < 10 ^ 16" by auto
  then obtain a where a: "dec_add acc x = Inr a" "scaled a" "dval a = dval acc + dval x"
    using dec_add_scaled [of acc x] Cons.prems by auto
  moreover have "\<exists>z. dec_sum a xs = Inr z \<and> scaled z \<and> dval z = dval a + (\<Sum>x \<leftarrow> xs. dval x)"
    using Cons.prems a by (intro Cons.IH) auto
  ultimately show ?case by auto
qed auto

end
