(* ===== verification/Broker_Models.thy ===== *)
theory Broker_Models
  imports PyDecimal
begin

text \<open>
  The broker data model, \<open>src/broker/models.py\<close>: the three string enumerations and the five
  frozen dataclasses.  A dataclass is a record; its \<open>__post_init__\<close> is a checker with result
  \<open>unit res\<close>, and \<open>new_X\<close> is the constructor call, which raises when the checker does.
  Timestamps are microseconds since the Unix epoch.
\<close>

section \<open>Enumerations\<close>

datatype order_side = BUY | SELL
datatype order_type = MARKET | LIMIT
datatype order_status = PENDING | FILLED | CANCELLED | REJECTED

text \<open>The string each \<open>StrEnum\<close> member is.\<close>

fun side_value :: "order_side \<Rightarrow> string" where
  "side_value BUY = ''buy''"
| "side_value SELL = ''sell''"

fun order_type_value :: "order_type \<Rightarrow> string" where
  "order_type_value MARKET = ''market''"
| "order_type_value LIMIT = ''limit''"

fun status_value :: "order_status \<Rightarrow> string" where
  "status_value PENDING = ''pending''"
| "status_value FILLED = ''filled''"
| "status_value CANCELLED = ''cancelled''"
| "status_value REJECTED = ''rejected''"

section \<open>Validators\<close>

definition validate_positive :: "decimal \<Rightarrow> string \<Rightarrow> unit res" where
  "validate_positive v name =
     rbind (dec_le v (Fin 0 0)) (\<lambda>b.
       if b then Inl (ValueError (name @ '' must be positive'')) else Inr ())"

definition validate_limit_order :: "order_type \<Rightarrow> decimal option \<Rightarrow> unit res" where
  "validate_limit_order t p =
     (if t = LIMIT \<and> p = None then Inl (ValueError ''limit orders require a limit price'')
      else (case p of None \<Rightarrow> Inr () | Some q \<Rightarrow> validate_positive q ''limit price''))"

section \<open>Dataclasses\<close>

record order_request =
  req_symbol :: string
  req_side :: order_side
  req_order_type :: order_type
  req_quantity :: decimal
  req_requested_at :: int
  req_limit_price :: "decimal option"

definition new_order_request :: "order_request \<Rightarrow> order_request res" where
  "new_order_request r =
     rbind (validate_positive (req_quantity r) ''quantity'') (\<lambda>_.
     rbind (validate_limit_order (req_order_type r) (req_limit_price r)) (\<lambda>_. Inr r))"

record order =
  ord_id :: string
  ord_symbol :: string
  ord_side :: order_side
  ord_order_type :: order_type
  ord_quantity :: decimal
  ord_status :: order_status
  ord_created_at :: int
  ord_updated_at :: int
  ord_limit_price :: "decimal option"

definition new_order :: "order \<Rightarrow> order res" where
  "new_order r =
     rbind (validate_positive (ord_quantity r) ''quantity'') (\<lambda>_.
     rbind (validate_limit_order (ord_order_type r) (ord_limit_price r)) (\<lambda>_. Inr r))"

record execution =
  exe_id :: string
  exe_order_id :: string
  exe_symbol :: string
  exe_side :: order_side
  exe_quantity :: decimal
  exe_price :: decimal
  exe_executed_at :: int

definition new_execution :: "execution \<Rightarrow> execution res" where
  "new_execution x =
     rbind (validate_positive (exe_quantity x) ''quantity'') (\<lambda>_.
     rbind (validate_positive (exe_price x) ''price'') (\<lambda>_. Inr x))"

record position =
  pos_symbol :: string
  pos_quantity :: decimal
  pos_average_price :: decimal
  pos_updated_at :: int

definition new_position :: "position \<Rightarrow> position res" where
  "new_position p =
     rbind (validate_positive (pos_quantity p) ''quantity'') (\<lambda>_.
     rbind (validate_positive (pos_average_price p) ''average price'') (\<lambda>_. Inr p))"

record account =
  acc_id :: string
  acc_cash_balance :: decimal
  acc_equity :: decimal
  acc_buying_power :: decimal
  acc_updated_at :: int
  acc_positions :: "position list"

section \<open>What construction guarantees\<close>

text \<open>A number that passed \<open>_validate_positive\<close>: finite and above zero, or plus infinity.\<close>

definition positive :: "decimal \<Rightarrow> bool" where
  "positive v \<longleftrightarrow> (is_fin v \<and> 0 < dval v) \<or> v = Infty False"

lemma validate_positive_ok: "validate_positive v name = Inr u \<longleftrightarrow> positive v"
proof (cases v)
  case (Fin c e)
  then show ?thesis by (simp add: validate_positive_def dec_le_fin positive_def not_le)
next
  case (Infty s)
  then show ?thesis by (cases s) (simp_all add: validate_positive_def dec_le_def positive_def)
qed (simp add: validate_positive_def dec_le_def positive_def)

lemma validate_positive_error:
  "validate_positive v name = Inl e \<Longrightarrow>
     e = InvalidOperation \<and> is_nan v \<or> e = ValueError (name @ '' must be positive'')"
  by (auto simp: validate_positive_def dec_le_def rbind_Inl_iff split: if_splits)

lemma new_order_request_ok:
  "new_order_request r = Inr r' \<longleftrightarrow>
     r' = r \<and> positive (req_quantity r) \<and>
     (case req_limit_price r of None \<Rightarrow> req_order_type r = MARKET | Some p \<Rightarrow> positive p)"
  by (auto simp: new_order_request_def validate_limit_order_def rbind_Inr_iff
      validate_positive_ok split: option.splits if_splits intro: order_type.exhaust)

lemma new_order_ok:
  "new_order r = Inr r' \<longleftrightarrow>
     r' = r \<and> positive (ord_quantity r) \<and>
     (case ord_limit_price r of None \<Rightarrow> ord_order_type r = MARKET | Some p \<Rightarrow> positive p)"
  by (auto simp: new_order_def validate_limit_order_def rbind_Inr_iff
      validate_positive_ok split: option.splits if_splits intro: order_type.exhaust)

lemma new_execution_ok:
  "new_execution x = Inr x' \<longleftrightarrow> x' = x \<and> positive (exe_quantity x) \<and> positive (exe_price x)"
  by (auto simp: new_execution_def rbind_Inr_iff validate_positive_ok)

lemma new_position_ok:
  "new_position p = Inr p' \<longleftrightarrow> p' = p \<and> positive (pos_quantity p) \<and> positive (pos_average_price p)"
  by (auto simp: new_position_def rbind_Inr_iff validate_positive_ok)

lemmas constructor_ok = new_order_request_ok new_order_ok new_execution_ok new_position_ok

end
