(* ===== verification/Broker_Provider.thy ===== *)
theory Broker_Provider
  imports Broker_Models
begin

text \<open>
  The broker interface and the in-memory broker of \<open>src/broker/provider.py\<close>.  The state of a
  \<open>MockBrokerProvider\<close> is the record \<open>broker\<close>; each method is one operation on it.  The values
  the code draws from outside (\<open>datetime.now\<close>, \<open>uuid4\<close>) are arguments.  An operation returns
  the state it leaves behind also when it raises, so what a failed order changes is a theorem.

  The abstract class \<open>BrokerProvider\<close> is the locale \<open>broker_provider\<close>; \<open>mock\<close> interprets it.
\<close>

section \<open>State\<close>

record broker =
  connected :: bool
  orders :: "(string, order) dict"
  executions :: "execution list"
  positions :: "(string, position) dict"
  account :: account

definition MARKET_PRICE :: decimal where "MARKET_PRICE = Fin 100 0"
definition STARTING_CASH :: decimal where "STARTING_CASH = Fin 100000 0"

definition new_broker :: "int \<Rightarrow> string \<Rightarrow> broker" where
  "new_broker now account_id =
     \<lparr>connected = False, orders = [], executions = [], positions = [],
      account = \<lparr>acc_id = account_id, acc_cash_balance = STARTING_CASH,
        acc_equity = STARTING_CASH, acc_buying_power = STARTING_CASH,
        acc_updated_at = now, acc_positions = []\<rparr>\<rparr>"

section \<open>Connection\<close>

definition connect :: "(broker, unit) op" where
  "connect = modify (\<lambda>b. b\<lparr>connected := True\<rparr>)"

definition disconnect :: "(broker, unit) op" where
  "disconnect = modify (\<lambda>b. b\<lparr>connected := False\<rparr>)"

definition is_connected :: "(broker, bool) op" where
  "is_connected = gets connected"

definition require_connected :: "(broker, unit) op" where
  "require_connected b =
     (if connected b then ret () b else raise (ValueError ''broker provider is disconnected'') b)"

section \<open>Queries\<close>

definition get_order :: "string \<Rightarrow> (broker, order) op" where
  "get_order order_id = bind require_connected (\<lambda>_ b.
     case map_of (orders b) order_id of
       None \<Rightarrow> raise (ValueError (''unknown order: '' @ order_id)) b
     | Some ord \<Rightarrow> ret ord b)"

definition get_executions :: "string option \<Rightarrow> (broker, execution list) op" where
  "get_executions order_id = bind require_connected (\<lambda>_. gets (\<lambda>b.
     case order_id of
       None \<Rightarrow> executions b
     | Some i \<Rightarrow> filter (\<lambda>x. exe_order_id x = i) (executions b)))"

text \<open>The looked-up symbols are the dictionary's own keys, so no lookup fails.\<close>

definition sorted_positions :: "(string, position) dict \<Rightarrow> position list" where
  "sorted_positions d = map (\<lambda>s. the (map_of d s)) (sort (map fst d))"

definition get_positions :: "(broker, position list) op" where
  "get_positions = bind require_connected (\<lambda>_. gets (\<lambda>b. sorted_positions (positions b)))"

definition get_account :: "(broker, account) op" where
  "get_account = bind require_connected (\<lambda>_. gets account)"

section \<open>Filling an order\<close>

definition set_position :: "string \<Rightarrow> position \<Rightarrow> (broker, unit) op" where
  "set_position s p = modify (\<lambda>b. b\<lparr>positions := AList.update s p (positions b)\<rparr>)"

definition del_position :: "string \<Rightarrow> (broker, unit) op" where
  "del_position s = modify (\<lambda>b. b\<lparr>positions := AList.delete s (positions b)\<rparr>)"

text \<open>The buy branch of \<open>_apply_fill\<close>; the result is the new cash balance.\<close>

definition apply_buy :: "execution \<Rightarrow> position option \<Rightarrow> decimal \<Rightarrow> (broker, decimal) op" where
  "apply_buy x existing notional =
     bind (gets (\<lambda>b. acc_cash_balance (account b))) (\<lambda>cash.
     bind (lift (dec_gt notional cash)) (\<lambda>short.
     if short then raise (ValueError ''insufficient cash'') else
     bind (ret (case existing of None \<Rightarrow> Fin 0 0 | Some p \<Rightarrow> pos_quantity p)) (\<lambda>previous_quantity.
     bind (lift (case existing of None \<Rightarrow> Inr (Fin 0 0)
       | Some p \<Rightarrow> dec_mul (pos_quantity p) (pos_average_price p))) (\<lambda>previous_cost.
     bind (lift (dec_add previous_quantity (exe_quantity x))) (\<lambda>quantity.
     bind (lift (dec_add previous_cost notional)) (\<lambda>cost.
     bind (lift (dec_div cost quantity)) (\<lambda>average_price.
     bind (lift (new_position \<lparr>pos_symbol = exe_symbol x, pos_quantity = quantity,
        pos_average_price = average_price, pos_updated_at = exe_executed_at x\<rparr>)) (\<lambda>p.
     bind (set_position (exe_symbol x) p) (\<lambda>_.
     lift (dec_sub cash notional))))))))))"

text \<open>The sell branch.\<close>

definition apply_sell :: "execution \<Rightarrow> position option \<Rightarrow> decimal \<Rightarrow> (broker, decimal) op" where
  "apply_sell x existing notional =
     (case existing of
        None \<Rightarrow> raise (ValueError ''insufficient position'')
      | Some old \<Rightarrow>
          bind (lift (dec_gt (exe_quantity x) (pos_quantity old))) (\<lambda>short.
          if short then raise (ValueError ''insufficient position'') else
          bind (lift (dec_sub (pos_quantity old) (exe_quantity x))) (\<lambda>quantity.
          bind (lift (dec_eq quantity (Fin 0 0))) (\<lambda>flat.
          bind (if flat then del_position (exe_symbol x)
                else bind (lift (new_position \<lparr>pos_symbol = pos_symbol old, pos_quantity = quantity,
                   pos_average_price = pos_average_price old,
                   pos_updated_at = exe_executed_at x\<rparr>)) (set_position (exe_symbol x))) (\<lambda>_.
          bind (gets (\<lambda>b. acc_cash_balance (account b))) (\<lambda>cash.
          lift (dec_add cash notional)))))))"

definition apply_fill :: "execution \<Rightarrow> (broker, unit) op" where
  "apply_fill x =
     bind (gets (\<lambda>b. map_of (positions b) (exe_symbol x))) (\<lambda>existing.
     bind (lift (dec_mul (exe_quantity x) (exe_price x))) (\<lambda>notional.
     bind (if exe_side x = BUY then apply_buy x existing notional
           else apply_sell x existing notional) (\<lambda>cash_balance.
     bind get_positions (\<lambda>ps.
     modify (\<lambda>b. b\<lparr>account := \<lparr>acc_id = acc_id (account b), acc_cash_balance = cash_balance,
        acc_equity = acc_equity (account b), acc_buying_power = cash_balance,
        acc_updated_at = exe_executed_at x, acc_positions = ps\<rparr>\<rparr>)))))"

text \<open>
  \<open>sum\<close> runs over a generator: each product is computed just before it is added.
\<close>

fun market_value :: "decimal \<Rightarrow> position list \<Rightarrow> decimal res" where
  "market_value acc [] = Inr acc"
| "market_value acc (p # ps) =
     rbind (dec_mul (pos_quantity p) MARKET_PRICE) (\<lambda>v.
     rbind (dec_add acc v) (\<lambda>acc'. market_value acc' ps))"

definition refresh_account :: "int \<Rightarrow> (broker, unit) op" where
  "refresh_account updated_at =
     bind (gets (\<lambda>b. map snd (positions b))) (\<lambda>held.
     bind (lift (market_value (Fin 0 0) held)) (\<lambda>mv.
     bind (gets account) (\<lambda>acc.
     bind (lift (dec_add (acc_cash_balance acc) mv)) (\<lambda>equity.
     bind get_positions (\<lambda>ps.
     modify (\<lambda>b. b\<lparr>account := \<lparr>acc_id = acc_id acc, acc_cash_balance = acc_cash_balance acc,
        acc_equity = equity, acc_buying_power = acc_cash_balance acc,
        acc_updated_at = updated_at, acc_positions = ps\<rparr>\<rparr>))))))"

section \<open>Orders\<close>

definition place_order :: "int \<Rightarrow> string \<Rightarrow> string \<Rightarrow> order_request \<Rightarrow> (broker, order) op" where
  "place_order now order_id execution_id r =
     bind require_connected (\<lambda>_.
     if req_order_type r = LIMIT
     then raise (NotImplementedError ''MockBrokerProvider supports market orders only'')
     else
     bind (lift (new_order \<lparr>ord_id = order_id, ord_symbol = req_symbol r, ord_side = req_side r,
        ord_order_type = req_order_type r, ord_quantity = req_quantity r, ord_status = FILLED,
        ord_created_at = now, ord_updated_at = now, ord_limit_price = None\<rparr>)) (\<lambda>ord.
     bind (lift (new_execution \<lparr>exe_id = execution_id, exe_order_id = ord_id ord,
        exe_symbol = ord_symbol ord, exe_side = ord_side ord, exe_quantity = ord_quantity ord,
        exe_price = MARKET_PRICE, exe_executed_at = now\<rparr>)) (\<lambda>x.
     bind (apply_fill x) (\<lambda>_.
     bind (modify (\<lambda>b. b\<lparr>orders := AList.update (ord_id ord) ord (orders b)\<rparr>)) (\<lambda>_.
     bind (modify (\<lambda>b. b\<lparr>executions := executions b @ [x]\<rparr>)) (\<lambda>_.
     bind (refresh_account now) (\<lambda>_.
     ret ord)))))))"

definition cancel_order :: "int \<Rightarrow> string \<Rightarrow> (broker, order) op" where
  "cancel_order now order_id =
     bind require_connected (\<lambda>_.
     bind (get_order order_id) (\<lambda>ord.
     if ord_status ord \<noteq> PENDING
     then raise (ValueError ''only pending orders can be cancelled'')
     else
     bind (lift (new_order \<lparr>ord_id = ord_id ord, ord_symbol = ord_symbol ord,
        ord_side = ord_side ord, ord_order_type = ord_order_type ord,
        ord_quantity = ord_quantity ord, ord_status = CANCELLED,
        ord_created_at = ord_created_at ord, ord_updated_at = now,
        ord_limit_price = ord_limit_price ord\<rparr>)) (\<lambda>cancelled.
     bind (modify (\<lambda>b. b\<lparr>orders := AList.update order_id cancelled (orders b)\<rparr>)) (\<lambda>_.
     ret cancelled))))"

end
