(* ===== verification/Broker_Lemmas.thy ===== *)
theory Broker_Lemmas
  imports Broker_Provider
begin

text \<open>
  What the operations of the in-memory broker do, branch by branch, and the invariant they keep.
\<close>

section \<open>The effect of a fill\<close>

abbreviation cash :: "broker \<Rightarrow> decimal" where
  "cash b \<equiv> acc_cash_balance (account b)"

abbreviation held :: "broker \<Rightarrow> string \<Rightarrow> position option" where
  "held b s \<equiv> map_of (positions b) s"

definition held_quantity :: "broker \<Rightarrow> string \<Rightarrow> decimal" where
  "held_quantity b s = (case held b s of None \<Rightarrow> Fin 0 0 | Some p \<Rightarrow> pos_quantity p)"

text \<open>
  \<open>bought\<close> and \<open>sold\<close> relate the positions before and after the position part of a fill.
\<close>

definition bought :: "execution \<Rightarrow> broker \<Rightarrow> broker \<Rightarrow> bool" where
  "bought x b b' \<longleftrightarrow>
     (\<exists>p. b' = b\<lparr>positions := AList.update (exe_symbol x) p (positions b)\<rparr> \<and>
       pos_symbol p = exe_symbol x \<and> pos_updated_at p = exe_executed_at x \<and>
       positive (pos_quantity p) \<and> positive (pos_average_price p) \<and>
       dec_add (held_quantity b (exe_symbol x)) (exe_quantity x) = Inr (pos_quantity p))"

definition sold :: "execution \<Rightarrow> broker \<Rightarrow> broker \<Rightarrow> bool" where
  "sold x b b' \<longleftrightarrow>
     (\<exists>old q. held b (exe_symbol x) = Some old \<and>
       dec_gt (exe_quantity x) (pos_quantity old) = Inr False \<and>
       dec_sub (pos_quantity old) (exe_quantity x) = Inr q \<and>
       (dec_eq q (Fin 0 0) = Inr True \<and>
          b' = b\<lparr>positions := AList.delete (exe_symbol x) (positions b)\<rparr> \<or>
        dec_eq q (Fin 0 0) = Inr False \<and> positive q \<and> positive (pos_average_price old) \<and>
          b' = b\<lparr>positions := AList.update (exe_symbol x)
             (old\<lparr>pos_quantity := q, pos_updated_at := exe_executed_at x\<rparr>) (positions b)\<rparr>))"

lemmas fill_defs = apply_buy_def apply_sell_def set_position_def del_position_def

lemma apply_buy_ok:
  assumes "apply_buy x (held b (exe_symbol x)) n b = (Inr c, b')"
  shows "bought x b b' \<and> dec_gt n (cash b) = Inr False \<and> dec_sub (cash b) n = Inr c"
  using assms
  by (auto simp: fill_defs bought_def held_quantity_def bind_Inr_iff new_position_ok
      split: if_splits option.splits)

lemma apply_buy_error:
  assumes "apply_buy x (held b (exe_symbol x)) n b = (Inl e, b')"
  shows "b' = b \<or> bought x b b' \<and> dec_gt n (cash b) = Inr False \<and> dec_sub (cash b) n = Inl e"
  using assms
  by (auto simp: fill_defs bought_def held_quantity_def bind_iffs new_position_ok
      split: if_splits option.splits)

lemma position_record_update:
  "\<lparr>pos_symbol = pos_symbol p, pos_quantity = q, pos_average_price = pos_average_price p,
    pos_updated_at = t\<rparr> = p\<lparr>pos_quantity := q, pos_updated_at := t\<rparr>" for p :: position
  by simp

lemma apply_sell_ok:
  assumes "apply_sell x (held b (exe_symbol x)) n b = (Inr c, b')"
  shows "sold x b b' \<and> dec_add (cash b) n = Inr c"
  using assms
  by (auto simp: fill_defs sold_def bind_Inr_iff new_position_ok position_record_update
      split: if_splits option.splits)

lemma apply_sell_error:
  assumes "apply_sell x (held b (exe_symbol x)) n b = (Inl e, b')"
  shows "b' = b \<or> sold x b b' \<and> dec_add (cash b) n = Inl e"
  using assms
  by (auto simp: fill_defs sold_def bind_iffs new_position_ok position_record_update
      split: if_splits option.splits)

text \<open>The position change of a fill on either side, and the cash balance it computes.\<close>

definition filled :: "execution \<Rightarrow> broker \<Rightarrow> broker \<Rightarrow> bool" where
  "filled x b b' \<longleftrightarrow> (if exe_side x = BUY then bought x b b' else sold x b b')"

definition cash_after :: "execution \<Rightarrow> decimal \<Rightarrow> broker \<Rightarrow> decimal res" where
  "cash_after x n b = (if exe_side x = BUY then dec_sub (cash b) n else dec_add (cash b) n)"

definition affordable :: "execution \<Rightarrow> decimal \<Rightarrow> broker \<Rightarrow> bool" where
  "affordable x n b \<longleftrightarrow> (exe_side x = BUY \<longrightarrow> dec_gt n (cash b) = Inr False)"

lemma filled_frame:
  assumes "filled x b b'"
  shows "connected b' = connected b" "orders b' = orders b" "executions b' = executions b"
    "account b' = account b"
  using assms by (auto simp: filled_def bought_def sold_def split: if_splits)

lemma apply_side_ok:
  assumes "(if exe_side x = BUY then apply_buy x (held b (exe_symbol x)) n
      else apply_sell x (held b (exe_symbol x)) n) b = (Inr c, b')"
  shows "filled x b b' \<and> affordable x n b \<and> cash_after x n b = Inr c"
  using assms apply_buy_ok apply_sell_ok
  by (auto simp: filled_def affordable_def cash_after_def split: if_splits)

lemma apply_side_error:
  assumes "(if exe_side x = BUY then apply_buy x (held b (exe_symbol x)) n
      else apply_sell x (held b (exe_symbol x)) n) b = (Inl e, b')"
  shows "b' = b \<or> filled x b b' \<and> affordable x n b \<and> cash_after x n b = Inl e"
proof (cases "exe_side x = BUY")
  case True
  then show ?thesis
    using apply_buy_error [of x b n e b'] assms
    by (simp add: filled_def affordable_def cash_after_def)
next
  case False
  then show ?thesis
    using apply_sell_error [of x b n e b'] assms
    by (simp add: filled_def affordable_def cash_after_def)
qed

lemma get_positions_ok: "connected b \<Longrightarrow> get_positions b = (Inr (sorted_positions (positions b)), b)"
  by (simp add: get_positions_def bind_def require_connected_def ret_def gets_def)

definition fill_account :: "execution \<Rightarrow> decimal \<Rightarrow> broker \<Rightarrow> broker" where
  "fill_account x c b = b\<lparr>account := \<lparr>acc_id = acc_id (account b), acc_cash_balance = c,
     acc_equity = acc_equity (account b), acc_buying_power = c,
     acc_updated_at = exe_executed_at x, acc_positions = sorted_positions (positions b)\<rparr>\<rparr>"

lemma apply_fill_ok:
  assumes "apply_fill x b = (Inr u, b')" "connected b"
  shows "\<exists>n c b1. dec_mul (exe_quantity x) (exe_price x) = Inr n \<and> filled x b b1 \<and>
    affordable x n b \<and> cash_after x n b = Inr c \<and> b' = fill_account x c b1"
proof -
  obtain n c b1 where n: "dec_mul (exe_quantity x) (exe_price x) = Inr n"
    and side: "(if exe_side x = BUY then apply_buy x (held b (exe_symbol x)) n
      else apply_sell x (held b (exe_symbol x)) n) b = (Inr c, b1)"
    and rest: "bind get_positions (\<lambda>ps. modify (\<lambda>b. b\<lparr>account := \<lparr>acc_id = acc_id (account b),
        acc_cash_balance = c, acc_equity = acc_equity (account b), acc_buying_power = c,
        acc_updated_at = exe_executed_at x, acc_positions = ps\<rparr>\<rparr>)) b1 = (Inr u, b')"
    using assms(1) by (auto simp: apply_fill_def bind_Inr_iff)
  note ok = apply_side_ok [OF side]
  then have "connected b1" using filled_frame assms(2) by blast
  with rest have "b' = fill_account x c b1"
    by (simp add: bind_Inr_iff get_positions_ok fill_account_def)
  then show ?thesis using n ok by blast
qed

lemma apply_fill_error:
  assumes "apply_fill x b = (Inl e, b')" "connected b"
  shows "b' = b \<or> (\<exists>n. dec_mul (exe_quantity x) (exe_price x) = Inr n \<and> filled x b b' \<and>
    affordable x n b \<and> cash_after x n b = Inl e)"
proof (cases "dec_mul (exe_quantity x) (exe_price x)")
  case (Inl _)
  then show ?thesis using assms(1) by (simp add: apply_fill_def bind_gets)
next
  case (Inr n)
  define side where "side = (if exe_side x = BUY then apply_buy x (held b (exe_symbol x)) n
      else apply_sell x (held b (exe_symbol x)) n)"
  define update where "update c = bind get_positions (\<lambda>ps. modify (\<lambda>b. b\<lparr>account :=
      \<lparr>acc_id = acc_id (account b), acc_cash_balance = c, acc_equity = acc_equity (account b),
        acc_buying_power = c, acc_updated_at = exe_executed_at x, acc_positions = ps\<rparr>\<rparr>))" for c
  have "bind side update b = (Inl e, b')"
    using assms(1) Inr by (simp add: apply_fill_def bind_gets side_def update_def [abs_def])
  then consider "side b = (Inl e, b')" |
      c b1 where "side b = (Inr c, b1)" "update c b1 = (Inl e, b')"
    by (auto simp: bind_Inl_iff)
  then show ?thesis
  proof cases
    case 1
    then show ?thesis using Inr apply_side_error [of x b n e b'] by (simp add: side_def)
  next
    case 2
    from 2(1) have "filled x b b1" using apply_side_ok [of x b n c b1] by (simp add: side_def)
    then have "connected b1" using filled_frame(1) assms(2) by simp
    with 2(2) show ?thesis by (simp add: update_def bind_Inl_iff get_positions_ok)
  qed
qed

section \<open>Placing an order\<close>

definition filled_order :: "int \<Rightarrow> string \<Rightarrow> order_request \<Rightarrow> order" where
  "filled_order now order_id r =
     \<lparr>ord_id = order_id, ord_symbol = req_symbol r, ord_side = req_side r,
      ord_order_type = MARKET, ord_quantity = req_quantity r, ord_status = FILLED,
      ord_created_at = now, ord_updated_at = now, ord_limit_price = None\<rparr>"

definition fill_of :: "int \<Rightarrow> string \<Rightarrow> string \<Rightarrow> order_request \<Rightarrow> execution" where
  "fill_of now order_id execution_id r =
     \<lparr>exe_id = execution_id, exe_order_id = order_id, exe_symbol = req_symbol r,
      exe_side = req_side r, exe_quantity = req_quantity r, exe_price = MARKET_PRICE,
      exe_executed_at = now\<rparr>"

lemma positive_MARKET_PRICE: "positive MARKET_PRICE"
  by (simp add: positive_def MARKET_PRICE_def)

definition record_order :: "order \<Rightarrow> execution \<Rightarrow> broker \<Rightarrow> broker" where
  "record_order ord x b = b\<lparr>orders := AList.update (ord_id ord) ord (orders b),
     executions := executions b @ [x]\<rparr>"

lemma bind_require:
  "bind require_connected f b =
     (if connected b then f () b else (Inl (ValueError ''broker provider is disconnected''), b))"
  by (simp add: bind_def require_connected_def ret_def raise_def)

lemma new_order_market:
  "positive (ord_quantity r) \<Longrightarrow> ord_order_type r = MARKET \<Longrightarrow> ord_limit_price r = None \<Longrightarrow>
     new_order r = Inr r"
  by (simp add: new_order_ok)

lemma new_execution_fill:
  "positive (exe_quantity x) \<Longrightarrow> exe_price x = MARKET_PRICE \<Longrightarrow> new_execution x = Inr x"
  by (simp add: new_execution_ok positive_MARKET_PRICE)

lemma place_order_unfold:
  assumes "connected b" "req_order_type r = MARKET" "positive (req_quantity r)"
  shows "place_order now oid eid r b =
    bind (apply_fill (fill_of now oid eid r)) (\<lambda>_.
    bind (modify (record_order (filled_order now oid r) (fill_of now oid eid r))) (\<lambda>_.
    bind (refresh_account now) (\<lambda>_. ret (filled_order now oid r)))) b"
  using assms
  by (simp add: place_order_def bind_require new_order_market new_execution_fill bind_modify_fun
      filled_order_def fill_of_def record_order_def)

text \<open>An order that is refused before the fill leaves the broker alone.\<close>

lemma place_order_refused:
  assumes "\<not> (connected b \<and> req_order_type r = MARKET \<and> positive (req_quantity r))"
  shows "\<exists>e. place_order now oid eid r b = (Inl e, b)"
proof (cases "place_order now oid eid r b")
  case (Pair res b')
  then show ?thesis using assms
    by (cases res; cases "req_order_type r")
      (auto simp: place_order_def bind_iffs require_connected_def new_order_ok
        new_execution_ok positive_MARKET_PRICE split: if_splits)
qed

definition equity_of :: "broker \<Rightarrow> decimal res" where
  "equity_of b = rbind (market_value (Fin 0 0) (map snd (positions b))) (dec_add (cash b))"

definition refreshed :: "int \<Rightarrow> decimal \<Rightarrow> broker \<Rightarrow> broker" where
  "refreshed t equity b = b\<lparr>account := \<lparr>acc_id = acc_id (account b), acc_cash_balance = cash b,
     acc_equity = equity, acc_buying_power = cash b, acc_updated_at = t,
     acc_positions = sorted_positions (positions b)\<rparr>\<rparr>"

lemma refresh_account_eq:
  assumes "connected b"
  shows "refresh_account t b = (case equity_of b of Inl e \<Rightarrow> (Inl e, b)
    | Inr equity \<Rightarrow> (Inr (), refreshed t equity b))"
proof -
  have p: "bind get_positions f b = f (sorted_positions (positions b)) b" for f :: "_ \<Rightarrow> (broker, unit) op"
    using get_positions_ok [OF assms] by (simp add: bind_def)
  show ?thesis
  proof (cases "market_value (Fin 0 0) (map snd (positions b))")
    case (Inl e)
    then show ?thesis by (simp add: refresh_account_def equity_of_def bind_gets)
  next
    case (Inr mv)
    then show ?thesis
      by (cases "dec_add (cash b) mv")
        (simp_all add: refresh_account_def equity_of_def refreshed_def bind_gets p)
  qed
qed

text \<open>
  The three ways a placed order can end: refused with nothing changed, stopped by an overflow
  after the position was written, or filled and recorded.
\<close>

lemma place_order_cases:
  assumes "place_order now oid eid r b = (res, b')"
  obtains
    (refused) e where "res = Inl e" "b' = b"
  | (overflow) e n where "res = Inl e" "connected b" "positive (req_quantity r)"
      "dec_mul (req_quantity r) MARKET_PRICE = Inr n" "filled (fill_of now oid eid r) b b'"
      "affordable (fill_of now oid eid r) n b" "cash_after (fill_of now oid eid r) n b = Inl e"
  | (filled) n c b1 b2 where "connected b" "req_order_type r = MARKET"
      "positive (req_quantity r)"
      "dec_mul (req_quantity r) MARKET_PRICE = Inr n" "filled (fill_of now oid eid r) b b1"
      "affordable (fill_of now oid eid r) n b" "cash_after (fill_of now oid eid r) n b = Inr c"
      "b2 = record_order (filled_order now oid r) (fill_of now oid eid r)
         (fill_account (fill_of now oid eid r) c b1)"
      "(\<exists>e. equity_of b2 = Inl e \<and> res = Inl e \<and> b' = b2) \<or>
       (\<exists>q. equity_of b2 = Inr q \<and> res = Inr (filled_order now oid r) \<and> b' = refreshed now q b2)"
proof (cases "connected b \<and> req_order_type r = MARKET \<and> positive (req_quantity r)")
  case False
  then show ?thesis using place_order_refused assms refused by (metis prod.inject)
next
  case True
  let ?x = "fill_of now oid eid r"
  let ?ord = "filled_order now oid r"
  have sel: "exe_quantity ?x = req_quantity r" "exe_price ?x = MARKET_PRICE"
    by (simp_all add: fill_of_def)
  have place: "place_order now oid eid r b = bind (apply_fill ?x) (\<lambda>_.
    bind (modify (record_order ?ord ?x)) (\<lambda>_. bind (refresh_account now) (\<lambda>_. ret ?ord))) b"
    using True by (simp add: place_order_unfold)
  show ?thesis
  proof (cases "apply_fill ?x b")
    case (Pair fr b0)
    show ?thesis
    proof (cases fr)
      case (Inl e)
      then have "res = Inl e" "b' = b0" using Pair place assms by (auto simp: bind_def)
      then show ?thesis
        using apply_fill_error [of ?x b e b0] Pair Inl True refused overflow sel by auto
    next
      case (Inr u)
      then obtain n c b1 where fill: "dec_mul (req_quantity r) MARKET_PRICE = Inr n"
        "filled ?x b b1" "affordable ?x n b" "cash_after ?x n b = Inr c"
        and b0: "b0 = fill_account ?x c b1"
        using apply_fill_ok [of ?x b u b0] Pair True sel by auto
      define b2 where "b2 = record_order ?ord ?x b0"
      have "connected b2"
        using True filled_frame(1) [OF fill(2)] by (simp add: b2_def b0 record_order_def fill_account_def)
      then have "(\<exists>e. equity_of b2 = Inl e \<and> res = Inl e \<and> b' = b2) \<or>
       (\<exists>q. equity_of b2 = Inr q \<and> res = Inr ?ord \<and> b' = refreshed now q b2)"
        using assms place Pair Inr refresh_account_eq [of b2 now]
        by (auto simp: bind_def [of "apply_fill ?x"] bind_modify b2_def [symmetric]
            bind_def [of "refresh_account now"] ret_def split: sum.splits)
      then show ?thesis using filled True fill b0 b2_def by blast
    qed
  qed
qed

end
