(* ===== verification/Broker_Safety.thy ===== *)
theory Broker_Safety
  imports Broker_Lemmas
begin

text \<open>
  The invariant of the in-memory broker, kept by every operation whatever its result; the
  states a client can reach; and exact conservation of equity for quantities with at most
  twelve decimals.
\<close>

section \<open>Invariant\<close>

definition position_ok :: "string \<Rightarrow> position \<Rightarrow> bool" where
  "position_ok s p \<longleftrightarrow> pos_symbol p = s \<and> is_fin (pos_quantity p) \<and> 0 < dval (pos_quantity p) \<and>
     positive (pos_average_price p)"

definition order_ok :: "string \<Rightarrow> order \<Rightarrow> bool" where
  "order_ok i ord \<longleftrightarrow> ord_id ord = i \<and> ord_status ord = FILLED \<and> ord_order_type ord = MARKET \<and>
     is_fin (ord_quantity ord) \<and> 0 < dval (ord_quantity ord)"

definition execution_ok :: "broker \<Rightarrow> execution \<Rightarrow> bool" where
  "execution_ok b x \<longleftrightarrow> exe_price x = MARKET_PRICE \<and> is_fin (exe_quantity x) \<and>
     0 < dval (exe_quantity x) \<and> exe_order_id x \<in> fst ` set (orders b)"

definition cash_ok :: "broker \<Rightarrow> bool" where
  "cash_ok b \<longleftrightarrow> is_fin (cash b) \<and> 0 \<le> dval (cash b) \<and> acc_buying_power (account b) = cash b"

definition broker_inv :: "broker \<Rightarrow> bool" where
  "broker_inv b \<longleftrightarrow> dict_ok (orders b) \<and> dict_ok (positions b) \<and>
     (\<forall>(s, p) \<in> set (positions b). position_ok s p) \<and>
     (\<forall>(i, ord) \<in> set (orders b). order_ok i ord) \<and>
     (\<forall>x \<in> set (executions b). execution_ok b x) \<and> cash_ok b"

lemma held_ok: "broker_inv b \<Longrightarrow> held b s = Some p \<Longrightarrow> position_ok s p"
  by (auto simp: broker_inv_def dest: map_of_SomeD)

lemma held_quantity_fin: "broker_inv b \<Longrightarrow> is_fin (held_quantity b s)"
  by (auto simp: held_quantity_def position_ok_def dest: held_ok split: option.splits)

lemma cash_fin: "broker_inv b \<Longrightarrow> is_fin (cash b)"
  by (simp add: broker_inv_def cash_ok_def)

lemma fill_of_simps [simp]:
  "exe_id (fill_of now oid eid r) = eid"
  "exe_order_id (fill_of now oid eid r) = oid"
  "exe_symbol (fill_of now oid eid r) = req_symbol r"
  "exe_side (fill_of now oid eid r) = req_side r"
  "exe_quantity (fill_of now oid eid r) = req_quantity r"
  "exe_price (fill_of now oid eid r) = MARKET_PRICE"
  "exe_executed_at (fill_of now oid eid r) = now"
  by (simp_all add: fill_of_def)

lemma filled_order_simps [simp]:
  "ord_id (filled_order now oid r) = oid"
  "ord_symbol (filled_order now oid r) = req_symbol r"
  "ord_side (filled_order now oid r) = req_side r"
  "ord_status (filled_order now oid r) = FILLED"
  "ord_order_type (filled_order now oid r) = MARKET"
  "ord_quantity (filled_order now oid r) = req_quantity r"
  by (simp_all add: filled_order_def)

text \<open>A filled quantity is finite: an infinite one is never affordable and never held.\<close>

lemma filled_finite:
  assumes inv: "broker_inv b" and f: "filled x b b'" and a: "affordable x n b"
    and n: "dec_mul (exe_quantity x) MARKET_PRICE = Inr n" and q: "positive (exe_quantity x)"
  shows "is_fin (exe_quantity x) \<and> 0 < dval (exe_quantity x)"
proof (rule ccontr)
  assume "\<not> ?thesis"
  then have inf: "exe_quantity x = Infty False" using q by (auto simp: positive_def)
  obtain c e where c: "cash b = Fin c e" using cash_fin [OF inv] by (auto simp: is_fin_iff)
  show False
  proof (cases "exe_side x = BUY")
    case True
    have "n = Infty False" using n inf by (simp add: MARKET_PRICE_def)
    then show False using a True c by (simp add: affordable_def dec_gt_def)
  next
    case False
    then obtain old where old: "held b (exe_symbol x) = Some old"
      and le: "dec_gt (exe_quantity x) (pos_quantity old) = Inr False"
      using f by (auto simp: filled_def sold_def)
    obtain d f where "pos_quantity old = Fin d f"
      using held_ok [OF inv old] by (auto simp: position_ok_def is_fin_iff)
    then show False using inf le by (simp add: dec_gt_def)
  qed
qed

lemma notional_ok:
  assumes "dec_mul q MARKET_PRICE = Inr n" "is_fin q" "0 < dval q"
  shows "is_fin n \<and> 0 \<le> dval n"
  using assms dec_mul_fin [OF assms(1)] dec_mul_nonneg [OF assms(1)]
  by (auto simp: MARKET_PRICE_def)

lemma filled_positions:
  assumes inv: "broker_inv b" and f: "filled x b b'" and q: "is_fin (exe_quantity x)"
  shows "dict_ok (positions b') \<and> (\<forall>(s, p) \<in> set (positions b'). position_ok s p)"
proof (cases "exe_side x = BUY")
  case True
  with f obtain p where p: "positions b' = AList.update (exe_symbol x) p (positions b)"
    "pos_symbol p = exe_symbol x" "positive (pos_quantity p)" "positive (pos_average_price p)"
    "dec_add (held_quantity b (exe_symbol x)) (exe_quantity x) = Inr (pos_quantity p)"
    by (auto simp: filled_def bought_def)
  have "is_fin (pos_quantity p)" by (rule dec_add_fin [OF p(5) held_quantity_fin [OF inv] q])
  then have "position_ok (exe_symbol x) p" using p by (auto simp: position_ok_def positive_def)
  with inv p(1) show ?thesis
    by (auto simp: broker_inv_def distinct_update set_update)
next
  case False
  with f obtain old q' where old: "held b (exe_symbol x) = Some old"
    and q': "dec_sub (pos_quantity old) (exe_quantity x) = Inr q'"
    and res: "positions b' = AList.delete (exe_symbol x) (positions b) \<or>
      positive q' \<and> positions b' = AList.update (exe_symbol x)
        (old\<lparr>pos_quantity := q', pos_updated_at := exe_executed_at x\<rparr>) (positions b)"
    by (auto simp: filled_def sold_def)
  have "position_ok (exe_symbol x) old" by (rule held_ok [OF inv old])
  then have "positive q' \<Longrightarrow>
      position_ok (exe_symbol x) (old\<lparr>pos_quantity := q', pos_updated_at := exe_executed_at x\<rparr>)"
    using dec_sub_fin [OF q'] q by (auto simp: position_ok_def positive_def)
  with inv res show ?thesis
    by (auto simp: broker_inv_def distinct_update set_update set_delete distinct_delete)
qed

text \<open>The new cash balance is finite and not negative.\<close>

lemma cash_after_ok:
  assumes inv: "broker_inv b" and n: "is_fin n" "0 \<le> dval n"
    and a: "affordable x n b" and c: "cash_after x n b = Inr c"
  shows "is_fin c \<and> 0 \<le> dval c"
proof (cases "exe_side x = BUY")
  case True
  then have "dval n \<le> dval (cash b)"
    using a n cash_fin [OF inv] by (simp add: affordable_def dec_gt_fin)
  with True show ?thesis
    using c n cash_fin [OF inv] dec_sub_fin dec_sub_nonneg by (auto simp: cash_after_def)
next
  case False
  then show ?thesis
    using c n inv dec_add_fin [of "cash b" n c] dec_add_nonneg [of "cash b" n c]
    by (auto simp: cash_after_def broker_inv_def cash_ok_def)
qed

lemma cash_after_error:
  assumes "broker_inv b" "is_fin n" "cash_after x n b = Inl e"
  shows "e = DecimalOverflow"
  using assms cash_fin [OF assms(1)] dec_sub_error dec_add_error
  by (auto simp: cash_after_def split: if_splits)

section \<open>Every operation keeps the invariant\<close>

lemma inv_new_broker: "broker_inv (new_broker now i)"
  by (simp add: broker_inv_def new_broker_def cash_ok_def STARTING_CASH_def)

lemma inv_connect: "broker_inv b \<Longrightarrow> broker_inv (snd (connect b))"
  by (auto simp: connect_def modify_def broker_inv_def execution_ok_def cash_ok_def)

lemma inv_disconnect: "broker_inv b \<Longrightarrow> broker_inv (snd (disconnect b))"
  by (auto simp: disconnect_def modify_def broker_inv_def execution_ok_def cash_ok_def)

lemma inv_filled:
  assumes inv: "broker_inv b" and f: "filled x b b'" and q: "is_fin (exe_quantity x)"
  shows "broker_inv b'"
  using filled_positions [OF assms] filled_frame [OF f] inv
  by (simp add: broker_inv_def cash_ok_def execution_ok_def)

lemma inv_fill_account:
  assumes "broker_inv b" "is_fin c" "0 \<le> dval c"
  shows "broker_inv (fill_account x c b)"
  using assms by (simp add: broker_inv_def fill_account_def cash_ok_def execution_ok_def)

lemma inv_refreshed: "broker_inv b \<Longrightarrow> broker_inv (refreshed t q b)"
  by (simp add: broker_inv_def refreshed_def cash_ok_def execution_ok_def)

lemma inv_record_order:
  assumes "broker_inv b" "order_ok (ord_id ord) ord" "exe_order_id x = ord_id ord"
    "exe_price x = MARKET_PRICE" "is_fin (exe_quantity x)" "0 < dval (exe_quantity x)"
  shows "broker_inv (record_order ord x b)"
  using assms keys_update [of "ord_id ord" ord "orders b"]
  by (auto simp: broker_inv_def record_order_def cash_ok_def execution_ok_def distinct_update
      set_update)

lemma inv_place_order:
  assumes inv: "broker_inv b" and place: "place_order now oid eid r b = (res, b')"
  shows "broker_inv b'"
  using place
proof (cases rule: place_order_cases)
  case refused
  then show ?thesis using inv by simp
next
  case (overflow e n)
  then have "is_fin (req_quantity r)"
    using filled_finite [OF inv overflow(5,6)] by simp
  then show ?thesis using inv_filled [OF inv overflow(5)] by simp
next
  case (filled n c b1 b2)
  have q: "is_fin (req_quantity r)" "0 < dval (req_quantity r)"
    using filled_finite [OF inv filled(5,6)] filled(3,4) by auto
  note n = notional_ok [OF filled(4) q]
  have c: "is_fin c" "0 \<le> dval c" using cash_after_ok [OF inv _ _ filled(6,7)] n by auto
  have "broker_inv (fill_account (fill_of now oid eid r) c b1)"
    using inv_filled [OF inv filled(5)] q c by (intro inv_fill_account) auto
  then have "broker_inv b2"
    unfolding filled(8) using q by (intro inv_record_order) (auto simp: order_ok_def)
  then show ?thesis using filled(9) inv_refreshed by auto
qed

lemma get_order_eq:
  "connected b \<Longrightarrow> get_order i b = (case map_of (orders b) i of
     None \<Rightarrow> (Inl (ValueError (''unknown order: '' @ i)), b) | Some ord \<Rightarrow> (Inr ord, b))"
  by (simp add: get_order_def bind_require ret_def raise_def split: option.splits)

text \<open>Every stored order is filled, so nothing can be cancelled.\<close>

lemma cancel_order_fails:
  assumes "broker_inv b"
  shows "\<exists>e. cancel_order now i b = (Inl (ValueError e), b)"
proof (cases "connected b")
  case False
  then show ?thesis by (simp add: cancel_order_def bind_require)
next
  case True
  show ?thesis
  proof (cases "map_of (orders b) i")
    case None
    with True show ?thesis
      by (simp add: cancel_order_def bind_require get_order_eq bind_def [of "get_order i"])
  next
    case (Some ord)
    then have "ord_status ord = FILLED"
      using assms by (auto simp: broker_inv_def order_ok_def dest!: map_of_SomeD)
    with True Some show ?thesis
      by (simp add: cancel_order_def bind_require get_order_eq bind_def [of "get_order i"] raise_def)
  qed
qed

lemma inv_cancel_order: "broker_inv b \<Longrightarrow> broker_inv (snd (cancel_order now i b))"
  using cancel_order_fails [of b now i] by force

section \<open>Reachable states\<close>

text \<open>
  A client calls the methods in any order; an exception is the client's to handle, and the
  state the method left is the one the next call sees.
\<close>

datatype broker_call =
    Connect
  | Disconnect
  | Place int string string order_request
  | Cancel int string
  | Is_Connected
  | Get_Order string
  | Get_Executions "string option"
  | Get_Positions
  | Get_Account

fun broker_step :: "broker_call \<Rightarrow> broker \<Rightarrow> broker" where
  "broker_step Connect b = snd (connect b)"
| "broker_step Disconnect b = snd (disconnect b)"
| "broker_step (Place now oid eid r) b = snd (place_order now oid eid r b)"
| "broker_step (Cancel now i) b = snd (cancel_order now i b)"
| "broker_step Is_Connected b = snd (is_connected b)"
| "broker_step (Get_Order i) b = snd (get_order i b)"
| "broker_step (Get_Executions i) b = snd (get_executions i b)"
| "broker_step Get_Positions b = snd (get_positions b)"
| "broker_step Get_Account b = snd (get_account b)"

inductive broker_reachable :: "broker \<Rightarrow> bool" where
  start: "broker_reachable (new_broker now i)"
| call: "broker_reachable b \<Longrightarrow> broker_reachable (broker_step c b)"

lemma query_state [simp]:
  "snd (is_connected b) = b" "snd (get_order i b) = b" "snd (get_executions j b) = b"
  "snd (get_positions b) = b" "snd (get_account b) = b"
  by (simp_all add: is_connected_def get_order_def get_executions_def get_positions_def
      get_account_def bind_require gets_def ret_def raise_def split: option.splits)

lemma broker_step_inv: "broker_inv b \<Longrightarrow> broker_inv (broker_step c b)"
  by (cases c) (auto simp: inv_connect inv_disconnect inv_cancel_order
      intro: inv_place_order [OF _ prod.collapse [symmetric]])

lemma broker_reachable_inv: "broker_reachable b \<Longrightarrow> broker_inv b"
  by (induction rule: broker_reachable.induct) (simp_all add: inv_new_broker broker_step_inv)

section \<open>Conservation of equity\<close>

text \<open>
  Every fill trades at the fixed market price, so the account's worth, cash plus a hundred
  times the quantities held, never moves as long as nothing is rounded.  \<open>wealth_inv\<close> says
  that nothing is: all quantities have at most twelve decimals, and their worth is the
  starting cash.
\<close>

definition total_quantity :: "broker \<Rightarrow> rat" where
  "total_quantity b = (\<Sum>p \<leftarrow> positions b. dval (pos_quantity (snd p)))"

definition wealth_inv :: "broker \<Rightarrow> bool" where
  "wealth_inv b \<longleftrightarrow> broker_inv b \<and> scaled (cash b) \<and>
     (\<forall>(s, p) \<in> set (positions b). scaled (pos_quantity p)) \<and>
     dval (cash b) + 100 * total_quantity b = 100000 \<and>
     dval (acc_equity (account b)) = 100000"

lemma dval_market_price: "dval MARKET_PRICE = 100"
  by (simp add: MARKET_PRICE_def)

lemma wealth_new_broker: "wealth_inv (new_broker now i)"
  using inv_new_broker [of now i]
  by (simp add: wealth_inv_def total_quantity_def new_broker_def STARTING_CASH_def)

lemma total_quantity_nonneg: "broker_inv b \<Longrightarrow> 0 \<le> total_quantity b"
  unfolding total_quantity_def
  by (rule sum_list_nonneg) (force simp: broker_inv_def position_ok_def)

lemma cash_nonneg: "broker_inv b \<Longrightarrow> 0 \<le> dval (cash b)"
  by (simp add: broker_inv_def cash_ok_def)

lemma held_bound:
  assumes "broker_inv b" "held b s = Some p"
  shows "dval (pos_quantity p) \<le> total_quantity b"
proof -
  have "dval (pos_quantity p) \<in> set (map (\<lambda>p. dval (pos_quantity (snd p))) (positions b))"
    using map_of_SomeD [OF assms(2)] by force
  then show ?thesis unfolding total_quantity_def
    by (rule member_le_sum_list)
      (use assms(1) in \<open>force simp: broker_inv_def position_ok_def\<close>)
qed

lemma total_quantity_update:
  assumes "broker_inv b" "positions b' = AList.update s p (positions b)"
  shows "total_quantity b' =
    total_quantity b - dval (held_quantity b s) + dval (pos_quantity p)"
  using assms sum_list_update [of "positions b" "\<lambda>p. dval (pos_quantity p)" s p]
  by (auto simp: total_quantity_def broker_inv_def held_quantity_def split: option.splits)

lemma total_quantity_delete:
  assumes "broker_inv b" "positions b' = AList.delete s (positions b)"
  shows "total_quantity b' = total_quantity b - dval (held_quantity b s)"
  using assms sum_list_delete [of "positions b" "\<lambda>p. dval (pos_quantity p)" s]
  by (auto simp: total_quantity_def broker_inv_def held_quantity_def split: option.splits)

lemma wealth_bounds:
  assumes "wealth_inv b"
  shows "dval (cash b) \<le> 100000" "total_quantity b \<le> 1000"
  using assms total_quantity_nonneg [of b] cash_nonneg [of b] by (auto simp: wealth_inv_def)

lemma wealth_held:
  assumes "wealth_inv b"
  shows "scaled (held_quantity b s)" "0 \<le> dval (held_quantity b s)"
    "dval (held_quantity b s) \<le> 1000"
proof -
  have inv: "broker_inv b" using assms by (simp add: wealth_inv_def)
  have "scaled (held_quantity b s) \<and> 0 \<le> dval (held_quantity b s) \<and>
      dval (held_quantity b s) \<le> 1000"
  proof (cases "held b s")
    case None
    then show ?thesis by (simp add: held_quantity_def)
  next
    case (Some p)
    then have "scaled (pos_quantity p)"
      using assms by (force simp: wealth_inv_def dest: map_of_SomeD)
    then show ?thesis
      using Some held_ok [OF inv Some] held_bound [OF inv Some] wealth_bounds(2) [OF assms]
      by (simp add: held_quantity_def position_ok_def)
  qed
  then show "scaled (held_quantity b s)" "0 \<le> dval (held_quantity b s)"
    "dval (held_quantity b s) \<le> 1000" by auto
qed

text \<open>The notional of a fill is exact.\<close>

lemma fill_notional:
  assumes w: "wealth_inv b" and f: "filled x b b1" and a: "affordable x n b"
    and n: "dec_mul (exe_quantity x) MARKET_PRICE = Inr n" and q: "positive (exe_quantity x)"
    and s: "scaled (exe_quantity x)"
  shows "scaled n \<and> dval n = 100 * dval (exe_quantity x) \<and> 0 < dval (exe_quantity x) \<and>
    dval (exe_quantity x) \<le> 1000"
proof -
  have inv: "broker_inv b" using w by (simp add: wealth_inv_def)
  note fin = filled_finite [OF inv f a n q]
  have le: "dval (exe_quantity x) \<le> 1000"
  proof (cases "exe_side x = BUY")
    case True
    have "is_fin n \<and> (dval n = dval (exe_quantity x) * 100 \<or> 10 ^ 16 \<le> \<bar>dval n\<bar>)"
      using dec_mul_scaled_cases [OF s, of 0 100 n] n by (simp add: MARKET_PRICE_def)
    moreover have "0 \<le> dval n" "dval n \<le> dval (cash b)"
      using True a notional_ok [OF n] fin cash_fin [OF inv]
      by (auto simp: affordable_def dec_gt_fin)
    ultimately show ?thesis using wealth_bounds(1) [OF w] by auto
  next
    case False
    then obtain old where old: "held b (exe_symbol x) = Some old"
      and "dec_gt (exe_quantity x) (pos_quantity old) = Inr False"
      using f by (auto simp: filled_def sold_def)
    moreover have "is_fin (pos_quantity old)"
      using held_ok [OF inv old] by (simp add: position_ok_def)
    ultimately show ?thesis
      using fin wealth_held(3) [OF w, of "exe_symbol x"]
      by (simp add: dec_gt_fin held_quantity_def)
  qed
  have "\<exists>z. dec_mul (exe_quantity x) (Fin 100 0) = Inr z \<and> scaled z \<and>
      dval z = dval (exe_quantity x) * dval (Fin 100 0)"
    using le fin by (intro dec_mul_scaled [OF s]) auto
  then show ?thesis using n le fin by (auto simp: MARKET_PRICE_def)
qed

text \<open>The new quantity held is exact, on both sides.\<close>

lemma fill_quantity:
  assumes w: "wealth_inv b" and f: "filled x b b1" and s: "scaled (exe_quantity x)"
    and q: "0 < dval (exe_quantity x)" "dval (exe_quantity x) \<le> 1000"
  shows "(\<forall>(s, p) \<in> set (positions b1). scaled (pos_quantity p)) \<and>
    total_quantity b1 = (if exe_side x = BUY then total_quantity b + dval (exe_quantity x)
      else total_quantity b - dval (exe_quantity x))"
proof (cases "exe_side x = BUY")
  case True
  have inv: "broker_inv b" using w by (simp add: wealth_inv_def)
  let ?h = "held_quantity b (exe_symbol x)"
  from True f obtain p where p: "positions b1 = AList.update (exe_symbol x) p (positions b)"
    "dec_add ?h (exe_quantity x) = Inr (pos_quantity p)"
    by (auto simp: filled_def bought_def)
  have "scaled (pos_quantity p) \<and> dval (pos_quantity p) = dval ?h + dval (exe_quantity x)"
    using dec_add_scaled [of ?h "exe_quantity x"] wealth_held [OF w, of "exe_symbol x"] s q p(2)
    by auto
  then show ?thesis
    using True w p(1) total_quantity_update [OF inv p(1)]
    by (auto simp: wealth_inv_def broker_inv_def set_update)
next
  case False
  have inv: "broker_inv b" using w by (simp add: wealth_inv_def)
  from False f obtain old q' where old: "held b (exe_symbol x) = Some old"
    and q': "dec_sub (pos_quantity old) (exe_quantity x) = Inr q'"
    and res: "dec_eq q' (Fin 0 0) = Inr True \<and>
        positions b1 = AList.delete (exe_symbol x) (positions b) \<or>
      dec_eq q' (Fin 0 0) = Inr False \<and> positions b1 = AList.update (exe_symbol x)
        (old\<lparr>pos_quantity := q', pos_updated_at := exe_executed_at x\<rparr>) (positions b)"
    by (auto simp: filled_def sold_def)
  have h: "held_quantity b (exe_symbol x) = pos_quantity old"
    using old by (simp add: held_quantity_def)
  have ex: "scaled q' \<and> dval q' = dval (pos_quantity old) - dval (exe_quantity x)"
    using dec_sub_scaled [of "pos_quantity old" "exe_quantity x"] q' s q
      wealth_held [OF w, of "exe_symbol x"] by (auto simp: h)
  then have "dec_eq q' (Fin 0 0) = Inr (dval q' = 0)"
    by (simp add: dec_eq_fin scaled_fin)
  with ex res w False show ?thesis
    using total_quantity_update [OF inv, of b1 "exe_symbol x"]
      total_quantity_delete [OF inv, of b1 "exe_symbol x"]
    by (auto simp: wealth_inv_def broker_inv_def set_update set_delete h)
qed

text \<open>So is the new cash balance, and the refreshed market value.\<close>

lemma fill_cash:
  assumes w: "wealth_inv b" and n: "scaled n" "0 \<le> dval n" "dval n \<le> 100000"
  shows "\<exists>c. cash_after x n b = Inr c \<and> scaled c \<and>
    dval c = (if exe_side x = BUY then dval (cash b) - dval n else dval (cash b) + dval n)"
proof -
  have "scaled (cash b)" "0 \<le> dval (cash b)" "dval (cash b) \<le> 100000"
    using w cash_nonneg wealth_bounds(1) by (auto simp: wealth_inv_def)
  then show ?thesis
    using n dec_sub_scaled [of "cash b" n] dec_add_scaled [of "cash b" n]
    by (auto simp: cash_after_def)
qed

lemma market_value_scaled:
  assumes "scaled acc" "0 \<le> dval acc" "\<forall>p \<in> set ps. scaled (pos_quantity p) \<and> 0 \<le> dval (pos_quantity p)"
    and "dval acc + 100 * (\<Sum>p \<leftarrow> ps. dval (pos_quantity p)) < 10 ^ 16"
  shows "\<exists>z. market_value acc ps = Inr z \<and> scaled z \<and>
    dval z = dval acc + 100 * (\<Sum>p \<leftarrow> ps. dval (pos_quantity p))"
  using assms
proof (induction ps arbitrary: acc)
  case (Cons p ps)
  have rest: "0 \<le> (\<Sum>p \<leftarrow> ps. dval (pos_quantity p))"
    using Cons.prems(3) by (intro sum_list_nonneg) auto
  have pq: "scaled (pos_quantity p)" "0 \<le> dval (pos_quantity p)" using Cons.prems(3) by auto
  obtain v where v: "dec_mul (pos_quantity p) MARKET_PRICE = Inr v" "scaled v"
    "dval v = 100 * dval (pos_quantity p)"
    using dec_mul_scaled [OF pq(1), of 0 100] pq(2) rest Cons.prems(2,4)
    by (auto simp: MARKET_PRICE_def)
  obtain a where a: "dec_add acc v = Inr a" "scaled a" "dval a = dval acc + dval v"
    using dec_add_scaled [of acc v] v pq(2) rest Cons.prems by auto
  have "\<exists>z. market_value a ps = Inr z \<and> scaled z \<and>
      dval z = dval a + 100 * (\<Sum>p \<leftarrow> ps. dval (pos_quantity p))"
    using Cons.prems a v pq by (intro Cons.IH) auto
  with v a show ?case by auto
qed auto

lemma equity_exact:
  assumes inv: "broker_inv b" and c: "scaled (cash b)"
    and ps: "\<forall>(s, p) \<in> set (positions b). scaled (pos_quantity p)"
    and total: "dval (cash b) + 100 * total_quantity b = 100000"
  shows "\<exists>q. equity_of b = Inr q \<and> dval q = 100000"
proof -
  have sum: "(\<Sum>p \<leftarrow> map snd (positions b). dval (pos_quantity p)) = total_quantity b"
    by (simp add: total_quantity_def o_def)
  have bounds: "0 \<le> total_quantity b" "0 \<le> dval (cash b)"
    using inv total_quantity_nonneg cash_nonneg by auto
  have "\<forall>p \<in> set (map snd (positions b)). scaled (pos_quantity p) \<and> 0 \<le> dval (pos_quantity p)"
    using ps inv by (force simp: broker_inv_def position_ok_def)
  then obtain mv where mv: "market_value (Fin 0 0) (map snd (positions b)) = Inr mv" "scaled mv"
    "dval mv = 100 * total_quantity b"
    using market_value_scaled [of "Fin 0 0" "map snd (positions b)"] sum total bounds by auto
  moreover obtain q where "dec_add (cash b) mv = Inr q" "dval q = dval (cash b) + dval mv"
    using dec_add_scaled [OF c mv(2)] mv(3) total by auto
  ultimately show ?thesis using total by (simp add: equity_of_def)
qed

lemma place_order_wealth:
  assumes w: "wealth_inv b" and s: "scaled (req_quantity r)"
    and place: "place_order now oid eid r b = (res, b')"
  shows "wealth_inv b' \<and> (\<forall>e. res = Inl e \<longrightarrow> b' = b)"
  using place
proof (cases rule: place_order_cases)
  case refused
  then show ?thesis using w by simp
next
  case (overflow e n)
  have n: "scaled n \<and> dval n = 100 * dval (req_quantity r) \<and> 0 < dval (req_quantity r) \<and>
      dval (req_quantity r) \<le> 1000"
    using fill_notional [OF w overflow(5,6)] overflow(3,4) s by simp
  then have "\<exists>c. cash_after (fill_of now oid eid r) n b = Inr c"
    using fill_cash [OF w, of n "fill_of now oid eid r"] by auto
  then show ?thesis using overflow(7) by simp
next
  case (filled n c b1 b2)
  let ?x = "fill_of now oid eid r"
  have n: "scaled n" "dval n = 100 * dval (req_quantity r)" "0 < dval (req_quantity r)"
      "dval (req_quantity r) \<le> 1000"
    using fill_notional [OF w filled(5,6)] filled(3,4) s by auto
  have c: "scaled c" "dval c = (if exe_side ?x = BUY then dval (cash b) - dval n
      else dval (cash b) + dval n)"
    using fill_cash [OF w n(1), of ?x] n filled(7) by auto
  have q: "\<forall>(s, p) \<in> set (positions b1). scaled (pos_quantity p)"
    "total_quantity b1 = (if exe_side ?x = BUY then total_quantity b + dval (req_quantity r)
      else total_quantity b - dval (req_quantity r))"
    using fill_quantity [OF w filled(5)] s n by auto
  have b2: "positions b2 = positions b1" "cash b2 = c" "acc_buying_power (account b2) = c"
    by (simp_all add: filled(8) record_order_def fill_account_def)
  have inv: "broker_inv b'" using inv_place_order [OF _ place] w by (simp add: wealth_inv_def)
  then have inv2: "broker_inv b2"
    using filled(9) b2(2,3)
    by (auto simp: broker_inv_def refreshed_def cash_ok_def execution_ok_def)
  have total: "dval (cash b2) + 100 * total_quantity b2 = 100000"
    using w c(2) q(2) n(2) b2 by (auto simp: wealth_inv_def total_quantity_def split: if_splits)
  have "\<exists>q. equity_of b2 = Inr q \<and> dval q = 100000"
    using equity_exact [OF inv2] c(1) q(1) b2 total by simp
  then obtain eq where eq: "equity_of b2 = Inr eq" "dval eq = 100000" by blast
  then have res: "res = Inr (filled_order now oid r)" "b' = refreshed now eq b2"
    using filled(9) by auto
  then show ?thesis
    using inv c(1) q(1) b2 total eq(2)
    by (simp add: wealth_inv_def refreshed_def total_quantity_def)
qed

text \<open>A run of calls whose orders all have at most twelve decimals.\<close>

fun scaled_call :: "broker_call \<Rightarrow> bool" where
  "scaled_call (Place now oid eid r) = scaled (req_quantity r)"
| "scaled_call _ = True"

definition broker_run :: "broker_call list \<Rightarrow> broker \<Rightarrow> broker" where
  "broker_run cs b = fold broker_step cs b"

lemma broker_step_wealth: "wealth_inv b \<Longrightarrow> scaled_call c \<Longrightarrow> wealth_inv (broker_step c b)"
proof (cases c)
  case (Cancel now i)
  assume "wealth_inv b"
  then have "snd (cancel_order now i b) = b"
    using cancel_order_fails [of b now i] by (auto simp: wealth_inv_def)
  with Cancel \<open>wealth_inv b\<close> show ?thesis by simp
next
  case (Place now oid eid r)
  assume "wealth_inv b" "scaled_call c"
  then show ?thesis
    using Place place_order_wealth [of b r now oid eid] prod.collapse by (metis broker_step.simps(3) scaled_call.simps(1))
next
  case Connect
  assume w: "wealth_inv b"
  then have "broker_inv (snd (connect b))" by (simp add: wealth_inv_def inv_connect)
  with Connect w show ?thesis
    by (simp add: wealth_inv_def connect_def modify_def total_quantity_def)
next
  case Disconnect
  assume w: "wealth_inv b"
  then have "broker_inv (snd (disconnect b))" by (simp add: wealth_inv_def inv_disconnect)
  with Disconnect w show ?thesis
    by (simp add: wealth_inv_def disconnect_def modify_def total_quantity_def)
qed (auto simp: wealth_inv_def)

lemma broker_run_wealth:
  "wealth_inv b \<Longrightarrow> \<forall>c \<in> set cs. scaled_call c \<Longrightarrow> wealth_inv (broker_run cs b)"
  unfolding broker_run_def by (induction cs arbitrary: b) (auto intro: broker_step_wealth)

section \<open>Errors in general\<close>

lemma market_value_error:
  "\<forall>p \<in> set ps. is_fin (pos_quantity p) \<Longrightarrow> is_fin acc \<Longrightarrow>
     (market_value acc ps = Inl e \<longrightarrow> e = DecimalOverflow) \<and>
     (\<forall>v. market_value acc ps = Inr v \<longrightarrow> is_fin v)"
proof (induction ps arbitrary: acc)
  case (Cons p ps)
  have price: "is_fin MARKET_PRICE" by (simp add: MARKET_PRICE_def)
  show ?case
    using Cons dec_mul_fin [OF _ _ price, of "pos_quantity p"] dec_add_fin [of acc]
      dec_mul_error [OF _ _ price, of "pos_quantity p"] dec_add_error [of acc]
    by (auto simp: rbind_Inl_iff rbind_Inr_iff)
qed simp

text \<open>
  Whatever the quantities, an order that raises has changed the broker only if a result
  overflowed the exponent range of decimals.
\<close>

lemma place_order_error:
  assumes inv: "broker_inv b" and place: "place_order now oid eid r b = (Inl e, b')"
  shows "b' = b \<or> e = DecimalOverflow"
  using place
proof (cases rule: place_order_cases)
  case (overflow e' n)
  have "is_fin n"
    using notional_ok [OF overflow(4)] filled_finite [OF inv overflow(5,6)] overflow(3,4) by simp
  then show ?thesis using cash_after_error [OF inv] overflow(1,7) by auto
next
  case (filled n c b1 b2)
  have q: "is_fin (req_quantity r)" "0 < dval (req_quantity r)"
    using filled_finite [OF inv filled(5,6)] filled(3,4) by auto
  have c: "is_fin c" using cash_after_ok [OF inv _ _ filled(6,7)] notional_ok [OF filled(4) q] by auto
  have eq: "positions b2 = positions b1" "cash b2 = c"
    by (simp_all add: filled(8) record_order_def fill_account_def)
  have "\<forall>p \<in> set (map snd (positions b2)). is_fin (pos_quantity p)"
    using filled_positions [OF inv filled(5)] q eq by (auto simp: position_ok_def)
  from market_value_error [OF this, of "Fin 0 0" e] filled(9)
  show ?thesis using c eq dec_add_error [of c _ e] by (auto simp: equity_of_def rbind_Inl_iff)
qed simp

end
