(* ===== verification/Broker_Interface.thy ===== *)
theory Broker_Interface
  imports Broker_Safety
begin

text \<open>
  The abstract class \<open>BrokerProvider\<close> of \<open>src/broker/provider.py\<close> as a locale: the methods its
  clients call and the laws a provider promises.  \<open>mock\<close> shows that the in-memory broker keeps
  them under its invariant.
\<close>

locale broker_provider =
  fixes inv :: "'b \<Rightarrow> bool"
    and online :: "'b \<Rightarrow> bool"
    and connect :: "('b, unit) op"
    and disconnect :: "('b, unit) op"
    and place_order :: "int \<Rightarrow> string \<Rightarrow> string \<Rightarrow> order_request \<Rightarrow> ('b, order) op"
    and get_order :: "string \<Rightarrow> ('b, order) op"
  assumes connect_law: "inv b \<Longrightarrow>
      \<exists>b'. connect b = (Inr (), b') \<and> inv b' \<and> online b'"
    and disconnect_law: "inv b \<Longrightarrow>
      \<exists>b'. disconnect b = (Inr (), b') \<and> inv b' \<and> \<not> online b'"
    and place_inv: "inv b \<Longrightarrow> place_order now oid eid r b = (res, b') \<Longrightarrow>
      inv b' \<and> online b' = online b"
    and place_offline: "inv b \<Longrightarrow> \<not> online b \<Longrightarrow>
      \<exists>e. place_order now oid eid r b = (Inl e, b)"
    and place_confirms: "inv b \<Longrightarrow> place_order now oid eid r b = (Inr ord, b') \<Longrightarrow>
      ord_id ord = oid \<and> ord_symbol ord = req_symbol r \<and> ord_side ord = req_side r \<and>
      ord_quantity ord = req_quantity r"
    and place_get: "inv b \<Longrightarrow> place_order now oid eid r b = (Inr ord, b') \<Longrightarrow>
      get_order oid b' = (Inr ord, b')"
    and get_pure: "inv b \<Longrightarrow> snd (get_order i b) = b"
begin

text \<open>A provider that accepts an order was connected, and still knows the order afterwards.\<close>

lemma accepted_online:
  assumes "inv b" "place_order now oid eid r b = (Inr ord, b')"
  shows "online b \<and> online b' \<and> fst (get_order oid b') = Inr ord"
proof -
  have "online b" using place_offline [OF assms(1)] assms(2) by (metis Inr_not_Inl prod.inject)
  then show ?thesis using place_inv [OF assms] place_get [OF assms] by simp
qed

text \<open>A disconnected provider refuses every order and keeps its state.\<close>

lemma disconnect_refuses:
  assumes "inv b" "disconnect b = (res, b')"
  shows "\<exists>e. place_order now oid eid r b' = (Inl e, b')"
  using disconnect_law [OF assms(1)] place_offline assms(2) by auto

end

section \<open>The in-memory broker is a provider\<close>

lemma place_order_connected:
  assumes "place_order now oid eid r b = (res, b')"
  shows "connected b' = connected b"
  using assms
proof (cases rule: place_order_cases)
  case (overflow e n)
  then show ?thesis using filled_frame by auto
next
  case (filled n c b1 b2)
  then show ?thesis
    using filled_frame(1) [OF filled(5)]
    by (auto simp: refreshed_def record_order_def fill_account_def)
qed simp

lemma place_order_success:
  assumes "place_order now oid eid r b = (Inr ord, b')"
  shows "ord = filled_order now oid r \<and> connected b \<and> req_order_type r = MARKET \<and>
    orders b' = AList.update oid ord (orders b) \<and>
    executions b' = executions b @ [fill_of now oid eid r]"
  using assms
proof (cases rule: place_order_cases)
  case (filled n c b1 b2)
  then show ?thesis
    using filled_frame [OF filled(5)]
    by (auto simp: refreshed_def record_order_def fill_account_def)
qed auto

interpretation mock: broker_provider broker_inv connected connect disconnect place_order get_order
proof
  fix b :: broker assume "broker_inv b"
  then show "\<exists>b'. connect b = (Inr (), b') \<and> broker_inv b' \<and> connected b'"
    using inv_connect [of b] by (simp add: connect_def modify_def)
next
  fix b :: broker assume "broker_inv b"
  then show "\<exists>b'. disconnect b = (Inr (), b') \<and> broker_inv b' \<and> \<not> connected b'"
    using inv_disconnect [of b] by (simp add: disconnect_def modify_def)
next
  fix b b' :: broker and now oid eid r res
  assume "broker_inv b" "place_order now oid eid r b = (res, b')"
  then show "broker_inv b' \<and> connected b' = connected b"
    by (blast intro: inv_place_order dest: place_order_connected)
next
  fix b :: broker and now oid eid r
  assume "\<not> connected b"
  then show "\<exists>e. place_order now oid eid r b = (Inl e, b)"
    by (intro place_order_refused) simp
next
  fix b b' :: broker and now oid eid r ord
  assume p: "place_order now oid eid r b = (Inr ord, b')"
  then show "ord_id ord = oid \<and> ord_symbol ord = req_symbol r \<and> ord_side ord = req_side r \<and>
      ord_quantity ord = req_quantity r"
    using place_order_success [OF p] by simp
  show "get_order oid b' = (Inr ord, b')"
    using place_order_success [OF p] place_order_connected [OF p]
    by (simp add: get_order_eq update_conv')
qed simp

end
