(* ===== verification/Strategy.thy ===== *)
theory Strategy
  imports Broker_Interface
begin

text \<open>
  The strategy package, \<open>src/strategy\<close>: the signal and state dataclasses (\<open>models.py\<close>), the
  abstract class \<open>Strategy\<close> (\<open>strategy.py\<close>), the lifecycle-only \<open>MockStrategy\<close>
  (\<open>mock_strategy.py\<close>) and the \<open>StrategyRunner\<close> that turns signals into broker orders
  (\<open>runner.py\<close>).  The quotes and bars of \<open>src/marketdata/models.py\<close> are passed through
  uninspected, so their type is a parameter here.
\<close>

section \<open>Models\<close>

datatype strategy_status = STOPPED | RUNNING | ERROR
datatype signal_type = BUY_SIGNAL | SELL_SIGNAL | HOLD_SIGNAL

fun strategy_status_value :: "strategy_status \<Rightarrow> string" where
  "strategy_status_value STOPPED = ''stopped''"
| "strategy_status_value RUNNING = ''running''"
| "strategy_status_value ERROR = ''error''"

fun signal_type_value :: "signal_type \<Rightarrow> string" where
  "signal_type_value BUY_SIGNAL = ''buy''"
| "signal_type_value SELL_SIGNAL = ''sell''"
| "signal_type_value HOLD_SIGNAL = ''hold''"

record trading_signal =
  sig_symbol :: string
  sig_signal_type :: signal_type
  sig_generated_at :: int
  sig_quantity :: decimal
  sig_reason :: string

definition new_trading_signal :: "trading_signal \<Rightarrow> trading_signal res" where
  "new_trading_signal g =
     (if sig_signal_type g \<in> {BUY_SIGNAL, SELL_SIGNAL}
      then rbind (dec_le (sig_quantity g) (Fin 0 0)) (\<lambda>b.
        if b then Inl (ValueError ''quantity must be positive for buy and sell signals'') else Inr g)
      else rbind (dec_lt (sig_quantity g) (Fin 0 0)) (\<lambda>b.
        if b then Inl (ValueError ''quantity cannot be negative for hold signals'') else Inr g))"

record strategy_state =
  str_status :: strategy_status
  str_updated_at :: int
  str_last_signal :: "trading_signal option"
  str_error_message :: "string option"

section \<open>The strategy interface\<close>

text \<open>
  The methods of a strategy object with state \<open>'s\<close> that the runner calls; \<open>'q\<close> and \<open>'o\<close> are
  the types of quotes and bars.
\<close>

record ('s, 'q, 'o) strategy_methods =
  state_method :: "'s \<Rightarrow> strategy_state"
  start_method :: "int \<Rightarrow> ('s, unit) op"
  stop_method :: "int \<Rightarrow> ('s, unit) op"
  on_quote_method :: "'q \<Rightarrow> ('s, trading_signal option) op"
  on_bar_method :: "'o \<Rightarrow> ('s, trading_signal option) op"

section \<open>MockStrategy\<close>

definition mock_state :: "strategy_status \<Rightarrow> int \<Rightarrow> strategy_state" where
  "mock_state status now =
     \<lparr>str_status = status, str_updated_at = now, str_last_signal = None, str_error_message = None\<rparr>"

definition new_mock_strategy :: "int \<Rightarrow> strategy_state" where
  "new_mock_strategy now = mock_state STOPPED now"

definition mock_name :: string where "mock_name = ''MockStrategy''"

definition mock_start :: "int \<Rightarrow> (strategy_state, unit) op" where
  "mock_start now = modify (\<lambda>_. mock_state RUNNING now)"

definition mock_stop :: "int \<Rightarrow> (strategy_state, unit) op" where
  "mock_stop now = modify (\<lambda>_. mock_state STOPPED now)"

definition mock_on_quote :: "'q \<Rightarrow> (strategy_state, trading_signal option) op" where
  "mock_on_quote quote = ret None"

definition mock_on_bar :: "'o \<Rightarrow> (strategy_state, trading_signal option) op" where
  "mock_on_bar bar = ret None"

definition mock_strategy :: "(strategy_state, 'q, 'o) strategy_methods" where
  "mock_strategy =
     \<lparr>state_method = (\<lambda>s. s), start_method = mock_start, stop_method = mock_stop,
      on_quote_method = mock_on_quote, on_bar_method = mock_on_bar\<rparr>"

section \<open>StrategyRunner\<close>

text \<open>
  The runner holds a strategy and a broker; its state is the pair of theirs.  \<open>place\<close> is the
  broker's \<open>place_order\<close> with the clock and the identifiers of this call fixed.
\<close>

definition on_strategy :: "('s, 'a) op \<Rightarrow> ('s \<times> 'b, 'a) op" where
  "on_strategy m = (\<lambda>(s, b). case m s of (r, s') \<Rightarrow> (r, (s', b)))"

definition on_broker :: "('b, 'a) op \<Rightarrow> ('s \<times> 'b, 'a) op" where
  "on_broker m = (\<lambda>(s, b). case m b of (r, b') \<Rightarrow> (r, (s, b')))"

definition runner_start :: "('s, 'q, 'o) strategy_methods \<Rightarrow> int \<Rightarrow> ('s \<times> 'b, unit) op" where
  "runner_start S now = on_strategy (start_method S now)"

definition runner_stop :: "('s, 'q, 'o) strategy_methods \<Rightarrow> int \<Rightarrow> ('s \<times> 'b, unit) op" where
  "runner_stop S now = on_strategy (stop_method S now)"

definition require_running :: "('s, 'q, 'o) strategy_methods \<Rightarrow> ('s \<times> 'b, unit) op" where
  "require_running S t =
     (if str_status (state_method S (fst t)) \<noteq> RUNNING
      then raise (ValueError ''strategy must be running to process events'') t else ret () t)"

definition submit_signal ::
    "(order_request \<Rightarrow> ('b, order) op) \<Rightarrow> trading_signal option \<Rightarrow> ('s \<times> 'b, order option) op" where
  "submit_signal place sg =
     (case sg of
        None \<Rightarrow> ret None
      | Some g \<Rightarrow>
          if sig_signal_type g = HOLD_SIGNAL then ret None
          else
            bind (lift (new_order_request
              \<lparr>req_symbol = sig_symbol g,
               req_side = (if sig_signal_type g = BUY_SIGNAL then BUY else SELL),
               req_order_type = MARKET, req_quantity = sig_quantity g,
               req_requested_at = sig_generated_at g, req_limit_price = None\<rparr>)) (\<lambda>r.
            bind (on_broker (place r)) (\<lambda>ord. ret (Some ord))))"

definition runner_on_quote ::
    "('s, 'q, 'o) strategy_methods \<Rightarrow> (order_request \<Rightarrow> ('b, order) op) \<Rightarrow> 'q \<Rightarrow>
     ('s \<times> 'b, order option) op" where
  "runner_on_quote S place q =
     bind (require_running S) (\<lambda>_.
     bind (on_strategy (on_quote_method S q)) (submit_signal place))"

definition runner_on_bar ::
    "('s, 'q, 'o) strategy_methods \<Rightarrow> (order_request \<Rightarrow> ('b, order) op) \<Rightarrow> 'o \<Rightarrow>
     ('s \<times> 'b, order option) op" where
  "runner_on_bar S place bar =
     bind (require_running S) (\<lambda>_.
     bind (on_strategy (on_bar_method S bar)) (submit_signal place))"

end
