(* ===== verification/Strategy_Runner.thy ===== *)
theory Strategy_Runner
  imports Strategy
begin

text \<open>
  The contract of the abstract class \<open>Strategy\<close> as a locale, and the runner's behaviour proved
  against it and against the broker interface.  \<open>mock_runner\<close> interprets both on the classes
  the package ships.
\<close>

section \<open>Signals\<close>

definition signal_ok :: "trading_signal \<Rightarrow> bool" where
  "signal_ok g \<longleftrightarrow> new_trading_signal g = Inr g"

lemma signal_ok_iff:
  "signal_ok g \<longleftrightarrow>
     (if sig_signal_type g = HOLD_SIGNAL
      then is_fin (sig_quantity g) \<and> 0 \<le> dval (sig_quantity g) \<or> sig_quantity g = Infty False
      else positive (sig_quantity g))"
proof (cases "sig_quantity g")
  case (Fin c e)
  then show ?thesis
    by (cases "sig_signal_type g")
      (auto simp: signal_ok_def new_trading_signal_def dec_le_fin dec_lt_fin positive_def)
next
  case (Infty s)
  then show ?thesis
    by (cases "sig_signal_type g"; cases s)
      (auto simp: signal_ok_def new_trading_signal_def dec_le_def dec_lt_def positive_def)
next
  case (NaN s)
  then show ?thesis
    by (cases "sig_signal_type g")
      (auto simp: signal_ok_def new_trading_signal_def dec_le_def dec_lt_def positive_def)
qed

section \<open>What the runner submits\<close>

definition signal_request :: "trading_signal \<Rightarrow> order_request" where
  "signal_request g =
     \<lparr>req_symbol = sig_symbol g,
      req_side = (if sig_signal_type g = BUY_SIGNAL then BUY else SELL),
      req_order_type = MARKET, req_quantity = sig_quantity g,
      req_requested_at = sig_generated_at g, req_limit_price = None\<rparr>"

text \<open>A valid buy or sell signal always yields a valid request.\<close>

lemma signal_request_ok:
  assumes "signal_ok g" "sig_signal_type g \<noteq> HOLD_SIGNAL"
  shows "new_order_request (signal_request g) = Inr (signal_request g)"
  using assms by (simp add: signal_ok_iff new_order_request_ok signal_request_def)

lemma submit_none: "submit_signal place None t = (Inr None, t)"
  by (simp add: submit_signal_def)

lemma submit_hold:
  "sig_signal_type g = HOLD_SIGNAL \<Longrightarrow> submit_signal place (Some g) t = (Inr None, t)"
  by (simp add: submit_signal_def)

lemma submit_trade:
  assumes "signal_ok g" "sig_signal_type g \<noteq> HOLD_SIGNAL"
  shows "submit_signal place (Some g) (s, b) =
    (case place (signal_request g) b of
       (Inl e, b') \<Rightarrow> (Inl e, (s, b')) | (Inr ord, b') \<Rightarrow> (Inr (Some ord), (s, b')))"
  using signal_request_ok [OF assms] assms(2)
  by (auto simp: submit_signal_def signal_request_def bind_def on_broker_def lift_def ret_def
      split: prod.splits sum.splits)

section \<open>Submitting through any provider\<close>

context broker_provider
begin

text \<open>What a provider guarantees about the order made from a valid signal.\<close>

lemma submit_keeps:
  assumes b: "inv b" and g: "\<And>h. sg = Some h \<Longrightarrow> signal_ok h"
    and sub: "submit_signal (place_order now oid eid) sg (s, b) = (res, (s', b'))"
  shows "s' = s \<and> inv b' \<and> (\<forall>ord. res = Inr (Some ord) \<longrightarrow>
    (\<exists>h. sg = Some h \<and> ord_symbol ord = sig_symbol h \<and> ord_quantity ord = sig_quantity h \<and>
      ord_side ord = req_side (signal_request h)) \<and> get_order (ord_id ord) b' = (Inr ord, b'))"
proof (cases "sg = None \<or> (\<exists>h. sg = Some h \<and> sig_signal_type h = HOLD_SIGNAL)")
  case True
  then show ?thesis using sub b by (auto simp: submit_none submit_hold)
next
  case False
  then obtain h where h: "sg = Some h" "sig_signal_type h \<noteq> HOLD_SIGNAL" by auto
  obtain pr pb where p: "place_order now oid eid (signal_request h) b = (pr, pb)" by force
  have eq: "s' = s \<and> b' = pb \<and> res = map_sum id Some pr"
    using sub submit_trade [OF g [OF h(1)] h(2), of "place_order now oid eid" s b] h(1) p
    by (cases pr) auto
  show ?thesis
  proof (cases pr)
    case (Inl e)
    then show ?thesis using eq place_inv [OF b p] by simp
  next
    case (Inr ord)
    with p have ok: "place_order now oid eid (signal_request h) b = (Inr ord, pb)" by simp
    show ?thesis
      using eq Inr h(1) place_inv [OF b ok] place_confirms [OF b ok] place_get [OF b ok]
      by (simp add: signal_request_def)
  qed
qed

end

section \<open>The strategy contract and the runner's client lemmas\<close>

locale trading_strategy =
  fixes sinv :: "'s \<Rightarrow> bool"
    and S :: "('s, 'q, 'o) strategy_methods"
  assumes start_law: "sinv s \<Longrightarrow> \<exists>s'. start_method S now s = (Inr (), s') \<and> sinv s' \<and>
      str_status (state_method S s') = RUNNING"
    and stop_law: "sinv s \<Longrightarrow> \<exists>s'. stop_method S now s = (Inr (), s') \<and> sinv s' \<and>
      str_status (state_method S s') = STOPPED"
    and quote_inv: "sinv s \<Longrightarrow> on_quote_method S q s = (r, s') \<Longrightarrow> sinv s'"
    and bar_inv: "sinv s \<Longrightarrow> on_bar_method S bar s = (r', s') \<Longrightarrow> sinv s'"
    and quote_signal: "sinv s \<Longrightarrow> on_quote_method S q s = (Inr (Some g), s') \<Longrightarrow> signal_ok g"
    and bar_signal: "sinv s \<Longrightarrow> on_bar_method S bar s = (Inr (Some g), s') \<Longrightarrow> signal_ok g"

locale strategy_runner =
  broker_provider inv online connect disconnect place_order get_order +
  trading_strategy sinv S
  for inv :: "'b \<Rightarrow> bool" and online and connect and disconnect
    and place_order :: "int \<Rightarrow> string \<Rightarrow> string \<Rightarrow> order_request \<Rightarrow> ('b, order) op"
    and get_order and sinv :: "'s \<Rightarrow> bool" and S :: "('s, 'q, 'o) strategy_methods"
begin

lemma stopped_refuses:
  assumes "sinv s" "runner_stop S now (s, b) = (r, (s', b'))"
  shows "\<exists>m. runner_on_quote S place q (s', b') = (Inl (ValueError m), (s', b')) \<and>
    runner_on_bar S place bar (s', b') = (Inl (ValueError m), (s', b'))"
proof -
  have "str_status (state_method S s') = STOPPED"
    using stop_law [OF assms(1), of now] assms(2) by (auto simp: runner_stop_def on_strategy_def)
  then show ?thesis
    by (simp add: runner_on_quote_def runner_on_bar_def bind_def require_running_def raise_def)
qed

text \<open>One event, with the strategy's handler \<open>m\<close> as a parameter: quotes and bars share it.\<close>

lemma event_keeps:
  assumes b: "inv b" and s: "sinv s"
    and m_inv: "\<And>r t. m s = (r, t) \<Longrightarrow> sinv t"
    and m_sig: "\<And>g t. m s = (Inr (Some g), t) \<Longrightarrow> signal_ok g"
    and ev: "bind (require_running S) (\<lambda>_. bind (on_strategy m)
      (submit_signal (place_order now oid eid))) (s, b) = (res, (s', b'))"
  shows "inv b' \<and> sinv s'"
proof (cases "str_status (state_method S s) = RUNNING")
  case False
  then show ?thesis using b s ev by (simp add: bind_def require_running_def raise_def)
next
  case True
  obtain r s1 where q: "m s = (r, s1)" by force
  show ?thesis
  proof (cases r)
    case (Inl e)
    then show ?thesis using True q b ev m_inv [OF q]
      by (simp add: bind_def require_running_def ret_def on_strategy_def)
  next
    case (Inr sg)
    then have sub: "submit_signal (place_order now oid eid) sg (s1, b) = (res, (s', b'))"
      using True q ev by (simp add: bind_def require_running_def ret_def on_strategy_def)
    have "signal_ok h" if "sg = Some h" for h using m_sig q Inr that by blast
    from submit_keeps [OF b this sub] m_inv [OF q] show ?thesis by simp
  qed
qed

lemma quote_keeps:
  "runner_on_quote S (place_order now oid eid) q (s, b) = (res, (s', b')) \<Longrightarrow> inv b \<Longrightarrow> sinv s \<Longrightarrow>
     inv b' \<and> sinv s'"
  unfolding runner_on_quote_def
  by (erule event_keeps [where m = "on_quote_method S q", rotated 4])
    (auto intro: quote_inv quote_signal)

lemma bar_keeps:
  "runner_on_bar S (place_order now oid eid) bar (s, b) = (res, (s', b')) \<Longrightarrow> inv b \<Longrightarrow> sinv s \<Longrightarrow>
     inv b' \<and> sinv s'"
  unfolding runner_on_bar_def
  by (erule event_keeps [where m = "on_bar_method S bar", rotated 4])
    (auto intro: bar_inv bar_signal)

end

section \<open>The shipped strategy and broker\<close>

interpretation mock_runner: strategy_runner broker_inv connected connect disconnect place_order
  get_order "\<lambda>_. True" "mock_strategy :: (strategy_state, 'q, 'o) strategy_methods"
  by unfold_locales
    (auto simp: mock_strategy_def mock_start_def mock_stop_def mock_state_def modify_def
      mock_on_quote_def mock_on_bar_def)

end
