(* ===== verification/Broker_Properties.thy ===== *)
theory Broker_Properties
  imports Strategy_Runner
begin

text \<open>
  The correctness properties of the broker and strategy packages, each with an instance that
  meets its hypotheses.  The example states and requests come first.
\<close>

section \<open>Example values\<close>

definition demo_order :: "order_side \<Rightarrow> order_request" where
  "demo_order side =
     \<lparr>req_symbol = ''AAPL'', req_side = side, req_order_type = MARKET, req_quantity = Fin 15 (-1),
      req_requested_at = 5, req_limit_price = None\<rparr>"

definition demo_run :: "broker_call list" where
  "demo_run = [Connect, Place 10 ''o1'' ''e1'' (demo_order BUY),
     Place 11 ''o2'' ''e2'' ((demo_order SELL)\<lparr>req_quantity := Fin 1 0\<rparr>), Disconnect]"

definition demo_broker :: broker where
  "demo_broker = broker_step Connect (new_broker 0 ''acc'')"

definition demo_signal :: "signal_type \<Rightarrow> trading_signal" where
  "demo_signal t = \<lparr>sig_symbol = ''AAPL'', sig_signal_type = t, sig_generated_at = 5,
     sig_quantity = Fin 2 0, sig_reason = ''''\<rparr>"

lemma demo_broker_reachable: "broker_reachable demo_broker"
  unfolding demo_broker_def by (intro broker_reachable.intros)

lemma demo_broker_inv: "broker_inv demo_broker"
  using demo_broker_reachable by (rule broker_reachable_inv)

lemma demo_broker_wealth: "wealth_inv demo_broker"
  unfolding demo_broker_def by (rule broker_step_wealth [OF wealth_new_broker]) simp

text \<open>The demo purchase succeeds.\<close>

lemma demo_buy:
  "\<exists>b'. place_order 10 ''o1'' ''e1'' (demo_order BUY) demo_broker
     = (Inr (filled_order 10 ''o1'' (demo_order BUY)), b')"
proof -
  have "fst (place_order 10 ''o1'' ''e1'' (demo_order BUY) demo_broker)
      = Inr (filled_order 10 ''o1'' (demo_order BUY))"
    by code_simp
  then show ?thesis by (metis prod.collapse)
qed

lemma demo_signal_ok: "signal_ok (demo_signal BUY_SIGNAL)"
  by (simp add: signal_ok_iff demo_signal_def positive_def)

section \<open>The broker\<close>

text \<open>C1: In every state a client can reach through any sequence of broker calls (successful or
  failing, on any decimals), the cash balance is a finite number that is not negative and equals
  the buying power, every position is keyed by its own symbol and has a finite positive quantity,
  every stored order is a filled market order, and every execution is at the market price and
  belongs to a stored order.\<close>

theorem broker_reachable_safe:
  assumes "broker_reachable b"
  shows "is_fin (acc_cash_balance (account b)) \<and> 0 \<le> dval (acc_cash_balance (account b)) \<and>
    acc_buying_power (account b) = acc_cash_balance (account b) \<and>
    dict_ok (orders b) \<and> dict_ok (positions b) \<and>
    (\<forall>s p. map_of (positions b) s = Some p \<longrightarrow>
       pos_symbol p = s \<and> is_fin (pos_quantity p) \<and> 0 < dval (pos_quantity p)) \<and>
    (\<forall>i ord. map_of (orders b) i = Some ord \<longrightarrow>
       ord_id ord = i \<and> ord_status ord = FILLED \<and> ord_order_type ord = MARKET) \<and>
    (\<forall>x \<in> set (executions b). exe_price x = MARKET_PRICE \<and>
       map_of (orders b) (exe_order_id x) \<noteq> None)"
proof -
  have inv: "broker_inv b" using assms by (rule broker_reachable_inv)
  have "map_of (orders b) (exe_order_id x) \<noteq> None" if "x \<in> set (executions b)" for x
    using inv that by (auto simp: broker_inv_def execution_ok_def map_of_eq_None_iff)
  moreover have "\<forall>x \<in> set (executions b). exe_price x = MARKET_PRICE"
    using inv by (auto simp: broker_inv_def execution_ok_def)
  moreover have "ord_id ord = i \<and> ord_status ord = FILLED \<and> ord_order_type ord = MARKET"
    if "map_of (orders b) i = Some ord" for i ord
    using inv that by (auto simp: broker_inv_def order_ok_def dest!: map_of_SomeD)
  ultimately show ?thesis
    using inv held_ok [OF inv] by (auto simp: broker_inv_def cash_ok_def position_ok_def)
qed

lemma broker_reachable_safe_witness:
  "is_fin (acc_cash_balance (account demo_broker)) \<and> 0 \<le> dval (acc_cash_balance (account demo_broker))"
  using broker_reachable_safe [OF demo_broker_reachable] by blast

text \<open>C2: Conservation: along any run of calls whose order quantities have at most twelve decimals
  the account's equity stays exactly 100000, and so does the cash plus the quantities held times
  the market price: no fill, sale, refusal or disconnect creates or loses money.\<close>

theorem equity_conserved:
  assumes "\<forall>c \<in> set cs. scaled_call c"
  shows "dval (acc_equity (account (broker_run cs (new_broker now i)))) = 100000 \<and>
    dval (acc_cash_balance (account (broker_run cs (new_broker now i)))) +
      dval MARKET_PRICE * (\<Sum>p \<leftarrow> positions (broker_run cs (new_broker now i)).
        dval (pos_quantity (snd p))) = 100000"
  using broker_run_wealth [OF wealth_new_broker assms]
  by (simp add: wealth_inv_def total_quantity_def dval_market_price)

lemma equity_conserved_witness:
  "dval (acc_equity (account (broker_run demo_run (new_broker 0 ''acc'')))) = 100000"
  using equity_conserved [of demo_run 0 "''acc''"]
  by (simp add: demo_run_def demo_order_def)

text \<open>C3: A placed order is all or nothing: in every reachable state an order that raises leaves the
  broker exactly as it was, unless a decimal result overflowed the exponent range; and while the
  account and the order's quantity have at most twelve decimals, without that exception.\<close>

theorem place_order_atomic:
  assumes "broker_reachable b"
    and "place_order now order_id execution_id r b = (Inl e, b')"
    and "e \<noteq> DecimalOverflow \<or> wealth_inv b \<and> scaled (req_quantity r)"
  shows "b' = b"
  using place_order_error [OF broker_reachable_inv [OF assms(1)] assms(2)]
    place_order_wealth [OF _ _ assms(2)] assms(3)
  by auto

lemma place_order_atomic_witness:
  "snd (place_order 1 ''o'' ''e'' (demo_order SELL) demo_broker) = demo_broker"
proof -
  have "fst (place_order 1 ''o'' ''e'' (demo_order SELL) demo_broker)
      = Inl (ValueError ''insufficient position'')"
    by code_simp
  then show ?thesis
    using place_order_atomic [OF demo_broker_reachable, of 1 "''o''" "''e''" "demo_order SELL"
        "ValueError ''insufficient position''"]
    by (cases "place_order 1 ''o'' ''e'' (demo_order SELL) demo_broker") simp
qed

text \<open>A successful order was placed on a connected broker as a market order; the order it
  returns is the one stored under its identifier and returned by a later lookup, and exactly one
  execution, at the market price, is appended for it.\<close>

theorem place_order_effect:
  assumes "broker_inv b" "place_order now order_id execution_id r b = (Inr ord, b')"
  shows "connected b \<and> req_order_type r = MARKET \<and> ord_status ord = FILLED \<and>
    ord_id ord = order_id \<and> ord_quantity ord = req_quantity r \<and>
    get_order order_id b' = (Inr ord, b') \<and>
    (\<exists>x. executions b' = executions b @ [x] \<and> exe_id x = execution_id \<and>
       exe_order_id x = order_id \<and> exe_side x = req_side r \<and>
       exe_quantity x = req_quantity r \<and> exe_price x = MARKET_PRICE)"
  using place_order_success [OF assms(2)] mock.place_get [OF assms]
  by simp

lemma place_order_effect_witness:
  "\<exists>b'. get_order ''o1'' b' = (Inr (filled_order 10 ''o1'' (demo_order BUY)), b') \<and>
     length (executions b') = 1"
proof -
  obtain b' where p: "place_order 10 ''o1'' ''e1'' (demo_order BUY) demo_broker
      = (Inr (filled_order 10 ''o1'' (demo_order BUY)), b')"
    using demo_buy by blast
  have "executions demo_broker = []" by code_simp
  then show ?thesis using place_order_effect [OF demo_broker_inv p] by auto
qed

text \<open>A disconnected broker refuses every order without changing anything.\<close>

theorem disconnected_refuses:
  assumes "broker_inv b" "disconnect b = (res, b')"
  shows "\<exists>e. place_order now order_id execution_id r b' = (Inl e, b')"
  using assms by (rule mock.disconnect_refuses)

lemma disconnected_refuses_witness:
  "\<exists>e. place_order 1 ''o'' ''e'' (demo_order BUY) (snd (disconnect demo_broker))
     = (Inl e, snd (disconnect demo_broker))"
  using disconnected_refuses [OF demo_broker_inv, of _ "snd (disconnect demo_broker)"]
  by (metis prod.collapse)

text \<open>Since the mock broker fills every accepted order at once, cancelling never succeeds in a
  reachable state: it raises \<open>ValueError\<close> and changes nothing.\<close>

theorem cancel_never_succeeds:
  assumes "broker_reachable b"
  shows "\<exists>m. cancel_order now order_id b = (Inl (ValueError m), b)"
  using assms by (intro cancel_order_fails broker_reachable_inv)

lemma cancel_never_succeeds_witness:
  "\<exists>m. cancel_order 1 ''o1'' demo_broker = (Inl (ValueError m), demo_broker)"
  by (rule cancel_never_succeeds [OF demo_broker_reachable])

section \<open>The strategy runner\<close>

text \<open>C4: A signal the constructor accepts is never rejected by the order constructor: a valid buy
  or sell signal reaches the broker as a market order for its symbol, side and quantity, the
  result and the state are the broker's, and the strategy's state is untouched.\<close>

theorem valid_signal_reaches_broker:
  assumes "new_trading_signal g = Inr g" "sig_signal_type g \<noteq> HOLD_SIGNAL"
  shows "submit_signal place (Some g) (s, b) =
    (map_sum id Some (fst (place (signal_request g) b)), (s, snd (place (signal_request g) b)))"
  using submit_trade [of g place s b] assms
  by (auto simp: signal_ok_def split: prod.splits sum.splits)

lemma valid_signal_reaches_broker_witness:
  "fst (submit_signal (place_order 10 ''o1'' ''e1'') (Some (demo_signal BUY_SIGNAL)) ((), demo_broker))
    = Inr (Some (filled_order 10 ''o1'' (signal_request (demo_signal BUY_SIGNAL))))"
proof -
  have "fst (place_order 10 ''o1'' ''e1'' (signal_request (demo_signal BUY_SIGNAL)) demo_broker)
      = Inr (filled_order 10 ''o1'' (signal_request (demo_signal BUY_SIGNAL)))"
    by code_simp
  moreover have "sig_signal_type (demo_signal BUY_SIGNAL) \<noteq> HOLD_SIGNAL"
    by (simp add: demo_signal_def)
  ultimately show ?thesis
    using valid_signal_reaches_broker [OF demo_signal_ok [unfolded signal_ok_def],
        of "place_order 10 ''o1'' ''e1''" "()" demo_broker]
    by simp
qed

text \<open>No event moves the broker out of its invariant, whatever strategy drives the runner: when
  the strategy emits only valid signals and the runner submits one, the broker state afterwards
  still satisfies the invariant, and an order it reports is for the signal's symbol, side and
  quantity and can be looked up.\<close>

theorem submit_signal_keeps_broker:
  assumes "broker_inv b" "\<And>h. sg = Some h \<Longrightarrow> new_trading_signal h = Inr h"
    and "submit_signal (place_order now oid eid) sg (s, b) = (res, (s', b'))"
  shows "s' = s \<and> broker_inv b' \<and> (\<forall>ord. res = Inr (Some ord) \<longrightarrow>
    (\<exists>h. sg = Some h \<and> ord_symbol ord = sig_symbol h \<and> ord_quantity ord = sig_quantity h) \<and>
    get_order (ord_id ord) b' = (Inr ord, b'))"
proof -
  have "\<And>h. sg = Some h \<Longrightarrow> signal_ok h" using assms(2) by (simp add: signal_ok_def)
  from assms(1) this assms(3)
  have "s' = s \<and> broker_inv b' \<and> (\<forall>ord. res = Inr (Some ord) \<longrightarrow>
    (\<exists>h. sg = Some h \<and> ord_symbol ord = sig_symbol h \<and> ord_quantity ord = sig_quantity h \<and>
      ord_side ord = req_side (signal_request h)) \<and> get_order (ord_id ord) b' = (Inr ord, b'))"
    by (rule mock.submit_keeps)
  then show ?thesis by blast
qed

lemma submit_signal_keeps_broker_witness:
  "broker_inv (snd (snd (submit_signal (place_order 10 ''o1'' ''e1'')
     (Some (demo_signal BUY_SIGNAL)) ((), demo_broker))))"
proof -
  obtain res s' b' where "submit_signal (place_order 10 ''o1'' ''e1'')
      (Some (demo_signal BUY_SIGNAL)) ((), demo_broker) = (res, (s', b'))"
    by (metis prod.collapse)
  then show ?thesis
    using submit_signal_keeps_broker [OF demo_broker_inv, of "Some (demo_signal BUY_SIGNAL)" 10
        "''o1''" "''e1''" "()" res s' b'] demo_signal_ok
    by (simp add: signal_ok_def)
qed

text \<open>A runner whose strategy has been stopped refuses quotes and bars, and nothing changes.\<close>

theorem stopped_runner_refuses:
  fixes b b' :: broker and q :: 'q and bar :: 'o
  defines "S \<equiv> mock_strategy :: (strategy_state, 'q, 'o) strategy_methods"
  assumes "runner_stop S now (s, b) = (r, (s', b'))"
  shows "\<exists>m. runner_on_quote S place q (s', b') = (Inl (ValueError m), (s', b')) \<and>
    runner_on_bar S place bar (s', b') = (Inl (ValueError m), (s', b'))"
  using assms(2) unfolding S_def by (rule mock_runner.stopped_refuses [OF TrueI])

lemma stopped_runner_refuses_witness:
  "\<exists>m. runner_on_quote (mock_strategy :: (_, nat, nat) strategy_methods) (place_order 1 ''o'' ''e'') 0
     (mock_state STOPPED 3, demo_broker) = (Inl (ValueError m), (mock_state STOPPED 3, demo_broker))"
proof -
  have "runner_stop (mock_strategy :: (_, nat, nat) strategy_methods) 3
      (mock_state RUNNING 1, demo_broker) = (Inr (), (mock_state STOPPED 3, demo_broker))"
    by (simp add: runner_stop_def on_strategy_def mock_strategy_def mock_stop_def modify_def)
  from stopped_runner_refuses [OF this] show ?thesis by blast
qed

end
