(* ===== verification/PyStr.thy ===== *)
theory PyStr
  imports Prelude "HOL-Library.Sublist"
begin

text \<open>
  The \<open>str\<close> methods and the \<open>int\<close> parser the source uses, on \<open>string\<close>.  A character stands for
  an ASCII code point: case conversion and the white-space tests are those of Python on ASCII,
  and characters above 127 are treated as uncased, non-space characters.
\<close>

section \<open>Characters\<close>

definition code :: "char \<Rightarrow> int" where
  "code c = of_char c"

definition py_isspace :: "char \<Rightarrow> bool" where
  "py_isspace c \<longleftrightarrow> code c \<in> {9, 10, 11, 12, 13, 28, 29, 30, 31, 32}"

text \<open>The white space the \<open>int\<close> and \<open>float\<close> parsers skip is C's.\<close>

definition c_isspace :: "char \<Rightarrow> bool" where
  "c_isspace c \<longleftrightarrow> code c \<in> {9, 10, 11, 12, 13, 32}"

definition char_lower :: "char \<Rightarrow> char" where
  "char_lower c = (if 65 \<le> code c \<and> code c \<le> 90 then char_of (code c + 32) else c)"

definition char_upper :: "char \<Rightarrow> char" where
  "char_upper c = (if 97 \<le> code c \<and> code c \<le> 122 then char_of (code c - 32) else c)"

section \<open>Methods of str\<close>

definition lower :: "string \<Rightarrow> string" where "lower s = map char_lower s"
definition upper :: "string \<Rightarrow> string" where "upper s = map char_upper s"

definition strip_where :: "(char \<Rightarrow> bool) \<Rightarrow> string \<Rightarrow> string" where
  "strip_where P s = rev (dropWhile P (rev (dropWhile P s)))"

definition strip :: "string \<Rightarrow> string" where "strip s = strip_where py_isspace s"

definition rstrip_char :: "char \<Rightarrow> string \<Rightarrow> string" where
  "rstrip_char c s = rev (dropWhile (\<lambda>x. x = c) (rev s))"

definition removesuffix :: "string \<Rightarrow> string \<Rightarrow> string" where
  "removesuffix suf s = (if suf \<noteq> [] \<and> suffix suf s then take (length s - length suf) s else s)"

text \<open>\<open>s.replace(p, '')\<close> for a nonempty \<open>p\<close>: left to right, without overlaps.\<close>

function remove_all :: "string \<Rightarrow> string \<Rightarrow> string" where
  "remove_all p [] = []"
| "remove_all p (c # cs) =
     (if p \<noteq> [] \<and> prefix p (c # cs) then remove_all p (drop (length p) (c # cs))
      else c # remove_all p cs)"
  by pat_completeness auto
termination
  by (relation "measure (\<lambda>(p, s). length s)") (auto simp: Suc_le_eq neq_Nil_conv)

text \<open>\<open>s.split(c)\<close> and \<open>c.join(parts)\<close> for a one-character separator.\<close>

fun split_on :: "char \<Rightarrow> string \<Rightarrow> string list" where
  "split_on c [] = [[]]"
| "split_on c (x # xs) =
     (if x = c then [] # split_on c xs
      else (case split_on c xs of [] \<Rightarrow> [[x]] | p # ps \<Rightarrow> (x # p) # ps))"

fun join_with :: "string \<Rightarrow> string list \<Rightarrow> string" where
  "join_with sep [] = []"
| "join_with sep [x] = x"
| "join_with sep (x # y # ys) = x @ sep @ join_with sep (y # ys)"

text \<open>\<open>s.partition(c)\<close>: the text before the first separator, whether it was found, the rest.\<close>

definition partition_on :: "char \<Rightarrow> string \<Rightarrow> string \<times> bool \<times> string" where
  "partition_on c s =
     (let a = takeWhile (\<lambda>x. x \<noteq> c) s; b = dropWhile (\<lambda>x. x \<noteq> c) s
      in (a, b \<noteq> [], drop 1 b))"

section \<open>Hexadecimal digits\<close>

definition hex_digit :: "int \<Rightarrow> char" where
  "hex_digit d = char_of (if d < 10 then d + 48 else d + 87)"

section \<open>The int parser\<close>

definition digit_value :: "char \<Rightarrow> int option" where
  "digit_value c =
     (let n = code c in
      if 48 \<le> n \<and> n \<le> 57 then Some (n - 48)
      else if 97 \<le> n \<and> n \<le> 122 then Some (n - 87)
      else if 65 \<le> n \<and> n \<le> 90 then Some (n - 55)
      else None)"

definition is_digit_in :: "int \<Rightarrow> char \<Rightarrow> bool" where
  "is_digit_in base c = (case digit_value c of None \<Rightarrow> False | Some d \<Rightarrow> d < base)"

text \<open>
  Digits with single underscores between them; the result is the number, how many digits were
  read and the rest of the text.  \<open>u\<close> says that the previous character was an underscore.
\<close>

fun scan_digits :: "int \<Rightarrow> bool \<Rightarrow> int \<Rightarrow> nat \<Rightarrow> string \<Rightarrow> (int \<times> nat \<times> string) option" where
  "scan_digits base u acc k [] = (if u then None else Some (acc, k, []))"
| "scan_digits base u acc k (c # cs) =
     (if c = CHR ''_'' then (if u then None else scan_digits base True acc k cs)
      else if is_digit_in base c
           then scan_digits base False (acc * base + the (digit_value c)) (Suc k) cs
           else if u then None else Some (acc, k, c # cs))"

definition py_int :: "int \<Rightarrow> string \<Rightarrow> int option" where
  "py_int base s =
     (let s1 = dropWhile c_isspace s;
          (neg, s2) = (case s1 of
             CHR ''+'' # r \<Rightarrow> (False, r) | CHR ''-'' # r \<Rightarrow> (True, r) | _ \<Rightarrow> (False, s1));
          s3 = (if base = 16 \<and> (prefix ''0x'' s2 \<or> prefix ''0X'' s2)
                then (let r = drop 2 s2 in if prefix ''_'' r then drop 1 r else r) else s2)
      in if prefix ''_'' s3 then None
         else case scan_digits base False 0 0 s3 of
             None \<Rightarrow> None
           | Some (n, k, rest) \<Rightarrow>
               if k = 0 \<or> dropWhile c_isspace rest \<noteq> [] \<or> (base = 10 \<and> 4300 < k) then None
               else Some (if neg then - n else n))"

section \<open>Lemmas\<close>

lemma code_nat: "code c = int (of_char c)"
  unfolding code_def by (rule of_nat_of_char [symmetric])

lemma code_range: "0 \<le> code c" "code c < 256"
  using nat_of_char_less_256 [of c] by (simp_all add: code_nat)

lemma char_of_code: "char_of (code c) = c"
  by (simp add: code_def)

lemma remove_all_id: "p \<noteq> [] \<Longrightarrow> hd p \<notin> set s \<Longrightarrow> remove_all p s = s"
  by (induction p s rule: remove_all.induct) (auto simp: prefix_def neq_Nil_conv)

lemma remove_all_char: "remove_all [c] s = filter (\<lambda>x. x \<noteq> c) s"
  by (induction s) auto

lemma strip_where_id: "s \<noteq> [] \<Longrightarrow> \<not> P (hd s) \<Longrightarrow> \<not> P (last s) \<Longrightarrow> strip_where P s = s"
  by (simp add: strip_where_def dropWhile_eq_self_iff [THEN iffD2] hd_rev)

lemma scan_digits_all:
  assumes "\<forall>c \<in> set s. is_digit_in base c \<and> c \<noteq> CHR ''_''"
  shows "scan_digits base False acc k s =
    Some (foldl (\<lambda>a c. a * base + the (digit_value c)) acc s, k + length s, [])"
  using assms by (induction s arbitrary: acc k) auto

definition hex_chars :: "char set" where
  "hex_chars = set ''0123456789abcdef''"

lemma nibble_cases: "0 \<le> d \<Longrightarrow> d < 16 \<Longrightarrow> d \<in> set [0..15 :: int]"
  by simp

lemma hex_digit_all: "\<forall>d \<in> set [0..15]. hex_digit d \<in> hex_chars \<and> digit_value (hex_digit d) = Some d"
  by code_simp

lemma hex_digit_ok:
  "0 \<le> d \<Longrightarrow> d < 16 \<Longrightarrow> hex_digit d \<in> hex_chars \<and> digit_value (hex_digit d) = Some d"
  using hex_digit_all nibble_cases by blast

end
