(* ===== verification/Uuid7.thy ===== *)
theory Uuid7
  imports PyStr
begin

unbundle bit_operations_syntax

text \<open>
  The UUIDv7 generator and checker of \<open>backend/pentagon5_runtime/uuid7.py\<close>.  The module's two
  globals are the record \<open>uuid7_state\<close>; \<open>uuid7\<close> takes the clock reading and the 74 random bits
  of one call.  The lock makes a call atomic, so a process's calls are a sequence of steps.  The
  text form and its parser are those of Python's \<open>uuid.UUID\<close>.
\<close>

section \<open>Generation\<close>

record uuid7_state =
  last_millisecond :: int
  last_random :: int

definition uuid7_init :: uuid7_state where
  "uuid7_init = \<lparr>last_millisecond = -1, last_random = 0\<rparr>"

definition RANDOM_MASK :: int where "RANDOM_MASK = push_bit 74 1 - 1"

text \<open>The new values of the two globals.\<close>

definition uuid7_tick :: "int \<Rightarrow> int \<Rightarrow> uuid7_state \<Rightarrow> uuid7_state" where
  "uuid7_tick time_ns randbits s =
     (let ms = time_ns div 1000000 in
      if last_millisecond s < ms
      then \<lparr>last_millisecond = ms, last_random = randbits\<rparr>
      else
        let r = (last_random s + 1) AND RANDOM_MASK
        in \<lparr>last_millisecond = (if r = 0 then last_millisecond s + 1 else last_millisecond s),
            last_random = r\<rparr>)"

text \<open>The 128-bit value.\<close>

definition uuid7_value :: "uuid7_state \<Rightarrow> int" where
  "uuid7_value s =
     (let random_a = drop_bit 62 (last_random s);
          random_b = last_random s AND (push_bit 62 1 - 1)
      in push_bit 80 (last_millisecond s AND (push_bit 48 1 - 1)) OR push_bit 76 7 OR
         push_bit 64 random_a OR push_bit 62 2 OR random_b)"

definition uuid7 :: "int \<Rightarrow> int \<Rightarrow> uuid7_state \<Rightarrow> int \<times> uuid7_state" where
  "uuid7 time_ns randbits s =
     (let s' = uuid7_tick time_ns randbits s in (uuid7_value s', s'))"

text \<open>The identifiers of a sequence of calls.\<close>

fun uuid7_run :: "(int \<times> int) list \<Rightarrow> uuid7_state \<Rightarrow> int list \<times> uuid7_state" where
  "uuid7_run [] s = ([], s)"
| "uuid7_run ((t, r) # xs) s =
     (let (v, s') = uuid7 t r s; (vs, s'') = uuid7_run xs s' in (v # vs, s''))"

section \<open>The UUID class\<close>

text \<open>\<open>str(UUID(int=n))\<close>: 32 lowercase hexadecimal digits in groups of 8, 4, 4, 4 and 12.\<close>

fun hex_string :: "nat \<Rightarrow> int \<Rightarrow> string" where
  "hex_string 0 n = []"
| "hex_string (Suc k) n = hex_string k (n div 16) @ [hex_digit (n mod 16)]"

definition uuid_str :: "int \<Rightarrow> string" where
  "uuid_str n =
     (let h = hex_string 32 n in
      take 8 h @ ''-'' @ take 4 (drop 8 h) @ ''-'' @ take 4 (drop 12 h) @ ''-'' @
      take 4 (drop 16 h) @ ''-'' @ drop 20 h)"

text \<open>\<open>UUID(value)\<close> for a string.\<close>

definition uuid_of_str :: "string \<Rightarrow> int res" where
  "uuid_of_str value =
     (let h = remove_all ''uuid:'' (remove_all ''urn:'' value);
          h = remove_all ''-'' (strip_where (\<lambda>c. c = CHR ''{'' \<or> c = CHR ''}'') h)
      in if length h \<noteq> 32 then Inl (ValueError ''badly formed hexadecimal UUID string'')
         else case py_int 16 h of
             None \<Rightarrow> Inl (ValueError ''invalid literal for int() with base 16'')
           | Some n \<Rightarrow>
               if 0 \<le> n \<and> n < push_bit 128 1 then Inr n
               else Inl (ValueError ''int is out of range (need a 128-bit value)''))"

text \<open>The RFC 4122 variant, and the version, which is only defined for that variant.\<close>

definition uuid_rfc4122 :: "int \<Rightarrow> bool" where
  "uuid_rfc4122 n \<longleftrightarrow> n AND push_bit 48 32768 \<noteq> 0 \<and> n AND push_bit 48 16384 = 0"

definition uuid_version :: "int \<Rightarrow> int option" where
  "uuid_version n = (if uuid_rfc4122 n then Some (drop_bit 76 n AND 15) else None)"

definition is_uuid7 :: "string \<Rightarrow> bool" where
  "is_uuid7 value =
     (case uuid_of_str value of
        Inl _ \<Rightarrow> False
      | Inr n \<Rightarrow> uuid_str n = value \<and> uuid_version n = Some 7 \<and> uuid_rfc4122 n)"

section \<open>Arithmetic form of the value\<close>

lemma push_bit_or_add: "0 \<le> b \<Longrightarrow> b < 2 ^ n \<Longrightarrow> push_bit n a OR b = a * 2 ^ n + (b :: int)"
proof -
  assume b: "0 \<le> b" "b < 2 ^ n"
  then have t: "take_bit n b = b" by (simp add: take_bit_int_eq_self)
  have "push_bit n a AND b = push_bit n a AND take_bit n b" by (simp add: t)
  also have "\<dots> = 0" by (rule bit_eqI) (auto simp: bit_simps)
  finally have "push_bit n a + b = push_bit n a OR b" by (rule disjunctive_add_eq_or)
  then show ?thesis by (simp add: push_bit_eq_mult)
qed

lemma and_mask_mod: "a AND (push_bit n 1 - 1) = a mod (2 :: int) ^ n"
  by (simp add: push_bit_eq_mult flip: mask_eq_exp_minus_1 take_bit_eq_mask take_bit_eq_mod)

definition state_ok :: "uuid7_state \<Rightarrow> bool" where
  "state_ok s \<longleftrightarrow> 0 \<le> last_random s \<and> last_random s < 2 ^ 74"

lemma uuid7_value_eq:
  assumes "state_ok s"
  shows "uuid7_value s = (last_millisecond s mod 2 ^ 48) * 2 ^ 80 + 7 * 2 ^ 76 +
    (last_random s div 2 ^ 62) * 2 ^ 64 + 2 * 2 ^ 62 + last_random s mod 2 ^ 62"
proof -
  define m a b where "m = last_millisecond s mod 2 ^ 48"
    and "a = last_random s div 2 ^ 62" and "b = last_random s mod 2 ^ 62"
  have a: "0 \<le> a" "a < 2 ^ 12" using assms by (auto simp: a_def state_ok_def)
  have b: "0 \<le> b" "b < 2 ^ 62" by (auto simp: b_def)
  have 1: "push_bit 62 2 OR b = 2 * 2 ^ 62 + b" using b by (rule push_bit_or_add)
  have 2: "push_bit 64 a OR (push_bit 62 2 OR b) = a * 2 ^ 64 + (2 * 2 ^ 62 + b)"
    unfolding 1 using b by (intro push_bit_or_add) auto
  have 3: "push_bit 76 7 OR (push_bit 64 a OR (push_bit 62 2 OR b))
      = 7 * 2 ^ 76 + (a * 2 ^ 64 + (2 * 2 ^ 62 + b))"
    unfolding 2 using a b by (intro push_bit_or_add) auto
  have 4: "push_bit 80 m OR (push_bit 76 7 OR (push_bit 64 a OR (push_bit 62 2 OR b)))
      = m * 2 ^ 80 + (7 * 2 ^ 76 + (a * 2 ^ 64 + (2 * 2 ^ 62 + b)))"
    unfolding 3 using a b by (intro push_bit_or_add) auto
  have "uuid7_value s = push_bit 80 m OR (push_bit 76 7 OR (push_bit 64 a OR (push_bit 62 2 OR b)))"
    by (simp only: uuid7_value_def Let_def and_mask_mod drop_bit_eq_div m_def a_def b_def)
  then show ?thesis unfolding 4 by (simp add: m_def a_def b_def)
qed

section \<open>Monotonicity\<close>

lemma tick_ok:
  assumes "state_ok s" "0 \<le> r" "r < 2 ^ 74"
  shows "state_ok (uuid7_tick t r s)"
  using assms by (auto simp: uuid7_tick_def Let_def state_ok_def RANDOM_MASK_def and_mask_mod)

text \<open>Millisecond and random part, read as one number, grow with every call.\<close>

definition uuid7_key :: "uuid7_state \<Rightarrow> int" where
  "uuid7_key s = last_millisecond s * 2 ^ 74 + last_random s"

lemma tick_key:
  assumes s: "state_ok s" and r: "0 \<le> r" "r < 2 ^ 74"
  shows "uuid7_key s < uuid7_key (uuid7_tick t r s)"
proof (cases "last_millisecond s < t div 1000000")
  case True
  then have "(last_millisecond s + 1) * 2 ^ 74 \<le> t div 1000000 * 2 ^ 74" by simp
  then show ?thesis
    using True s r by (simp add: uuid7_key_def uuid7_tick_def Let_def state_ok_def algebra_simps)
next
  case False
  show ?thesis
  proof (cases "last_random s + 1 = 2 ^ 74")
    case True
    with False show ?thesis
      by (simp add: uuid7_key_def uuid7_tick_def Let_def RANDOM_MASK_def and_mask_mod)
  next
    case small: False
    with s have "(last_random s + 1) mod 2 ^ 74 = last_random s + 1"
      by (auto simp: state_ok_def intro!: mod_pos_pos_trivial)
    then have "(last_random s + 1) AND RANDOM_MASK = last_random s + 1"
      by (simp only: RANDOM_MASK_def and_mask_mod)
    with False s show ?thesis
      by (simp add: uuid7_key_def uuid7_tick_def Let_def state_ok_def)
  qed
qed

lemma tick_millisecond: "last_millisecond s \<le> last_millisecond (uuid7_tick t r s)"
  by (auto simp: uuid7_tick_def Let_def)

lemma split_random_less:
  fixes r r' :: int
  assumes "r < r'"
  shows "(r div 2 ^ 62) * 2 ^ 64 + r mod 2 ^ 62 < (r' div 2 ^ 62) * 2 ^ 64 + r' mod 2 ^ 62"
proof -
  define a b a' b' where d: "a = r div 2 ^ 62" "b = r mod 2 ^ 62"
    "a' = r' div 2 ^ 62" "b' = r' mod 2 ^ 62"
  have r: "r = a * 2 ^ 62 + b" "r' = a' * 2 ^ 62 + b'" unfolding d by simp_all
  have b: "0 \<le> b" "b < 2 ^ 62" "0 \<le> b'" "b' < 2 ^ 62" unfolding d by simp_all
  have "a \<le> a'" unfolding d using assms by (intro zdiv_mono1) auto
  then consider "a = a'" | "a + 1 \<le> a'" by linarith
  then have "a * 2 ^ 64 + b < a' * 2 ^ 64 + b'"
  proof cases
    case 1
    then show ?thesis using assms r by simp
  next
    case 2
    then have "(a + 1) * 2 ^ 64 \<le> a' * 2 ^ 64" by simp
    then show ?thesis using b by (simp add: algebra_simps)
  qed
  then show ?thesis unfolding d .
qed

text \<open>While the milliseconds fit in 48 bits, the value is monotone in the key.\<close>

lemma value_less:
  assumes "state_ok s" "state_ok s'" "0 \<le> last_millisecond s" "last_millisecond s' < 2 ^ 48"
    and less: "uuid7_key s < uuid7_key s'"
  shows "uuid7_value s < uuid7_value s'"
proof -
  define m r m' r' where defs: "m = last_millisecond s" "r = last_random s"
    "m' = last_millisecond s'" "r' = last_random s'"
  have r: "0 \<le> r" "r < 2 ^ 74" "0 \<le> r'" "r' < 2 ^ 74"
    using assms(1,2) by (auto simp: state_ok_def defs)
  have key: "m * 2 ^ 74 + r < m' * 2 ^ 74 + r'" using less by (simp add: uuid7_key_def defs)
  then have mm: "m \<le> m'" using r by auto
  then have "0 \<le> m'" "m < 2 ^ 48" using assms(3,4) by (auto simp: defs)
  then have val: "uuid7_value s = m * 2 ^ 80 + 7 * 2 ^ 76 + (r div 2 ^ 62) * 2 ^ 64
        + 2 * 2 ^ 62 + r mod 2 ^ 62"
      "uuid7_value s' = m' * 2 ^ 80 + 7 * 2 ^ 76 + (r' div 2 ^ 62) * 2 ^ 64
        + 2 * 2 ^ 62 + r' mod 2 ^ 62"
    using assms by (simp_all add: uuid7_value_eq defs)
  have q: "0 \<le> r div 2 ^ 62" "r div 2 ^ 62 < 2 ^ 12" "0 \<le> r' div 2 ^ 62" "r' div 2 ^ 62 < 2 ^ 12"
    using r by auto
  show ?thesis
  proof (cases "m = m'")
    case True
    then have "r < r'" using key by simp
    then have "(r div 2 ^ 62) * 2 ^ 64 + r mod 2 ^ 62 < (r' div 2 ^ 62) * 2 ^ 64 + r' mod 2 ^ 62"
      by (rule split_random_less)
    then show ?thesis unfolding val using True by simp
  next
    case False
    then have "(m + 1) * 2 ^ 80 \<le> m' * 2 ^ 80" using mm by simp
    then show ?thesis unfolding val using q
      by (simp add: algebra_simps)
  qed
qed

section \<open>Sequences of calls\<close>

definition call_ok :: "int \<times> int \<Rightarrow> bool" where
  "call_ok c \<longleftrightarrow> 0 \<le> snd c \<and> snd c < 2 ^ 74"

lemma run_state:
  assumes "state_ok s" "\<forall>c \<in> set cs. call_ok c" "uuid7_run cs s = (vs, s')"
  shows "state_ok s' \<and> last_millisecond s \<le> last_millisecond s'"
  using assms
proof (induction cs arbitrary: s vs)
  case (Cons c cs)
  obtain t r where c: "c = (t, r)" by force
  let ?s1 = "uuid7_tick t r s"
  obtain ws where "uuid7_run cs ?s1 = (ws, s')"
    using Cons.prems(3) c by (auto simp: uuid7_def Let_def split: prod.splits)
  then have "state_ok s' \<and> last_millisecond ?s1 \<le> last_millisecond s'"
    using Cons.prems c by (intro Cons.IH) (auto simp: call_ok_def intro: tick_ok)
  then show ?case using tick_millisecond [of s t r] by simp
qed simp

text \<open>Everything generated from a state on is above the value that state produced.\<close>

lemma run_above:
  assumes "state_ok s" "0 \<le> last_millisecond s" "\<forall>c \<in> set cs. call_ok c"
    "uuid7_run cs s = (vs, s')" "last_millisecond s' < 2 ^ 48"
  shows "sorted_wrt (<) (uuid7_value s # vs)"
  using assms
proof (induction cs arbitrary: s vs)
  case (Cons c cs)
  obtain t r where c: "c = (t, r)" by force
  let ?s1 = "uuid7_tick t r s"
  have r: "0 \<le> r" "r < 2 ^ 74" using Cons.prems(3) c by (auto simp: call_ok_def)
  obtain ws where ws: "uuid7_run cs ?s1 = (ws, s')" and vs: "vs = uuid7_value ?s1 # ws"
    using Cons.prems(4) c by (auto simp: uuid7_def Let_def split: prod.splits)
  have ok: "state_ok ?s1" using Cons.prems(1) r by (rule tick_ok)
  have ms: "0 \<le> last_millisecond ?s1" using tick_millisecond [of s t r] Cons.prems(2) by simp
  have "last_millisecond ?s1 \<le> last_millisecond s'"
    using run_state [OF ok _ ws] Cons.prems(3) by simp
  then have "uuid7_value s < uuid7_value ?s1"
    using Cons.prems ok r tick_key by (intro value_less) auto
  moreover have "sorted_wrt (<) (uuid7_value ?s1 # ws)"
    using Cons.prems ok ms ws by (intro Cons.IH) auto
  ultimately show ?case unfolding vs by auto
qed simp

text \<open>A generated value is in range and carries the version and the variant.\<close>

lemma uuid7_value_range:
  assumes "state_ok s"
  shows "0 \<le> uuid7_value s \<and> uuid7_value s < 2 ^ 128"
proof -
  define m where "m = last_millisecond s mod 2 ^ 48"
  have m: "0 \<le> m" "m < 2 ^ 48" by (auto simp: m_def)
  have a: "0 \<le> last_random s div 2 ^ 62" "last_random s div 2 ^ 62 < 2 ^ 12"
    using assms by (auto simp: state_ok_def)
  have "m * 2 ^ 80 \<le> (2 ^ 48 - 1) * 2 ^ 80" using m by simp
  moreover have "last_random s div 2 ^ 62 * 2 ^ 64 \<le> (2 ^ 12 - 1) * 2 ^ 64" using a by simp
  moreover have "0 \<le> last_random s mod 2 ^ 62" "last_random s mod 2 ^ 62 < 2 ^ 62" by simp_all
  ultimately show ?thesis
    unfolding uuid7_value_eq [OF assms] m_def [symmetric] using m(1) a(1) by simp
qed

lemma and_bit: "n AND push_bit 48 32768 = 0 \<longleftrightarrow> \<not> bit (n :: int) 63"
    "n AND push_bit 48 16384 = 0 \<longleftrightarrow> \<not> bit n 62"
  using and_exp_eq_0_iff_not_bit [of n 63] and_exp_eq_0_iff_not_bit [of n 62]
  by (simp_all add: push_bit_eq_mult)

lemma uuid7_value_fields:
  assumes "state_ok s"
  shows "uuid_rfc4122 (uuid7_value s) \<and> uuid_version (uuid7_value s) = Some 7"
proof -
  define m a b where d: "m = last_millisecond s mod 2 ^ 48" "a = last_random s div 2 ^ 62"
    "b = last_random s mod 2 ^ 62"
  have a: "0 \<le> a" "a < 2 ^ 12" using assms by (auto simp: d state_ok_def)
  have b: "0 \<le> b" "b < 2 ^ 62" by (auto simp: d)
  have v: "uuid7_value s = m * 2 ^ 80 + 7 * 2 ^ 76 + a * 2 ^ 64 + 2 * 2 ^ 62 + b"
    using assms by (simp add: uuid7_value_eq d)
  have "uuid7_value s = (m * 2 ^ 18 + 7 * 2 ^ 14 + a * 2 ^ 2 + 2) * 2 ^ 62 + b"
    unfolding v by simp
  then have "uuid7_value s div 2 ^ 62 = m * 2 ^ 18 + 7 * 2 ^ 14 + a * 2 ^ 2 + 2"
    using b by simp
  then have 62: "\<not> bit (uuid7_value s) 62" by (simp add: bit_iff_odd)
  have "uuid7_value s = (m * 2 ^ 17 + 7 * 2 ^ 13 + a * 2 + 1) * 2 ^ 63 + b"
    unfolding v by simp
  then have "uuid7_value s div 2 ^ 63 = m * 2 ^ 17 + 7 * 2 ^ 13 + a * 2 + 1"
    using b by simp
  then have 63: "bit (uuid7_value s) 63" by (simp add: bit_iff_odd)
  have "a * 2 ^ 64 \<le> (2 ^ 12 - 1) * 2 ^ 64" using a by simp
  then have low: "0 \<le> a * 2 ^ 64 + 2 * 2 ^ 62 + b" "a * 2 ^ 64 + 2 * 2 ^ 62 + b < 2 ^ 76"
    using a b by auto
  have "uuid7_value s = (m * 2 ^ 4 + 7) * 2 ^ 76 + (a * 2 ^ 64 + 2 * 2 ^ 62 + b)"
    unfolding v by simp
  then have "uuid7_value s div 2 ^ 76 = m * 2 ^ 4 + 7" using low by simp
  then have "drop_bit 76 (uuid7_value s) AND 15 = 7"
    using and_mask_mod [of "uuid7_value s div 2 ^ 76" 4]
    by (simp add: drop_bit_eq_div push_bit_eq_mult)
  with 62 63 show ?thesis unfolding uuid_rfc4122_def uuid_version_def and_bit by simp
qed

section \<open>Text form\<close>

lemma hex_chars_ok:
  "c \<in> hex_chars \<Longrightarrow> is_digit_in 16 c \<and> \<not> c_isspace c \<and>
     c \<notin> {CHR ''_'', CHR ''-'', CHR ''+'', CHR ''x'', CHR ''X'', CHR ''u'', CHR ''{'', CHR ''}''}"
proof -
  have "\<forall>c \<in> set ''0123456789abcdef''. is_digit_in 16 c \<and> \<not> c_isspace c \<and>
     c \<notin> {CHR ''_'', CHR ''-'', CHR ''+'', CHR ''x'', CHR ''X'', CHR ''u'', CHR ''{'', CHR ''}''}"
    by code_simp
  then show "c \<in> hex_chars \<Longrightarrow> ?thesis" unfolding hex_chars_def by blast
qed

lemma length_hex_string [simp]: "length (hex_string k n) = k"
  by (induction k arbitrary: n) auto

lemma set_hex_string: "set (hex_string k n) \<subseteq> hex_chars"
proof (induction k arbitrary: n)
  case (Suc k)
  have "hex_digit (n mod 16) \<in> hex_chars" using hex_digit_ok [of "n mod 16"] by simp
  with Suc show ?case by simp
qed simp

lemma foldl_hex_string:
  "foldl (\<lambda>a c. a * 16 + the (digit_value c)) acc (hex_string k n) = acc * 16 ^ k + n mod 16 ^ k"
proof (induction k arbitrary: n)
  case (Suc k)
  have "digit_value (hex_digit (n mod 16)) = Some (n mod 16)"
    using hex_digit_ok [of "n mod 16"] by simp
  moreover have "n mod 16 ^ Suc k = n div 16 mod 16 ^ k * 16 + n mod 16"
    using zmod_zmult2_eq [of "16 ^ k" n 16] by simp
  ultimately show ?case by (simp add: Suc.IH distrib_right)
qed simp

lemma py_int_hex:
  assumes "0 < k"
  shows "py_int 16 (hex_string k n) = Some (n mod 16 ^ k)"
proof -
  define h where "h = hex_string k n"
  have all: "\<forall>c \<in> set h. is_digit_in 16 c \<and> c \<noteq> CHR ''_''"
    using set_hex_string [of k n] hex_chars_ok by (fastforce simp: h_def)
  obtain x xs where h: "h = x # xs" using assms by (cases h) (auto simp: h_def dest: arg_cong [of _ _ length])
  have x: "x \<in> hex_chars" and xs: "set xs \<subseteq> hex_chars"
    using set_hex_string [of k n] h by (auto simp: h_def)
  then have "\<not> prefix ''0x'' h" "\<not> prefix ''0X'' h" "\<not> prefix ''_'' h"
    using hex_chars_ok [of "hd xs"] hex_chars_ok [OF x] unfolding h by (cases xs; auto)+
  moreover have "dropWhile c_isspace h = h" using hex_chars_ok [OF x] by (simp add: h)
  moreover have "(case h of CHR ''+'' # r \<Rightarrow> (False, r) | CHR ''-'' # r \<Rightarrow> (True, r) | _ \<Rightarrow> (False, h))
      = (False, h)"
    using hex_chars_ok [OF x] unfolding h by (auto split: list.splits char.splits bool.splits)
  moreover have "scan_digits 16 False 0 0 h = Some (n mod 16 ^ k, k, [])"
    using scan_digits_all [OF all, of 0 0] foldl_hex_string [of 0 k n] by (simp add: h_def)
  ultimately show ?thesis using assms unfolding h_def [symmetric]
    by (simp add: py_int_def Let_def)
qed

lemma uuid_str_chars: "set (uuid_str n) \<subseteq> insert CHR ''-'' hex_chars"
  using set_hex_string [of 32 n]
  by (auto simp: uuid_str_def Let_def dest: in_set_takeD in_set_dropD)

lemma uuid_str_digits: "filter (\<lambda>c. c \<noteq> CHR ''-'') (uuid_str n) = hex_string 32 n"
proof -
  define h where "h = hex_string 32 n"
  have nd: "set h \<subseteq> {c. c \<noteq> CHR ''-''}" using set_hex_string [of 32 n] hex_chars_ok by (auto simp: h_def)
  have f: "filter (\<lambda>c. c \<noteq> CHR ''-'') xs = xs" if "set xs \<subseteq> set h" for xs
    using that nd by (intro filter_True) auto
  have "filter (\<lambda>c. c \<noteq> CHR ''-'') (uuid_str n)
      = take 8 h @ take 4 (drop 8 h) @ take 4 (drop 12 h) @ take 4 (drop 16 h) @ drop 20 h"
    unfolding uuid_str_def Let_def h_def [symmetric]
    by (simp add: f set_take_subset set_drop_subset
        subset_trans [OF set_take_subset set_drop_subset])
  also have "\<dots> = h"
    using append_take_drop_id [of 8 h] append_take_drop_id [of 4 "drop 8 h"]
      append_take_drop_id [of 4 "drop 12 h"] append_take_drop_id [of 4 "drop 16 h"]
    by simp
  finally show ?thesis by (simp add: h_def)
qed

lemma uuid_str_ends: "uuid_str n \<noteq> [] \<and> hd (uuid_str n) \<in> hex_chars \<and> last (uuid_str n) \<in> hex_chars"
proof -
  define h where "h = hex_string 32 n"
  have len: "length h = 32" and set: "set h \<subseteq> hex_chars"
    using set_hex_string by (auto simp: h_def)
  have "take 8 h \<noteq> []" "drop 20 h \<noteq> []" using len by auto
  then have "hd (take 8 h) \<in> set (take 8 h)" "last (drop 20 h) \<in> set (drop 20 h)"
    using hd_in_set last_in_set by blast+
  then have "hd (take 8 h) \<in> hex_chars" "last (drop 20 h) \<in> hex_chars"
    using set by (auto dest: in_set_takeD in_set_dropD)
  then show ?thesis using len unfolding uuid_str_def Let_def h_def [symmetric]
    by (auto simp: hd_append)
qed

text \<open>Printing and parsing are inverse on 128-bit values.\<close>

lemma uuid_round_trip:
  assumes "0 \<le> n" "n < 2 ^ 128"
  shows "uuid_of_str (uuid_str n) = Inr n"
proof -
  have u: "CHR ''u'' \<notin> set (uuid_str n)"
    using uuid_str_chars [of n] hex_chars_ok by auto
  then have "remove_all ''urn:'' (uuid_str n) = uuid_str n"
    and "remove_all ''uuid:'' (uuid_str n) = uuid_str n"
    by (auto intro!: remove_all_id)
  moreover have "strip_where (\<lambda>c. c = CHR ''{'' \<or> c = CHR ''}'') (uuid_str n) = uuid_str n"
    using uuid_str_ends [of n] hex_chars_ok by (intro strip_where_id) auto
  moreover have "n mod 16 ^ 32 = n" using assms by simp
  ultimately show ?thesis
    using py_int_hex [of 32 n] assms
    by (simp add: uuid_of_str_def Let_def remove_all_char uuid_str_digits push_bit_eq_mult)
qed

lemma is_uuid7_iff:
  "is_uuid7 s \<longleftrightarrow>
     (\<exists>n. 0 \<le> n \<and> n < 2 ^ 128 \<and> s = uuid_str n \<and> uuid_rfc4122 n \<and> uuid_version n = Some 7)"
proof
  assume "is_uuid7 s"
  then obtain n where n: "uuid_of_str s = Inr n" "uuid_str n = s" "uuid_version n = Some 7"
    "uuid_rfc4122 n"
    by (auto simp: is_uuid7_def split: sum.splits)
  then have "0 \<le> n \<and> n < 2 ^ 128"
    by (auto simp: uuid_of_str_def Let_def push_bit_eq_mult split: if_splits option.splits)
  with n show "\<exists>n. 0 \<le> n \<and> n < 2 ^ 128 \<and> s = uuid_str n \<and> uuid_rfc4122 n \<and> uuid_version n = Some 7"
    by blast
next
  assume "\<exists>n. 0 \<le> n \<and> n < 2 ^ 128 \<and> s = uuid_str n \<and> uuid_rfc4122 n \<and> uuid_version n = Some 7"
  then show "is_uuid7 s" by (auto simp: is_uuid7_def uuid_round_trip)
qed

lemma uuid_str_inj:
  "0 \<le> n \<Longrightarrow> n < 2 ^ 128 \<Longrightarrow> 0 \<le> m \<Longrightarrow> m < 2 ^ 128 \<Longrightarrow> uuid_str n = uuid_str m \<longleftrightarrow> n = m"
  by (metis Inr_inject uuid_round_trip)

text \<open>What one call returns and leaves behind.\<close>

lemma uuid7_ok:
  assumes "state_ok s" "0 \<le> randbits" "randbits < 2 ^ 74" "uuid7 time_ns randbits s = (v, s')"
  shows "0 \<le> v \<and> v < 2 ^ 128 \<and> uuid_rfc4122 v \<and> uuid_version v = Some 7 \<and>
    is_uuid7 (uuid_str v) \<and> state_ok s'"
proof -
  have s': "s' = uuid7_tick time_ns randbits s" and v: "v = uuid7_value s'"
    using assms(4) by (auto simp: uuid7_def Let_def)
  have ok: "state_ok s'" unfolding s' using assms by (intro tick_ok)
  show ?thesis
    using uuid7_value_range [OF ok] uuid7_value_fields [OF ok] ok
    unfolding v is_uuid7_iff by blast
qed

end
