(* ===== verification/Uuid7_Properties.thy ===== *)
theory Uuid7_Properties
  imports Uuid7
begin

text \<open>
  The correctness properties of the identifier generator and of the strict UUIDv7 checker.
\<close>

lemma state_ok_init: "state_ok uuid7_init"
  by (simp add: state_ok_def uuid7_init_def)

text \<open>C5: The identifiers a process generates are strictly increasing, whatever the clock does: for
  any sequence of calls, with clock readings that stall or run backwards and arbitrary 74-bit
  random draws, each value is greater than all before it, as long as the generator's millisecond
  counter stays below 2 to the 48.\<close>

theorem uuid7_strictly_increasing:
  assumes "0 \<le> time_ns" "0 \<le> randbits" "randbits < 2 ^ 74"
    and "\<forall>c \<in> set cs. 0 \<le> snd c \<and> snd c < 2 ^ 74"
    and "uuid7_run ((time_ns, randbits) # cs) uuid7_init = (vs, s')" "last_millisecond s' < 2 ^ 48"
  shows "sorted_wrt (<) vs"
proof -
  let ?s1 = "uuid7_tick time_ns randbits uuid7_init"
  obtain ws where ws: "uuid7_run cs ?s1 = (ws, s')" "vs = uuid7_value ?s1 # ws"
    using assms(5) by (auto simp: uuid7_def Let_def split: prod.splits)
  have "0 \<le> time_ns div 1000000" using assms(1) by simp
  then have "0 \<le> last_millisecond ?s1" by (simp add: uuid7_tick_def Let_def uuid7_init_def)
  then show ?thesis
    unfolding ws(2) using assms(2,3,4,6) ws(1) tick_ok [OF state_ok_init]
    by (intro run_above) (auto simp: call_ok_def)
qed

lemma uuid7_strictly_increasing_witness:
  "sorted_wrt (<) (fst (uuid7_run [(5000000, 2 ^ 74 - 1), (4000000, 3), (4000000, 9)] uuid7_init))"
proof -
  let ?cs = "[(4000000, 3), (4000000, 9)] :: (int \<times> int) list"
  let ?run = "uuid7_run ((5000000, 2 ^ 74 - 1) # ?cs) uuid7_init"
  have "last_millisecond (snd ?run) < 2 ^ 48" by code_simp
  then show ?thesis
    using uuid7_strictly_increasing [of 5000000 "2 ^ 74 - 1" ?cs "fst ?run" "snd ?run"] by simp
qed

text \<open>C6: Every generated identifier is a 128-bit number with the RFC 4122 variant and version 7, its
  canonical text is accepted by the strict checker, and the generator keeps its random part
  within 74 bits for the next call.\<close>

theorem uuid7_well_formed:
  assumes "state_ok s" "0 \<le> randbits" "randbits < 2 ^ 74" "uuid7 time_ns randbits s = (v, s')"
  shows "0 \<le> v \<and> v < 2 ^ 128 \<and> uuid_rfc4122 v \<and> uuid_version v = Some 7 \<and>
    is_uuid7 (uuid_str v) \<and> state_ok s'"
  using assms by (rule uuid7_ok)

lemma uuid7_well_formed_witness:
  "is_uuid7 (uuid_str (fst (uuid7 1700000000000000000 42 uuid7_init)))"
  using uuid7_well_formed [OF state_ok_init, of 42 1700000000000000000
      "fst (uuid7 1700000000000000000 42 uuid7_init)" "snd (uuid7 1700000000000000000 42 uuid7_init)"]
  by simp

text \<open>C7: The strict checker accepts exactly the canonical texts (32 lowercase hexadecimal digits
  grouped by dashes) of 128-bit values whose variant is RFC 4122 and whose version is 7; braces,
  URN prefixes, upper case and missing dashes are all rejected.\<close>

theorem is_uuid7_exactly_canonical:
  "is_uuid7 s \<longleftrightarrow>
     (\<exists>n. 0 \<le> n \<and> n < 2 ^ 128 \<and> s = uuid_str n \<and> uuid_rfc4122 n \<and> uuid_version n = Some 7)"
  by (rule is_uuid7_iff)

end
