(* ===== verification/PyJson.thy ===== *)
theory PyJson
  imports PyStr PyDecimal
begin

text \<open>
  Values of \<open>json.loads\<close>, with the subscript and type tests the source applies to them, and the
  binary floating-point numbers and timestamps it makes of their numbers.

  A JSON object is an association list with distinct keys in insertion order.
\<close>

section \<open>Floating-point numbers\<close>

text \<open>\<open>FFin m e\<close> is \<open>m * 2^e\<close> with \<open>\<bar>m\<bar> \<le> 2^53\<close>; \<open>FInf True\<close> is minus infinity.\<close>

datatype pyfloat = FFin int int | FInf bool | FNaN

function nbits :: "int \<Rightarrow> nat" where
  "nbits n = (if n < 2 then 1 else Suc (nbits (n div 2)))"
  by pat_completeness auto
termination
  by (relation "measure nat") auto

declare nbits.simps [simp del]

text \<open>Rounding of an integer to 53 significant bits: the mantissa and the exponent.\<close>

definition round53 :: "int \<Rightarrow> int \<times> int" where
  "round53 n =
     (let k = nbits \<bar>n\<bar> in
      if k \<le> 53 then (n, 0)
      else (sgn n * round_half_even \<bar>n\<bar> (2 ^ (k - 53)), int (k - 53)))"

text \<open>\<open>float(n)\<close> for an integer raises when the rounded value is not below \<open>2^1024\<close>.\<close>

definition float_of_int :: "int \<Rightarrow> pyfloat res" where
  "float_of_int n =
     (let (m, e) = round53 n in
      if 2 ^ 1024 \<le> \<bar>m\<bar> * 2 ^ nat e then Inl OverflowError else Inr (FFin m e))"

section \<open>Timestamps\<close>

text \<open>
  \<open>datetime.fromtimestamp(t, tz=UTC)\<close> for whole seconds and microseconds: a \<open>time_t\<close> is 64 bits
  wide, \<open>gmtime\<close> fails when the year does not fit in an \<open>int\<close>, and a \<open>datetime\<close> has years 1 to
  9999.  The result is in microseconds since the epoch.
\<close>

definition datetime_of_parts :: "int \<Rightarrow> int \<Rightarrow> int res" where
  "datetime_of_parts secs us =
     (if secs < - (2 ^ 63) \<or> 2 ^ 63 \<le> secs then Inl OverflowError
      else if secs < -67768040609740800 \<or> 67768036191676799 < secs then Inl OSError
      else if secs < -62135596800 \<or> 253402300799 < secs
           then Inl (ValueError ''year is out of range'')
      else Inr (secs * 1000000 + us))"

text \<open>A float is split at the point, and its fraction is scaled in floating point and rounded.\<close>

fun fromtimestamp_float :: "pyfloat \<Rightarrow> int res" where
  "fromtimestamp_float (FInf _) = Inl OverflowError"
| "fromtimestamp_float FNaN = Inl (ValueError ''Invalid value NaN (not a number)'')"
| "fromtimestamp_float (FFin m e) =
     (if 0 \<le> e then datetime_of_parts (m * 2 ^ nat e) 0
      else
        let d = 2 ^ nat (- e);
            secs = sgn m * (\<bar>m\<bar> div d);
            (q, s) = round53 (sgn m * (\<bar>m\<bar> mod d) * 1000000);
            us = sgn q * round_half_even (\<bar>q\<bar> * 2 ^ nat s) d
        in if 1000000 \<le> us then datetime_of_parts (secs + 1) (us - 1000000)
           else if us < 0 then datetime_of_parts (secs - 1) (us + 1000000)
           else datetime_of_parts secs us)"

section \<open>JSON values\<close>

datatype json =
    JNull
  | JBool bool
  | JInt int
  | JFloat pyfloat
  | JStr string
  | JArr "json list"
  | JObj "(string \<times> json) list"

text \<open>\<open>v[k]\<close> with a string key, \<open>v[i]\<close> with an integer, and \<open>d.get(k)\<close> on a dict.\<close>

fun subscript_key :: "json \<Rightarrow> string \<Rightarrow> json res" where
  "subscript_key (JObj d) k = (case map_of d k of None \<Rightarrow> Inl (KeyError k) | Some v \<Rightarrow> Inr v)"
| "subscript_key (JArr _) k = Inl (TypeError ''list indices must be integers or slices'')"
| "subscript_key (JStr _) k = Inl (TypeError ''string indices must be integers'')"
| "subscript_key _ k = Inl (TypeError ''object is not subscriptable'')"

definition py_index :: "'a list \<Rightarrow> int \<Rightarrow> 'a res" where
  "py_index xs i =
     (if 0 \<le> i \<and> i < int (length xs) then Inr (xs ! nat i)
      else if i < 0 \<and> - int (length xs) \<le> i then Inr (rev xs ! nat (- i - 1))
      else Inl IndexError)"

fun subscript_index :: "json \<Rightarrow> int \<Rightarrow> json res" where
  "subscript_index (JArr xs) i = py_index xs i"
| "subscript_index (JStr s) i = rbind (py_index s i) (\<lambda>c. Inr (JStr [c]))"
| "subscript_index (JObj _) i = Inl (KeyError '''')"
| "subscript_index _ i = Inl (TypeError ''object is not subscriptable'')"

definition dict_get :: "(string \<times> json) list \<Rightarrow> string \<Rightarrow> json" where
  "dict_get d k = (case map_of d k of None \<Rightarrow> JNull | Some v \<Rightarrow> v)"

text \<open>Values that cannot be a member of a set: \<open>v in {...}\<close> raises for them.\<close>

fun unhashable :: "json \<Rightarrow> bool" where
  "unhashable (JArr _) = True"
| "unhashable (JObj _) = True"
| "unhashable _ = False"

fun is_jstr :: "json \<Rightarrow> bool" where
  "is_jstr (JStr _) = True"
| "is_jstr _ = False"

lemma py_index_nonneg:
  "0 \<le> i \<Longrightarrow> py_index xs i = (if i < int (length xs) then Inr (xs ! nat i) else Inl IndexError)"
  by (simp add: py_index_def Let_def)

lemma py_index_error: "py_index xs i = Inl e \<Longrightarrow> e = IndexError"
  by (auto simp: py_index_def Let_def split: if_splits)

end
