(* ===== verification/Market_Data.thy ===== *)
theory Market_Data
  imports PyJson
begin

text \<open>
  Market data, \<open>src/marketdata\<close>: the quote and bar dataclasses (\<open>models.py\<close>), the fixed-value
  mock provider and the Yahoo Finance provider (\<open>provider.py\<close>).  The HTTP client is a parameter
  \<open>http\<close>: the JSON body of a successful response, or the exception that \<open>client.get\<close>,
  \<open>raise_for_status\<close> or \<open>response.json\<close> raised.
\<close>

section \<open>Models\<close>

record quote =
  quo_symbol :: string
  quo_bid :: pyfloat
  quo_ask :: pyfloat
  quo_last_price :: pyfloat
  quo_volume :: pyfloat
  quo_timestamp :: int

record ohlcv =
  bar_symbol :: string
  bar_open :: pyfloat
  bar_high :: pyfloat
  bar_low :: pyfloat
  bar_close :: pyfloat
  bar_volume :: pyfloat
  bar_timestamp :: int
  bar_interval :: string

section \<open>Mock provider\<close>

text \<open>
  The literals as the doubles nearest to them; the timestamp is noon of 1 January 2026.
\<close>

definition mock_connect :: "('s, unit) op" where "mock_connect = ret ()"
definition mock_disconnect :: "('s, unit) op" where "mock_disconnect = ret ()"
definition mock_subscribe :: "string \<Rightarrow> ('s, unit) op" where "mock_subscribe symbol = ret ()"

definition mock_get_quote :: "string \<Rightarrow> quote" where
  "mock_get_quote symbol =
     \<lparr>quo_symbol = symbol, quo_bid = FFin 100 0,
      quo_ask = FFin 7043911292184166 (-46), quo_last_price = FFin 7040392854975283 (-46),
      quo_volume = FFin 1000 0, quo_timestamp = 1767268800000000\<rparr>"

definition mock_get_ohlcv :: "string \<Rightarrow> ohlcv" where
  "mock_get_ohlcv symbol =
     \<lparr>bar_symbol = symbol, bar_open = FFin 199 (-1), bar_high = FFin 101 0, bar_low = FFin 99 0,
      bar_close = FFin 7040392854975283 (-46), bar_volume = FFin 10000 0,
      bar_timestamp = 1767268800000000, bar_interval = ''1m''\<rparr>"

section \<open>Yahoo provider: state\<close>

text \<open>
  \<open>http_client\<close> is whether \<open>_client\<close> is set; a client that \<open>connect\<close> makes and one that was
  passed in are used in the same way.
\<close>

record yahoo =
  http_client :: bool
  subscriptions :: "string set"

definition new_yahoo :: "bool \<Rightarrow> yahoo" where
  "new_yahoo client = \<lparr>http_client = client, subscriptions = {}\<rparr>"

definition yahoo_connect :: "(yahoo, unit) op" where
  "yahoo_connect = modify (\<lambda>y. if http_client y then y else y\<lparr>http_client := True\<rparr>)"

definition yahoo_disconnect :: "(yahoo, unit) op" where
  "yahoo_disconnect = modify (\<lambda>y. if http_client y then y\<lparr>http_client := False\<rparr> else y)"

definition normal_symbol :: "string \<Rightarrow> string res" where
  "normal_symbol symbol =
     (let normalized = upper (strip symbol)
      in if normalized = [] then Inl (ValueError ''symbol must not be empty'') else Inr normalized)"

definition yahoo_subscribe :: "string \<Rightarrow> (yahoo, unit) op" where
  "yahoo_subscribe symbol =
     bind (lift (normal_symbol symbol)) (\<lambda>s.
     modify (\<lambda>y. y\<lparr>subscriptions := insert s (subscriptions y)\<rparr>))"

section \<open>Yahoo provider: parsing\<close>

fun py_float :: "json \<Rightarrow> string \<Rightarrow> pyfloat res" where
  "py_float (JInt n) key = float_of_int n"
| "py_float (JFloat f) key = Inr f"
| "py_float _ key = Inl (TypeError (key @ '' must be numeric''))"

definition json_number :: "json \<Rightarrow> string \<Rightarrow> pyfloat res" where
  "json_number vals key = rbind (subscript_key vals key) (\<lambda>v. py_float v key)"

definition array_number :: "json \<Rightarrow> string \<Rightarrow> int \<Rightarrow> pyfloat res" where
  "array_number vals key index =
     rbind (subscript_key vals key) (\<lambda>items.
       case items of
         JArr xs \<Rightarrow> rbind (py_index xs index) (\<lambda>x. json_number (JObj [(''value'', x)]) ''value'')
       | _ \<Rightarrow> Inl (TypeError (key @ '' must be an array'')))"

fun json_timestamp :: "json \<Rightarrow> int res" where
  "json_timestamp (JInt n) = datetime_of_parts n 0"
| "json_timestamp (JFloat f) = fromtimestamp_float f"
| "json_timestamp _ = Inl (TypeError ''timestamp must be numeric'')"

definition candle_keys :: "string list" where
  "candle_keys = [''open'', ''high'', ''low'', ''close'', ''volume'']"

text \<open>One key has a value at the index: \<open>values.get(key)\<close> is a list, long enough, not \<open>None\<close>.\<close>

definition has_value :: "(string \<times> json) list \<Rightarrow> nat \<Rightarrow> string \<Rightarrow> bool" where
  "has_value vals i key =
     (case dict_get vals key of JArr xs \<Rightarrow> i < length xs \<and> xs ! i \<noteq> JNull | _ \<Rightarrow> False)"

text \<open>The loop \<open>for index in range(n - 1, -1, -1)\<close>; its argument is the number of indices left.\<close>

fun latest_from :: "(string \<times> json) list \<Rightarrow> nat \<Rightarrow> int res" where
  "latest_from vals 0 = Inl (ValueError ''OHLCV series has no complete candle'')"
| "latest_from vals (Suc i) =
     (if list_all (has_value vals i) candle_keys then Inr (int i) else latest_from vals i)"

definition latest_complete_index :: "json \<Rightarrow> json \<Rightarrow> int res" where
  "latest_complete_index timestamps vals =
     (case (timestamps, vals) of
        (JArr ts, JObj d) \<Rightarrow> latest_from d (length ts)
      | _ \<Rightarrow> Inl (TypeError ''OHLCV series must contain arrays''))"

section \<open>Yahoo provider: requests\<close>

text \<open>\<open>except (IndexError, KeyError, TypeError, ValueError) as error: raise X from error\<close>.\<close>

fun is_parse_error :: "exn \<Rightarrow> bool" where
  "is_parse_error IndexError = True"
| "is_parse_error (KeyError _) = True"
| "is_parse_error (TypeError _) = True"
| "is_parse_error (ValueError _) = True"
| "is_parse_error _ = False"

definition wrap_errors :: "(exn \<Rightarrow> bool) \<Rightarrow> string \<Rightarrow> 'a res \<Rightarrow> 'a res" where
  "wrap_errors P msg r =
     (case r of Inl e \<Rightarrow> if P e then Inl (MarketDataProviderError msg) else Inl e | Inr x \<Rightarrow> Inr x)"

text \<open>\<open>except (httpx.HTTPError, ValueError)\<close>.\<close>

fun is_http_error :: "exn \<Rightarrow> bool" where
  "is_http_error HTTPError = True"
| "is_http_error (ValueError _) = True"
| "is_http_error _ = False"

type_synonym http_get = "string \<Rightarrow> (string \<times> string) list \<Rightarrow> json res"

definition get_json :: "http_get \<Rightarrow> string \<Rightarrow> (string \<times> string) list \<Rightarrow> (yahoo, json) op" where
  "get_json http path params =
     bind yahoo_connect (\<lambda>_.
     bind (lift (wrap_errors is_http_error ''Yahoo Finance request failed'' (http path params)))
       (\<lambda>payload.
     case payload of
       JObj d \<Rightarrow> ret payload
     | _ \<Rightarrow> raise (MarketDataProviderError ''Yahoo Finance returned a malformed response'')))"

definition parse_quote :: "string \<Rightarrow> json \<Rightarrow> quote res" where
  "parse_quote normalized payload =
     rbind (subscript_key payload ''quoteResponse'') (\<lambda>r1.
     rbind (subscript_key r1 ''result'') (\<lambda>r2.
     rbind (subscript_index r2 0) (\<lambda>r.
     rbind (json_number r ''bid'') (\<lambda>bid.
     rbind (json_number r ''ask'') (\<lambda>ask.
     rbind (json_number r ''regularMarketPrice'') (\<lambda>last_price.
     rbind (json_number r ''regularMarketVolume'') (\<lambda>volume.
     rbind (subscript_key r ''regularMarketTime'') (\<lambda>t.
     rbind (json_timestamp t) (\<lambda>ts.
     Inr \<lparr>quo_symbol = normalized, quo_bid = bid, quo_ask = ask, quo_last_price = last_price,
       quo_volume = volume, quo_timestamp = ts\<rparr>)))))))))"

definition yahoo_get_quote :: "http_get \<Rightarrow> string \<Rightarrow> (yahoo, quote) op" where
  "yahoo_get_quote http symbol =
     bind (lift (normal_symbol symbol)) (\<lambda>normalized.
     bind (get_json http ''/v7/finance/quote'' [(''symbols'', normalized)]) (\<lambda>payload.
     lift (wrap_errors is_parse_error
       (''Yahoo Finance returned invalid quote data for '' @ normalized)
       (parse_quote normalized payload))))"

definition parse_ohlcv :: "string \<Rightarrow> json \<Rightarrow> ohlcv res" where
  "parse_ohlcv normalized payload =
     rbind (subscript_key payload ''chart'') (\<lambda>r1.
     rbind (subscript_key r1 ''result'') (\<lambda>r2.
     rbind (subscript_index r2 0) (\<lambda>r.
     rbind (subscript_key r ''timestamp'') (\<lambda>timestamps.
     rbind (subscript_key r ''indicators'') (\<lambda>v1.
     rbind (subscript_key v1 ''quote'') (\<lambda>v2.
     rbind (subscript_index v2 0) (\<lambda>vals.
     rbind (latest_complete_index timestamps vals) (\<lambda>index.
     rbind (array_number vals ''open'' index) (\<lambda>op.
     rbind (array_number vals ''high'' index) (\<lambda>hi.
     rbind (array_number vals ''low'' index) (\<lambda>lo.
     rbind (array_number vals ''close'' index) (\<lambda>cl.
     rbind (array_number vals ''volume'' index) (\<lambda>vol.
     rbind (subscript_index timestamps index) (\<lambda>t.
     rbind (json_timestamp t) (\<lambda>ts.
     Inr \<lparr>bar_symbol = normalized, bar_open = op, bar_high = hi, bar_low = lo, bar_close = cl,
       bar_volume = vol, bar_timestamp = ts, bar_interval = ''1m''\<rparr>)))))))))))))))"

text \<open>\<open>urllib.parse.quote(s, safe='')\<close>.\<close>

definition unreserved :: "char \<Rightarrow> bool" where
  "unreserved c \<longleftrightarrow> (let n = code c in
     48 \<le> n \<and> n \<le> 57 \<or> 65 \<le> n \<and> n \<le> 90 \<or> 97 \<le> n \<and> n \<le> 122) \<or> c \<in> set ''_.-~''"

definition upper_hex_digit :: "int \<Rightarrow> char" where
  "upper_hex_digit d = char_of (if d < 10 then d + 48 else d + 55)"

definition url_quote :: "string \<Rightarrow> string" where
  "url_quote s = concat (map (\<lambda>c. if unreserved c then [c]
     else [CHR ''%'', upper_hex_digit (code c div 16), upper_hex_digit (code c mod 16)]) s)"

definition yahoo_get_ohlcv :: "http_get \<Rightarrow> string \<Rightarrow> (yahoo, ohlcv) op" where
  "yahoo_get_ohlcv http symbol =
     bind (lift (normal_symbol symbol)) (\<lambda>normalized.
     bind (get_json http (''/v8/finance/chart/'' @ url_quote normalized)
       [(''range'', ''1d''), (''interval'', ''1m'')]) (\<lambda>payload.
     lift (wrap_errors is_parse_error
       (''Yahoo Finance returned invalid OHLCV data for '' @ normalized)
       (parse_ohlcv normalized payload))))"

section \<open>The index search\<close>

definition complete_at :: "(string \<times> json) list \<Rightarrow> nat \<Rightarrow> bool" where
  "complete_at vals i \<longleftrightarrow> list_all (has_value vals i) candle_keys"

lemma latest_from_Inr:
  "latest_from vals n = Inr k \<longleftrightarrow>
     (\<exists>i. k = int i \<and> i < n \<and> complete_at vals i \<and> (\<forall>j. i < j \<and> j < n \<longrightarrow> \<not> complete_at vals j))"
proof (induction n)
  case (Suc n)
  show ?case
  proof (cases "complete_at vals n")
    case True
    then have "latest_from vals (Suc n) = Inr (int n)" by (simp add: complete_at_def)
    then show ?thesis using True by (auto simp: less_Suc_eq)
  next
    case False
    then have "latest_from vals (Suc n) = latest_from vals n" by (simp add: complete_at_def)
    then show ?thesis using False Suc by (auto simp: less_Suc_eq)
  qed
qed simp

lemma latest_from_Inl:
  "latest_from vals n = Inl e \<longleftrightarrow>
     e = ValueError ''OHLCV series has no complete candle'' \<and> (\<forall>i < n. \<not> complete_at vals i)"
  by (induction n) (auto simp: complete_at_def less_Suc_eq)

section \<open>Which exceptions parsing can raise\<close>

text \<open>
  Two exceptions of number conversion are outside the list the provider wraps: \<open>OverflowError\<close>
  (an integer with no \<open>float\<close>, a time outside \<open>time_t\<close>) and \<open>OSError\<close> (a year outside an \<open>int\<close>).
\<close>

definition parse_exn :: "exn \<Rightarrow> bool" where
  "parse_exn e \<longleftrightarrow> is_parse_error e \<or> e \<in> {OverflowError, OSError}"

named_theorems parse_errors

lemma subscript_key_error [parse_errors]: "subscript_key v k = Inl e \<Longrightarrow> parse_exn e"
  by (cases v) (auto simp: parse_exn_def split: option.splits)

lemma subscript_index_error [parse_errors]: "subscript_index v i = Inl e \<Longrightarrow> parse_exn e"
  by (cases v) (auto simp: parse_exn_def rbind_Inl_iff dest!: py_index_error)

lemma py_float_error [parse_errors]: "py_float v k = Inl e \<Longrightarrow> parse_exn e"
  by (cases v) (auto simp: parse_exn_def float_of_int_def Let_def split: if_splits prod.splits)

lemma json_number_error [parse_errors]: "json_number v k = Inl e \<Longrightarrow> parse_exn e"
  by (auto simp: json_number_def rbind_Inl_iff intro: parse_errors)

lemma py_index_parse [parse_errors]: "py_index xs i = Inl e \<Longrightarrow> parse_exn e"
  by (drule py_index_error) (simp add: parse_exn_def)

lemma array_number_error [parse_errors]:
  assumes "array_number v k i = Inl e"
  shows "parse_exn e"
proof -
  from assms consider "subscript_key v k = Inl e"
    | x where "(case x of JArr xs \<Rightarrow> rbind (py_index xs i) (\<lambda>x. json_number (JObj [(''value'', x)]) ''value'')
        | _ \<Rightarrow> Inl (TypeError (k @ '' must be an array''))) = Inl e"
    unfolding array_number_def rbind_Inl_iff by blast
  then show ?thesis
  proof cases
    case 1
    then show ?thesis by (rule subscript_key_error)
  next
    case 2
    then show ?thesis
    proof (cases x)
      case (JArr xs)
      with 2 have "py_index xs i = Inl e \<or> (\<exists>a. json_number (JObj [(''value'', a)]) ''value'' = Inl e)"
        by (auto simp only: json.case rbind_Inl_iff)
      then show ?thesis by (elim disjE exE) (erule parse_errors)+
    qed (auto simp: parse_exn_def)
  qed
qed

lemma datetime_of_parts_error: "datetime_of_parts s u = Inl e \<Longrightarrow> parse_exn e"
  by (auto simp: datetime_of_parts_def parse_exn_def split: if_splits)

lemma json_timestamp_error [parse_errors]: "json_timestamp v = Inl e \<Longrightarrow> parse_exn e"
proof (cases v)
  case (JFloat f)
  assume "json_timestamp v = Inl e"
  with JFloat show ?thesis
    by (cases f) (auto simp: Let_def parse_exn_def dest: datetime_of_parts_error [unfolded parse_exn_def]
        split: if_splits prod.splits)
qed (auto simp: parse_exn_def dest: datetime_of_parts_error [unfolded parse_exn_def])

lemma latest_complete_index_error [parse_errors]: "latest_complete_index t v = Inl e \<Longrightarrow> parse_exn e"
  by (auto simp: latest_complete_index_def latest_from_Inl parse_exn_def split: json.splits)

lemma parse_quote_error: "parse_quote n p = Inl e \<Longrightarrow> parse_exn e"
  unfolding parse_quote_def rbind_Inl_iff by (auto intro: parse_errors)

lemma parse_ohlcv_error: "parse_ohlcv n p = Inl e \<Longrightarrow> parse_exn e"
  unfolding parse_ohlcv_def rbind_Inl_iff by (auto intro: parse_errors)

lemma wrap_errors_parse:
  "wrap_errors is_parse_error msg r = Inl e \<Longrightarrow> (\<And>x. r = Inl x \<Longrightarrow> parse_exn x) \<Longrightarrow>
     e = MarketDataProviderError msg \<or> e = OverflowError \<or> e = OSError"
  by (cases r) (auto simp: wrap_errors_def parse_exn_def split: if_splits)

section \<open>Outcomes of a request\<close>

definition http_ok :: "http_get \<Rightarrow> bool" where
  "http_ok http \<longleftrightarrow> (\<forall>path params e. http path params = Inl e \<longrightarrow> is_http_error e)"

definition client_open :: "yahoo \<Rightarrow> yahoo" where
  "client_open y = y\<lparr>http_client := True\<rparr>"

lemma yahoo_connect_eq: "yahoo_connect y = (Inr (), client_open y)"
  by (cases y) (simp add: yahoo_connect_def modify_def client_open_def)

lemma get_json_eq:
  "get_json http path params y =
     ((case http path params of
         Inl e \<Rightarrow> if is_http_error e then Inl (MarketDataProviderError ''Yahoo Finance request failed'')
           else Inl e
       | Inr (JObj d) \<Rightarrow> Inr (JObj d)
       | Inr _ \<Rightarrow> Inl (MarketDataProviderError ''Yahoo Finance returned a malformed response'')),
      client_open y)"
  by (auto simp: get_json_def bind_def yahoo_connect_eq wrap_errors_def op_defs
      split: sum.splits json.splits)

lemma get_json_error:
  "http_ok http \<Longrightarrow> get_json http path params y = (Inl e, y') \<Longrightarrow> \<exists>m. e = MarketDataProviderError m"
  by (auto simp: get_json_eq http_ok_def split: sum.splits json.splits if_splits)

lemma get_json_state: "get_json http path params y = (r, y') \<Longrightarrow> y' = client_open y"
  by (simp add: get_json_eq)

end
