(* ===== verification/Market_Properties.thy ===== *)
theory Market_Properties
  imports Market_Data
begin

text \<open>
  The correctness properties of the Yahoo market data provider.
\<close>

section \<open>Example payloads\<close>

definition demo_values :: "(string \<times> json) list" where
  "demo_values = map (\<lambda>k. (k, JArr [JInt 1, JInt 2, JNull])) candle_keys"

definition demo_chart :: json where
  "demo_chart = JObj [(''chart'', JObj [(''result'', JArr [JObj
     [(''timestamp'', JArr [JInt 60, JInt 120, JInt 180]),
      (''indicators'', JObj [(''quote'', JArr [JObj demo_values])])]])])]"

definition demo_quote_payload :: "json \<Rightarrow> json" where
  "demo_quote_payload bid = JObj [(''quoteResponse'', JObj [(''result'', JArr [JObj
     [(''bid'', bid), (''ask'', JInt 2), (''regularMarketPrice'', JInt 2),
      (''regularMarketVolume'', JInt 10), (''regularMarketTime'', JInt 60)]])])]"

section \<open>Properties\<close>

text \<open>C8: The bar is cut from the last complete row: the index search returns an index exactly when
  all five series have a number there and no later time stamp has a complete row, and it raises
  exactly when no row is complete, when the loop has run through every index.\<close>

theorem latest_complete_index_correct:
  "(latest_complete_index (JArr ts) (JObj d) = Inr k \<longleftrightarrow>
      (\<exists>i. k = int i \<and> i < length ts \<and> list_all (has_value d i) candle_keys \<and>
        (\<forall>j. i < j \<and> j < length ts \<longrightarrow> \<not> list_all (has_value d j) candle_keys))) \<and>
   (latest_complete_index (JArr ts) (JObj d) = Inl e \<longleftrightarrow>
      e = ValueError ''OHLCV series has no complete candle'' \<and>
      (\<forall>i < length ts. \<not> list_all (has_value d i) candle_keys))"
  by (simp add: latest_complete_index_def latest_from_Inr latest_from_Inl complete_at_def)

lemma latest_complete_index_correct_witness:
  "latest_complete_index (JArr [JInt 60, JInt 120, JInt 180]) (JObj demo_values) = Inr 1"
proof -
  have "list_all (has_value demo_values 1) candle_keys" "\<not> list_all (has_value demo_values 2) candle_keys"
    by code_simp+
  then show ?thesis
    using latest_complete_index_correct [of "[JInt 60, JInt 120, JInt 180]" demo_values 1]
    by (auto simp: numeral_2_eq_2 numeral_3_eq_3 less_Suc_eq)
qed

text \<open>A bar is never a mixture of rows: when the chart parses, there is one index, the last
  complete one, from which the five numbers and the time stamp are all taken.\<close>

theorem ohlcv_single_row:
  assumes "parse_ohlcv symbol payload = Inr bar"
  shows "\<exists>ts d i. i < length ts \<and> latest_complete_index (JArr ts) (JObj d) = Inr (int i) \<and>
    array_number (JObj d) ''open'' i = Inr (bar_open bar) \<and>
    array_number (JObj d) ''high'' i = Inr (bar_high bar) \<and>
    array_number (JObj d) ''low'' i = Inr (bar_low bar) \<and>
    array_number (JObj d) ''close'' i = Inr (bar_close bar) \<and>
    array_number (JObj d) ''volume'' i = Inr (bar_volume bar) \<and>
    json_timestamp (ts ! i) = Inr (bar_timestamp bar) \<and> bar_symbol bar = symbol"
proof -
  from assms obtain ts vals k t where idx: "latest_complete_index ts vals = Inr k"
    and nums: "array_number vals ''open'' k = Inr (bar_open bar)"
      "array_number vals ''high'' k = Inr (bar_high bar)"
      "array_number vals ''low'' k = Inr (bar_low bar)"
      "array_number vals ''close'' k = Inr (bar_close bar)"
      "array_number vals ''volume'' k = Inr (bar_volume bar)"
    and t: "subscript_index ts k = Inr t" "json_timestamp t = Inr (bar_timestamp bar)"
    and sym: "bar_symbol bar = symbol"
    by (auto simp: parse_ohlcv_def rbind_Inr_iff)
  obtain xs d i where eq: "ts = JArr xs" "vals = JObj d" "k = int i" "i < length xs"
    using idx by (auto simp: latest_complete_index_def latest_from_Inr split: json.splits)
  then have "t = xs ! i" using t(1) by (simp add: py_index_nonneg)
  then show ?thesis using idx nums t(2) sym eq by blast
qed

lemma ohlcv_single_row_witness:
  "\<exists>ts d i. i < length ts \<and> latest_complete_index (JArr ts) (JObj d) = Inr (int i) \<and>
    json_timestamp (ts ! i) = Inr 120000000"
proof -
  have "map_sum (\<lambda>_. ()) bar_timestamp (parse_ohlcv ''A'' demo_chart) = Inr 120000000" by code_simp
  then obtain bar where "parse_ohlcv ''A'' demo_chart = Inr bar" "bar_timestamp bar = 120000000"
    by (cases "parse_ohlcv ''A'' demo_chart") auto
  from ohlcv_single_row [OF this(1)] this(2) show ?thesis by metis
qed

text \<open>C9: Failures of the quote request are classified: with a transport that fails only as httpx
  documents, \<open>get_quote\<close> raises \<open>ValueError\<close> for an empty symbol, otherwise
  \<open>MarketDataProviderError\<close>, or one of the two conversion errors of a number or a time that is out
  of range, which the provider does not wrap; no other exception escapes, and the subscriptions
  are untouched.\<close>

theorem get_quote_errors:
  assumes "\<And>path params x. http path params = Inl x \<Longrightarrow> is_http_error x"
    and "yahoo_get_quote http symbol y = (Inl e, y')"
  shows "(normal_symbol symbol = Inl e \<and> y' = y \<or> (\<exists>m. e = MarketDataProviderError m) \<or>
    e = OverflowError \<or> e = OSError) \<and> subscriptions y' = subscriptions y"
proof (cases "normal_symbol symbol")
  case (Inl x)
  then show ?thesis using assms(2) by (simp add: yahoo_get_quote_def)
next
  case (Inr s)
  have ok: "http_ok http" using assms(1) by (simp add: http_ok_def)
  from assms(2) Inr consider "get_json http ''/v7/finance/quote'' [(''symbols'', s)] y = (Inl e, y')"
    | p m where "get_json http ''/v7/finance/quote'' [(''symbols'', s)] y = (Inr p, y')"
        "wrap_errors is_parse_error m (parse_quote s p) = Inl e"
    by (auto simp: yahoo_get_quote_def bind_Inl_iff)
  then show ?thesis
  proof cases
    case 1
    then show ?thesis using get_json_error [OF ok 1] get_json_state [OF 1] by (simp add: client_open_def)
  next
    case 2
    then show ?thesis
      using get_json_state [OF 2(1)] wrap_errors_parse [OF 2(2) parse_quote_error]
      by (auto simp: client_open_def)
  qed
qed

lemma get_quote_errors_witness:
  "fst (yahoo_get_quote (\<lambda>_ _. Inl HTTPError) ''aapl'' (new_yahoo False))
     = Inl (MarketDataProviderError ''Yahoo Finance request failed'') \<and>
   subscriptions (snd (yahoo_get_quote (\<lambda>_ _. Inl HTTPError) ''aapl'' (new_yahoo False))) = {}"
proof -
  let ?r = "yahoo_get_quote (\<lambda>_ _. Inl HTTPError) ''aapl'' (new_yahoo False)"
  have "normal_symbol ''aapl'' = Inr ''AAPL''" by code_simp
  then have r: "fst ?r = Inl (MarketDataProviderError ''Yahoo Finance request failed'')"
    by (simp add: yahoo_get_quote_def bind_def get_json_eq)
  then have "?r = (Inl (MarketDataProviderError ''Yahoo Finance request failed''), snd ?r)"
    by (metis prod.collapse)
  from get_quote_errors [OF _ this] r show ?thesis by (auto simp: new_yahoo_def)
qed

text \<open>The one gap in the classification: a quote whose number is an integer too large for a float
  makes \<open>get_quote\<close> raise \<open>OverflowError\<close>, not \<open>MarketDataProviderError\<close>.\<close>

theorem get_quote_overflow_escapes:
  "fst (yahoo_get_quote (\<lambda>_ _. Inr (demo_quote_payload (JInt (10 ^ 400)))) ''aapl'' (new_yahoo False))
     = Inl OverflowError"
proof -
  have "normal_symbol ''aapl'' = Inr ''AAPL''" by code_simp
  moreover have "parse_quote ''AAPL'' (demo_quote_payload (JInt (10 ^ 400))) = Inl OverflowError"
    by code_simp
  ultimately show ?thesis
    by (simp add: yahoo_get_quote_def bind_def get_json_eq demo_quote_payload_def wrap_errors_def lift_def)
qed

text \<open>A stored subscription is the stripped, upper-cased symbol: subscribing succeeds exactly
  when that is not empty, adds exactly it, and is idempotent; on an empty symbol it raises
  \<open>ValueError\<close> and stores nothing.\<close>

theorem subscribe_normalises:
  "yahoo_subscribe symbol y =
     (if upper (strip symbol) = [] then (Inl (ValueError ''symbol must not be empty''), y)
      else (Inr (), y\<lparr>subscriptions := insert (upper (strip symbol)) (subscriptions y)\<rparr>)) \<and>
   (let y' = snd (yahoo_subscribe symbol y) in snd (yahoo_subscribe symbol y') = y')"
  by (simp add: yahoo_subscribe_def normal_symbol_def Let_def modify_def raise_def)

end
