(* ===== verification/Auth_Models.thy ===== *)
theory Auth_Models
  imports Prelude
begin

text \<open>
  The authentication domain models, \<open>pentagon5_auth/models.py\<close>, and the storage boundary
  \<open>AuthRepository\<close> of \<open>repository.py\<close> as a record of operations on a state \<open>'d\<close>.  Identifiers
  (\<open>uuid.UUID\<close>) are their 128-bit values, times are microseconds since the Unix epoch.
\<close>

type_synonym uuid = int
type_synonym time = int

section \<open>Domain models\<close>

record flow =
  flow_encrypted_payload :: string
  flow_redirect_uri :: string

record identity =
  ide_issuer :: string
  ide_subject :: string
  ide_email :: string
  ide_display_name :: string

record principal =
  pri_user_id :: uuid
  pri_session_id :: uuid
  pri_device_id :: "uuid option"
  pri_email :: string
  pri_display_name :: string
  pri_roles :: "string list"
  pri_permissions :: "string set"
  pri_expires_at :: time

record session_grant =
  gra_token :: string
  gra_principal :: principal

record login_redirect =
  red_code :: string
  red_redirect_uri :: string

record device =
  dev_id :: uuid
  dev_platform :: string
  dev_last_seen_at :: "time option"
  dev_revoked_at :: "time option"

section \<open>The storage boundary\<close>

text \<open>
  What one repository call reads from outside: the identifiers it draws from \<open>uuid7()\<close>, in
  order, and the database's \<open>now()\<close>.
\<close>

record call_env =
  env_ids :: "nat \<Rightarrow> uuid"
  env_db_now :: time

record 'd repo_ops =
  rp_put_flow :: "call_env \<Rightarrow> string \<Rightarrow> string \<Rightarrow> string \<Rightarrow> time \<Rightarrow> ('d, unit) op"
  rp_consume_flow :: "string \<Rightarrow> time \<Rightarrow> ('d, flow option) op"
  rp_put_login_grant :: "call_env \<Rightarrow> string \<Rightarrow> string \<Rightarrow> time \<Rightarrow> ('d, unit) op"
  rp_consume_login_grant :: "string \<Rightarrow> time \<Rightarrow> ('d, string option) op"
  rp_provision_identity :: "call_env \<Rightarrow> identity \<Rightarrow> ('d, uuid) op"
  rp_register_device :: "call_env \<Rightarrow> uuid \<Rightarrow> string \<Rightarrow> string \<Rightarrow> time \<Rightarrow> ('d, uuid) op"
  rp_create_session :: "call_env \<Rightarrow> uuid \<Rightarrow> uuid \<Rightarrow> string \<Rightarrow> time \<Rightarrow> ('d, uuid) op"
  rp_resolve_session :: "string \<Rightarrow> time \<Rightarrow> ('d, principal option) op"
  rp_revoke_session :: "call_env \<Rightarrow> uuid \<Rightarrow> time \<Rightarrow> ('d, unit) op"
  rp_list_devices :: "uuid \<Rightarrow> ('d, device list) op"
  rp_revoke_device :: "uuid \<Rightarrow> uuid \<Rightarrow> time \<Rightarrow> ('d, bool) op"
  rp_put_ws_ticket :: "call_env \<Rightarrow> string \<Rightarrow> uuid \<Rightarrow> string \<Rightarrow> time \<Rightarrow> ('d, unit) op"
  rp_consume_ws_ticket :: "string \<Rightarrow> string \<Rightarrow> time \<Rightarrow> ('d, uuid option) op"

end
