(* ===== verification/Auth_Db.thy ===== *)
theory Auth_Db
  imports Auth_Models
begin

text \<open>
  The tables of the \<open>identity\<close> schema that the repository's SQL reads and writes
  (\<open>infrastructure/database/metadata.py\<close>), as lists of rows, with the constraints the schema
  declares on them: an \<open>INSERT\<close> or \<open>UPDATE\<close> that breaks one raises \<open>IntegrityError\<close>, a value that
  does not fit its column type raises \<open>DataError\<close>.  Columns no statement of the repository sets
  or reads are left out.
\<close>

section \<open>Rows\<close>

record user_row =
  u_id :: uuid
  u_email :: string
  u_display_name :: string
  u_status :: string
  u_updated_at :: time

record role_row =
  r_id :: uuid
  r_name :: string

record permission_row =
  p_id :: uuid
  p_code :: string

record user_role_row =
  ur_user_id :: uuid
  ur_role_id :: uuid

record role_permission_row =
  rp_role_id :: uuid
  rp_permission_id :: uuid

record device_row =
  d_id :: uuid
  d_user_id :: uuid
  d_device_key :: string
  d_platform :: string
  d_last_seen_at :: "time option"
  d_revoked_at :: "time option"
  d_created_at :: time
  d_updated_at :: time

record session_row =
  s_id :: uuid
  s_user_id :: uuid
  s_device_id :: "uuid option"
  s_token_fingerprint :: string
  s_expires_at :: time
  s_revoked_at :: "time option"

record identity_row =
  i_id :: uuid
  i_user_id :: uuid
  i_issuer :: string
  i_subject :: string

record flow_row =
  f_id :: uuid
  f_state_fingerprint :: string
  f_encrypted_payload :: string
  f_redirect_uri :: string
  f_expires_at :: time

record grant_row =
  g_id :: uuid
  g_code_fingerprint :: string
  g_encrypted_payload :: string
  g_expires_at :: time

record ticket_row =
  t_id :: uuid
  t_ticket_fingerprint :: string
  t_session_id :: uuid
  t_channel :: string
  t_expires_at :: time

record event_row =
  e_id :: uuid
  e_session_id :: "uuid option"
  e_user_id :: uuid
  e_event_type :: string
  e_payload :: string
  e_occurred_at :: time

record auth_db =
  db_users :: "user_row list"
  db_roles :: "role_row list"
  db_permissions :: "permission_row list"
  db_user_roles :: "user_role_row list"
  db_role_permissions :: "role_permission_row list"
  db_devices :: "device_row list"
  db_sessions :: "session_row list"
  db_identities :: "identity_row list"
  db_flows :: "flow_row list"
  db_grants :: "grant_row list"
  db_tickets :: "ticket_row list"
  db_events :: "event_row list"

definition empty_db :: auth_db where
  "empty_db = \<lparr>db_users = [], db_roles = [], db_permissions = [], db_user_roles = [],
     db_role_permissions = [], db_devices = [], db_sessions = [], db_identities = [],
     db_flows = [], db_grants = [], db_tickets = [], db_events = []\<rparr>"

section \<open>Column types\<close>

text \<open>
  PostgreSQL text has no NUL character; \<open>varchar(n)\<close> drops excess spaces and refuses other
  excess.
\<close>

definition pg_text :: "string \<Rightarrow> string res" where
  "pg_text s = (if CHR 0x00 \<in> set s then Inl DataError else Inr s)"

definition varchar :: "nat \<Rightarrow> string \<Rightarrow> string res" where
  "varchar n s =
     (if CHR 0x00 \<in> set s then Inl DataError
      else if length s \<le> n then Inr s
      else if list_all (\<lambda>c. c = CHR '' '') (drop n s) then Inr (take n s)
      else Inl DataError)"

lemma varchar_cases: "varchar n s = Inr t \<Longrightarrow> t = take n s"
  by (auto simp: varchar_def split: if_splits)

lemma varchar_fits: "CHR 0x00 \<notin> set s \<Longrightarrow> length s \<le> n \<Longrightarrow> varchar n s = Inr s"
  by (simp add: varchar_def)

section \<open>Statements and transactions\<close>

text \<open>\<open>with engine.begin()\<close>: an exception rolls every statement of the block back.\<close>

definition transaction :: "('s, 'a) op \<Rightarrow> ('s, 'a) op" where
  "transaction m s = (case m s of (Inl e, _) \<Rightarrow> (Inl e, s) | (Inr x, t) \<Rightarrow> (Inr x, t))"

text \<open>A statement that the constraint \<open>ok\<close> must allow.\<close>

definition constrained :: "('s \<Rightarrow> bool) \<Rightarrow> ('s \<Rightarrow> 's) \<Rightarrow> ('s, unit) op" where
  "constrained ok upd s = (if ok s then (Inr (), upd s) else (Inl IntegrityError, s))"

text \<open>\<open>one_or_none\<close>.\<close>

definition one_or_none :: "'r list \<Rightarrow> ('s, 'r option) op" where
  "one_or_none rows =
     (case rows of [] \<Rightarrow> ret None | [r] \<Rightarrow> ret (Some r) | _ \<Rightarrow> raise MultipleResultsFound)"

lemma transaction_Inl [simp]: "transaction m s = (Inl e, t) \<longleftrightarrow> (\<exists>u. m s = (Inl e, u)) \<and> t = s"
  by (auto simp: transaction_def split: prod.splits sum.splits)

lemma transaction_Inr [simp]: "transaction m s = (Inr x, t) \<longleftrightarrow> m s = (Inr x, t)"
  by (auto simp: transaction_def split: prod.splits sum.splits)

lemma constrained_eq [simp]:
  "constrained ok upd s = (Inr u, t) \<longleftrightarrow> ok s \<and> t = upd s"
  "constrained ok upd s = (Inl e, t) \<longleftrightarrow> \<not> ok s \<and> e = IntegrityError \<and> t = s"
  by (auto simp: constrained_def)

text \<open>\<open>UPDATE ... SET ... WHERE P\<close>.\<close>

definition update_where :: "('r \<Rightarrow> bool) \<Rightarrow> ('r \<Rightarrow> 'r) \<Rightarrow> 'r list \<Rightarrow> 'r list" where
  "update_where P g rows = map (\<lambda>r. if P r then g r else r) rows"

lemma map_update_where: "(\<And>r. f (g r) = f r) \<Longrightarrow> map f (update_where P g rows) = map f rows"
  by (simp add: update_where_def)

lemma image_update_where: "(\<And>r. f (g r) = f r) \<Longrightarrow> f ` set (update_where P g rows) = f ` set rows"
  by (metis map_update_where set_map)

lemma set_update_where: "set (update_where P g rows) = (\<lambda>r. if P r then g r else r) ` set rows"
  by (simp add: update_where_def)

lemma update_where_none: "\<forall>r \<in> set rows. \<not> P r \<Longrightarrow> update_where P g rows = rows"
  by (auto simp: update_where_def intro: map_idI)

section \<open>Constraints\<close>

definition user_insertable :: "user_row \<Rightarrow> auth_db \<Rightarrow> bool" where
  "user_insertable r db \<longleftrightarrow> u_id r \<notin> u_id ` set (db_users db) \<and>
     u_email r \<notin> u_email ` set (db_users db) \<and>
     u_status r \<in> {''active'', ''disabled'', ''deleted''}"

definition identity_insertable :: "identity_row \<Rightarrow> auth_db \<Rightarrow> bool" where
  "identity_insertable r db \<longleftrightarrow> i_id r \<notin> i_id ` set (db_identities db) \<and>
     (i_issuer r, i_subject r) \<notin> (\<lambda>i. (i_issuer i, i_subject i)) ` set (db_identities db) \<and>
     i_user_id r \<in> u_id ` set (db_users db)"

definition device_insertable :: "device_row \<Rightarrow> auth_db \<Rightarrow> bool" where
  "device_insertable r db \<longleftrightarrow> d_id r \<notin> d_id ` set (db_devices db) \<and>
     d_user_id r \<in> u_id ` set (db_users db)"

definition session_insertable :: "session_row \<Rightarrow> auth_db \<Rightarrow> bool" where
  "session_insertable r db \<longleftrightarrow> s_id r \<notin> s_id ` set (db_sessions db) \<and>
     s_token_fingerprint r \<notin> s_token_fingerprint ` set (db_sessions db) \<and>
     s_user_id r \<in> u_id ` set (db_users db) \<and>
     (case s_device_id r of None \<Rightarrow> True | Some d \<Rightarrow> d \<in> d_id ` set (db_devices db))"

definition flow_insertable :: "flow_row \<Rightarrow> auth_db \<Rightarrow> bool" where
  "flow_insertable r db \<longleftrightarrow> f_id r \<notin> f_id ` set (db_flows db) \<and>
     f_state_fingerprint r \<notin> f_state_fingerprint ` set (db_flows db)"

definition grant_insertable :: "grant_row \<Rightarrow> auth_db \<Rightarrow> bool" where
  "grant_insertable r db \<longleftrightarrow> g_id r \<notin> g_id ` set (db_grants db) \<and>
     g_code_fingerprint r \<notin> g_code_fingerprint ` set (db_grants db)"

definition ticket_insertable :: "ticket_row \<Rightarrow> auth_db \<Rightarrow> bool" where
  "ticket_insertable r db \<longleftrightarrow> t_id r \<notin> t_id ` set (db_tickets db) \<and>
     t_ticket_fingerprint r \<notin> t_ticket_fingerprint ` set (db_tickets db) \<and>
     t_session_id r \<in> s_id ` set (db_sessions db) \<and>
     t_channel r \<in> {''system.health'', ''session.events''}"

definition event_insertable :: "event_row \<Rightarrow> auth_db \<Rightarrow> bool" where
  "event_insertable r db \<longleftrightarrow> e_id r \<notin> e_id ` set (db_events db) \<and>
     (case e_session_id r of None \<Rightarrow> True | Some s \<Rightarrow> s \<in> s_id ` set (db_sessions db)) \<and>
     e_user_id r \<in> u_id ` set (db_users db)"

lemmas insertable_defs = user_insertable_def identity_insertable_def device_insertable_def
  session_insertable_def flow_insertable_def grant_insertable_def ticket_insertable_def
  event_insertable_def

end
