(* ===== verification/Auth_Repository.thy ===== *)
theory Auth_Repository
  imports Auth_Db
begin

text \<open>
  \<open>PostgresAuthRepository\<close> (\<open>pentagon5_auth/repository.py\<close>), one operation per method.  Each
  method is one database transaction, so methods called by different requests act in some order
  one after the other; an exception leaves the database as it was.  The identifiers a method
  draws from \<open>uuid7()\<close> and the database's \<open>now()\<close> come from its \<open>call_env\<close>.
\<close>

section \<open>Statements\<close>

definition insert_user :: "user_row \<Rightarrow> (auth_db, unit) op" where
  "insert_user r = constrained (user_insertable r) (\<lambda>db. db\<lparr>db_users := db_users db @ [r]\<rparr>)"

definition insert_identity :: "identity_row \<Rightarrow> (auth_db, unit) op" where
  "insert_identity r =
     constrained (identity_insertable r) (\<lambda>db. db\<lparr>db_identities := db_identities db @ [r]\<rparr>)"

definition insert_device :: "device_row \<Rightarrow> (auth_db, unit) op" where
  "insert_device r = constrained (device_insertable r) (\<lambda>db. db\<lparr>db_devices := db_devices db @ [r]\<rparr>)"

definition insert_session :: "session_row \<Rightarrow> (auth_db, unit) op" where
  "insert_session r =
     constrained (session_insertable r) (\<lambda>db. db\<lparr>db_sessions := db_sessions db @ [r]\<rparr>)"

definition insert_flow :: "flow_row \<Rightarrow> (auth_db, unit) op" where
  "insert_flow r = constrained (flow_insertable r) (\<lambda>db. db\<lparr>db_flows := db_flows db @ [r]\<rparr>)"

definition insert_grant :: "grant_row \<Rightarrow> (auth_db, unit) op" where
  "insert_grant r = constrained (grant_insertable r) (\<lambda>db. db\<lparr>db_grants := db_grants db @ [r]\<rparr>)"

definition insert_ticket :: "ticket_row \<Rightarrow> (auth_db, unit) op" where
  "insert_ticket r = constrained (ticket_insertable r) (\<lambda>db. db\<lparr>db_tickets := db_tickets db @ [r]\<rparr>)"

definition insert_event :: "event_row \<Rightarrow> (auth_db, unit) op" where
  "insert_event r = constrained (event_insertable r) (\<lambda>db. db\<lparr>db_events := db_events db @ [r]\<rparr>)"

text \<open>\<open>_event\<close>; \<open>k\<close> is the position of its identifier among those the method draws.\<close>

definition record_event :: "call_env \<Rightarrow> nat \<Rightarrow> uuid \<Rightarrow> uuid \<Rightarrow> string \<Rightarrow> (auth_db, unit) op" where
  "record_event env k session_id user_id event_type =
     insert_event \<lparr>e_id = env_ids env k, e_session_id = Some session_id, e_user_id = user_id,
       e_event_type = event_type, e_payload = ''{}'', e_occurred_at = env_db_now env\<rparr>"

section \<open>OIDC flows and login grants\<close>

definition put_flow :: "call_env \<Rightarrow> string \<Rightarrow> string \<Rightarrow> string \<Rightarrow> time \<Rightarrow> (auth_db, unit) op" where
  "put_flow env fp encrypted_payload redirect_uri expires_at =
     transaction (
       bind (lift (varchar 64 fp)) (\<lambda>state_fp.
       bind (lift (pg_text encrypted_payload)) (\<lambda>payload.
       bind (lift (pg_text redirect_uri)) (\<lambda>uri.
       insert_flow \<lparr>f_id = env_ids env 0, f_state_fingerprint = state_fp,
         f_encrypted_payload = payload, f_redirect_uri = uri, f_expires_at = expires_at\<rparr>))))"

definition flow_matches :: "string \<Rightarrow> time \<Rightarrow> flow_row \<Rightarrow> bool" where
  "flow_matches fp now r \<longleftrightarrow> f_state_fingerprint r = fp \<and> now < f_expires_at r"

definition consume_flow :: "string \<Rightarrow> time \<Rightarrow> (auth_db, flow option) op" where
  "consume_flow fp now =
     transaction (
       bind (gets (\<lambda>db. filter (flow_matches fp now) (db_flows db))) (\<lambda>rows.
       bind (modify (\<lambda>db. db\<lparr>db_flows := filter (\<lambda>r. \<not> flow_matches fp now r) (db_flows db)\<rparr>)) (\<lambda>_.
       bind (one_or_none rows) (\<lambda>row.
       ret (map_option (\<lambda>r. \<lparr>flow_encrypted_payload = f_encrypted_payload r,
         flow_redirect_uri = f_redirect_uri r\<rparr>) row)))))"

definition put_login_grant :: "call_env \<Rightarrow> string \<Rightarrow> string \<Rightarrow> time \<Rightarrow> (auth_db, unit) op" where
  "put_login_grant env fp encrypted_payload expires_at =
     transaction (
       bind (lift (varchar 64 fp)) (\<lambda>code_fp.
       bind (lift (pg_text encrypted_payload)) (\<lambda>payload.
       insert_grant \<lparr>g_id = env_ids env 0, g_code_fingerprint = code_fp,
         g_encrypted_payload = payload, g_expires_at = expires_at\<rparr>)))"

definition grant_matches :: "string \<Rightarrow> time \<Rightarrow> grant_row \<Rightarrow> bool" where
  "grant_matches fp now r \<longleftrightarrow> g_code_fingerprint r = fp \<and> now < g_expires_at r"

definition consume_login_grant :: "string \<Rightarrow> time \<Rightarrow> (auth_db, string option) op" where
  "consume_login_grant fp now =
     transaction (
       bind (gets (\<lambda>db. filter (grant_matches fp now) (db_grants db))) (\<lambda>rows.
       bind (modify (\<lambda>db. db\<lparr>db_grants := filter (\<lambda>r. \<not> grant_matches fp now r) (db_grants db)\<rparr>)) (\<lambda>_.
       bind (one_or_none rows) (\<lambda>row.
       ret (map_option g_encrypted_payload row)))))"

section \<open>Identities and devices\<close>

text \<open>The \<open>UPDATE\<close> of an existing active user; the new address must not be another user's.\<close>

definition is_active :: "user_row \<Rightarrow> bool" where
  "is_active u \<longleftrightarrow> u_status u = ''active''"

definition update_user :: "time \<Rightarrow> uuid \<Rightarrow> string \<Rightarrow> string \<Rightarrow> (auth_db, unit) op" where
  "update_user db_now user_id email display_name =
     constrained
       (\<lambda>db. (\<exists>u \<in> set (db_users db). u_id u = user_id \<and> is_active u) \<longrightarrow>
          (\<forall>u \<in> set (db_users db). u_id u \<noteq> user_id \<longrightarrow> u_email u \<noteq> email))
       (\<lambda>db. db\<lparr>db_users := update_where (\<lambda>u. u_id u = user_id \<and> is_active u)
          (\<lambda>u. u\<lparr>u_email := email, u_display_name := display_name, u_updated_at := db_now\<rparr>)
          (db_users db)\<rparr>)"

definition provision_identity :: "call_env \<Rightarrow> identity \<Rightarrow> (auth_db, uuid) op" where
  "provision_identity env ident =
     transaction (
       bind (lift (pg_text (ide_issuer ident))) (\<lambda>issuer.
       bind (lift (pg_text (ide_subject ident))) (\<lambda>subject.
       bind (gets (\<lambda>db. map i_user_id
         (filter (\<lambda>r. i_issuer r = issuer \<and> i_subject r = subject) (db_identities db)))) (\<lambda>rows.
       bind (one_or_none rows) (\<lambda>existing.
       bind (lift (varchar 320 (ide_email ident))) (\<lambda>email.
       bind (lift (varchar 120 (ide_display_name ident))) (\<lambda>display_name.
       case existing of
         None \<Rightarrow>
           bind (insert_user \<lparr>u_id = env_ids env 0, u_email = email, u_display_name = display_name,
             u_status = ''active'', u_updated_at = env_db_now env\<rparr>) (\<lambda>_.
           bind (lift (varchar 512 issuer)) (\<lambda>issuer.
           bind (lift (varchar 512 subject)) (\<lambda>subject.
           bind (insert_identity \<lparr>i_id = env_ids env 1, i_user_id = env_ids env 0,
             i_issuer = issuer, i_subject = subject\<rparr>) (\<lambda>_.
           ret (env_ids env 0)))))
       | Some user_id \<Rightarrow>
           bind (update_user (env_db_now env) user_id email display_name) (\<lambda>_. ret user_id))))))))"

definition device_conflict :: "uuid \<Rightarrow> string \<Rightarrow> device_row \<Rightarrow> bool" where
  "device_conflict user_id device_key d \<longleftrightarrow> d_user_id d = user_id \<and> d_device_key d = device_key"

definition register_device ::
    "call_env \<Rightarrow> uuid \<Rightarrow> string \<Rightarrow> string \<Rightarrow> time \<Rightarrow> (auth_db, uuid) op" where
  "register_device env user_id device_fingerprint platform now =
     transaction (
       bind (lift (varchar 200 device_fingerprint)) (\<lambda>device_key.
       bind (lift (varchar 40 platform)) (\<lambda>platform.
       bind (gets (\<lambda>db. filter (device_conflict user_id device_key) (db_devices db))) (\<lambda>rows.
       case rows of
         [] \<Rightarrow>
           bind (insert_device \<lparr>d_id = env_ids env 0, d_user_id = user_id, d_device_key = device_key,
             d_platform = platform, d_last_seen_at = Some now, d_revoked_at = None,
             d_created_at = env_db_now env, d_updated_at = env_db_now env\<rparr>) (\<lambda>_.
           ret (env_ids env 0))
       | r # _ \<Rightarrow>
           bind (modify (\<lambda>db. db\<lparr>db_devices := update_where (device_conflict user_id device_key)
             (\<lambda>d. d\<lparr>d_platform := platform, d_last_seen_at := Some now, d_revoked_at := None,
               d_updated_at := env_db_now env\<rparr>) (db_devices db)\<rparr>)) (\<lambda>_.
           ret (d_id r))))))"

definition device_of_row :: "device_row \<Rightarrow> device" where
  "device_of_row d = \<lparr>dev_id = d_id d, dev_platform = d_platform d,
     dev_last_seen_at = d_last_seen_at d, dev_revoked_at = d_revoked_at d\<rparr>"

text \<open>\<open>ORDER BY created_at DESC\<close> leaves the order of equal times open; the model keeps theirs.\<close>

definition list_devices :: "uuid \<Rightarrow> (auth_db, device list) op" where
  "list_devices user_id = gets (\<lambda>db. map device_of_row
     (sort_key (\<lambda>d. - d_created_at d) (filter (\<lambda>d. d_user_id d = user_id) (db_devices db))))"

definition own_device :: "uuid \<Rightarrow> uuid \<Rightarrow> device_row \<Rightarrow> bool" where
  "own_device user_id device_id d \<longleftrightarrow>
     d_id d = device_id \<and> d_user_id d = user_id \<and> d_revoked_at d = None"

definition revoke_device :: "uuid \<Rightarrow> uuid \<Rightarrow> time \<Rightarrow> (auth_db, bool) op" where
  "revoke_device user_id device_id now =
     transaction (
       bind (gets (\<lambda>db. filter (own_device user_id device_id) (db_devices db))) (\<lambda>rows.
       bind (modify (\<lambda>db. db\<lparr>db_devices := update_where (own_device user_id device_id)
         (\<lambda>d. d\<lparr>d_revoked_at := Some now, d_updated_at := now\<rparr>) (db_devices db)\<rparr>)) (\<lambda>_.
       bind (one_or_none rows) (\<lambda>changed.
       case changed of
         None \<Rightarrow> ret False
       | Some _ \<Rightarrow>
           bind (modify (\<lambda>db. db\<lparr>db_sessions := update_where
             (\<lambda>s. s_device_id s = Some device_id \<and> s_revoked_at s = None)
             (\<lambda>s. s\<lparr>s_revoked_at := Some now\<rparr>) (db_sessions db)\<rparr>))
             (\<lambda>_. ret True)))))"

section \<open>Sessions\<close>

definition create_session ::
    "call_env \<Rightarrow> uuid \<Rightarrow> uuid \<Rightarrow> string \<Rightarrow> time \<Rightarrow> (auth_db, uuid) op" where
  "create_session env user_id device_id token_fingerprint expires_at =
     transaction (
       bind (lift (varchar 128 token_fingerprint)) (\<lambda>fp.
       bind (insert_session \<lparr>s_id = env_ids env 0, s_user_id = user_id, s_device_id = Some device_id,
         s_token_fingerprint = fp, s_expires_at = expires_at, s_revoked_at = None\<rparr>) (\<lambda>_.
       bind (record_event env 1 (env_ids env 0) user_id ''session.created'') (\<lambda>_.
       ret (env_ids env 0)))))"

text \<open>
  The joined rows of the session query.  A session without a device row (no device, or one that
  was deleted) is joined with \<open>NULL\<close>s.
\<close>

definition joined_devices :: "auth_db \<Rightarrow> session_row \<Rightarrow> device_row option list" where
  "joined_devices db s =
     (case filter (\<lambda>d. s_device_id s = Some (d_id d)) (db_devices db) of
        [] \<Rightarrow> [None] | ds \<Rightarrow> map Some ds)"

definition device_live :: "device_row option \<Rightarrow> bool" where
  "device_live d \<longleftrightarrow> (case d of None \<Rightarrow> True | Some r \<Rightarrow> d_revoked_at r = None)"

definition session_rows :: "string \<Rightarrow> time \<Rightarrow> auth_db \<Rightarrow> (session_row \<times> user_row) list" where
  "session_rows fp now db =
     [(s, u). s \<leftarrow> db_sessions db, u \<leftarrow> db_users db, d \<leftarrow> joined_devices db s,
        u_id u = s_user_id s \<and> s_token_fingerprint s = fp \<and> s_revoked_at s = None \<and>
        now < s_expires_at s \<and> is_active u \<and> device_live d]"

text \<open>\<open>ORDER BY r.name\<close> follows the collation of the database, a parameter here.\<close>

definition role_names :: "(string \<Rightarrow> string) \<Rightarrow> uuid \<Rightarrow> auth_db \<Rightarrow> string list" where
  "role_names collate user_id db =
     sort_key collate [r_name r. r \<leftarrow> db_roles db, ur \<leftarrow> db_user_roles db,
       ur_role_id ur = r_id r \<and> ur_user_id ur = user_id]"

definition permission_codes :: "uuid \<Rightarrow> auth_db \<Rightarrow> string set" where
  "permission_codes user_id db =
     set [p_code p. p \<leftarrow> db_permissions db, rp \<leftarrow> db_role_permissions db, ur \<leftarrow> db_user_roles db,
       rp_permission_id rp = p_id p \<and> ur_role_id ur = rp_role_id rp \<and> ur_user_id ur = user_id]"

definition make_principal ::
    "session_row \<Rightarrow> user_row \<Rightarrow> string list \<Rightarrow> string set \<Rightarrow> principal" where
  "make_principal s u roles permissions =
     \<lparr>pri_user_id = s_user_id s, pri_session_id = s_id s, pri_device_id = s_device_id s,
      pri_email = u_email u, pri_display_name = u_display_name u, pri_roles = roles,
      pri_permissions = permissions, pri_expires_at = s_expires_at s\<rparr>"

definition resolve_session ::
    "(string \<Rightarrow> string) \<Rightarrow> string \<Rightarrow> time \<Rightarrow> (auth_db, principal option) op" where
  "resolve_session collate fp now =
     bind (gets (session_rows fp now)) (\<lambda>rows.
     bind (one_or_none rows) (\<lambda>row.
     case row of
       None \<Rightarrow> ret None
     | Some (s, u) \<Rightarrow> gets (\<lambda>db. Some (make_principal s u
         (role_names collate (s_user_id s) db) (permission_codes (s_user_id s) db)))))"

definition revoke_session :: "call_env \<Rightarrow> uuid \<Rightarrow> time \<Rightarrow> (auth_db, unit) op" where
  "revoke_session env session_id now =
     transaction (
       bind (gets (\<lambda>db. map s_user_id (filter (\<lambda>s. s_id s = session_id \<and> s_revoked_at s = None)
         (db_sessions db)))) (\<lambda>rows.
       bind (modify (\<lambda>db. db\<lparr>db_sessions := update_where (\<lambda>s. s_id s = session_id \<and> s_revoked_at s = None)
         (\<lambda>s. s\<lparr>s_revoked_at := Some now\<rparr>) (db_sessions db)\<rparr>)) (\<lambda>_.
       bind (one_or_none rows) (\<lambda>row.
       case row of
         None \<Rightarrow> ret ()
       | Some user_id \<Rightarrow> record_event env 0 session_id user_id ''session.revoked''))))"

section \<open>WebSocket tickets\<close>

definition put_ws_ticket :: "call_env \<Rightarrow> string \<Rightarrow> uuid \<Rightarrow> string \<Rightarrow> time \<Rightarrow> (auth_db, unit) op" where
  "put_ws_ticket env ticket_fingerprint session_id channel expires_at =
     transaction (
       bind (lift (varchar 64 ticket_fingerprint)) (\<lambda>fp.
       bind (lift (varchar 32 channel)) (\<lambda>channel.
       insert_ticket \<lparr>t_id = env_ids env 0, t_ticket_fingerprint = fp, t_session_id = session_id,
         t_channel = channel, t_expires_at = expires_at\<rparr>)))"

definition ticket_matches :: "string \<Rightarrow> string \<Rightarrow> time \<Rightarrow> auth_db \<Rightarrow> ticket_row \<Rightarrow> bool" where
  "ticket_matches fp channel now db t \<longleftrightarrow>
     t_ticket_fingerprint t = fp \<and> t_channel t = channel \<and> now < t_expires_at t \<and>
     (\<exists>s \<in> set (db_sessions db). t_session_id t = s_id s \<and> s_revoked_at s = None \<and>
        now < s_expires_at s)"

definition consume_ws_ticket :: "string \<Rightarrow> string \<Rightarrow> time \<Rightarrow> (auth_db, uuid option) op" where
  "consume_ws_ticket fp channel now =
     transaction (
       bind (gets (\<lambda>db. map t_session_id (filter (ticket_matches fp channel now db) (db_tickets db))))
         (\<lambda>rows.
       bind (modify (\<lambda>db. db\<lparr>db_tickets :=
         filter (\<lambda>t. \<not> ticket_matches fp channel now db t) (db_tickets db)\<rparr>)) (\<lambda>_.
       one_or_none rows)))"

section \<open>The repository\<close>

definition postgres :: "(string \<Rightarrow> string) \<Rightarrow> auth_db repo_ops" where
  "postgres collate =
     \<lparr>rp_put_flow = put_flow, rp_consume_flow = consume_flow, rp_put_login_grant = put_login_grant,
      rp_consume_login_grant = consume_login_grant, rp_provision_identity = provision_identity,
      rp_register_device = register_device, rp_create_session = create_session,
      rp_resolve_session = resolve_session collate, rp_revoke_session = revoke_session,
      rp_list_devices = list_devices, rp_revoke_device = revoke_device,
      rp_put_ws_ticket = put_ws_ticket, rp_consume_ws_ticket = consume_ws_ticket\<rparr>"

end
