(* ===== verification/Auth_Effects.thy ===== *)
theory Auth_Effects
  imports Auth_Repository
begin

text \<open>
  The invariant the schema's constraints keep (unique keys, foreign keys, allowed values), and,
  under it, what each repository method computes: every query that the code reads with
  \<open>one_or_none\<close> has at most one row.
\<close>

section \<open>Queries with at most one row\<close>

lemma find_filter: "List.find P xs = (case filter P xs of [] \<Rightarrow> None | x # _ \<Rightarrow> Some x)"
  by (induction xs) auto

lemma filter_at_most_one:
  assumes "distinct (map k xs)"
    and "\<And>x y. x \<in> set xs \<Longrightarrow> y \<in> set xs \<Longrightarrow> P x \<Longrightarrow> P y \<Longrightarrow> k x = k y"
  shows "length (filter P xs) \<le> 1"
  using assms
proof (induction xs)
  case (Cons x xs)
  then have IH: "length (filter P xs) \<le> 1" by simp
  show ?case
  proof (cases "P x")
    case True
    have "\<not> P y" if "y \<in> set xs" for y
      using Cons.prems(1) Cons.prems(2) [of x y] True that by force
    then have "filter P xs = []" by (simp add: filter_empty_conv)
    then show ?thesis by simp
  qed (use IH in simp)
qed simp

lemma one_or_none_unique:
  assumes "distinct (map k xs)"
    and "\<And>x y. x \<in> set xs \<Longrightarrow> y \<in> set xs \<Longrightarrow> P x \<Longrightarrow> P y \<Longrightarrow> k x = k y"
  shows "one_or_none (map h (filter P xs)) s = (Inr (map_option h (List.find P xs)), s)"
proof -
  have "length (filter P xs) \<le> 1" using assms by (rule filter_at_most_one)
  then show ?thesis
    by (cases "filter P xs") (auto simp: one_or_none_def find_filter ret_def split: list.splits)
qed

lemma find_unique:
  assumes "distinct (map k xs)"
    and "\<And>x y. x \<in> set xs \<Longrightarrow> y \<in> set xs \<Longrightarrow> P x \<Longrightarrow> P y \<Longrightarrow> k x = k y"
  shows "List.find P xs = Some x \<longleftrightarrow> x \<in> set xs \<and> P x"
proof
  assume x: "x \<in> set xs \<and> P x"
  then have "x \<in> set (filter P xs)" by simp
  moreover have "length (filter P xs) \<le> 1" using assms by (rule filter_at_most_one)
  ultimately have "filter P xs = [x]" by (cases "filter P xs") auto
  then show "List.find P xs = Some x" by (simp add: find_filter)
qed (auto dest: find_Some_set)

section \<open>The invariant\<close>

definition unique_keys :: "auth_db \<Rightarrow> bool" where
  "unique_keys db \<longleftrightarrow>
     distinct (map u_id (db_users db)) \<and> distinct (map u_email (db_users db)) \<and>
     distinct (map d_id (db_devices db)) \<and>
     distinct (map (\<lambda>d. (d_user_id d, d_device_key d)) (db_devices db)) \<and>
     distinct (map s_id (db_sessions db)) \<and> distinct (map s_token_fingerprint (db_sessions db)) \<and>
     distinct (map (\<lambda>i. (i_issuer i, i_subject i)) (db_identities db)) \<and>
     distinct (map f_state_fingerprint (db_flows db)) \<and>
     distinct (map g_code_fingerprint (db_grants db)) \<and>
     distinct (map t_ticket_fingerprint (db_tickets db))"

definition references_ok :: "auth_db \<Rightarrow> bool" where
  "references_ok db \<longleftrightarrow>
     (\<forall>d \<in> set (db_devices db). d_user_id d \<in> u_id ` set (db_users db)) \<and>
     (\<forall>s \<in> set (db_sessions db). s_user_id s \<in> u_id ` set (db_users db) \<and>
        (\<forall>d. s_device_id s = Some d \<longrightarrow> d \<in> d_id ` set (db_devices db))) \<and>
     (\<forall>i \<in> set (db_identities db). i_user_id i \<in> u_id ` set (db_users db)) \<and>
     (\<forall>t \<in> set (db_tickets db). t_session_id t \<in> s_id ` set (db_sessions db))"

lemma references_ok_code [code]: "references_ok db \<longleftrightarrow>
     (\<forall>d \<in> set (db_devices db). d_user_id d \<in> u_id ` set (db_users db)) \<and>
     (\<forall>s \<in> set (db_sessions db). s_user_id s \<in> u_id ` set (db_users db) \<and>
        (case s_device_id s of None \<Rightarrow> True | Some d \<Rightarrow> d \<in> d_id ` set (db_devices db))) \<and>
     (\<forall>i \<in> set (db_identities db). i_user_id i \<in> u_id ` set (db_users db)) \<and>
     (\<forall>t \<in> set (db_tickets db). t_session_id t \<in> s_id ` set (db_sessions db))"
  unfolding references_ok_def by (intro conj_cong ball_cong refl) (simp split: option.splits)

definition db_inv :: "auth_db \<Rightarrow> bool" where
  "db_inv db \<longleftrightarrow> unique_keys db \<and> references_ok db"

lemmas db_inv_defs = db_inv_def unique_keys_def references_ok_def

lemma db_inv_empty: "db_inv empty_db"
  by (simp add: db_inv_defs empty_db_def)

section \<open>One-time rows\<close>

lemma consume_flow_eq:
  assumes "db_inv db"
  shows "consume_flow fp now db =
    (Inr (map_option (\<lambda>r. \<lparr>flow_encrypted_payload = f_encrypted_payload r,
       flow_redirect_uri = f_redirect_uri r\<rparr>) (List.find (flow_matches fp now) (db_flows db))),
     db\<lparr>db_flows := filter (\<lambda>r. \<not> flow_matches fp now r) (db_flows db)\<rparr>)"
proof -
  have "distinct (map f_state_fingerprint (db_flows db))" using assms by (simp add: db_inv_defs)
  then have "one_or_none (filter (flow_matches fp now) (db_flows db)) s =
      (Inr (List.find (flow_matches fp now) (db_flows db)), s)" for s :: auth_db
    using one_or_none_unique [where h = "\<lambda>r. r", of f_state_fingerprint "db_flows db"
        "flow_matches fp now" s]
    by (simp add: flow_matches_def option.map_ident)
  then show ?thesis
    by (simp add: consume_flow_def transaction_def bind_def gets_def modify_def ret_def)
qed

lemma consume_login_grant_eq:
  assumes "db_inv db"
  shows "consume_login_grant fp now db =
    (Inr (map_option g_encrypted_payload (List.find (grant_matches fp now) (db_grants db))),
     db\<lparr>db_grants := filter (\<lambda>r. \<not> grant_matches fp now r) (db_grants db)\<rparr>)"
proof -
  have "distinct (map g_code_fingerprint (db_grants db))" using assms by (simp add: db_inv_defs)
  then have "one_or_none (filter (grant_matches fp now) (db_grants db)) s =
      (Inr (List.find (grant_matches fp now) (db_grants db)), s)" for s :: auth_db
    using one_or_none_unique [where h = "\<lambda>r. r", of g_code_fingerprint "db_grants db"
        "grant_matches fp now" s]
    by (simp add: grant_matches_def option.map_ident)
  then show ?thesis
    by (simp add: consume_login_grant_def transaction_def bind_def gets_def modify_def ret_def)
qed

lemma consume_ws_ticket_eq:
  assumes "db_inv db"
  shows "consume_ws_ticket fp channel now db =
    (Inr (map_option t_session_id (List.find (ticket_matches fp channel now db) (db_tickets db))),
     db\<lparr>db_tickets := filter (\<lambda>r. \<not> ticket_matches fp channel now db r) (db_tickets db)\<rparr>)"
proof -
  have "distinct (map t_ticket_fingerprint (db_tickets db))" using assms by (simp add: db_inv_defs)
  then have "one_or_none (map t_session_id (filter (ticket_matches fp channel now db) (db_tickets db))) s =
      (Inr (map_option t_session_id (List.find (ticket_matches fp channel now db) (db_tickets db))), s)"
    for s :: auth_db
    by (intro one_or_none_unique [of t_ticket_fingerprint]) (simp_all add: ticket_matches_def)
  then show ?thesis
    by (simp add: consume_ws_ticket_def transaction_def bind_def gets_def modify_def)
qed

section \<open>Sessions\<close>

definition live_session :: "time \<Rightarrow> auth_db \<Rightarrow> session_row \<Rightarrow> user_row \<Rightarrow> bool" where
  "live_session now db s u \<longleftrightarrow>
     s_revoked_at s = None \<and> now < s_expires_at s \<and> u_id u = s_user_id s \<and> is_active u \<and>
     (\<forall>d \<in> set (db_devices db). s_device_id s = Some (d_id d) \<longrightarrow> d_revoked_at d = None)"

lemma joined_devices_live:
  assumes "distinct (map d_id (db_devices db))"
  shows "filter device_live (joined_devices db s) =
    (if \<forall>d \<in> set (db_devices db). s_device_id s = Some (d_id d) \<longrightarrow> d_revoked_at d = None
     then [hd (joined_devices db s)] else [])"
proof -
  let ?ds = "filter (\<lambda>d. s_device_id s = Some (d_id d)) (db_devices db)"
  have one: "length ?ds \<le> 1" using assms by (intro filter_at_most_one [of d_id]) auto
  show ?thesis
  proof (cases ?ds)
    case Nil
    then show ?thesis by (auto simp: joined_devices_def device_live_def filter_empty_conv)
  next
    case (Cons d ds)
    then have ds: "?ds = [d]" using one by simp
    have "set ?ds = {d}" unfolding ds by simp
    then have "d \<in> set (db_devices db) \<and> s_device_id s = Some (d_id d)"
      and "\<forall>d' \<in> set (db_devices db). s_device_id s = Some (d_id d') \<longrightarrow> d' = d"
      by auto
    then have "(\<forall>d' \<in> set (db_devices db). s_device_id s = Some (d_id d') \<longrightarrow> d_revoked_at d' = None)
        \<longleftrightarrow> d_revoked_at d = None" by metis
    then show ?thesis using ds by (simp add: joined_devices_def device_live_def)
  qed
qed

lemma session_rows_eq:
  assumes "distinct (map d_id (db_devices db))"
  shows "session_rows fp now db =
    filter (\<lambda>(s, u). s_token_fingerprint s = fp \<and> live_session now db s u)
      (List.product (db_sessions db) (db_users db))"
proof -
  have inner: "[(s, u). d \<leftarrow> joined_devices db s, Q \<and> device_live d] =
      (if Q \<and> (\<forall>d \<in> set (db_devices db). s_device_id s = Some (d_id d) \<longrightarrow> d_revoked_at d = None)
       then [(s, u)] else [])" for s u and Q
  proof -
    have "[(s, u). d \<leftarrow> xs, Q \<and> device_live d]
        = map (\<lambda>d. (s, u)) (if Q then filter device_live xs else [])" for xs
      by (induction xs) auto
    then show ?thesis by (simp add: joined_devices_live [OF assms])
  qed
  let ?Q = "\<lambda>s u. u_id u = s_user_id s \<and> s_token_fingerprint s = fp \<and> s_revoked_at s = None \<and>
      now < s_expires_at s \<and> is_active u"
  have "session_rows fp now db = [(s, u). s \<leftarrow> db_sessions db, u \<leftarrow> db_users db,
      d \<leftarrow> joined_devices db s, ?Q s u \<and> device_live d]"
    by (simp only: session_rows_def conj_assoc)
  also have "\<dots> = [(s, u). s \<leftarrow> db_sessions db, u \<leftarrow> db_users db,
      s_token_fingerprint s = fp \<and> live_session now db s u]"
    unfolding inner by (intro arg_cong [of _ _ concat] map_cong refl) (auto simp: live_session_def)
  also have "\<dots> = filter (\<lambda>(s, u). s_token_fingerprint s = fp \<and> live_session now db s u)
      (List.product (db_sessions db) (db_users db))"
  proof -
    have "[(s, u). u \<leftarrow> us, P s u] = filter (\<lambda>(s, u). P s u) (map (Pair s) us)"
      for P and s :: session_row and us :: "user_row list"
      by (induction us) auto
    then have "[(s, u). s \<leftarrow> ss, u \<leftarrow> us, P s u] = filter (\<lambda>(s, u). P s u) (List.product ss us)"
      for P and ss :: "session_row list" and us :: "user_row list"
      by (induction ss) auto
    then show ?thesis .
  qed
  finally show ?thesis .
qed

lemma resolve_session_eq:
  assumes "db_inv db"
  shows "resolve_session collate fp now db =
    (Inr (map_option (\<lambda>(s, u). make_principal s u (role_names collate (s_user_id s) db)
        (permission_codes (s_user_id s) db))
      (List.find (\<lambda>(s, u). s_token_fingerprint s = fp \<and> live_session now db s u)
        (List.product (db_sessions db) (db_users db)))), db)"
proof -
  let ?k = "\<lambda>(s, u). (s_token_fingerprint s, u_id u)"
  let ?P = "\<lambda>(s, u). s_token_fingerprint s = fp \<and> live_session now db s u"
  have keys: "distinct (map s_token_fingerprint (db_sessions db))" "distinct (map u_id (db_users db))"
    "distinct (map d_id (db_devices db))"
    using assms by (simp_all add: db_inv_defs)
  have "distinct (map ?k (List.product (db_sessions db) (db_users db)))"
    using keys by (auto simp: distinct_map distinct_product inj_on_def)
  moreover have "?k x = ?k y" if "x \<in> set (List.product (db_sessions db) (db_users db))"
    "y \<in> set (List.product (db_sessions db) (db_users db))" "?P x" "?P y" for x y
    using that keys(1) by (auto simp: live_session_def distinct_map dest: inj_onD)
  ultimately have "one_or_none (map (\<lambda>p. p) (filter ?P (List.product (db_sessions db) (db_users db)))) db =
      (Inr (map_option (\<lambda>p. p) (List.find ?P (List.product (db_sessions db) (db_users db)))), db)"
    by (rule one_or_none_unique)
  then show ?thesis
    by (auto simp: resolve_session_def bind_gets session_rows_eq [OF keys(3)] bind_def
        option.map_ident gets_def ret_def split: option.splits)
qed

text \<open>Exactly the live sessions resolve.\<close>

lemma resolve_session_Some:
  assumes "db_inv db"
  shows "resolve_session collate fp now db = (Inr (Some p), db') \<longleftrightarrow> db' = db \<and>
    (\<exists>s \<in> set (db_sessions db). \<exists>u \<in> set (db_users db). s_token_fingerprint s = fp \<and>
      live_session now db s u \<and> p = make_principal s u (role_names collate (s_user_id s) db)
        (permission_codes (s_user_id s) db))"
proof -
  let ?k = "\<lambda>(s, u). (s_token_fingerprint s, u_id u)"
  let ?P = "\<lambda>(s, u). s_token_fingerprint s = fp \<and> live_session now db s u"
  have keys: "distinct (map s_token_fingerprint (db_sessions db))" "distinct (map u_id (db_users db))"
    using assms by (simp_all add: db_inv_defs)
  have "List.find ?P (List.product (db_sessions db) (db_users db)) = Some x \<longleftrightarrow>
      x \<in> set (List.product (db_sessions db) (db_users db)) \<and> ?P x" for x
  proof (rule find_unique)
    show "distinct (map ?k (List.product (db_sessions db) (db_users db)))"
      using keys by (auto simp: distinct_map distinct_product inj_on_def)
    show "?k x = ?k y" if "x \<in> set (List.product (db_sessions db) (db_users db))"
      "y \<in> set (List.product (db_sessions db) (db_users db))" "?P x" "?P y" for x y
      using that keys(1) by (auto simp: live_session_def distinct_map dest: inj_onD)
  qed
  then show ?thesis by (force simp: resolve_session_eq [OF assms])
qed

end
