(* ===== verification/Auth_Safety.thy ===== *)
theory Auth_Safety
  imports Auth_Effects
begin

text \<open>
  Every repository method keeps the database invariant, whatever its result, and a method that
  raises changes nothing.
\<close>

section \<open>Successful methods\<close>

lemmas statement_defs = insert_user_def insert_identity_def insert_device_def insert_session_def
  insert_flow_def insert_grant_def insert_ticket_def insert_event_def update_user_def

lemma put_flow_ok:
  assumes "put_flow env fp p u e db = (Inr x, db')"
  shows "\<exists>r. flow_insertable r db \<and> db' = db\<lparr>db_flows := db_flows db @ [r]\<rparr> \<and>
    varchar 64 fp = Inr (f_state_fingerprint r) \<and> f_encrypted_payload r = p \<and>
    f_redirect_uri r = u \<and> f_expires_at r = e"
  using assms
  by (auto simp: put_flow_def bind_Inr_iff statement_defs pg_text_def split: if_splits)

lemma put_login_grant_ok:
  assumes "put_login_grant env fp p e db = (Inr x, db')"
  shows "\<exists>r. grant_insertable r db \<and> db' = db\<lparr>db_grants := db_grants db @ [r]\<rparr> \<and>
    varchar 64 fp = Inr (g_code_fingerprint r) \<and> g_encrypted_payload r = p \<and> g_expires_at r = e"
  using assms
  by (auto simp: put_login_grant_def bind_Inr_iff statement_defs pg_text_def split: if_splits)

lemma put_ws_ticket_ok:
  assumes "put_ws_ticket env fp sid c e db = (Inr x, db')"
  shows "\<exists>r. ticket_insertable r db \<and> db' = db\<lparr>db_tickets := db_tickets db @ [r]\<rparr> \<and>
    varchar 64 fp = Inr (t_ticket_fingerprint r) \<and> t_session_id r = sid \<and>
    varchar 32 c = Inr (t_channel r) \<and> t_expires_at r = e"
  using assms
  by (auto simp: put_ws_ticket_def bind_Inr_iff statement_defs split: if_splits)

lemma create_session_ok:
  assumes "create_session env uid did fp e db = (Inr sid, db')"
  obtains s ev where "session_insertable s db"
    "db' = db\<lparr>db_sessions := db_sessions db @ [s], db_events := db_events db @ [ev]\<rparr>"
    "varchar 128 fp = Inr (s_token_fingerprint s)" "s_id s = sid" "sid = env_ids env 0"
    "s_user_id s = uid" "s_device_id s = Some did" "s_expires_at s = e" "s_revoked_at s = None"
    "e_session_id ev = Some sid" "e_user_id ev = uid" "e_event_type ev = ''session.created''"
proof -
  from assms obtain key where key: "varchar 128 fp = Inr key"
    and rest: "bind (insert_session \<lparr>s_id = env_ids env 0, s_user_id = uid, s_device_id = Some did,
         s_token_fingerprint = key, s_expires_at = e, s_revoked_at = None\<rparr>) (\<lambda>_.
       bind (record_event env 1 (env_ids env 0) uid ''session.created'') (\<lambda>_.
       ret (env_ids env 0))) db = (Inr sid, db')"
    by (auto simp: create_session_def bind_Inr_iff)
  let ?s = "\<lparr>s_id = env_ids env 0, s_user_id = uid, s_device_id = Some did,
         s_token_fingerprint = key, s_expires_at = e, s_revoked_at = None\<rparr>"
  let ?ev = "\<lparr>e_id = env_ids env 1, e_session_id = Some (env_ids env 0), e_user_id = uid,
       e_event_type = ''session.created'', e_payload = ''{}'', e_occurred_at = env_db_now env\<rparr>"
  show thesis
    by (rule that [of ?s ?ev]) (use rest key in \<open>auto simp: record_event_def bind_Inr_iff statement_defs\<close>)
qed

text \<open>Revoking: nothing to revoke, or one session that gets its time stamp and its event.\<close>

lemma revoke_session_ok:
  assumes inv: "db_inv db" and ok: "revoke_session env sid now db = (Inr x, db')"
  obtains
    (absent) "\<forall>s \<in> set (db_sessions db). \<not> (s_id s = sid \<and> s_revoked_at s = None)" "db' = db"
  | (revoked) s ev where "s \<in> set (db_sessions db)" "s_id s = sid" "s_revoked_at s = None"
      "e_session_id ev = Some sid" "e_user_id ev = s_user_id s" "e_event_type ev = ''session.revoked''"
      "db' = db\<lparr>db_sessions := update_where (\<lambda>s. s_id s = sid \<and> s_revoked_at s = None)
         (\<lambda>s. s\<lparr>s_revoked_at := Some now\<rparr>) (db_sessions db), db_events := db_events db @ [ev]\<rparr>"
proof -
  let ?P = "\<lambda>s. s_id s = sid \<and> s_revoked_at s = None"
  have "distinct (map s_id (db_sessions db))" using inv by (simp add: db_inv_defs)
  then have one: "one_or_none (map s_user_id (filter ?P (db_sessions db))) t =
      (Inr (map_option s_user_id (List.find ?P (db_sessions db))), t)" for t :: auth_db
    by (intro one_or_none_unique [of s_id]) auto
  show thesis
  proof (cases "List.find ?P (db_sessions db)")
    case None
    then have none: "\<forall>s \<in> set (db_sessions db). \<not> ?P s" by (simp add: find_None_all)
    then have "update_where ?P (\<lambda>s. s\<lparr>s_revoked_at := Some now\<rparr>) (db_sessions db) = db_sessions db"
      by (rule update_where_none)
    with None ok one have "db' = db"
      by (auto simp: revoke_session_def bind_gets bind_modify bind_def [of "one_or_none _"] ret_def)
    with none show thesis by (rule absent)
  next
    case (Some s)
    note mem = find_Some_set [OF Some]
    let ?ev = "\<lparr>e_id = env_ids env 0, e_session_id = Some sid, e_user_id = s_user_id s,
       e_event_type = ''session.revoked'', e_payload = ''{}'', e_occurred_at = env_db_now env\<rparr>"
    from Some ok one have "db' = db\<lparr>db_sessions := update_where ?P
         (\<lambda>s. s\<lparr>s_revoked_at := Some now\<rparr>) (db_sessions db), db_events := db_events db @ [?ev]\<rparr>"
      by (auto simp: revoke_session_def bind_gets bind_modify bind_def [of "one_or_none _"]
          record_event_def statement_defs)
    then show thesis using mem by (intro revoked [of s ?ev]) simp_all
  qed
qed

lemma revoke_device_ok:
  assumes inv: "db_inv db"
  shows "revoke_device uid did now db =
    (if \<exists>d \<in> set (db_devices db). own_device uid did d
     then (Inr True, db\<lparr>db_devices := update_where (own_device uid did)
         (\<lambda>d. d\<lparr>d_revoked_at := Some now, d_updated_at := now\<rparr>) (db_devices db),
       db_sessions := update_where (\<lambda>s. s_device_id s = Some did \<and> s_revoked_at s = None)
         (\<lambda>s. s\<lparr>s_revoked_at := Some now\<rparr>) (db_sessions db)\<rparr>)
     else (Inr False, db))"
proof -
  have "distinct (map d_id (db_devices db))" using inv by (simp add: db_inv_defs)
  then have one: "one_or_none (filter (own_device uid did) (db_devices db)) t =
      (Inr (List.find (own_device uid did) (db_devices db)), t)" for t :: auth_db
    using one_or_none_unique [where h = "\<lambda>d. d", of d_id "db_devices db" "own_device uid did" t]
    by (simp add: own_device_def option.map_ident)
  show ?thesis
  proof (cases "List.find (own_device uid did) (db_devices db)")
    case None
    then have none: "\<forall>d \<in> set (db_devices db). \<not> own_device uid did d" by (simp add: find_None_all)
    then have "update_where (own_device uid did)
        (\<lambda>d. d\<lparr>d_revoked_at := Some now, d_updated_at := now\<rparr>) (db_devices db) = db_devices db"
      by (rule update_where_none)
    with None none one show ?thesis
      by (auto simp: revoke_device_def transaction_def bind_gets bind_modify
          bind_def [of "one_or_none _"] ret_def)
  next
    case (Some d)
    then have "\<exists>d \<in> set (db_devices db). own_device uid did d" using find_Some_set by metis
    with Some one show ?thesis
      by (auto simp: revoke_device_def transaction_def bind_gets bind_modify
          bind_def [of "one_or_none _"] ret_def)
  qed
qed

lemma register_device_ok:
  assumes inv: "db_inv db" and ok: "register_device env uid fp platform now db = (Inr did, db')"
  obtains
    (fresh) d where "device_insertable d db" "db' = db\<lparr>db_devices := db_devices db @ [d]\<rparr>"
      "d_id d = did" "d_user_id d = uid" "varchar 200 fp = Inr (d_device_key d)" "d_revoked_at d = None"
      "\<forall>r \<in> set (db_devices db). \<not> device_conflict uid (d_device_key d) r"
  | (known) d key plat where "d \<in> set (db_devices db)" "d_id d = did" "varchar 200 fp = Inr key"
      "device_conflict uid key d"
      "db' = db\<lparr>db_devices := update_where (device_conflict uid key)
         (\<lambda>d. d\<lparr>d_platform := plat, d_last_seen_at := Some now, d_revoked_at := None,
           d_updated_at := env_db_now env\<rparr>) (db_devices db)\<rparr>"
proof -
  from ok obtain key plat where key: "varchar 200 fp = Inr key" "varchar 40 platform = Inr plat"
    and rest: "(case filter (device_conflict uid key) (db_devices db) of
         [] \<Rightarrow>
           bind (insert_device \<lparr>d_id = env_ids env 0, d_user_id = uid, d_device_key = key,
             d_platform = plat, d_last_seen_at = Some now, d_revoked_at = None,
             d_created_at = env_db_now env, d_updated_at = env_db_now env\<rparr>) (\<lambda>_.
           ret (env_ids env 0))
       | r # _ \<Rightarrow>
           bind (modify (\<lambda>db. db\<lparr>db_devices := update_where (device_conflict uid key)
             (\<lambda>d. d\<lparr>d_platform := plat, d_last_seen_at := Some now, d_revoked_at := None,
               d_updated_at := env_db_now env\<rparr>) (db_devices db)\<rparr>)) (\<lambda>_.
           ret (d_id r))) db = (Inr did, db')"
    by (auto simp: register_device_def bind_Inr_iff)
  show thesis
  proof (cases "filter (device_conflict uid key) (db_devices db)")
    case Nil
    then have "\<forall>r \<in> set (db_devices db). \<not> device_conflict uid key r" by (simp add: filter_empty_conv)
    with Nil rest key fresh show thesis
      by (auto simp: statement_defs bind_Inr_iff)
  next
    case (Cons d ds)
    then have "d \<in> set (db_devices db) \<and> device_conflict uid key d"
      by (metis filter_eq_ConsD in_set_conv_decomp)
    with Cons rest key known show thesis by (auto simp: bind_Inr_iff)
  qed
qed

lemma provision_identity_ok:
  assumes inv: "db_inv db" and ok: "provision_identity env i db = (Inr uid, db')"
  obtains
    (created) u r where "user_insertable u db"
      "identity_insertable r (db\<lparr>db_users := db_users db @ [u]\<rparr>)"
      "db' = db\<lparr>db_users := db_users db @ [u], db_identities := db_identities db @ [r]\<rparr>"
      "u_id u = uid" "i_user_id r = uid" "u_status u = ''active''"
      "varchar 512 (ide_issuer i) = Inr (i_issuer r)" "varchar 512 (ide_subject i) = Inr (i_subject r)"
      "varchar 320 (ide_email i) = Inr (u_email u)"
      "\<forall>r \<in> set (db_identities db). \<not> (i_issuer r = ide_issuer i \<and> i_subject r = ide_subject i)"
  | (known) r email name where "r \<in> set (db_identities db)" "i_user_id r = uid"
      "i_issuer r = ide_issuer i" "i_subject r = ide_subject i"
      "(\<exists>u \<in> set (db_users db). u_id u = uid \<and> is_active u) \<longrightarrow>
         (\<forall>u \<in> set (db_users db). u_id u \<noteq> uid \<longrightarrow> u_email u \<noteq> email)"
      "db' = db\<lparr>db_users := update_where (\<lambda>u. u_id u = uid \<and> is_active u)
         (\<lambda>u. u\<lparr>u_email := email, u_display_name := name, u_updated_at := env_db_now env\<rparr>)
         (db_users db)\<rparr>"
proof -
  let ?P = "\<lambda>r. i_issuer r = ide_issuer i \<and> i_subject r = ide_subject i"
  have "distinct (map (\<lambda>i. (i_issuer i, i_subject i)) (db_identities db))"
    using inv by (simp add: db_inv_defs)
  then have one: "one_or_none (map i_user_id (filter ?P (db_identities db))) t =
      (Inr (map_option i_user_id (List.find ?P (db_identities db))), t)" for t :: auth_db
    by (intro one_or_none_unique [of "\<lambda>i. (i_issuer i, i_subject i)"]) auto
  have t: "pg_text (ide_issuer i) = Inr (ide_issuer i)" "pg_text (ide_subject i) = Inr (ide_subject i)"
    using ok by (auto simp: provision_identity_def bind_Inr_iff pg_text_def split: if_splits)
  let ?found = "map_option i_user_id (List.find ?P (db_identities db))"
  let ?new = "\<lambda>email name. \<lparr>u_id = env_ids env 0, u_email = email, u_display_name = name,
      u_status = ''active'', u_updated_at = env_db_now env\<rparr>"
  have "bind (lift (varchar 320 (ide_email i))) (\<lambda>email.
      bind (lift (varchar 120 (ide_display_name i))) (\<lambda>name.
      case ?found of
         None \<Rightarrow>
           bind (insert_user (?new email name)) (\<lambda>_.
           bind (lift (varchar 512 (ide_issuer i))) (\<lambda>issuer.
           bind (lift (varchar 512 (ide_subject i))) (\<lambda>subject.
           bind (insert_identity \<lparr>i_id = env_ids env 1, i_user_id = env_ids env 0,
             i_issuer = issuer, i_subject = subject\<rparr>) (\<lambda>_.
           ret (env_ids env 0)))))
       | Some user_id \<Rightarrow>
           bind (update_user (env_db_now env) user_id email name) (\<lambda>_. ret user_id))) db
      = (Inr uid, db')"
    using ok unfolding provision_identity_def
    by (simp add: t bind_gets bind_def [of "one_or_none _"] one)
  then obtain email name where v: "varchar 320 (ide_email i) = Inr email"
    and body: "(case ?found of
         None \<Rightarrow>
           bind (insert_user (?new email name)) (\<lambda>_.
           bind (lift (varchar 512 (ide_issuer i))) (\<lambda>issuer.
           bind (lift (varchar 512 (ide_subject i))) (\<lambda>subject.
           bind (insert_identity \<lparr>i_id = env_ids env 1, i_user_id = env_ids env 0,
             i_issuer = issuer, i_subject = subject\<rparr>) (\<lambda>_.
           ret (env_ids env 0)))))
       | Some user_id \<Rightarrow>
           bind (update_user (env_db_now env) user_id email name) (\<lambda>_. ret user_id)) db
      = (Inr uid, db')"
    by (cases "varchar 320 (ide_email i)"; cases "varchar 120 (ide_display_name i)") auto
  show thesis
  proof (cases "List.find ?P (db_identities db)")
    case None
    then have "\<forall>r \<in> set (db_identities db). \<not> ?P r" by (simp add: find_None_all)
    moreover from None body obtain iss sub where
        "varchar 512 (ide_issuer i) = Inr iss" "varchar 512 (ide_subject i) = Inr sub"
        "bind (insert_user (?new email name)) (\<lambda>_.
        bind (insert_identity \<lparr>i_id = env_ids env 1, i_user_id = env_ids env 0,
          i_issuer = iss, i_subject = sub\<rparr>) (\<lambda>_. ret (env_ids env 0))) db = (Inr uid, db')"
      by (cases "varchar 512 (ide_issuer i)"; cases "varchar 512 (ide_subject i)")
        (simp_all add: bind_Inr_iff)
    ultimately show thesis
      by (intro created [of "?new email name" "\<lparr>i_id = env_ids env 1,
          i_user_id = env_ids env 0, i_issuer = iss, i_subject = sub\<rparr>"])
        (use v in \<open>simp_all add: bind_Inr_iff statement_defs\<close>)
  next
    case (Some r)
    then have "r \<in> set (db_identities db)" "?P r" using find_Some_set [OF Some] by simp_all
    moreover have "bind (update_user (env_db_now env) (i_user_id r) email name)
        (\<lambda>_. ret (i_user_id r)) db = (Inr uid, db')"
      using body unfolding Some option.map option.case .
    then have "i_user_id r = uid"
      and "update_user (env_db_now env) uid email name db = (Inr (), db')"
      by (auto simp: bind_Inr_iff)
    ultimately show thesis
      unfolding statement_defs constrained_eq by (intro known) (blast | simp only:)+
  qed
qed

section \<open>The invariant is kept\<close>

text \<open>A method that raises changes nothing.\<close>

lemma method_error:
  "put_flow env fp p u e db = (Inl x, db') \<Longrightarrow> db' = db"
  "consume_flow fp now db = (Inl x, db') \<Longrightarrow> db' = db"
  "put_login_grant env fp p e db = (Inl x, db') \<Longrightarrow> db' = db"
  "consume_login_grant fp now db = (Inl x, db') \<Longrightarrow> db' = db"
  "provision_identity env i db = (Inl x, db') \<Longrightarrow> db' = db"
  "register_device env uid fp p now db = (Inl x, db') \<Longrightarrow> db' = db"
  "create_session env uid did fp e db = (Inl x, db') \<Longrightarrow> db' = db"
  "revoke_session env sid now db = (Inl x, db') \<Longrightarrow> db' = db"
  "revoke_device uid did now db = (Inl x, db') \<Longrightarrow> db' = db"
  "put_ws_ticket env fp sid c e db = (Inl x, db') \<Longrightarrow> db' = db"
  "consume_ws_ticket fp c now db = (Inl x, db') \<Longrightarrow> db' = db"
  by (simp_all add: put_flow_def consume_flow_def put_login_grant_def consume_login_grant_def
      provision_identity_def register_device_def create_session_def revoke_session_def
      revoke_device_def put_ws_ticket_def consume_ws_ticket_def)

lemma resolve_session_state [simp]: "snd (resolve_session collate fp now db) = db"
  by (auto simp: resolve_session_def bind_def gets_def one_or_none_def ret_def raise_def
      split: list.splits option.splits prod.splits)

lemma list_devices_state [simp]: "snd (list_devices uid db) = db"
  by (simp add: list_devices_def gets_def)

text \<open>A method keeps the invariant; \<open>res\<close> is its result, or the exception.\<close>

lemma inv_put_flow: "db_inv db \<Longrightarrow> put_flow env fp p u e db = (res, db') \<Longrightarrow> db_inv db'"
  by (cases res) (auto simp: db_inv_defs flow_insertable_def dest: method_error dest!: put_flow_ok)

lemma inv_put_login_grant:
  "db_inv db \<Longrightarrow> put_login_grant env fp p e db = (res, db') \<Longrightarrow> db_inv db'"
  by (cases res) (auto simp: db_inv_defs grant_insertable_def dest: method_error
      dest!: put_login_grant_ok)

lemma inv_put_ws_ticket:
  "db_inv db \<Longrightarrow> put_ws_ticket env fp sid c e db = (res, db') \<Longrightarrow> db_inv db'"
  by (cases res) (auto simp: db_inv_defs ticket_insertable_def dest: method_error
      dest!: put_ws_ticket_ok)

lemma inv_consume_flow: "db_inv db \<Longrightarrow> consume_flow fp now db = (res, db') \<Longrightarrow> db_inv db'"
  by (auto simp: consume_flow_eq db_inv_defs distinct_map_filter)

lemma inv_consume_login_grant:
  "db_inv db \<Longrightarrow> consume_login_grant fp now db = (res, db') \<Longrightarrow> db_inv db'"
  by (auto simp: consume_login_grant_eq db_inv_defs distinct_map_filter)

lemma inv_consume_ws_ticket:
  "db_inv db \<Longrightarrow> consume_ws_ticket fp c now db = (res, db') \<Longrightarrow> db_inv db'"
  by (auto simp: consume_ws_ticket_eq db_inv_defs distinct_map_filter)

lemma inv_create_session:
  assumes "db_inv db" "create_session env uid did fp e db = (res, db')"
  shows "db_inv db'"
proof (cases res)
  case (Inr sid)
  with assms(2) have "create_session env uid did fp e db = (Inr sid, db')" by simp
  then obtain s ev where "session_insertable s db"
    "db' = db\<lparr>db_sessions := db_sessions db @ [s], db_events := db_events db @ [ev]\<rparr>"
    by (rule create_session_ok)
  then show ?thesis
    using assms(1) by (auto simp: db_inv_defs session_insertable_def split: option.splits)
qed (use assms in \<open>auto dest: method_error\<close>)

lemma update_sessions_inv:
  assumes "db_inv db" "\<And>s. s_id (g s) = s_id s" "\<And>s. s_user_id (g s) = s_user_id s"
    "\<And>s. s_device_id (g s) = s_device_id s" "\<And>s. s_token_fingerprint (g s) = s_token_fingerprint s"
  shows "db_inv (db\<lparr>db_sessions := update_where P g (db_sessions db)\<rparr>)"
  using assms(1) unfolding db_inv_defs
  by (simp add: map_update_where image_update_where assms)
    (auto simp: set_update_where assms)

lemma update_devices_inv:
  assumes "db_inv db" "\<And>d. d_id (g d) = d_id d" "\<And>d. d_user_id (g d) = d_user_id d"
    "\<And>d. d_device_key (g d) = d_device_key d"
  shows "db_inv (db\<lparr>db_devices := update_where P g (db_devices db)\<rparr>)"
  using assms(1) unfolding db_inv_defs
  by (simp add: map_update_where image_update_where assms)
    (auto simp: set_update_where assms)

lemma inv_revoke_device:
  assumes "db_inv db" "revoke_device uid did now db = (res, db')"
  shows "db_inv db'"
proof -
  have "db_inv (db\<lparr>db_devices := update_where P g (db_devices db),
      db_sessions := update_where Q h (db_sessions db)\<rparr>)"
    if "g = (\<lambda>d. d\<lparr>d_revoked_at := Some now, d_updated_at := now\<rparr>)"
      "h = (\<lambda>s. s\<lparr>s_revoked_at := Some now\<rparr>)" for P Q g h
    using update_sessions_inv [OF update_devices_inv [OF assms(1), of g P], of h Q] that by simp
  then show ?thesis using assms by (auto simp: revoke_device_ok split: if_splits)
qed

lemma inv_revoke_session:
  assumes "db_inv db" "revoke_session env sid now db = (res, db')"
  shows "db_inv db'"
proof (cases res)
  case (Inr x)
  have frame: "db_inv (db\<lparr>db_events := evs\<rparr>) \<longleftrightarrow> db_inv db" for db evs
    by (simp add: db_inv_defs)
  show ?thesis
    using assms(1) assms(2) [unfolded Inr]
  proof (cases rule: revoke_session_ok)
    case (revoked s ev)
    then show ?thesis
      using update_sessions_inv [OF assms(1), of "\<lambda>s. s\<lparr>s_revoked_at := Some now\<rparr>"] by (simp add: frame)
  qed (use assms in simp)
qed (use assms in \<open>auto dest: method_error\<close>)

lemma inv_register_device:
  assumes "db_inv db" "register_device env uid fp platform now db = (res, db')"
  shows "db_inv db'"
proof (cases res)
  case (Inr did)
  show ?thesis
    using assms(1) assms(2) [unfolded Inr]
  proof (cases rule: register_device_ok)
    case (fresh d)
    then show ?thesis
      using assms(1) by (auto simp: db_inv_defs device_insertable_def device_conflict_def)
  next
    case (known d key plat)
    then show ?thesis using assms(1) by (simp add: update_devices_inv)
  qed
qed (use assms in \<open>auto dest: method_error\<close>)

lemma inv_provision_identity:
  assumes "db_inv db" "provision_identity env i db = (res, db')"
  shows "db_inv db'"
proof (cases res)
  case (Inr uid)
  show ?thesis
    using assms(1) assms(2) [unfolded Inr]
  proof (cases rule: provision_identity_ok)
    case (created u r)
    then show ?thesis
      using assms(1) by (auto simp: db_inv_defs user_insertable_def identity_insertable_def)
  next
    case (known r email name)
    let ?us = "update_where (\<lambda>u. u_id u = uid \<and> is_active u)
         (\<lambda>u. u\<lparr>u_email := email, u_display_name := name, u_updated_at := env_db_now env\<rparr>)
         (db_users db)"
    have ids: "map u_id ?us = map u_id (db_users db)" by (rule map_update_where) simp
    then have ids': "u_id ` set ?us = u_id ` set (db_users db)" by (metis set_map)
    have "distinct (map u_id (db_users db))" "distinct (map u_email (db_users db))"
      using assms(1) by (simp_all add: db_inv_defs)
    then have "distinct (map u_email ?us)"
      using known(5) by (fastforce simp: update_where_def distinct_map inj_on_def)
    then show ?thesis
      using assms(1) known(6) by (simp add: db_inv_defs ids ids')
  qed
qed (use assms in \<open>auto dest: method_error\<close>)

lemmas method_inv = inv_put_flow inv_consume_flow inv_put_login_grant inv_consume_login_grant
  inv_provision_identity inv_register_device inv_create_session inv_revoke_session
  inv_revoke_device inv_put_ws_ticket inv_consume_ws_ticket

end
