(* ===== verification/Traces.thy ===== *)
theory Traces
  imports Main
begin

text \<open>
  Runs of a step relation with the events they produce, invariants and permanent facts along a
  run, and the accounting argument behind one-time values: what is taken was put.
\<close>

inductive trace :: "('s \<Rightarrow> 'e \<Rightarrow> 's \<Rightarrow> bool) \<Rightarrow> 's \<Rightarrow> 'e list \<Rightarrow> 's \<Rightarrow> bool"
  for step :: "'s \<Rightarrow> 'e \<Rightarrow> 's \<Rightarrow> bool" where
  nil: "trace step s [] s"
| snoc: "trace step s es t \<Longrightarrow> step t e u \<Longrightarrow> trace step s (es @ [e]) u"

lemma trace_single: "step s e t \<Longrightarrow> trace step s [e] t"
  using trace.snoc [OF trace.nil] by fastforce

lemma trace_cons: "trace step t es u \<Longrightarrow> step s e t \<Longrightarrow> trace step s (e # es) u"
proof (induction rule: trace.induct)
  case (snoc t es u e' v)
  then have "trace step s ((e # es) @ [e']) v" by (intro trace.snoc) auto
  then show ?case by simp
qed (rule trace_single)

lemma trace_append: "trace step t fs u \<Longrightarrow> trace step s es t \<Longrightarrow> trace step s (es @ fs) u"
proof (induction rule: trace.induct)
  case (snoc t fs u e v)
  then have "trace step s ((es @ fs) @ [e]) v" by (intro trace.snoc) auto
  then show ?case by simp
qed simp

text \<open>A property every step keeps holds after a run.\<close>

lemma trace_invariant:
  assumes "trace step s es t" "P s" "\<And>s e t. step s e t \<Longrightarrow> P s \<Longrightarrow> P t"
  shows "P t"
  using assms by (induction rule: trace.induct) blast+

text \<open>No event of a run is one that no step can produce while the property holds.\<close>

lemma trace_excludes:
  assumes "trace step s es t" "P s" "\<And>s e t. step s e t \<Longrightarrow> P s \<Longrightarrow> P t \<and> \<not> bad e"
  shows "P t \<and> (\<forall>e \<in> set es. \<not> bad e)"
  using assms(1,2)
proof (induction rule: trace.induct)
  case (snoc s es t e u)
  then show ?case using assms(3) [OF snoc.hyps(2)] by auto
qed simp

section \<open>One-time values\<close>

text \<open>
  \<open>stored\<close> counts the stored copies of a value, \<open>puts\<close> and \<open>takes\<close> recognise the events that
  store and that hand out one.
\<close>

locale one_time =
  fixes step :: "'s \<Rightarrow> 'e \<Rightarrow> 's \<Rightarrow> bool" and inv :: "'s \<Rightarrow> bool" and stored :: "'s \<Rightarrow> nat"
    and puts :: "'e \<Rightarrow> bool" and takes :: "'e \<Rightarrow> bool"
  assumes step_inv: "step s e t \<Longrightarrow> inv s \<Longrightarrow> inv t"
    and balance: "step s e t \<Longrightarrow> inv s \<Longrightarrow>
      stored t + (if takes e then 1 else 0) \<le> stored s + (if puts e then 1 else 0)"
begin

lemma taken_was_put:
  assumes "trace step s es t" "inv s"
  shows "inv t \<and> stored t + length (filter takes es) \<le> stored s + length (filter puts es)"
  using assms
proof (induction rule: trace.induct)
  case (snoc s es t e u)
  then show ?case using step_inv [of t e u] balance [of t e u] by fastforce
qed simp

end

end
