(* ===== verification/Auth_Traces.thy ===== *)
theory Auth_Traces
  imports Auth_Safety Traces
begin

text \<open>
  Sequences of repository calls, as concurrent requests produce them: each call is one
  transaction, and its event is the call with the result it returned.  Along any such run the
  invariant holds, what was revoked stays revoked, an identity keeps its user, and every stored
  one-time value is handed out at most once.
\<close>

section \<open>Calls\<close>

datatype repo_call =
    Put_Flow call_env string string string time
  | Consume_Flow string time
  | Put_Grant call_env string string time
  | Consume_Grant string time
  | Provision call_env identity
  | Register call_env uuid string string time
  | Create_Session call_env uuid uuid string time
  | Resolve string time
  | Revoke_Session call_env uuid time
  | List_Devices uuid
  | Revoke_Device uuid uuid time
  | Put_Ticket call_env string uuid string time
  | Consume_Ticket string string time

datatype repo_result =
    Done
  | Got_Flow "flow option"
  | Got_Grant "string option"
  | Got_Id uuid
  | Got_Session "principal option"
  | Got_Devices "device list"
  | Got_Flag bool
  | Got_Ticket "uuid option"
  | Raised exn

definition outcome :: "('a \<Rightarrow> repo_result) \<Rightarrow> 'a res \<times> auth_db \<Rightarrow> repo_result \<times> auth_db" where
  "outcome f = (\<lambda>(r, db). (case r of Inl e \<Rightarrow> Raised e | Inr x \<Rightarrow> f x, db))"

fun repo_do :: "(string \<Rightarrow> string) \<Rightarrow> repo_call \<Rightarrow> auth_db \<Rightarrow> repo_result \<times> auth_db" where
  "repo_do col (Put_Flow env fp p u e) db = outcome (\<lambda>_. Done) (put_flow env fp p u e db)"
| "repo_do col (Consume_Flow fp now) db = outcome Got_Flow (consume_flow fp now db)"
| "repo_do col (Put_Grant env fp p e) db = outcome (\<lambda>_. Done) (put_login_grant env fp p e db)"
| "repo_do col (Consume_Grant fp now) db = outcome Got_Grant (consume_login_grant fp now db)"
| "repo_do col (Provision env i) db = outcome Got_Id (provision_identity env i db)"
| "repo_do col (Register env uid fp p now) db = outcome Got_Id (register_device env uid fp p now db)"
| "repo_do col (Create_Session env uid did fp e) db =
     outcome Got_Id (create_session env uid did fp e db)"
| "repo_do col (Resolve fp now) db = outcome Got_Session (resolve_session col fp now db)"
| "repo_do col (Revoke_Session env sid now) db = outcome (\<lambda>_. Done) (revoke_session env sid now db)"
| "repo_do col (List_Devices uid) db = outcome Got_Devices (list_devices uid db)"
| "repo_do col (Revoke_Device uid did now) db = outcome Got_Flag (revoke_device uid did now db)"
| "repo_do col (Put_Ticket env fp sid c e) db = outcome (\<lambda>_. Done) (put_ws_ticket env fp sid c e db)"
| "repo_do col (Consume_Ticket fp c now) db = outcome Got_Ticket (consume_ws_ticket fp c now db)"

type_synonym repo_event = "repo_call \<times> repo_result"

definition repo_step :: "(string \<Rightarrow> string) \<Rightarrow> auth_db \<Rightarrow> repo_event \<Rightarrow> auth_db \<Rightarrow> bool" where
  "repo_step col db e db' \<longleftrightarrow> repo_do col (fst e) db = (snd e, db')"

abbreviation repo_trace :: "(string \<Rightarrow> string) \<Rightarrow> auth_db \<Rightarrow> repo_event list \<Rightarrow> auth_db \<Rightarrow> bool" where
  "repo_trace col \<equiv> trace (repo_step col)"

lemma outcome_eq:
  "outcome f x = (r, db') \<longleftrightarrow>
     (\<exists>e. x = (Inl e, db') \<and> r = Raised e) \<or> (\<exists>y. x = (Inr y, db') \<and> r = f y)"
  by (cases x; cases "fst x") (auto simp: outcome_def)

text \<open>The run a list of calls makes.\<close>

fun repo_run :: "(string \<Rightarrow> string) \<Rightarrow> repo_call list \<Rightarrow> auth_db \<Rightarrow> repo_event list \<times> auth_db" where
  "repo_run col [] db = ([], db)"
| "repo_run col (c # cs) db =
     (let (r, db1) = repo_do col c db; (es, db2) = repo_run col cs db1 in ((c, r) # es, db2))"

lemma repo_run_trace: "repo_run col cs db = (es, db') \<Longrightarrow> repo_trace col db es db'"
proof (induction cs arbitrary: db es)
  case (Cons c cs)
  then show ?case
    by (auto simp: repo_step_def split: prod.splits intro!: trace_cons)
qed (auto intro: trace.nil)

lemma repo_run_calls: "map fst (fst (repo_run col cs db)) = cs"
proof (induction cs arbitrary: db)
  case (Cons c cs)
  have "map fst (fst (repo_run col cs db')) = cs" for db' by (rule Cons)
  then show ?case by (simp add: case_prod_beta Let_def)
qed simp

section \<open>The invariant along a run\<close>

lemma repo_step_inv: "repo_step col db e db' \<Longrightarrow> db_inv db \<Longrightarrow> db_inv db'"
proof (cases "fst e")
  case (Resolve fp now)
  assume "repo_step col db e db'" "db_inv db"
  moreover from this Resolve have "db' = snd (resolve_session col fp now db)"
    by (auto simp: repo_step_def outcome_eq simp del: resolve_session_state)
  ultimately show ?thesis by simp
next
  case (List_Devices uid)
  assume "repo_step col db e db'" "db_inv db"
  moreover from this List_Devices have "db' = snd (list_devices uid db)"
    by (auto simp: repo_step_def outcome_eq simp del: list_devices_state)
  ultimately show ?thesis by simp
qed (auto simp: repo_step_def outcome_eq intro: method_inv)

lemma repo_trace_inv: "repo_trace col db es db' \<Longrightarrow> db_inv db \<Longrightarrow> db_inv db'"
  using trace_invariant [of "repo_step col" db es db' db_inv] repo_step_inv by blast

section \<open>What each call leaves of a table\<close>

lemma raised_state: "repo_do col c db = (Raised e, db') \<Longrightarrow> db' = db"
proof (cases c)
  case (Resolve fp now)
  assume "repo_do col c db = (Raised e, db')"
  with Resolve have "snd (resolve_session col fp now db) = db'"
    by (auto simp: outcome_eq simp del: resolve_session_state)
  then show ?thesis by simp
next
  case (List_Devices uid)
  assume "repo_do col c db = (Raised e, db')"
  with List_Devices have "snd (list_devices uid db) = db'"
    by (auto simp: outcome_eq simp del: list_devices_state)
  then show ?thesis by simp
qed (auto simp: outcome_eq dest: method_error)

text \<open>The calls that can change each table the properties speak of.\<close>

fun flow_call :: "repo_call \<Rightarrow> bool" where
  "flow_call (Put_Flow env fp p u e) = True"
| "flow_call (Consume_Flow fp now) = True"
| "flow_call _ = False"

fun grant_call :: "repo_call \<Rightarrow> bool" where
  "grant_call (Put_Grant env fp p e) = True"
| "grant_call (Consume_Grant fp now) = True"
| "grant_call _ = False"

fun ticket_call :: "repo_call \<Rightarrow> bool" where
  "ticket_call (Put_Ticket env fp sid c e) = True"
| "ticket_call (Consume_Ticket fp c now) = True"
| "ticket_call _ = False"

fun session_call :: "repo_call \<Rightarrow> bool" where
  "session_call (Create_Session env uid did fp e) = True"
| "session_call (Revoke_Session env sid now) = True"
| "session_call (Revoke_Device uid did now) = True"
| "session_call _ = False"

fun identity_call :: "repo_call \<Rightarrow> bool" where
  "identity_call (Provision env i) = True"
| "identity_call _ = False"

definition framed :: "repo_call \<Rightarrow> auth_db \<Rightarrow> auth_db \<Rightarrow> bool" where
  "framed c db db' \<longleftrightarrow>
     (\<not> flow_call c \<longrightarrow> db_flows db' = db_flows db) \<and>
     (\<not> grant_call c \<longrightarrow> db_grants db' = db_grants db) \<and>
     (\<not> ticket_call c \<longrightarrow> db_tickets db' = db_tickets db) \<and>
     (\<not> session_call c \<longrightarrow> db_sessions db' = db_sessions db) \<and>
     (\<not> identity_call c \<longrightarrow> db_identities db' = db_identities db \<and> db_users db' = db_users db)"

lemma framed_same: "framed c db db"
  by (simp add: framed_def)

lemma repo_do_framed:
  assumes inv: "db_inv db" and ok: "repo_do col c db = (r, db')" and r: "\<And>e. r \<noteq> Raised e"
  shows "framed c db db'"
proof (cases c)
  case (Put_Flow env fp p u e)
  with ok r have "put_flow env fp p u e db = (Inr (), db')" by (auto simp: outcome_eq)
  from put_flow_ok [OF this] Put_Flow show ?thesis by (auto simp: framed_def)
next
  case (Consume_Flow fp now)
  with ok inv show ?thesis by (auto simp: outcome_eq consume_flow_eq framed_def)
next
  case (Put_Grant env fp p e)
  with ok r have "put_login_grant env fp p e db = (Inr (), db')" by (auto simp: outcome_eq)
  from put_login_grant_ok [OF this] Put_Grant show ?thesis by (auto simp: framed_def)
next
  case (Consume_Grant fp now)
  with ok inv show ?thesis by (auto simp: outcome_eq consume_login_grant_eq framed_def)
next
  case (Provision env i)
  with ok r obtain uid where "provision_identity env i db = (Inr uid, db')" by (auto simp: outcome_eq)
  from inv this show ?thesis
    by (cases rule: provision_identity_ok) (auto simp: framed_def Provision)
next
  case (Register env uid fp p now)
  with ok r obtain did where "register_device env uid fp p now db = (Inr did, db')"
    by (auto simp: outcome_eq)
  from inv this show ?thesis
    by (cases rule: register_device_ok) (auto simp: framed_def Register)
next
  case (Create_Session env uid did fp e)
  with ok r obtain sid where "create_session env uid did fp e db = (Inr sid, db')"
    by (auto simp: outcome_eq)
  with Create_Session show ?thesis by (elim create_session_ok) (auto simp: framed_def)
next
  case (Resolve fp now)
  with ok have "snd (resolve_session col fp now db) = db'"
    by (auto simp: outcome_eq simp del: resolve_session_state)
  then show ?thesis by (simp add: framed_same)
next
  case (Revoke_Session env sid now)
  with ok r have "revoke_session env sid now db = (Inr (), db')" by (auto simp: outcome_eq)
  from inv this show ?thesis
    by (cases rule: revoke_session_ok) (auto simp: framed_def Revoke_Session)
next
  case (List_Devices uid)
  with ok have "snd (list_devices uid db) = db'"
    by (auto simp: outcome_eq simp del: list_devices_state)
  then show ?thesis by (simp add: framed_same)
next
  case (Revoke_Device uid did now)
  with ok inv show ?thesis
    by (auto simp: outcome_eq revoke_device_ok framed_def split: if_splits)
next
  case (Put_Ticket env fp sid c e)
  with ok r have "put_ws_ticket env fp sid c e db = (Inr (), db')" by (auto simp: outcome_eq)
  from put_ws_ticket_ok [OF this] Put_Ticket show ?thesis by (auto simp: framed_def)
next
  case (Consume_Ticket fp c now)
  with ok inv show ?thesis by (auto simp: outcome_eq consume_ws_ticket_eq framed_def)
qed

lemma repo_step_framed: "repo_step col db e db' \<Longrightarrow> db_inv db \<Longrightarrow> framed (fst e) db db'"
proof (cases "\<exists>x. snd e = Raised x")
  case True
  assume "repo_step col db e db'"
  with True have "db' = db" using raised_state by (auto simp: repo_step_def)
  then show ?thesis by (simp add: framed_same)
next
  case False
  assume "repo_step col db e db'" "db_inv db"
  with False show ?thesis using repo_do_framed by (auto simp: repo_step_def)
qed

section \<open>Revocation is permanent\<close>

definition session_revoked :: "uuid \<Rightarrow> auth_db \<Rightarrow> bool" where
  "session_revoked sid db \<longleftrightarrow> (\<exists>s \<in> set (db_sessions db). s_id s = sid \<and> s_revoked_at s \<noteq> None)"

lemma session_revoked_now:
  assumes "s \<in> set (db_sessions db)" "P s \<or> s_revoked_at s \<noteq> None"
    "db_sessions db' = update_where P (\<lambda>s. s\<lparr>s_revoked_at := Some now\<rparr>) (db_sessions db)"
  shows "session_revoked (s_id s) db'"
  unfolding session_revoked_def assms(3) set_update_where
  by (intro bexI [of _ "if P s then s\<lparr>s_revoked_at := Some now\<rparr> else s"]) (use assms in auto)

text \<open>A session row is never deleted, and the only change to it is its revocation.\<close>

definition sessions_kept :: "auth_db \<Rightarrow> auth_db \<Rightarrow> bool" where
  "sessions_kept db db' \<longleftrightarrow> (\<forall>s \<in> set (db_sessions db). \<exists>s' \<in> set (db_sessions db').
     s' = s \<or> (\<exists>now. s' = s\<lparr>s_revoked_at := Some now\<rparr>))"

lemma sessions_kept_same: "set (db_sessions db) \<subseteq> set (db_sessions db') \<Longrightarrow> sessions_kept db db'"
  by (auto simp: sessions_kept_def)

lemma sessions_kept_update:
  assumes "db_sessions db' = update_where P (\<lambda>s. s\<lparr>s_revoked_at := Some now\<rparr>) (db_sessions db)"
  shows "sessions_kept db db'"
  unfolding sessions_kept_def assms set_update_where
proof
  fix s assume "s \<in> set (db_sessions db)"
  then show "\<exists>s' \<in> (\<lambda>s. if P s then s\<lparr>s_revoked_at := Some now\<rparr> else s) ` set (db_sessions db).
      s' = s \<or> (\<exists>now. s' = s\<lparr>s_revoked_at := Some now\<rparr>)"
    by (intro bexI [of _ "if P s then s\<lparr>s_revoked_at := Some now\<rparr> else s"]) auto
qed

lemma sessions_kept_step:
  assumes step: "repo_step col db e db'" and inv: "db_inv db"
  shows "sessions_kept db db'"
proof (cases "session_call (fst e)")
  case False
  then show ?thesis
    using repo_step_framed [OF step inv] by (intro sessions_kept_same) (simp add: framed_def)
next
  case True
  then consider (create) env uid did fp x where "fst e = Create_Session env uid did fp x"
    | (revoke) env s now where "fst e = Revoke_Session env s now"
    | (device) uid did now where "fst e = Revoke_Device uid did now"
    by (cases "fst e") auto
  then show ?thesis
  proof cases
    case create
    from step create consider "db' = db" | s where "create_session env uid did fp x db = (Inr s, db')"
      by (auto simp: repo_step_def outcome_eq dest: method_error)
    then show ?thesis by cases (auto elim!: create_session_ok intro!: sessions_kept_same)
  next
    case revoke
    from step revoke consider "db' = db" | "revoke_session env s now db = (Inr (), db')"
      by (auto simp: repo_step_def outcome_eq dest: method_error)
    then show ?thesis
    proof cases
      case 2
      with inv show ?thesis
        by (cases rule: revoke_session_ok) (simp_all add: sessions_kept_same sessions_kept_update)
    qed (simp add: sessions_kept_same)
  next
    case device
    then show ?thesis
      using step inv
      by (auto simp: repo_step_def outcome_eq revoke_device_ok sessions_kept_same intro: sessions_kept_update
          split: if_splits)
  qed
qed

lemma revoked_kept:
  assumes "sessions_kept db db'" "s \<in> set (db_sessions db)" "s_revoked_at s \<noteq> None"
  obtains s' where "s' \<in> set (db_sessions db')" "s_id s' = s_id s"
    "s_token_fingerprint s' = s_token_fingerprint s" "s_revoked_at s' \<noteq> None"
proof -
  from assms(1,2) obtain s' where s': "s' \<in> set (db_sessions db')" "s' = s \<or> (\<exists>now. s' = s\<lparr>s_revoked_at := Some now\<rparr>)"
    unfolding sessions_kept_def by blast
  show thesis using s'(2) assms(3) by (intro that [OF s'(1)]) auto
qed

lemma session_revoked_step:
  assumes "repo_step col db e db'" "db_inv db" "session_revoked sid db"
  shows "session_revoked sid db'"
  using assms(3) revoked_kept [OF sessions_kept_step [OF assms(1,2)]] unfolding session_revoked_def by metis

text \<open>A revoked token: its session is there and revoked.\<close>

definition token_revoked :: "string \<Rightarrow> auth_db \<Rightarrow> bool" where
  "token_revoked fp db \<longleftrightarrow> (\<exists>s \<in> set (db_sessions db). s_token_fingerprint s = fp \<and> s_revoked_at s \<noteq> None)"

lemma token_revoked_trace:
  assumes "repo_trace col db es db'" "db_inv db" "token_revoked fp db"
  shows "db_inv db' \<and> token_revoked fp db'"
  using assms(1)
proof (rule trace_invariant)
  fix s e t
  assume step: "repo_step col s e t" and s: "db_inv s \<and> token_revoked fp s"
  then have "sessions_kept s t" using sessions_kept_step by blast
  then have "token_revoked fp t" using s revoked_kept [of s t] unfolding token_revoked_def by metis
  then show "db_inv t \<and> token_revoked fp t" using repo_step_inv [OF step] s by blast
qed (use assms in blast)

text \<open>The events that show a session as usable.\<close>

fun uses_session :: "uuid \<Rightarrow> repo_event \<Rightarrow> bool" where
  "uses_session sid (c, Got_Session (Some p)) = (pri_session_id p = sid)"
| "uses_session sid (c, Got_Ticket (Some i)) = (i = sid)"
| "uses_session sid _ = False"

lemma revoked_not_used:
  assumes step: "repo_step col db e db'" and inv: "db_inv db" and rev: "session_revoked sid db"
  shows "\<not> uses_session sid e"
proof
  assume used: "uses_session sid e"
  have uniq: "s_revoked_at s \<noteq> None" if "s \<in> set (db_sessions db)" "s_id s = sid" for s
    using rev inv that by (auto simp: session_revoked_def db_inv_defs distinct_map dest: inj_onD)
  from used consider (res) c p where "e = (c, Got_Session (Some p))" "pri_session_id p = sid"
    | (tick) c where "e = (c, Got_Ticket (Some sid))"
    by (cases "(sid, e)" rule: uses_session.cases) auto
  then show False
  proof cases
    case res
    then obtain fp now where "resolve_session col fp now db = (Inr (Some p), db')"
      using step by (cases c) (auto simp: repo_step_def outcome_eq)
    then show False
      using resolve_session_Some [OF inv] res(2) uniq
      by (fastforce simp: live_session_def make_principal_def)
  next
    case tick
    then obtain fp ch now where "consume_ws_ticket fp ch now db = (Inr (Some sid), db')"
      using step by (cases c) (auto simp: repo_step_def outcome_eq)
    then obtain t where "List.find (ticket_matches fp ch now db) (db_tickets db) = Some t"
      "t_session_id t = sid"
      by (auto simp: consume_ws_ticket_eq [OF inv])
    then show False
      using find_Some_set [of "ticket_matches fp ch now db"] uniq
      by (force simp: ticket_matches_def)
  qed
qed

lemma revoked_forever:
  assumes "repo_trace col db es db'" "db_inv db" "session_revoked sid db"
  shows "session_revoked sid db' \<and> (\<forall>e \<in> set es. \<not> uses_session sid e)"
proof -
  have "(db_inv db' \<and> session_revoked sid db') \<and> (\<forall>e \<in> set es. \<not> uses_session sid e)"
    using assms(1)
    by (rule trace_excludes [of "repo_step col" db es db' "\<lambda>d. db_inv d \<and> session_revoked sid d"])
      (use assms repo_step_inv session_revoked_step revoked_not_used in \<open>blast+\<close>)
  then show ?thesis by simp
qed

end
