(* ===== verification/Auth_One_Time.thy ===== *)
theory Auth_One_Time
  imports Auth_Traces
begin

text \<open>
  OIDC flows, login grants and WebSocket tickets are one-time values: along any run of
  repository calls a fingerprint is handed out at most as often as it was stored.
\<close>

lemma length_filter_removed:
  "x \<in> set xs \<Longrightarrow> P x \<Longrightarrow> Q x \<Longrightarrow>
     Suc (length (filter P (filter (\<lambda>r. \<not> Q r) xs))) \<le> length (filter P xs)"
proof (induction xs)
  case (Cons y ys)
  have le: "length (filter P (filter (\<lambda>r. \<not> Q r) ys)) \<le> length (filter P ys)"
    by (induction ys) auto
  show ?case
  proof (cases "x = y")
    case True
    with Cons.prems le show ?thesis by simp
  next
    case False
    with Cons show ?thesis by (cases "Q y"; cases "P y") auto
  qed
qed simp

lemma length_filter_kept: "length (filter P (filter Q xs)) \<le> length (filter P xs)"
  by (induction xs) auto

section \<open>Events\<close>

fun flow_put :: "string \<Rightarrow> repo_event \<Rightarrow> bool" where
  "flow_put fp (Put_Flow env f p u x, Done) = (varchar 64 f = Inr fp)"
| "flow_put fp _ = False"

fun flow_taken :: "string \<Rightarrow> repo_event \<Rightarrow> bool" where
  "flow_taken fp (Consume_Flow f now, Got_Flow (Some _)) = (f = fp)"
| "flow_taken fp _ = False"

fun grant_put :: "string \<Rightarrow> repo_event \<Rightarrow> bool" where
  "grant_put fp (Put_Grant env f p x, Done) = (varchar 64 f = Inr fp)"
| "grant_put fp _ = False"

fun grant_taken :: "string \<Rightarrow> repo_event \<Rightarrow> bool" where
  "grant_taken fp (Consume_Grant f now, Got_Grant (Some _)) = (f = fp)"
| "grant_taken fp _ = False"

fun ticket_put :: "string \<Rightarrow> repo_event \<Rightarrow> bool" where
  "ticket_put fp (Put_Ticket env f sid c x, Done) = (varchar 64 f = Inr fp)"
| "ticket_put fp _ = False"

fun ticket_taken :: "string \<Rightarrow> repo_event \<Rightarrow> bool" where
  "ticket_taken fp (Consume_Ticket f c now, Got_Ticket (Some _)) = (f = fp)"
| "ticket_taken fp _ = False"

lemma flow_taken_call: "flow_taken fp e \<Longrightarrow> flow_call (fst e)"
  by (cases "(fp, e)" rule: flow_taken.cases) simp_all

lemma grant_taken_call: "grant_taken fp e \<Longrightarrow> grant_call (fst e)"
  by (cases "(fp, e)" rule: grant_taken.cases) simp_all

lemma ticket_taken_call: "ticket_taken fp e \<Longrightarrow> ticket_call (fst e)"
  by (cases "(fp, e)" rule: ticket_taken.cases) simp_all

section \<open>Stored copies\<close>

definition stored_flows :: "string \<Rightarrow> auth_db \<Rightarrow> nat" where
  "stored_flows fp db = length (filter (\<lambda>r. f_state_fingerprint r = fp) (db_flows db))"

definition stored_grants :: "string \<Rightarrow> auth_db \<Rightarrow> nat" where
  "stored_grants fp db = length (filter (\<lambda>r. g_code_fingerprint r = fp) (db_grants db))"

definition stored_tickets :: "string \<Rightarrow> auth_db \<Rightarrow> nat" where
  "stored_tickets fp db = length (filter (\<lambda>r. t_ticket_fingerprint r = fp) (db_tickets db))"

lemma flow_balance:
  assumes step: "repo_step col db e db'" and inv: "db_inv db"
  shows "stored_flows fp db' + (if flow_taken fp e then 1 else 0) \<le>
    stored_flows fp db + (if flow_put fp e then 1 else 0)"
proof (cases "flow_call (fst e)")
  case False
  then have "db_flows db' = db_flows db" using repo_step_framed [OF step inv] by (simp add: framed_def)
  then show ?thesis using False flow_taken_call [of fp e] by (auto simp: stored_flows_def)
next
  case True
  then consider env f p u x where "fst e = Put_Flow env f p u x" | f now where "fst e = Consume_Flow f now"
    by (cases "fst e") auto
  then show ?thesis
  proof cases
    case 1
    then obtain r where e: "e = (Put_Flow env f p u x, r)" by (cases e) auto
    from step e consider "db' = db" | "put_flow env f p u x db = (Inr (), db')" "r = Done"
      by (auto simp: repo_step_def outcome_eq dest: method_error)
    then show ?thesis
    proof cases
      case 2
      from put_flow_ok [OF 2(1)] show ?thesis by (auto simp: e 2(2) stored_flows_def)
    qed (auto simp: e)
  next
    case 2
    let ?r = "List.find (flow_matches f now) (db_flows db)"
    from step inv 2 have db': "db' = db\<lparr>db_flows := filter (\<lambda>r. \<not> flow_matches f now r) (db_flows db)\<rparr>"
      and e: "e = (Consume_Flow f now, Got_Flow (map_option (\<lambda>r. \<lparr>flow_encrypted_payload =
        f_encrypted_payload r, flow_redirect_uri = f_redirect_uri r\<rparr>) ?r))"
      by (cases e; auto simp: repo_step_def outcome_eq consume_flow_eq)+
    show ?thesis
    proof (cases "flow_taken fp e")
      case True
      then obtain r where r: "?r = Some r" and f: "f = fp" by (cases ?r) (auto simp: e)
      then show ?thesis
        using find_Some_set [OF r] length_filter_removed [of r "db_flows db"
            "\<lambda>r. f_state_fingerprint r = fp" "flow_matches f now"]
        by (simp add: db' e stored_flows_def flow_matches_def del: filter_filter)
    qed (simp add: db' stored_flows_def length_filter_kept trans_le_add1 le_SucI del: filter_filter)
  qed
qed

lemma grant_balance:
  assumes step: "repo_step col db e db'" and inv: "db_inv db"
  shows "stored_grants fp db' + (if grant_taken fp e then 1 else 0) \<le>
    stored_grants fp db + (if grant_put fp e then 1 else 0)"
proof (cases "grant_call (fst e)")
  case False
  then have "db_grants db' = db_grants db" using repo_step_framed [OF step inv] by (simp add: framed_def)
  then show ?thesis using False grant_taken_call [of fp e] by (auto simp: stored_grants_def)
next
  case True
  then consider env f p x where "fst e = Put_Grant env f p x" | f now where "fst e = Consume_Grant f now"
    by (cases "fst e") auto
  then show ?thesis
  proof cases
    case 1
    then obtain r where e: "e = (Put_Grant env f p x, r)" by (cases e) auto
    from step e consider "db' = db" | "put_login_grant env f p x db = (Inr (), db')" "r = Done"
      by (auto simp: repo_step_def outcome_eq dest: method_error)
    then show ?thesis
    proof cases
      case 2
      from put_login_grant_ok [OF 2(1)] show ?thesis by (auto simp: e 2(2) stored_grants_def)
    qed (auto simp: e)
  next
    case 2
    let ?r = "List.find (grant_matches f now) (db_grants db)"
    from step inv 2 have db': "db' = db\<lparr>db_grants := filter (\<lambda>r. \<not> grant_matches f now r) (db_grants db)\<rparr>"
      and e: "e = (Consume_Grant f now, Got_Grant (map_option g_encrypted_payload ?r))"
      by (cases e; auto simp: repo_step_def outcome_eq consume_login_grant_eq)+
    show ?thesis
    proof (cases "grant_taken fp e")
      case True
      then obtain r where r: "?r = Some r" and f: "f = fp" by (cases ?r) (auto simp: e)
      then show ?thesis
        using find_Some_set [OF r] length_filter_removed [of r "db_grants db"
            "\<lambda>r. g_code_fingerprint r = fp" "grant_matches f now"]
        by (simp add: db' e stored_grants_def grant_matches_def del: filter_filter)
    qed (simp add: db' stored_grants_def length_filter_kept trans_le_add1 le_SucI del: filter_filter)
  qed
qed

lemma ticket_balance:
  assumes step: "repo_step col db e db'" and inv: "db_inv db"
  shows "stored_tickets fp db' + (if ticket_taken fp e then 1 else 0) \<le>
    stored_tickets fp db + (if ticket_put fp e then 1 else 0)"
proof (cases "ticket_call (fst e)")
  case False
  then have "db_tickets db' = db_tickets db" using repo_step_framed [OF step inv] by (simp add: framed_def)
  then show ?thesis using False ticket_taken_call [of fp e] by (auto simp: stored_tickets_def)
next
  case True
  then consider env f s c x where "fst e = Put_Ticket env f s c x" | f c now where "fst e = Consume_Ticket f c now"
    by (cases "fst e") auto
  then show ?thesis
  proof cases
    case 1
    then obtain r where e: "e = (Put_Ticket env f s c x, r)" by (cases e) auto
    from step e consider "db' = db" | "put_ws_ticket env f s c x db = (Inr (), db')" "r = Done"
      by (auto simp: repo_step_def outcome_eq dest: method_error)
    then show ?thesis
    proof cases
      case 2
      from put_ws_ticket_ok [OF 2(1)] show ?thesis by (auto simp: e 2(2) stored_tickets_def)
    qed (auto simp: e)
  next
    case 2
    let ?r = "List.find (ticket_matches f c now db) (db_tickets db)"
    from step inv 2 have db': "db' = db\<lparr>db_tickets := filter (\<lambda>r. \<not> ticket_matches f c now db r) (db_tickets db)\<rparr>"
      and e: "e = (Consume_Ticket f c now, Got_Ticket (map_option t_session_id ?r))"
      by (cases e; auto simp: repo_step_def outcome_eq consume_ws_ticket_eq)+
    show ?thesis
    proof (cases "ticket_taken fp e")
      case True
      then obtain r where r: "?r = Some r" and f: "f = fp" by (cases ?r) (auto simp: e)
      then show ?thesis
        using find_Some_set [OF r] length_filter_removed [of r "db_tickets db"
            "\<lambda>r. t_ticket_fingerprint r = fp" "ticket_matches f c now db"]
        by (simp add: db' e stored_tickets_def ticket_matches_def del: filter_filter)
    qed (simp add: db' stored_tickets_def length_filter_kept trans_le_add1 le_SucI del: filter_filter)
  qed
qed

section \<open>Interpretations\<close>

interpretation flow_codes: one_time "repo_step col" db_inv "stored_flows fp" "flow_put fp" "flow_taken fp"
  for col fp
  using repo_step_inv flow_balance by unfold_locales

interpretation grant_codes: one_time "repo_step col" db_inv "stored_grants fp" "grant_put fp" "grant_taken fp"
  for col fp
  using repo_step_inv grant_balance by unfold_locales

interpretation tickets: one_time "repo_step col" db_inv "stored_tickets fp" "ticket_put fp" "ticket_taken fp"
  for col fp
  using repo_step_inv ticket_balance by unfold_locales

end
