(* ===== verification/Auth_Identity.thy ===== *)
theory Auth_Identity
  imports Auth_Traces
begin

text \<open>
  Provider identities along a run of repository calls: an identity is bound to one user when it is
  first seen, the binding is never changed, and no two identities share a user.
\<close>

text \<open>What the table keeps of a pair of issuer and subject.\<close>

definition identity_key :: "identity \<Rightarrow> string \<times> string" where
  "identity_key i = (take 512 (ide_issuer i), take 512 (ide_subject i))"

definition row_key :: "identity_row \<Rightarrow> string \<times> string" where
  "row_key r = (i_issuer r, i_subject r)"

text \<open>One row per user, and every key within its columns.\<close>

definition bindings_ok :: "auth_db \<Rightarrow> bool" where
  "bindings_ok db \<longleftrightarrow> db_inv db \<and> distinct (map i_user_id (db_identities db)) \<and>
     (\<forall>r \<in> set (db_identities db). length (i_issuer r) \<le> 512 \<and> length (i_subject r) \<le> 512)"

text \<open>What does not fit its column is spaces, which PostgreSQL drops; anything else is refused.\<close>

definition storable :: "identity \<Rightarrow> bool" where
  "storable i \<longleftrightarrow> list_all (\<lambda>c. c = CHR '' '') (drop 512 (ide_issuer i)) \<and>
     list_all (\<lambda>c. c = CHR '' '') (drop 512 (ide_subject i))"

lemma varchar_spaces: "varchar n s = Inr t \<Longrightarrow> list_all (\<lambda>c. c = CHR '' '') (drop n s)"
  by (auto simp: varchar_def split: if_splits)

definition bound :: "identity \<Rightarrow> uuid \<Rightarrow> auth_db \<Rightarrow> bool" where
  "bound i uid db \<longleftrightarrow> storable i \<and> (\<exists>r \<in> set (db_identities db). row_key r = identity_key i \<and> i_user_id r = uid)"

fun provisioned :: "identity \<Rightarrow> uuid \<Rightarrow> repo_event \<Rightarrow> bool" where
  "provisioned i uid (Provision env j, Got_Id u) = (j = i \<and> u = uid)"
| "provisioned i uid _ = False"

lemma provision_binds:
  assumes ok: "bindings_ok db" and step: "provision_identity env i db = (Inr uid, db')"
  shows "bindings_ok db' \<and> bound i uid db' \<and> set (db_identities db) \<subseteq> set (db_identities db')"
proof -
  have inv: "db_inv db" using ok by (simp add: bindings_ok_def)
  have inv': "db_inv db'" using inv_provision_identity [OF inv step] .
  from inv step show ?thesis
  proof (cases rule: provision_identity_ok)
    case (created u r)
    have "uid \<notin> i_user_id ` set (db_identities db)"
      using inv created(1,4) by (auto simp: db_inv_defs user_insertable_def)
    then show ?thesis
      using ok inv' created varchar_cases [OF created(7)] varchar_cases [OF created(8)]
        varchar_spaces [OF created(7)] varchar_spaces [OF created(8)]
      by (auto simp: bindings_ok_def bound_def row_key_def identity_key_def storable_def)
  next
    case (known r email name)
    have same: "db_identities db' = db_identities db" using known(6) by simp
    have "length (i_issuer r) \<le> 512" "length (i_subject r) \<le> 512"
      using ok known(1) by (auto simp: bindings_ok_def)
    then have "row_key r = identity_key i" "storable i"
      using known(3,4) by (simp_all add: row_key_def identity_key_def storable_def)
    then show ?thesis using ok inv' known(1,2) same by (auto simp: bindings_ok_def bound_def)
  qed
qed

lemma bindings_step:
  assumes step: "repo_step col db e db'" and ok: "bindings_ok db"
  shows "bindings_ok db' \<and> set (db_identities db) \<subseteq> set (db_identities db') \<and>
    (\<forall>i uid. provisioned i uid e \<longrightarrow> bound i uid db')"
proof (cases "\<exists>env i uid. e = (Provision env i, Got_Id uid)")
  case True
  then obtain env i uid where e: "e = (Provision env i, Got_Id uid)" by blast
  with step have "provision_identity env i db = (Inr uid, db')"
    by (auto simp: repo_step_def outcome_eq)
  from provision_binds [OF ok this] show ?thesis by (simp add: e)
next
  case False
  have inv: "db_inv db" using ok by (simp add: bindings_ok_def)
  have none: "\<not> provisioned i uid e" for i uid
    using False by (cases "(i, uid, e)" rule: provisioned.cases) auto
  have "db_identities db' = db_identities db"
  proof (cases "fst e")
    case (Provision env i)
    with step False have "db' = db"
      by (cases e) (auto simp: repo_step_def outcome_eq dest: method_error)
    then show ?thesis by simp
  qed (use repo_step_framed [OF step inv] in \<open>auto simp: framed_def\<close>)
  then show ?thesis using ok none repo_step_inv [OF step inv] by (simp add: bindings_ok_def)
qed

lemma bound_mono: "bound i uid db \<Longrightarrow> set (db_identities db) \<subseteq> set (db_identities db') \<Longrightarrow> bound i uid db'"
  by (auto simp: bound_def)

lemma provisioned_bound:
  assumes "repo_trace col db es db'" "bindings_ok db"
  shows "bindings_ok db' \<and> (\<forall>e \<in> set es. \<forall>i uid. provisioned i uid e \<longrightarrow> bound i uid db')"
  using assms
proof (induction rule: trace.induct)
  case (snoc db es db1 e db2)
  then have ok: "bindings_ok db1"
    and old: "\<And>i uid x. x \<in> set es \<Longrightarrow> provisioned i uid x \<Longrightarrow> bound i uid db1" by auto
  from bindings_step [OF snoc.hyps(2) ok] have "bindings_ok db2"
    and sub: "set (db_identities db1) \<subseteq> set (db_identities db2)"
    and new: "\<And>i uid. provisioned i uid e \<Longrightarrow> bound i uid db2" by auto
  moreover have "bound i uid db2" if "x \<in> set es" "provisioned i uid x" for i uid x
    using bound_mono [OF old [OF that] sub] .
  ultimately show ?case by auto
qed simp

lemma bound_unique:
  assumes "bindings_ok db" "bound i uid db" "bound j vid db"
  shows "uid = vid \<longleftrightarrow> identity_key i = identity_key j"
proof -
  obtain r s where rs: "r \<in> set (db_identities db)" "row_key r = identity_key i" "i_user_id r = uid"
    "s \<in> set (db_identities db)" "row_key s = identity_key j" "i_user_id s = vid"
    using assms(2,3) by (auto simp: bound_def)
  have "inj_on i_user_id (set (db_identities db))" "inj_on row_key (set (db_identities db))"
    using assms(1) by (simp_all add: bindings_ok_def db_inv_defs distinct_map row_key_def [abs_def])
  then show ?thesis using rs by (metis inj_onD)
qed

end
