(* ===== verification/Auth_Properties.thy ===== *)
theory Auth_Properties
  imports Auth_One_Time Auth_Identity
begin

text \<open>
  The correctness properties of the authentication repository, each with an instance that meets
  its hypotheses.  The example run comes first.
\<close>

section \<open>Example run\<close>

definition demo_env :: "int \<Rightarrow> call_env" where
  "demo_env n = \<lparr>env_ids = (\<lambda>k. n + int k), env_db_now = 1\<rparr>"

definition demo_identity :: identity where
  "demo_identity = \<lparr>ide_issuer = ''https://id'', ide_subject = ''s1'', ide_email = ''a@b'',
     ide_display_name = ''A''\<rparr>"

definition demo_calls :: "repo_call list" where
  "demo_calls = [Put_Flow (demo_env 10) ''fp'' ''box'' ''https://r'' 100, Consume_Flow ''fp'' 5,
     Consume_Flow ''fp'' 5, Provision (demo_env 20) demo_identity,
     Register (demo_env 30) 20 ''dev'' ''linux'' 5, Create_Session (demo_env 40) 20 30 ''tok'' 90]"

definition demo_db :: auth_db where
  "demo_db = snd (repo_run id demo_calls empty_db)"

definition demo_events :: "repo_event list" where
  "demo_events = fst (repo_run id demo_calls empty_db)"

lemma demo_trace: "repo_trace id empty_db demo_events demo_db"
  unfolding demo_events_def demo_db_def by (rule repo_run_trace) simp

lemma demo_inv: "db_inv demo_db"
  using repo_trace_inv [OF demo_trace db_inv_empty] .

lemma demo_results: "map snd demo_events = [Done, Got_Flow (Some \<lparr>flow_encrypted_payload = ''box'',
    flow_redirect_uri = ''https://r''\<rparr>), Got_Flow None, Got_Id 20, Got_Id 30, Got_Id 40]"
  unfolding demo_events_def demo_calls_def by code_simp

section \<open>The stored state\<close>

text \<open>In every state that repository calls can reach from an empty database, whatever their
  order, arguments and errors, the keys of users, devices, sessions, identities and one-time codes
  are unique and every stored reference points at an existing row.\<close>

theorem auth_state_consistent:
  assumes "repo_trace col empty_db es db"
  shows "unique_keys db \<and> references_ok db"
  using repo_trace_inv [OF assms db_inv_empty] by (simp add: db_inv_def)

theorem auth_state_consistent_witness: "unique_keys demo_db \<and> references_ok demo_db"
  by (rule auth_state_consistent [OF demo_trace])

section \<open>One-time codes\<close>

text \<open>C10: However calls interleave, an OIDC flow, a login grant or a WebSocket ticket is handed
  out at most as often as it was stored: no code is accepted twice.\<close>

theorem one_time_codes:
  assumes "repo_trace col empty_db es db"
  shows "length (filter (flow_taken fp) es) \<le> length (filter (flow_put fp) es) \<and>
    length (filter (grant_taken fp) es) \<le> length (filter (grant_put fp) es) \<and>
    length (filter (ticket_taken fp) es) \<le> length (filter (ticket_put fp) es)"
proof -
  have "stored_flows fp empty_db = 0" "stored_grants fp empty_db = 0" "stored_tickets fp empty_db = 0"
    by (simp_all add: stored_flows_def stored_grants_def stored_tickets_def empty_db_def)
  then show ?thesis
    using flow_codes.taken_was_put [OF assms db_inv_empty, of fp]
      grant_codes.taken_was_put [OF assms db_inv_empty, of fp]
      tickets.taken_was_put [OF assms db_inv_empty, of fp] by linarith
qed

theorem one_time_codes_witness:
  "length (filter (flow_taken ''fp'') demo_events) \<le> length (filter (flow_put ''fp'') demo_events)"
  using one_time_codes [OF demo_trace] by blast

section \<open>Sessions\<close>

text \<open>C11: Resolving a token fingerprint never raises and changes nothing, and it returns a
  principal exactly when a stored session has that fingerprint, is not revoked, has not expired,
  belongs to an active user, and its device is not revoked.\<close>

theorem resolve_session_exact:
  assumes "db_inv db"
  shows "\<exists>r. resolve_session col fp now db = (Inr r, db) \<and> (\<forall>p. r = Some p \<longleftrightarrow>
    (\<exists>s \<in> set (db_sessions db). \<exists>u \<in> set (db_users db). s_token_fingerprint s = fp \<and>
       s_revoked_at s = None \<and> now < s_expires_at s \<and> u_id u = s_user_id s \<and>
       u_status u = ''active'' \<and>
       (\<forall>d \<in> set (db_devices db). s_device_id s = Some (d_id d) \<longrightarrow> d_revoked_at d = None) \<and>
       p = make_principal s u (role_names col (s_user_id s) db) (permission_codes (s_user_id s) db)))"
proof -
  obtain r where r: "resolve_session col fp now db = (Inr r, db)"
    using resolve_session_eq [OF assms, of col fp now] by simp
  then show ?thesis
    using resolve_session_Some [OF assms, of col fp now _ db]
    by (intro exI [of _ r]) (auto simp: live_session_def is_active_def)
qed

theorem resolve_session_exact_witness:
  "\<exists>p. resolve_session id ''tok'' 5 demo_db = (Inr (Some p), demo_db) \<and> pri_user_id p = 20"
proof -
  let ?live = "\<lambda>s u. s_token_fingerprint s = ''tok'' \<and> s_revoked_at s = None \<and> 5 < s_expires_at s \<and>
      u_id u = s_user_id s \<and> u_status u = ''active'' \<and> s_user_id s = 20 \<and>
      (\<forall>d \<in> set (db_devices demo_db). s_device_id s = Some (d_id d) \<longrightarrow> d_revoked_at d = None)"
  have "\<exists>s \<in> set (db_sessions demo_db). \<exists>u \<in> set (db_users demo_db). ?live s u"
    unfolding demo_db_def demo_calls_def by code_simp
  moreover obtain r where r: "resolve_session id ''tok'' 5 demo_db = (Inr r, demo_db)"
    using resolve_session_exact [OF demo_inv, of id "''tok''" 5] by blast
  ultimately show ?thesis
    using resolve_session_exact [OF demo_inv, of id "''tok''" 5]
    by (fastforce simp: make_principal_def)
qed

text \<open>After a logout the session is never resolved and no ticket of it is accepted, whatever
  calls follow.\<close>

theorem revoked_session_unusable:
  assumes "db_inv db" "s \<in> set (db_sessions db)"
    and "revoke_session env (s_id s) now db = (Inr (), db1)" and "repo_trace col db1 es db2"
  shows "\<forall>e \<in> set es. \<not> uses_session (s_id s) e"
proof -
  have "session_revoked (s_id s) db1"
    using assms(1,3)
  proof (cases rule: revoke_session_ok)
    case absent
    then show ?thesis using assms(2) by (auto simp: session_revoked_def)
  next
    case (revoked r ev)
    show ?thesis by (rule session_revoked_now [OF assms(2)]) (use revoked in auto)
  qed
  then show ?thesis
    using revoked_forever [OF assms(4) inv_revoke_session [OF assms(1,3)]] by blast
qed

theorem revoked_session_unusable_witness:
  "list_all (\<lambda>e. \<not> uses_session 40 e) (fst (repo_run id [Resolve ''tok'' 6]
      (snd (revoke_session (demo_env 50) 40 6 demo_db))))"
proof -
  have "\<exists>s \<in> set (db_sessions demo_db). s_id s = 40"
    unfolding demo_db_def demo_calls_def by code_simp
  then obtain s where s: "s \<in> set (db_sessions demo_db)" "s_id s = 40" by blast
  have "fst (revoke_session (demo_env 50) 40 6 demo_db) = Inr ()"
    unfolding demo_db_def demo_calls_def by code_simp
  then have "revoke_session (demo_env 50) (s_id s) 6 demo_db =
      (Inr (), snd (revoke_session (demo_env 50) 40 6 demo_db))" using s(2) by (metis prod.collapse)
  from revoked_session_unusable [OF demo_inv s(1) this repo_run_trace [OF prod.collapse [symmetric]]]
  show ?thesis unfolding s(2) list_all_iff .
qed

text \<open>C12: Revoking a device succeeds exactly for an unrevoked device of that user; it then ends
  every session of the device for good, and otherwise it changes nothing.\<close>

theorem revoke_device_effect:
  assumes "db_inv db" "revoke_device uid did now db = (r, db1)" "repo_trace col db1 es db2"
  shows "r = Inr (\<exists>d \<in> set (db_devices db). own_device uid did d) \<and>
    (r = Inr False \<longrightarrow> db1 = db) \<and>
    (r = Inr True \<longrightarrow> (\<forall>s \<in> set (db_sessions db). s_device_id s = Some did \<longrightarrow>
       (\<forall>e \<in> set es. \<not> uses_session (s_id s) e)))"
proof -
  have "session_revoked (s_id s) db1"
    if "r = Inr True" "s \<in> set (db_sessions db)" "s_device_id s = Some did" for s
    by (rule session_revoked_now [OF that(2), where P = "\<lambda>s. s_device_id s = Some did \<and> s_revoked_at s = None"])
      (use that assms(2) in \<open>auto simp: revoke_device_ok [OF assms(1)] split: if_splits\<close>)
  then show ?thesis
    using assms(2) revoked_forever [OF assms(3) inv_revoke_device [OF assms(1,2)]]
    by (auto simp: revoke_device_ok [OF assms(1)] split: if_splits)
qed

theorem revoke_device_effect_witness:
  "fst (revoke_device 20 30 6 demo_db) = Inr True \<and>
    list_all (\<lambda>e. \<not> uses_session 40 e) (fst (repo_run id [Resolve ''tok'' 6]
      (snd (revoke_device 20 30 6 demo_db))))"
proof -
  have own: "\<exists>d \<in> set (db_devices demo_db). own_device 20 30 d"
    unfolding demo_db_def demo_calls_def by code_simp
  have "\<exists>s \<in> set (db_sessions demo_db). s_id s = 40 \<and> s_device_id s = Some 30"
    unfolding demo_db_def demo_calls_def by code_simp
  then show ?thesis
    using revoke_device_effect [OF demo_inv prod.collapse [symmetric]
        repo_run_trace [OF prod.collapse [symmetric]], of 20 30 6 id "[Resolve ''tok'' 6]"] own
    by (auto simp: list_all_iff)
qed

section \<open>Identities\<close>

text \<open>The same identity twice and another one.\<close>

definition other_identity :: identity where
  "other_identity = \<lparr>ide_issuer = ''https://id'', ide_subject = ''s2'', ide_email = ''c@d'',
     ide_display_name = ''C''\<rparr>"

definition demo_provisions :: "repo_call list" where
  "demo_provisions = [Provision (demo_env 20) demo_identity, Provision (demo_env 40) demo_identity,
     Provision (demo_env 60) other_identity]"

text \<open>C13: Two successful provisionings, anywhere in a run, return the same user exactly when their issuers
  and their subjects agree in the first 512 characters, the width of the columns.  What was beyond that
  can only have been spaces, so for identities that fit the columns it is exactly when they have the
  same issuer and subject.\<close>

theorem identity_keeps_user:
  assumes "repo_trace col empty_db es db"
    and "(Provision env i, Got_Id uid) \<in> set es" "(Provision env' j, Got_Id vid) \<in> set es"
  shows "(uid = vid \<longleftrightarrow> take 512 (ide_issuer i) = take 512 (ide_issuer j) \<and>
      take 512 (ide_subject i) = take 512 (ide_subject j)) \<and>
    (\<forall>k \<in> {i, j}. set (drop 512 (ide_issuer k)) \<union> set (drop 512 (ide_subject k)) \<subseteq> {CHR '' ''}) \<and>
    ((\<forall>k \<in> {i, j}. length (ide_issuer k) \<le> 512 \<and> length (ide_subject k) \<le> 512) \<longrightarrow>
      (uid = vid \<longleftrightarrow> ide_issuer i = ide_issuer j \<and> ide_subject i = ide_subject j))"
proof -
  have "bindings_ok empty_db"
    using db_inv_empty by (simp add: bindings_ok_def empty_db_def)
  from provisioned_bound [OF assms(1) this] have "bindings_ok db" "bound i uid db" "bound j vid db"
    using assms(2,3) by (fastforce dest: bspec)+
  then show ?thesis
    using bound_unique [of db i uid j vid] by (auto simp: identity_key_def bound_def storable_def list_all_iff)
qed

theorem identity_keeps_user_witness:
  "map snd (fst (repo_run id demo_provisions empty_db)) = [Got_Id 20, Got_Id 20, Got_Id 60] \<and>
    (ide_issuer demo_identity, ide_subject demo_identity) \<noteq> (ide_issuer other_identity, ide_subject other_identity)"
proof -
  define run where "run = repo_run id demo_provisions empty_db"
  have results: "map snd (fst run) = [Got_Id 20, Got_Id 20, Got_Id 60]"
    unfolding run_def demo_provisions_def by code_simp
  have "fst run = zip demo_provisions (map snd (fst run))"
    using repo_run_calls zip_map_fst_snd unfolding run_def by metis
  then have "fst run = [(Provision (demo_env 20) demo_identity, Got_Id 20),
      (Provision (demo_env 40) demo_identity, Got_Id 20), (Provision (demo_env 60) other_identity, Got_Id 60)]"
    unfolding results by (simp add: demo_provisions_def)
  then have "(Provision (demo_env 20) demo_identity, Got_Id 20) \<in> set (fst run)"
    "(Provision (demo_env 60) other_identity, Got_Id 60) \<in> set (fst run)" by simp_all
  from identity_keeps_user [OF repo_run_trace [OF prod.collapse [symmetric]] this [unfolded run_def]]
  show ?thesis using results by (auto simp: run_def)
qed

end
