(* ===== verification/Url.thy ===== *)
theory Url
  imports PyStr
begin

text \<open>
  \<open>urllib.parse.urlparse\<close> and \<open>urlencode\<close> as the services use them, on ASCII text: the scheme, the
  network location and the other components that the configuration checks look at.
\<close>

record url_parts =
  url_scheme :: string
  url_netloc :: string
  url_path :: string
  url_params :: string
  url_query :: string
  url_fragment :: string

definition is_alpha :: "char \<Rightarrow> bool" where
  "is_alpha c \<longleftrightarrow> (let n = code c in 65 \<le> n \<and> n \<le> 90 \<or> 97 \<le> n \<and> n \<le> 122)"

definition is_alnum :: "char \<Rightarrow> bool" where
  "is_alnum c \<longleftrightarrow> is_alpha c \<or> (48 \<le> code c \<and> code c \<le> 57)"

definition is_scheme_char :: "char \<Rightarrow> bool" where
  "is_scheme_char c \<longleftrightarrow> is_alnum c \<or> c \<in> {CHR ''+'', CHR ''-'', CHR ''.''}"

text \<open>Leading control characters and spaces go, tabs and line breaks go everywhere.\<close>

definition url_clean :: "string \<Rightarrow> string" where
  "url_clean s = filter (\<lambda>c. code c \<notin> {9, 10, 13}) (dropWhile (\<lambda>c. code c \<le> 32) s)"

definition split_scheme :: "string \<Rightarrow> string \<times> string" where
  "split_scheme s =
     (let (a, found, b) = partition_on CHR '':'' s
      in if found \<and> a \<noteq> [] \<and> is_alpha (hd a) \<and> list_all is_scheme_char a then (lower a, b)
         else ([], s))"

definition uses_params :: "string list" where
  "uses_params = [[], ''ftp'', ''hdl'', ''prospero'', ''http'', ''https'', ''shttp'', ''rtsp'',
     ''rtsps'', ''rtspu'', ''sip'', ''sips'', ''mms'', ''sftp'', ''tel'']"

text \<open>\<open>;\<close> parameters of the last path segment.\<close>

definition split_params :: "string \<Rightarrow> string \<times> string" where
  "split_params path =
     (let r = rev (takeWhile (\<lambda>c. c \<noteq> CHR ''/'') (rev path));
          front = take (length path - length r) path;
          (a, found, b) = partition_on CHR '';'' r
      in if found then (front @ a, b) else (path, []))"

text \<open>
  The address \<open>ipaddress\<close> reads as version 4 or version 6: groups of hexadecimal digits, at most one
  run of empty groups, an optional version 4 address at the end and an optional scope.
\<close>

definition ipv4_octet :: "string \<Rightarrow> bool" where
  "ipv4_octet s \<longleftrightarrow> s \<noteq> [] \<and> list_all (is_digit_in 10) s \<and> length s \<le> 3 \<and>
     (s = ''0'' \<or> hd s \<noteq> CHR ''0'') \<and> foldl (\<lambda>a c. a * 10 + the (digit_value c)) 0 s \<le> 255"

definition ipv4_ok :: "string \<Rightarrow> bool" where
  "ipv4_ok s \<longleftrightarrow> length (split_on CHR ''.'' s) = 4 \<and> list_all ipv4_octet (split_on CHR ''.'' s)"

definition hextet :: "string \<Rightarrow> bool" where
  "hextet s \<longleftrightarrow> s \<noteq> [] \<and> length s \<le> 4 \<and> list_all (is_digit_in 16) s"

definition hextets_ok :: "string list \<Rightarrow> bool" where
  "hextets_ok parts \<longleftrightarrow> length parts \<le> 9 \<and>
     (case filter (\<lambda>i. parts ! i = []) [1..<length parts - 1] of
        [] \<Rightarrow> length parts = 8 \<and> list_all hextet parts
      | [gap] \<Rightarrow>
          let hi = (if hd parts = [] then gap - 1 else gap);
              n = length parts - gap - 1;
              lo = (if last parts = [] then n - 1 else n)
          in (hd parts = [] \<longrightarrow> hi = 0) \<and> (last parts = [] \<longrightarrow> lo = 0) \<and> hi + lo < 8 \<and>
             list_all hextet (take hi parts) \<and> list_all hextet (drop (length parts - lo) parts)
      | _ \<Rightarrow> False)"

definition ipv6_ok :: "string \<Rightarrow> bool" where
  "ipv6_ok s =
     (let (address, found, scope) = partition_on CHR ''%'' s; parts = split_on CHR '':'' address;
          embedded = (CHR ''.'' \<in> set (last parts))
      in \<not> (found \<and> (scope = [] \<or> CHR ''%'' \<in> set scope)) \<and> 3 \<le> length parts \<and>
         (embedded \<longrightarrow> ipv4_ok (last parts)) \<and>
         hextets_ok (if embedded then butlast parts @ [''0'', ''0''] else parts))"

text \<open>\<open>_check_bracketed_host\<close>: a future version or a version 6 address.\<close>

definition bracketed_host_ok :: "string \<Rightarrow> bool" where
  "bracketed_host_ok h =
     (if prefix ''v'' h then
        (let version = takeWhile (is_digit_in 16) (tl h); r = dropWhile (is_digit_in 16) (tl h)
         in version \<noteq> [] \<and> r \<noteq> [] \<and> hd r = CHR ''.'' \<and> tl r \<noteq> [])
      else ipv6_ok h)"

definition bracket_error :: "string \<Rightarrow> bool" where
  "bracket_error netloc \<longleftrightarrow>
     (CHR ''['' \<in> set netloc) \<noteq> (CHR '']'' \<in> set netloc) \<or>
     (CHR ''['' \<in> set netloc \<and> CHR '']'' \<in> set netloc \<and>
      \<not> bracketed_host_ok (fst (partition_on CHR '']'' (snd (snd (partition_on CHR ''['' netloc))))))"

definition urlparse :: "string \<Rightarrow> url_parts res" where
  "urlparse url =
     (let (scheme, rest) = split_scheme (url_clean url);
          has_netloc = (take 2 rest = ''//'');
          netloc = (if has_netloc
            then takeWhile (\<lambda>c. c \<notin> {CHR ''/'', CHR ''?'', CHR ''#''}) (drop 2 rest) else []);
          rest1 = (if has_netloc
            then dropWhile (\<lambda>c. c \<notin> {CHR ''/'', CHR ''?'', CHR ''#''}) (drop 2 rest) else rest);
          (rest2, _, fragment) = partition_on CHR ''#'' rest1;
          (path, _, query) = partition_on CHR ''?'' rest2;
          (path1, params) = (if scheme \<in> set uses_params \<and> CHR '';'' \<in> set path
            then split_params path else (path, []))
      in if has_netloc \<and> bracket_error netloc then Inl (ValueError ''Invalid IPv6 URL'')
         else Inr \<lparr>url_scheme = scheme, url_netloc = netloc, url_path = path1, url_params = params,
           url_query = query, url_fragment = fragment\<rparr>)"

section \<open>Query encoding\<close>

definition always_safe :: "char \<Rightarrow> bool" where
  "always_safe c \<longleftrightarrow> is_alnum c \<or> c \<in> {CHR ''_'', CHR ''.'', CHR ''-'', CHR ''~''}"

definition hex_upper :: "int \<Rightarrow> char" where
  "hex_upper d = char_of (if d < 10 then d + 48 else d + 55)"

text \<open>\<open>quote_plus\<close> of a byte string.\<close>

definition quote_plus :: "string \<Rightarrow> string" where
  "quote_plus s = concat (map (\<lambda>c. if always_safe c then [c] else if c = CHR '' '' then ''+''
     else [CHR ''%'', hex_upper (code c div 16), hex_upper (code c mod 16)]) s)"

definition urlencode :: "(string \<times> string) list \<Rightarrow> string" where
  "urlencode ps = join_with ''&'' (map (\<lambda>(k, v). quote_plus k @ ''='' @ quote_plus v) ps)"

section \<open>Decoding a query\<close>

text \<open>What a server reads: \<open>+\<close> is a space and \<open>%XY\<close> a byte.\<close>

fun unquote_plus :: "string \<Rightarrow> string" where
  "unquote_plus [] = []"
| "unquote_plus (c # cs) =
     (if c = CHR ''+'' then CHR '' '' # unquote_plus cs
      else if c = CHR ''%'' then
        (case cs of
           a # b # r \<Rightarrow> (case (digit_value a, digit_value b) of
              (Some x, Some y) \<Rightarrow> char_of (x * 16 + y) # unquote_plus (drop 2 cs)
            | _ \<Rightarrow> c # unquote_plus cs)
         | _ \<Rightarrow> c # unquote_plus cs)
      else c # unquote_plus cs)"

lemma hex_upper_all: "\<forall>d \<in> set [0..15]. digit_value (hex_upper d) = Some d"
  by code_simp

lemma hex_upper_ok: "0 \<le> d \<Longrightarrow> d < 16 \<Longrightarrow> digit_value (hex_upper d) = Some d"
  using hex_upper_all nibble_cases by blast

lemma quote_plus_round_trip: "unquote_plus (quote_plus s) = s"
proof (induction s)
  case (Cons c s)
  have q: "0 \<le> code c div 16" "code c div 16 < 16" "0 \<le> code c mod 16" "code c mod 16 < 16"
    using code_range [of c] by auto
  have safe: "\<not> always_safe CHR ''+''" "\<not> always_safe CHR ''%''" by code_simp+
  show ?case
  proof (cases "always_safe c")
    case True
    then have "c \<noteq> CHR ''+''" "c \<noteq> CHR ''%''" using safe by auto
    with True Cons show ?thesis by (simp add: quote_plus_def)
  next
    case False
    then show ?thesis
      using Cons hex_upper_ok [OF q(1,2)] hex_upper_ok [OF q(3,4)]
      by (simp add: quote_plus_def char_of_code)
  qed
qed (simp add: quote_plus_def)

text \<open>The encoding uses only safe characters, so a value cannot add or end a parameter.\<close>

lemma quote_plus_chars:
  "set (quote_plus s) \<subseteq> {c. always_safe c \<or> c = CHR ''+'' \<or> c = CHR ''%''}"
proof -
  have "\<forall>d \<in> set [0..15]. always_safe (hex_upper d)" by code_simp
  then have h: "always_safe (hex_upper d)" if "0 \<le> d" "d < 16" for d
    using nibble_cases [OF that] by blast
  have "always_safe (hex_upper (code c div 16))" "always_safe (hex_upper (code c mod 16))" for c
    using code_range [of c] by (auto intro: h)
  then show ?thesis by (auto simp: quote_plus_def)
qed

end
