(* ===== verification/Json_Text.thy ===== *)
theory Json_Text
  imports PyJson
begin

text \<open>
  JSON text: \<open>json.loads\<close> as the C scanner of CPython reads it, and \<open>json.dumps\<close> with compact
  separators of a dictionary of strings.  Strings are sequences of code points below 256: a
  \<open>\u\<close> escape above that is outside the model and is reported as \<open>RuntimeError\<close>.  The number of
  nested arrays and objects that Python's recursion limit leaves room for is the parameter
  \<open>limit\<close>.
\<close>

section \<open>Errors\<close>

definition json_error :: exn where "json_error = ValueError ''malformed JSON text''"
definition json_out_of_fuel :: exn where "json_out_of_fuel = RuntimeError ''fuel''"
definition json_not_modelled :: exn where "json_not_modelled = RuntimeError ''code point above 255''"

definition is_json_space :: "char \<Rightarrow> bool" where
  "is_json_space c \<longleftrightarrow> code c \<in> {9, 10, 13, 32}"

definition skip_space :: "string \<Rightarrow> string" where
  "skip_space s = dropWhile is_json_space s"

section \<open>Strings\<close>

definition simple_escape :: "char \<Rightarrow> char option" where
  "simple_escape c =
     (if c = CHR ''\"'' \<or> c = CHR 0x5C \<or> c = CHR ''/'' then Some c
      else if c = CHR ''b'' then Some (CHR 0x08) else if c = CHR ''f'' then Some (CHR 0x0C)
      else if c = CHR ''n'' then Some (CHR 0x0A) else if c = CHR ''r'' then Some (CHR 0x0D)
      else if c = CHR ''t'' then Some (CHR 0x09) else None)"

definition hex4 :: "string \<Rightarrow> int option" where
  "hex4 s = (if length s = 4 \<and> list_all (is_digit_in 16) s
     then Some (foldl (\<lambda>a c. a * 16 + the (digit_value c)) 0 s) else None)"

text \<open>The rest of a string after its opening quote.\<close>

function (sequential) parse_string :: "string \<Rightarrow> string \<Rightarrow> (string \<times> string) res" where
  "parse_string acc [] = Inl json_error"
| "parse_string acc (c # cs) =
     (if c = CHR ''\"'' then Inr (acc, cs)
      else if c = CHR 0x5C then
        (case cs of
           [] \<Rightarrow> Inl json_error
         | e # r \<Rightarrow>
             if e = CHR ''u'' then
               (case hex4 (take 4 r) of
                  None \<Rightarrow> Inl json_error
                | Some n \<Rightarrow> if 256 \<le> n then Inl json_not_modelled
                    else parse_string (acc @ [char_of n]) (drop 4 r))
             else (case simple_escape e of
                  None \<Rightarrow> Inl json_error
                | Some d \<Rightarrow> parse_string (acc @ [d]) r))
      else if code c < 32 then Inl json_error
      else parse_string (acc @ [c]) cs)"
  by pat_completeness auto
termination
  by (relation "measure (\<lambda>(a, s). length s)") auto

section \<open>Numbers\<close>

definition is_dec_digit :: "char \<Rightarrow> bool" where
  "is_dec_digit c \<longleftrightarrow> 48 \<le> code c \<and> code c \<le> 57"

definition dec_value :: "string \<Rightarrow> int" where
  "dec_value s = foldl (\<lambda>a c. a * 10 + (code c - 48)) 0 s"

text \<open>The double nearest to \<open>p / q\<close>, ties to even; the smallest exponent is -1074.\<close>

definition float_of_ratio :: "bool \<Rightarrow> int \<Rightarrow> int \<Rightarrow> pyfloat" where
  "float_of_ratio neg p q =
     (if p = 0 then FFin 0 0
      else
        let k = int (nbits p) - int (nbits q);
            below = (if 0 \<le> k then p < q * 2 ^ nat k else p * 2 ^ nat (- k) < q);
            e = max (-1074) ((if below then k - 1 else k) - 52);
            m = (if 0 \<le> e then round_half_even p (q * 2 ^ nat e)
                 else round_half_even (p * 2 ^ nat (- e)) q)
        in if 0 \<le> e \<and> 2 ^ 1024 \<le> m * 2 ^ nat e then FInf neg
           else FFin (if neg then - m else m) e)"

text \<open>The digits of the three parts of a number and the rest of the text.\<close>

definition scan_fraction :: "string \<Rightarrow> string \<times> string" where
  "scan_fraction s =
     (case s of
        c # d # r \<Rightarrow> if c = CHR ''.'' \<and> is_dec_digit d
          then (takeWhile is_dec_digit (d # r), dropWhile is_dec_digit (d # r)) else ([], s)
      | _ \<Rightarrow> ([], s))"

definition scan_exponent :: "string \<Rightarrow> int option \<times> string" where
  "scan_exponent s =
     (case s of
        c # r \<Rightarrow>
          if c = CHR ''e'' \<or> c = CHR ''E'' then
            (let signed = (r \<noteq> [] \<and> (hd r = CHR ''+'' \<or> hd r = CHR ''-''));
                 ds = (if signed then tl r else r);
                 n = dec_value (takeWhile is_dec_digit ds)
             in if takeWhile is_dec_digit ds = [] then (None, s)
                else (Some (if signed \<and> hd r = CHR ''-'' then - n else n), dropWhile is_dec_digit ds))
          else (None, s)
      | [] \<Rightarrow> (None, s))"

definition parse_number :: "string \<Rightarrow> (json \<times> string) res" where
  "parse_number s =
     (let neg = (s \<noteq> [] \<and> hd s = CHR ''-''); t = (if neg then tl s else s);
          ds = (if t \<noteq> [] \<and> hd t = CHR ''0'' then [CHR ''0''] else takeWhile is_dec_digit t);
          (fr, r1) = scan_fraction (drop (length ds) t); (ex, r2) = scan_exponent r1
      in if ds = [] then Inl json_error
         else if fr = [] \<and> ex = None then
           (if 4300 < length ds
            then Inl (ValueError ''Exceeds the limit for integer string conversion'')
            else Inr (JInt (if neg then - dec_value ds else dec_value ds), r2))
         else
           let m = dec_value (ds @ fr);
               x = (case ex of None \<Rightarrow> 0 | Some n \<Rightarrow> n) - int (length fr)
           in Inr (JFloat (if 0 \<le> x then float_of_ratio neg (m * 10 ^ nat x) 1
                           else float_of_ratio neg m (10 ^ nat (- x))), r2))"

section \<open>Values\<close>

text \<open>
  \<open>fuel\<close> bounds the number of calls; \<open>depth\<close> is what is left of the recursion limit.
  \<open>parse_items\<close> stands before a value of an array, \<open>parse_members\<close> before a key of an object.
\<close>

definition strip_prefix :: "string \<Rightarrow> string \<Rightarrow> string option" where
  "strip_prefix p s = (if take (length p) s = p then Some (drop (length p) s) else None)"

definition parse_constant :: "string \<Rightarrow> (json \<times> string) res" where
  "parse_constant s =
     (case strip_prefix ''null'' s of Some r \<Rightarrow> Inr (JNull, r) | None \<Rightarrow>
     (case strip_prefix ''true'' s of Some r \<Rightarrow> Inr (JBool True, r) | None \<Rightarrow>
     (case strip_prefix ''false'' s of Some r \<Rightarrow> Inr (JBool False, r) | None \<Rightarrow>
     (case strip_prefix ''NaN'' s of Some r \<Rightarrow> Inr (JFloat FNaN, r) | None \<Rightarrow>
     (case strip_prefix ''Infinity'' s of Some r \<Rightarrow> Inr (JFloat (FInf False), r) | None \<Rightarrow>
     (case strip_prefix ''-Infinity'' s of Some r \<Rightarrow> Inr (JFloat (FInf True), r) | None \<Rightarrow>
      parse_number s))))))"

fun parse_value :: "nat \<Rightarrow> nat \<Rightarrow> string \<Rightarrow> (json \<times> string) res"
  and parse_items :: "nat \<Rightarrow> nat \<Rightarrow> json list \<Rightarrow> string \<Rightarrow> (json \<times> string) res"
  and parse_members :: "nat \<Rightarrow> nat \<Rightarrow> (string \<times> json) list \<Rightarrow> string \<Rightarrow> (json \<times> string) res" where
  "parse_value 0 depth s = Inl json_out_of_fuel"
| "parse_value (Suc fuel) depth s =
     (case s of
        [] \<Rightarrow> Inl json_error
      | c # cs \<Rightarrow>
          if c = CHR ''\"'' then rbind (parse_string [] cs) (\<lambda>(t, r). Inr (JStr t, r))
          else if c = CHR ''{'' then
            (if depth = 0 then Inl RecursionError
             else case skip_space cs of
                 [] \<Rightarrow> Inl json_error
               | d # ds \<Rightarrow> if d = CHR ''}'' then Inr (JObj [], ds)
                   else parse_members fuel (depth - 1) [] (d # ds))
          else if c = CHR ''['' then
            (if depth = 0 then Inl RecursionError
             else case skip_space cs of
                 [] \<Rightarrow> Inl json_error
               | d # ds \<Rightarrow> if d = CHR '']'' then Inr (JArr [], ds)
                   else parse_items fuel (depth - 1) [] (d # ds))
          else parse_constant s)"
| "parse_items 0 depth acc s = Inl json_out_of_fuel"
| "parse_items (Suc fuel) depth acc s =
     rbind (parse_value fuel depth s) (\<lambda>(v, r).
       case skip_space r of
         [] \<Rightarrow> Inl json_error
       | d # ds \<Rightarrow> if d = CHR '']'' then Inr (JArr (acc @ [v]), ds)
           else if d = CHR '','' then parse_items fuel depth (acc @ [v]) (skip_space ds)
           else Inl json_error)"
| "parse_members 0 depth acc s = Inl json_out_of_fuel"
| "parse_members (Suc fuel) depth acc s =
     (case s of
        [] \<Rightarrow> Inl json_error
      | c # cs \<Rightarrow>
          if c \<noteq> CHR ''\"'' then Inl json_error
          else rbind (parse_string [] cs) (\<lambda>(k, r).
            case skip_space r of
              [] \<Rightarrow> Inl json_error
            | d # ds \<Rightarrow>
                if d \<noteq> CHR '':'' then Inl json_error
                else rbind (parse_value fuel depth (skip_space ds)) (\<lambda>(v, r2).
                  case skip_space r2 of
                    [] \<Rightarrow> Inl json_error
                  | e # es \<Rightarrow> if e = CHR ''}'' then Inr (JObj (AList.update k v acc), es)
                      else if e = CHR '','' then
                        parse_members fuel depth (AList.update k v acc) (skip_space es)
                      else Inl json_error)))"

definition json_loads :: "nat \<Rightarrow> string \<Rightarrow> json res" where
  "json_loads limit s =
     rbind (parse_value (3 * length s + 3) limit (skip_space s)) (\<lambda>(v, r).
       if skip_space r = [] then Inr v else Inl json_error)"

section \<open>Printing\<close>

definition escape_char :: "char \<Rightarrow> string" where
  "escape_char c =
     (if c = CHR ''\"'' then [CHR 0x5C, CHR ''\"''] else if c = CHR 0x5C then [CHR 0x5C, CHR 0x5C]
      else if c = CHR 0x0A then [CHR 0x5C, CHR ''n''] else if c = CHR 0x0D then [CHR 0x5C, CHR ''r'']
      else if c = CHR 0x09 then [CHR 0x5C, CHR ''t''] else if c = CHR 0x0C then [CHR 0x5C, CHR ''f'']
      else if c = CHR 0x08 then [CHR 0x5C, CHR ''b'']
      else if 32 \<le> code c \<and> code c < 127 then [c]
      else [CHR 0x5C, CHR ''u'', CHR ''0'', CHR ''0'', hex_digit (code c div 16),
        hex_digit (code c mod 16)])"

definition json_string :: "string \<Rightarrow> string" where
  "json_string s = CHR ''\"'' # concat (map escape_char s) @ ''\"''"

text \<open>\<open>json.dumps(d, separators=(',', ':'))\<close>.\<close>

definition json_dumps :: "(string \<times> string) list \<Rightarrow> string" where
  "json_dumps d =
     CHR ''{'' # join_with '','' (map (\<lambda>(k, v). json_string k @ '':'' @ json_string v) d) @ ''}''"

end
