(* ===== verification/Runtime_Config.thy ===== *)
theory Runtime_Config
  imports Url Json_Text
begin

text \<open>
  The strict environment configuration of \<open>pentagon5_runtime/config.py\<close>.  The environment is an
  association list with distinct keys; \<open>files\<close> gives the text of a regular file, \<open>None\<close> for
  anything else.
\<close>

type_synonym environ = "(string \<times> string) list"
type_synonym files = "string \<Rightarrow> string option"

definition env_get :: "environ \<Rightarrow> string \<Rightarrow> string \<Rightarrow> string" where
  "env_get env name dflt = (case map_of env name of None \<Rightarrow> dflt | Some v \<Rightarrow> v)"

definition KNOWN_KEYS :: "string list" where
  "KNOWN_KEYS = [''P5_DATABASE_URL'', ''P5_DATABASE_URL_FILE'', ''P5_ENVIRONMENT'', ''P5_LOG_LEVEL'',
     ''P5_CORS_ORIGINS'', ''P5_MAX_BODY_BYTES'', ''P5_OTLP_ENDPOINT'',
     ''P5_REQUEST_TIMEOUT_SECONDS'', ''P5_SERVICE_NAME'']"

definition PREFIX :: string where "PREFIX = ''P5_''"

section \<open>Secrets\<close>

definition secret_value :: "files \<Rightarrow> string \<Rightarrow> environ \<Rightarrow> string res" where
  "secret_value files name env =
     (let direct = env_get env name []; file_name = env_get env (name @ ''_FILE'') [] in
      if direct \<noteq> [] \<and> file_name \<noteq> []
      then Inl (ConfigurationError (name @ '' and '' @ name @ ''_FILE are mutually exclusive''))
      else rbind
        (if file_name \<noteq> [] then
           (case files file_name of
              None \<Rightarrow> Inl (ConfigurationError (name @ ''_FILE does not reference a regular file''))
            | Some content \<Rightarrow> Inr (removesuffix [CHR 0x0A] content))
         else Inr direct)
        (\<lambda>v. if v = [] then Inl (ConfigurationError (name @ '' is required'')) else Inr v))"

section \<open>Numbers\<close>

text \<open>
  \<open>float(s)\<close>: C's white space around, a sign, \<open>inf\<close>, \<open>infinity\<close> or \<open>nan\<close> in any case, or digits with
  an optional point and exponent; an underscore may stand between two digits.
\<close>

fun drop_underscores :: "char \<Rightarrow> string \<Rightarrow> string option" where
  "drop_underscores prev [] = (if prev = CHR ''_'' then None else Some [])"
| "drop_underscores prev (c # cs) =
     (if c = CHR ''_'' then
        (if is_dec_digit prev then drop_underscores c cs else None)
      else if prev = CHR ''_'' \<and> \<not> is_dec_digit c then None
      else map_option ((#) c) (drop_underscores c cs))"

definition float_body :: "bool \<Rightarrow> string \<Rightarrow> pyfloat option" where
  "float_body neg s =
     (if lower s \<in> {''inf'', ''infinity''} then Some (FInf neg)
      else if lower s = ''nan'' then Some FNaN
      else
        let ip = takeWhile is_dec_digit s; r = dropWhile is_dec_digit s;
            point = (r \<noteq> [] \<and> hd r = CHR ''.'');
            fp = (if point then takeWhile is_dec_digit (tl r) else []);
            r2 = (if point then dropWhile is_dec_digit (tl r) else r);
            (ex, r3) = scan_exponent r2
        in if (ip = [] \<and> fp = []) \<or> r3 \<noteq> [] then None
           else
             let m = dec_value (ip @ fp);
                 x = (case ex of None \<Rightarrow> 0 | Some n \<Rightarrow> n) - int (length fp)
             in Some (if 0 \<le> x then float_of_ratio neg (m * 10 ^ nat x) 1
                      else float_of_ratio neg m (10 ^ nat (- x))))"

definition py_float_of_str :: "string \<Rightarrow> pyfloat res" where
  "py_float_of_str s =
     (case drop_underscores CHR ''x'' (strip_where c_isspace s) of
        None \<Rightarrow> Inl (ValueError ''could not convert string to float'')
      | Some t \<Rightarrow>
          let neg = (t \<noteq> [] \<and> hd t = CHR ''-'');
              signed = (t \<noteq> [] \<and> (hd t = CHR ''-'' \<or> hd t = CHR ''+''))
          in case float_body neg (if signed then tl t else t) of
               None \<Rightarrow> Inl (ValueError ''could not convert string to float'')
             | Some f \<Rightarrow> Inr f)"

text \<open>\<open>minimum <= value <= maximum\<close>, false for a NaN, and \<open>int(value)\<close>.\<close>

fun float_le_int :: "pyfloat \<Rightarrow> int \<Rightarrow> bool" where
  "float_le_int (FFin m e) n = (if 0 \<le> e then m * 2 ^ nat e \<le> n else m \<le> n * 2 ^ nat (- e))"
| "float_le_int (FInf neg) n = neg"
| "float_le_int FNaN n = False"

fun int_le_float :: "int \<Rightarrow> pyfloat \<Rightarrow> bool" where
  "int_le_float n (FFin m e) = (if 0 \<le> e then n \<le> m * 2 ^ nat e else n * 2 ^ nat (- e) \<le> m)"
| "int_le_float n (FInf neg) = (\<not> neg)"
| "int_le_float n FNaN = False"

fun int_of_float :: "pyfloat \<Rightarrow> int res" where
  "int_of_float (FFin m e) =
     Inr (if 0 \<le> e then m * 2 ^ nat e else sgn m * (\<bar>m\<bar> div 2 ^ nat (- e)))"
| "int_of_float (FInf neg) = Inl OverflowError"
| "int_of_float FNaN = Inl (ValueError ''cannot convert float NaN to integer'')"

text \<open>The bounds' texts are the \<open>%g\<close> forms of the literals the callers pass.\<close>

definition bounded_number ::
    "environ \<Rightarrow> string \<Rightarrow> string \<Rightarrow> int \<Rightarrow> int \<Rightarrow> string \<Rightarrow> pyfloat res" where
  "bounded_number env name dflt minimum maximum bounds =
     (case py_float_of_str (env_get env name dflt) of
        Inl _ \<Rightarrow> Inl (ConfigurationError (name @ '' must be numeric''))
      | Inr v \<Rightarrow>
          if int_le_float minimum v \<and> float_le_int v maximum then Inr v
          else Inl (ConfigurationError (name @ '' must be between '' @ bounds)))"

section \<open>Settings\<close>

record runtime_settings =
  rs_service_name :: string
  rs_environment :: string
  rs_database_url :: string
  rs_log_level :: string
  rs_otlp_endpoint :: "string option"
  rs_cors_origins :: "string list"
  rs_max_body_bytes :: int
  rs_request_timeout_seconds :: pyfloat

definition origin_rejected :: "string \<Rightarrow> url_parts \<Rightarrow> bool" where
  "origin_rejected origin p \<longleftrightarrow>
     origin = ''*'' \<or> url_scheme p \<notin> {''http'', ''https''} \<or> url_netloc p = [] \<or>
     url_path p \<notin> {[], ''/''} \<or> url_params p \<noteq> [] \<or> url_query p \<noteq> [] \<or> url_fragment p \<noteq> []"

definition parse_origins :: "string \<Rightarrow> string list res" where
  "parse_origins raw =
     (let origins = filter (\<lambda>origin. origin \<noteq> []) (map strip (split_on CHR '','' raw)) in
      rbind (fold (\<lambda>origin acc. rbind acc (\<lambda>ps. rbind (urlparse origin) (\<lambda>p. Inr (ps @ [p]))))
        origins (Inr [])) (\<lambda>parsed.
      if \<exists>(origin, p) \<in> set (zip origins parsed). origin_rejected origin p
      then Inl (ConfigurationError ''P5_CORS_ORIGINS must contain exact HTTP(S) origins'')
      else Inr origins))"

definition unknown_keys :: "string list \<Rightarrow> environ \<Rightarrow> string list" where
  "unknown_keys allowed_extra env =
     sort (filter (\<lambda>key. prefix PREFIX key \<and> key \<notin> set KNOWN_KEYS \<union> set allowed_extra) (map fst env))"

definition load_runtime_settings ::
    "files \<Rightarrow> environ \<Rightarrow> string list \<Rightarrow> runtime_settings res" where
  "load_runtime_settings files env allowed_extra =
     (let unknown = unknown_keys allowed_extra env in
      if unknown \<noteq> []
      then Inl (ConfigurationError (''unknown PENTAGON5 settings: '' @ join_with '', '' unknown))
      else
      let environment = env_get env ''P5_ENVIRONMENT'' ''production'' in
      if environment \<notin> {''development'', ''test'', ''staging'', ''production''}
      then Inl (ConfigurationError
        ''P5_ENVIRONMENT must be development, test, staging, or production'')
      else
      rbind (secret_value files ''P5_DATABASE_URL'' env) (\<lambda>database_url.
      rbind (urlparse database_url) (\<lambda>url.
      if url_scheme url \<notin> {''postgresql'', ''postgresql+psycopg''}
      then Inl (ConfigurationError ''P5_DATABASE_URL must use PostgreSQL'')
      else
      let log_level = upper (env_get env ''P5_LOG_LEVEL'' ''INFO'') in
      if log_level \<notin> {''DEBUG'', ''INFO'', ''WARNING'', ''ERROR'', ''CRITICAL''}
      then Inl (ConfigurationError ''P5_LOG_LEVEL is invalid'')
      else
      let service_name = strip (env_get env ''P5_SERVICE_NAME'' []) in
      if service_name = [] then Inl (ConfigurationError ''P5_SERVICE_NAME is required'')
      else
      rbind (parse_origins (env_get env ''P5_CORS_ORIGINS'' [])) (\<lambda>origins.
      rbind (bounded_number env ''P5_MAX_BODY_BYTES'' ''1048576'' 1024 10485760
        ''1024 and 1.04858e+07'') (\<lambda>body.
      rbind (int_of_float body) (\<lambda>max_body_bytes.
      rbind (bounded_number env ''P5_REQUEST_TIMEOUT_SECONDS'' ''15'' 1 60 ''1 and 60'')
        (\<lambda>request_timeout.
      Inr \<lparr>rs_service_name = service_name, rs_environment = environment,
        rs_database_url = database_url, rs_log_level = log_level,
        rs_otlp_endpoint = (case map_of env ''P5_OTLP_ENDPOINT'' of
            None \<Rightarrow> None | Some v \<Rightarrow> if v = [] then None else Some v),
        rs_cors_origins = origins, rs_max_body_bytes = max_body_bytes,
        rs_request_timeout_seconds = request_timeout\<rparr>)))))))"

end
