(* ===== verification/Base64.thy ===== *)
theory Base64
  imports PyStr
begin

text \<open>
  The base64 codec of Python's \<open>base64\<close> and \<open>binascii\<close> modules on byte strings (a byte is a
  character), as the services use it: URL-safe encoding with padding, lenient decoding (which
  skips foreign characters) and strict decoding (\<open>validate=True\<close>).
\<close>

section \<open>Alphabet\<close>

definition b64_char :: "int \<Rightarrow> char" where
  "b64_char v = (if v < 26 then char_of (v + 65) else if v < 52 then char_of (v + 71)
     else if v < 62 then char_of (v - 4) else if v = 62 then CHR ''-'' else CHR ''_'')"

text \<open>Both alphabets decode: the URL-safe characters are translated to the standard ones first.\<close>

definition b64_value :: "char \<Rightarrow> int option" where
  "b64_value c = (let n = code c in
     if 65 \<le> n \<and> n \<le> 90 then Some (n - 65) else if 97 \<le> n \<and> n \<le> 122 then Some (n - 71)
     else if 48 \<le> n \<and> n \<le> 57 then Some (n + 4)
     else if c = CHR ''-'' \<or> c = CHR ''+'' then Some 62
     else if c = CHR ''_'' \<or> c = CHR ''/'' then Some 63 else None)"

section \<open>Encoding\<close>

fun urlsafe_b64encode :: "string \<Rightarrow> string" where
  "urlsafe_b64encode (a # b # c # bs) =
     (let x = code a; y = code b; z = code c in
      b64_char (x div 4) # b64_char (x mod 4 * 16 + y div 16) #
      b64_char (y mod 16 * 4 + z div 64) # b64_char (z mod 64) # urlsafe_b64encode bs)"
| "urlsafe_b64encode [a, b] =
     (let x = code a; y = code b in
      [b64_char (x div 4), b64_char (x mod 4 * 16 + y div 16), b64_char (y mod 16 * 4), CHR ''=''])"
| "urlsafe_b64encode [a] =
     (let x = code a in [b64_char (x div 4), b64_char (x mod 4 * 16), CHR ''='', CHR ''=''])"
| "urlsafe_b64encode [] = []"

section \<open>Decoding\<close>

text \<open>
  The loop of \<open>binascii.a2b_base64\<close>: position in the current group of four, the bits left over,
  the padding characters just seen, whether padding has started, and the bytes so far.
\<close>

fun a2b_loop :: "bool \<Rightarrow> nat \<Rightarrow> int \<Rightarrow> nat \<Rightarrow> bool \<Rightarrow> string \<Rightarrow> string \<Rightarrow> string res" where
  "a2b_loop strict quad left pads started out [] =
     (if quad = 0 then Inr out else Inl (ValueError ''Incorrect padding''))"
| "a2b_loop strict quad left pads started out (c # cs) =
     (if c = CHR ''='' then
        (if 2 \<le> quad \<and> 4 \<le> quad + pads + 1
         then (if strict \<and> cs \<noteq> [] then Inl (ValueError ''Excess data after padding'') else Inr out)
         else a2b_loop strict quad left (if 2 \<le> quad then pads + 1 else pads) True out cs)
      else
        (case b64_value c of
           None \<Rightarrow>
             if strict then Inl (ValueError ''Only base64 data is allowed'')
             else a2b_loop strict quad left pads started out cs
         | Some v \<Rightarrow>
             if strict \<and> started then Inl (ValueError ''Discontinuous padding not allowed'')
             else if quad = 0 then a2b_loop strict 1 v 0 started out cs
             else if quad = 1
             then a2b_loop strict 2 (v mod 16) 0 started (out @ [char_of (left * 4 + v div 16)]) cs
             else if quad = 2
             then a2b_loop strict 3 (v mod 4) 0 started (out @ [char_of (left * 16 + v div 4)]) cs
             else a2b_loop strict 0 0 0 started (out @ [char_of (left * 64 + v)]) cs))"

definition a2b_base64 :: "bool \<Rightarrow> string \<Rightarrow> string res" where
  "a2b_base64 strict s =
     (if strict \<and> s \<noteq> [] \<and> hd s = CHR ''='' then Inl (ValueError ''Leading padding not allowed'')
      else a2b_loop strict 0 0 0 False [] s)"

text \<open>
  \<open>base64.urlsafe_b64decode(s)\<close> and \<open>base64.b64decode(s, altchars=b'-_', validate=True)\<close> of a
  \<open>str\<close>: characters above 127 are refused.
\<close>

definition b64decode :: "bool \<Rightarrow> string \<Rightarrow> string res" where
  "b64decode strict s =
     (if \<exists>c \<in> set s. 128 \<le> code c
      then Inl (ValueError ''string argument should contain only ASCII characters'')
      else a2b_base64 strict s)"

section \<open>Round trip\<close>

lemma b64_all: "\<forall>v \<in> set [0..63]. b64_value (b64_char v) = Some v \<and> b64_char v \<noteq> CHR ''='' \<and>
    code (b64_char v) < 128"
  by code_simp

lemma b64_char_ok:
  assumes "0 \<le> v" "v < 64"
  shows "b64_value (b64_char v) = Some v" "b64_char v \<noteq> CHR ''=''" "code (b64_char v) < 128"
  using b64_all assms by auto

lemma div_mod_part:
  fixes a b k :: int
  assumes "0 \<le> b" "b < k"
  shows "(a * k + b) div k = a" "(a * k + b) mod k = b"
  using assms by (simp_all add: div_pos_pos_trivial mod_pos_pos_trivial)

text \<open>The sextets of three bytes, and the bytes they give back.\<close>

lemma sextets:
  fixes x y z :: int
  assumes "0 \<le> x" "x < 256" "0 \<le> y" "y < 256" "0 \<le> z" "z < 256"
  shows "0 \<le> x div 4 \<and> x div 4 < 64"
    "0 \<le> x mod 4 * 16 + y div 16 \<and> x mod 4 * 16 + y div 16 < 64"
    "0 \<le> y mod 16 * 4 + z div 64 \<and> y mod 16 * 4 + z div 64 < 64"
    "0 \<le> z mod 64 \<and> z mod 64 < 64"
    "x div 4 * 4 + (x mod 4 * 16 + y div 16) div 16 = x"
    "(x mod 4 * 16 + y div 16) mod 16 * 16 + (y mod 16 * 4 + z div 64) div 4 = y"
    "(y mod 16 * 4 + z div 64) mod 4 * 64 + z mod 64 = z"
proof -
  have q: "0 \<le> y div 16" "y div 16 < 16" "0 \<le> z div 64" "z div 64 < 4" "0 \<le> x mod 4" "x mod 4 < 4"
    "0 \<le> y mod 16" "y mod 16 < 16" "0 \<le> x div 4" "x div 4 < 64"
    using assms by auto
  then show "0 \<le> x div 4 \<and> x div 4 < 64"
    "0 \<le> x mod 4 * 16 + y div 16 \<and> x mod 4 * 16 + y div 16 < 64"
    "0 \<le> y mod 16 * 4 + z div 64 \<and> y mod 16 * 4 + z div 64 < 64"
    "0 \<le> z mod 64 \<and> z mod 64 < 64"
    by auto
  have d: "(x mod 4 * 16 + y div 16) div 16 = x mod 4" "(x mod 4 * 16 + y div 16) mod 16 = y div 16"
    "(y mod 16 * 4 + z div 64) div 4 = y mod 16" "(y mod 16 * 4 + z div 64) mod 4 = z div 64"
    by (rule div_mod_part [OF q(1) q(2)] div_mod_part [OF q(3) q(4)])+
  show "x div 4 * 4 + (x mod 4 * 16 + y div 16) div 16 = x"
    "(x mod 4 * 16 + y div 16) mod 16 * 16 + (y mod 16 * 4 + z div 64) div 4 = y"
    "(y mod 16 * 4 + z div 64) mod 4 * 64 + z mod 64 = z"
    unfolding d by (rule div_mult_mod_eq)+
qed

lemma a2b_loop_char:
  assumes "0 \<le> v" "v < 64"
  shows "a2b_loop strict quad left pads False out (b64_char v # cs) =
    (if quad = 0 then a2b_loop strict 1 v 0 False out cs
     else if quad = 1
     then a2b_loop strict 2 (v mod 16) 0 False (out @ [char_of (left * 4 + v div 16)]) cs
     else if quad = 2
     then a2b_loop strict 3 (v mod 4) 0 False (out @ [char_of (left * 16 + v div 4)]) cs
     else a2b_loop strict 0 0 0 False (out @ [char_of (left * 64 + v)]) cs)"
  using b64_char_ok [OF assms] by simp

lemma a2b_loop_quad:
  assumes "0 \<le> u \<and> u < 64" "0 \<le> v \<and> v < 64" "0 \<le> w \<and> w < 64" "0 \<le> x \<and> x < 64"
  shows "a2b_loop strict 0 0 0 False out (b64_char u # b64_char v # b64_char w # b64_char x # cs) =
    a2b_loop strict 0 0 0 False
      (out @ [char_of (u * 4 + v div 16), char_of (v mod 16 * 16 + w div 4),
         char_of (w mod 4 * 64 + x)]) cs"
  using assms by (simp add: a2b_loop_char del: a2b_loop.simps)

lemma a2b_loop_tail:
  assumes "0 \<le> u \<and> u < 64" "0 \<le> v \<and> v < 64"
  shows "a2b_loop strict 0 0 0 False out [b64_char u, b64_char v, CHR ''='', CHR ''=''] =
      Inr (out @ [char_of (u * 4 + v div 16)])"
    "0 \<le> w \<and> w < 64 \<Longrightarrow>
      a2b_loop strict 0 0 0 False out [b64_char u, b64_char v, b64_char w, CHR ''=''] =
      Inr (out @ [char_of (u * 4 + v div 16), char_of (v mod 16 * 16 + w div 4)])"
  using b64_char_ok [of u] b64_char_ok [of v] b64_char_ok [of w] assms by simp_all

lemma decode_encode_loop:
  "a2b_loop strict 0 0 0 False out (urlsafe_b64encode s) = Inr (out @ s)"
proof (induction s arbitrary: out rule: urlsafe_b64encode.induct)
  case (1 a b c bs)
  note s = sextets [OF code_range [of a] code_range [of b] code_range [of c]]
  show ?case
    unfolding urlsafe_b64encode.simps Let_def a2b_loop_quad [OF s(1,2,3,4)] s(5,6,7) char_of_code
    by (simp add: 1)
next
  case (2 a b)
  note s = sextets [OF code_range [of a] code_range [of b], of 0, simplified]
  show ?case
    unfolding urlsafe_b64encode.simps Let_def
    using a2b_loop_tail(2) [of "code a div 4" "code a mod 4 * 16 + code b div 16" "code b mod 16 * 4"] s
    by (simp add: char_of_code del: a2b_loop.simps)
next
  case (3 a)
  note s = sextets [OF code_range [of a], of 0 0, simplified]
  show ?case
    unfolding urlsafe_b64encode.simps Let_def
    using a2b_loop_tail(1) [of "code a div 4" "code a mod 4 * 16"] s
    by (simp add: char_of_code del: a2b_loop.simps)
qed simp

lemma urlsafe_b64encode_ascii: "\<forall>c \<in> set (urlsafe_b64encode s). code c < 128"
proof (induction s rule: urlsafe_b64encode.induct)
  case (1 a b d bs)
  note s = sextets [OF code_range [of a] code_range [of b] code_range [of d]]
  show ?case
    using 1 s(1,2,3,4) by (simp add: Let_def b64_char_ok(3))
next
  case (2 a b)
  have "code CHR ''='' < 128" by code_simp
  then show ?case
    using sextets(1,2,3) [OF code_range [of a] code_range [of b], of 0]
    by (simp add: Let_def b64_char_ok(3))
next
  case (3 a)
  have "code CHR ''='' < 128" by code_simp
  then show ?case
    using sextets(1,2) [OF code_range [of a], of 0 0] by (simp add: Let_def b64_char_ok(3))
qed simp

lemma urlsafe_b64encode_head: "s \<noteq> [] \<Longrightarrow> urlsafe_b64encode s \<noteq> [] \<and> hd (urlsafe_b64encode s) \<noteq> CHR ''=''"
proof (induction s rule: urlsafe_b64encode.induct)
  case (1 a b c bs)
  then show ?case using b64_char_ok(2) [of "code a div 4"] code_range [of a] by (auto simp: Let_def)
next
  case (2 a b)
  then show ?case using b64_char_ok(2) [of "code a div 4"] code_range [of a] by (auto simp: Let_def)
next
  case (3 a)
  then show ?case using b64_char_ok(2) [of "code a div 4"] code_range [of a] by (auto simp: Let_def)
qed simp

text \<open>Both decoders invert the encoder.\<close>

lemma b64_round_trip: "b64decode strict (urlsafe_b64encode s) = Inr s"
proof -
  have "\<not> (\<exists>c \<in> set (urlsafe_b64encode s). 128 \<le> code c)"
    using urlsafe_b64encode_ascii [of s] by (auto simp: not_le)
  moreover have "\<not> (urlsafe_b64encode s \<noteq> [] \<and> hd (urlsafe_b64encode s) = CHR ''='')"
    using urlsafe_b64encode_head [of s] by (cases "s = []") auto
  ultimately show ?thesis
    using decode_encode_loop [of strict "[]" s] by (auto simp: b64decode_def a2b_base64_def)
qed

text \<open>Every group has four characters, and only the last ends in padding: what is stripped off is
  determined by the length of the rest.\<close>

lemma length_urlsafe_b64encode: "length (urlsafe_b64encode s) mod 4 = 0"
  by (induction s rule: urlsafe_b64encode.induct) (simp_all add: Let_def mod_Suc)

lemma urlsafe_b64encode_padding:
  "\<exists>body k. urlsafe_b64encode s = body @ replicate k CHR ''='' \<and> k \<le> 2 \<and>
     (body \<noteq> [] \<longrightarrow> last body \<noteq> CHR ''='') \<and> (body = [] \<longrightarrow> k = 0)"
proof (induction s rule: urlsafe_b64encode.induct)
  case (1 a b c bs)
  then obtain body k where IH: "urlsafe_b64encode bs = body @ replicate k CHR ''=''" "k \<le> 2"
    "body \<noteq> [] \<longrightarrow> last body \<noteq> CHR ''=''" "body = [] \<longrightarrow> k = 0" by blast
  let ?q = "[b64_char (code a div 4), b64_char (code a mod 4 * 16 + code b div 16),
      b64_char (code b mod 16 * 4 + code c div 64), b64_char (code c mod 64)]"
  have "b64_char (code c mod 64) \<noteq> CHR ''=''" by (intro b64_char_ok) simp_all
  then show ?case
    using IH by (intro exI [of _ "?q @ body"] exI [of _ k]) (simp add: Let_def)
next
  case (2 a b)
  let ?q = "[b64_char (code a div 4), b64_char (code a mod 4 * 16 + code b div 16),
      b64_char (code b mod 16 * 4)]"
  have "b64_char (code b mod 16 * 4) \<noteq> CHR ''=''" by (intro b64_char_ok) simp_all
  then show ?case by (intro exI [of _ ?q] exI [of _ 1]) (simp add: Let_def)
next
  case (3 a)
  let ?q = "[b64_char (code a div 4), b64_char (code a mod 4 * 16)]"
  have "b64_char (code a mod 4 * 16) \<noteq> CHR ''=''" by (intro b64_char_ok) simp_all
  then show ?case by (intro exI [of _ ?q] exI [of _ 2]) (simp add: Let_def numeral_2_eq_2)
qed simp

end
