(* ===== verification/Security.thy ===== *)
theory Security
  imports Base64
begin

text \<open>
  The security primitives of \<open>pentagon5_runtime/security.py\<close>.  The hash and cipher
  implementations (hashlib, hmac, and AES-GCM of the cryptography package) are the record
  \<open>crypto\<close> of functions on byte strings; the random bytes a token is made of are arguments.
\<close>

record crypto =
  hmac_sha256_hex :: "string \<Rightarrow> string \<Rightarrow> string"
  sha256 :: "string \<Rightarrow> string"
  aesgcm_encrypt :: "string \<Rightarrow> string \<Rightarrow> string \<Rightarrow> string \<Rightarrow> string"
  aesgcm_decrypt :: "string \<Rightarrow> string \<Rightarrow> string \<Rightarrow> string \<Rightarrow> string option"

text \<open>\<open>s.encode()\<close>: UTF-8 of the code points below 256.\<close>

definition utf8 :: "string \<Rightarrow> string" where
  "utf8 s = concat (map (\<lambda>c. if code c < 128 then [c]
     else [char_of (192 + code c div 64), char_of (128 + code c mod 64)]) s)"

text \<open>\<open>secrets.token_urlsafe(n)\<close>, where \<open>random\<close> are the \<open>n\<close> bytes drawn.\<close>

definition token_urlsafe :: "string \<Rightarrow> string" where
  "token_urlsafe random = rstrip_char CHR ''='' (urlsafe_b64encode random)"

definition random_token :: "nat \<Rightarrow> string \<Rightarrow> string res" where
  "random_token bytes_count random =
     (if bytes_count < 32 then Inl (ValueError ''security tokens require at least 256 bits'')
      else Inr (token_urlsafe random))"

definition fingerprint :: "crypto \<Rightarrow> string \<Rightarrow> string \<Rightarrow> string res" where
  "fingerprint C token key =
     (if length key < 32 then Inl (ValueError ''fingerprint keys require at least 256 bits'')
      else Inr (hmac_sha256_hex C key (utf8 token)))"

definition pkce_challenge :: "crypto \<Rightarrow> string \<Rightarrow> string res" where
  "pkce_challenge C verifier =
     (if \<exists>c \<in> set verifier. 128 \<le> code c
      then Inl (ValueError ''ordinal not in range(128)'')
      else Inr (rstrip_char CHR ''='' (urlsafe_b64encode (sha256 C verifier))))"

definition constant_time_equal :: "string \<Rightarrow> string \<Rightarrow> bool res" where
  "constant_time_equal left right =
     (if \<exists>c \<in> set (left @ right). 128 \<le> code c
      then Inl (TypeError ''comparing strings with non-ASCII characters is not supported'')
      else Inr (left = right))"

section \<open>Tokens\<close>

lemma utf8_ascii: "\<forall>c \<in> set s. code c < 128 \<Longrightarrow> utf8 s = s"
  unfolding utf8_def by (induction s) auto

lemma rstrip_char_subset: "set (rstrip_char c s) \<subseteq> set s"
  by (auto simp: rstrip_char_def dest: set_dropWhileD)

lemma token_urlsafe_ascii: "\<forall>c \<in> set (token_urlsafe random). code c < 128"
  using rstrip_char_subset urlsafe_b64encode_ascii unfolding token_urlsafe_def by blast

text \<open>Padding a token to a multiple of four characters restores the encoding it was made from.\<close>

lemma rstrip_char_replicate:
  "body \<noteq> [] \<longrightarrow> last body \<noteq> c \<Longrightarrow> rstrip_char c (body @ replicate k c) = body"
  by (cases body rule: rev_cases) (simp_all add: rstrip_char_def dropWhile_append3)

lemma repad_token:
  "token_urlsafe key @ replicate (nat (- int (length (token_urlsafe key)) mod 4)) CHR ''='' =
     urlsafe_b64encode key"
proof -
  obtain body k where e: "urlsafe_b64encode key = body @ replicate k CHR ''=''" "k \<le> 2"
    "body \<noteq> [] \<longrightarrow> last body \<noteq> CHR ''=''" using urlsafe_b64encode_padding by blast
  then have t: "token_urlsafe key = body" by (simp add: token_urlsafe_def rstrip_char_replicate)
  have "(length body + k) mod 4 = 0" using length_urlsafe_b64encode [of key] e(1) by simp
  then have "(int (length body) + int k) mod 4 = 0" by (metis of_nat_0 of_nat_add of_nat_mod of_nat_numeral)
  then have "- int (length body) mod 4 = int k" using e(2) by presburger
  then show ?thesis by (simp add: t e(1))
qed

end
