(* ===== verification/Auth_Config.thy ===== *)
theory Auth_Config
  imports Runtime_Config Security
begin

text \<open>
  The settings of the authentication process, \<open>pentagon5_auth/config.py\<close>.
\<close>

definition AUTH_KEYS :: "string list" where
  "AUTH_KEYS = [''P5_OIDC_CLIENT_ID'', ''P5_OIDC_CLIENT_SECRET'', ''P5_OIDC_CLIENT_SECRET_FILE'',
     ''P5_OIDC_ISSUER'', ''P5_OIDC_REDIRECT_URI'', ''P5_DESKTOP_CALLBACK_URI'',
     ''P5_LOGIN_GRANT_TTL_SECONDS'', ''P5_SESSION_HMAC_KEY'', ''P5_SESSION_HMAC_KEY_FILE'',
     ''P5_SESSION_TTL_SECONDS'', ''P5_OIDC_FLOW_TTL_SECONDS'', ''P5_WS_TICKET_TTL_SECONDS'',
     ''P5_WS_MAX_FRAME_BYTES'', ''P5_WS_MAX_SUBSCRIPTIONS'', ''P5_WEB_COOKIE_MODE'']"

record auth_settings =
  as_runtime :: runtime_settings
  as_issuer :: string
  as_client_id :: string
  as_client_secret :: string
  as_redirect_uri :: string
  as_hmac_key :: string
  as_desktop_callback_uri :: string
  as_session_ttl_seconds :: int
  as_flow_ttl_seconds :: int
  as_login_grant_ttl_seconds :: int
  as_ws_ticket_ttl_seconds :: int
  as_ws_max_frame_bytes :: int
  as_ws_max_subscriptions :: int
  as_web_cookie_mode :: bool

text \<open>The texts of the default and of the maximum are those of the literals the callers pass.\<close>

definition positive_int :: "environ \<Rightarrow> string \<Rightarrow> string \<Rightarrow> int \<Rightarrow> string \<Rightarrow> int res" where
  "positive_int env name dflt maximum max_text =
     (case py_int 10 (env_get env name dflt) of
        None \<Rightarrow> Inl (ConfigurationError (name @ '' must be an integer''))
      | Some v \<Rightarrow>
          if 1 \<le> v \<and> v \<le> maximum then Inr v
          else Inl (ConfigurationError (name @ '' must be between 1 and '' @ max_text)))"

definition decode_hmac_key :: "string \<Rightarrow> string res" where
  "decode_hmac_key raw_key =
     (case b64decode True (raw_key @ replicate (nat (- int (length raw_key) mod 4)) CHR ''='') of
        Inl _ \<Rightarrow> Inl (ConfigurationError ''P5_SESSION_HMAC_KEY must be URL-safe base64'')
      | Inr key \<Rightarrow>
          if length key < 32
          then Inl (ConfigurationError ''P5_SESSION_HMAC_KEY must decode to at least 32 bytes'')
          else Inr key)"

definition check_urls :: "string \<Rightarrow> string \<Rightarrow> string \<Rightarrow> string \<Rightarrow> unit res" where
  "check_urls environment issuer redirect_uri desktop_callback_uri =
     rbind (urlparse issuer) (\<lambda>issuer_url.
     rbind (urlparse redirect_uri) (\<lambda>redirect_url.
     rbind (urlparse desktop_callback_uri) (\<lambda>desktop_url.
     if environment \<notin> {''development'', ''test''} \<and>
        (url_scheme issuer_url \<noteq> ''https'' \<or> url_scheme redirect_url \<noteq> ''https'')
     then Inl (ConfigurationError ''OIDC issuer and redirect URI must use HTTPS'')
     else if environment \<in> {''development'', ''test''} \<and> url_scheme issuer_url \<notin> {''http'', ''https''}
     then Inl (ConfigurationError ''OIDC issuer must use HTTP or HTTPS'')
     else if url_scheme desktop_url = [] \<or> url_scheme desktop_url \<in> {''http'', ''https''} \<or>
        url_query desktop_url \<noteq> [] \<or> url_fragment desktop_url \<noteq> [] \<or> url_netloc desktop_url = []
     then Inl (ConfigurationError
       ''P5_DESKTOP_CALLBACK_URI must be an exact custom URI without query or fragment'')
     else Inr ())))"

definition load_auth_settings :: "files \<Rightarrow> environ \<Rightarrow> auth_settings res" where
  "load_auth_settings files env =
     rbind (load_runtime_settings files env AUTH_KEYS) (\<lambda>runtime.
     let issuer = rstrip_char CHR ''/'' (env_get env ''P5_OIDC_ISSUER'' []);
         redirect_uri = env_get env ''P5_OIDC_REDIRECT_URI'' [];
         client_id = env_get env ''P5_OIDC_CLIENT_ID'' [];
         desktop_callback_uri = env_get env ''P5_DESKTOP_CALLBACK_URI'' []
     in if issuer = [] \<or> client_id = [] \<or> redirect_uri = [] \<or> desktop_callback_uri = []
        then Inl (ConfigurationError
          ''OIDC issuer, client ID, provider redirect URI, and desktop callback URI are required'')
        else
     rbind (check_urls (rs_environment runtime) issuer redirect_uri desktop_callback_uri) (\<lambda>_.
     let web_cookie_value = lower (env_get env ''P5_WEB_COOKIE_MODE'' ''false'')
     in if web_cookie_value \<notin> {''true'', ''false''}
        then Inl (ConfigurationError ''P5_WEB_COOKIE_MODE must be true or false'')
        else
     rbind (secret_value files ''P5_SESSION_HMAC_KEY'' env) (\<lambda>raw_key.
     rbind (decode_hmac_key raw_key) (\<lambda>hmac_key.
     rbind (positive_int env ''P5_WS_MAX_FRAME_BYTES'' ''16384'' 65536 ''65536'')
       (\<lambda>ws_max_frame_bytes.
     if ws_max_frame_bytes < 1024
     then Inl (ConfigurationError ''P5_WS_MAX_FRAME_BYTES must be at least 1024'')
     else
     rbind (secret_value files ''P5_OIDC_CLIENT_SECRET'' env) (\<lambda>client_secret.
     rbind (positive_int env ''P5_SESSION_TTL_SECONDS'' ''28800'' 86400 ''86400'') (\<lambda>session_ttl.
     rbind (positive_int env ''P5_OIDC_FLOW_TTL_SECONDS'' ''300'' 600 ''600'') (\<lambda>flow_ttl.
     rbind (positive_int env ''P5_LOGIN_GRANT_TTL_SECONDS'' ''60'' 120 ''120'') (\<lambda>grant_ttl.
     rbind (positive_int env ''P5_WS_TICKET_TTL_SECONDS'' ''30'' 60 ''60'') (\<lambda>ticket_ttl.
     rbind (positive_int env ''P5_WS_MAX_SUBSCRIPTIONS'' ''1'' 4 ''4'') (\<lambda>max_subscriptions.
     Inr \<lparr>as_runtime = runtime, as_issuer = issuer, as_client_id = client_id,
       as_client_secret = client_secret, as_redirect_uri = redirect_uri, as_hmac_key = hmac_key,
       as_desktop_callback_uri = desktop_callback_uri, as_session_ttl_seconds = session_ttl,
       as_flow_ttl_seconds = flow_ttl, as_login_grant_ttl_seconds = grant_ttl,
       as_ws_ticket_ttl_seconds = ticket_ttl, as_ws_max_frame_bytes = ws_max_frame_bytes,
       as_ws_max_subscriptions = max_subscriptions,
       as_web_cookie_mode = (web_cookie_value = ''true'')\<rparr>)))))))))))"

section \<open>What loaded settings guarantee\<close>

lemma positive_int_ok: "positive_int env n d m t = Inr v \<Longrightarrow> 1 \<le> v \<and> v \<le> m"
  by (auto simp: positive_int_def split: option.splits if_splits)

lemma decode_hmac_key_ok: "decode_hmac_key raw = Inr key \<Longrightarrow> 32 \<le> length key"
  by (auto simp: decode_hmac_key_def split: sum.splits if_splits)

lemma bounded_number_ok:
  "bounded_number env n d lo hi t = Inr v \<Longrightarrow> int_le_float lo v \<and> float_le_int v hi"
  by (auto simp: bounded_number_def split: sum.splits if_splits)

text \<open>Rounding towards zero stays within the bounds of a nonnegative interval.\<close>

lemma int_of_float_bounds:
  assumes "int_le_float lo v" "float_le_int v hi" "0 \<le> lo" "int_of_float v = Inr n"
  shows "lo \<le> n \<and> n \<le> hi"
proof (cases v)
  case (FFin m e)
  show ?thesis
  proof (cases "0 \<le> e")
    case True
    then show ?thesis using assms FFin by auto
  next
    case False
    define d :: int where "d = 2 ^ nat (- e)"
    have d: "0 < d" by (simp add: d_def)
    have m: "lo * d \<le> m" "m \<le> hi * d" using assms FFin False by (auto simp: d_def)
    then have "0 \<le> m" using assms(3) d by (smt (verit) mult_nonneg_nonneg)
    then have n: "n = m div d" using assms(4) FFin False by (cases "m = 0") (auto simp: d_def sgn_if)
    show ?thesis unfolding n using zdiv_mono1 [OF m(1) d] zdiv_mono1 [OF m(2) d] d by simp
  qed
qed (use assms in auto)

text \<open>What a successful load has checked, setting by setting.\<close>

lemma load_runtime_settings_ok:
  assumes "load_runtime_settings files env extra = Inr s"
  shows "unknown_keys extra env = [] \<and>
    secret_value files ''P5_DATABASE_URL'' env = Inr (rs_database_url s) \<and>
    rs_environment s = env_get env ''P5_ENVIRONMENT'' ''production'' \<and> rs_service_name s \<noteq> [] \<and>
    parse_origins (env_get env ''P5_CORS_ORIGINS'' []) = Inr (rs_cors_origins s) \<and>
    (\<exists>b. bounded_number env ''P5_MAX_BODY_BYTES'' ''1048576'' 1024 10485760
        ''1024 and 1.04858e+07'' = Inr b \<and> int_of_float b = Inr (rs_max_body_bytes s)) \<and>
    bounded_number env ''P5_REQUEST_TIMEOUT_SECONDS'' ''15'' 1 60 ''1 and 60'' =
      Inr (rs_request_timeout_seconds s)"
  using assms [unfolded load_runtime_settings_def Let_def rbind_Inr_iff guard_Inr_iff]
  by (elim exE conjE) (drule sum.inject(2) [THEN iffD1], hypsubst, simp)

lemma load_auth_settings_ok:
  assumes "load_auth_settings files env = Inr s"
  shows "load_runtime_settings files env AUTH_KEYS = Inr (as_runtime s) \<and>
    as_issuer s \<noteq> [] \<and> as_client_id s \<noteq> [] \<and> as_redirect_uri s \<noteq> [] \<and>
    check_urls (rs_environment (as_runtime s)) (as_issuer s) (as_redirect_uri s)
      (as_desktop_callback_uri s) = Inr () \<and>
    secret_value files ''P5_OIDC_CLIENT_SECRET'' env = Inr (as_client_secret s) \<and>
    (\<exists>raw. secret_value files ''P5_SESSION_HMAC_KEY'' env = Inr raw \<and>
       decode_hmac_key raw = Inr (as_hmac_key s)) \<and>
    positive_int env ''P5_WS_MAX_FRAME_BYTES'' ''16384'' 65536 ''65536'' = Inr (as_ws_max_frame_bytes s) \<and>
    1024 \<le> as_ws_max_frame_bytes s \<and>
    positive_int env ''P5_SESSION_TTL_SECONDS'' ''28800'' 86400 ''86400'' = Inr (as_session_ttl_seconds s) \<and>
    positive_int env ''P5_OIDC_FLOW_TTL_SECONDS'' ''300'' 600 ''600'' = Inr (as_flow_ttl_seconds s) \<and>
    positive_int env ''P5_LOGIN_GRANT_TTL_SECONDS'' ''60'' 120 ''120'' = Inr (as_login_grant_ttl_seconds s) \<and>
    positive_int env ''P5_WS_TICKET_TTL_SECONDS'' ''30'' 60 ''60'' = Inr (as_ws_ticket_ttl_seconds s) \<and>
    positive_int env ''P5_WS_MAX_SUBSCRIPTIONS'' ''1'' 4 ''4'' = Inr (as_ws_max_subscriptions s)"
  using assms [unfolded load_auth_settings_def Let_def rbind_Inr_iff guard_Inr_iff]
  by (elim exE conjE) (drule sum.inject(2) [THEN iffD1], hypsubst, simp)

lemma secret_value_nonempty: "secret_value files name env = Inr v \<Longrightarrow> v \<noteq> []"
  by (auto simp: secret_value_def Let_def rbind_Inr_iff split: if_splits)

end
