(* ===== verification/Json_Lemmas.thy ===== *)
theory Json_Lemmas
  imports Json_Text
begin

text \<open>
  The JSON scanner consumes text at every step, so the fuel it is given is always enough, and it
  reads back what \<open>json.dumps\<close> wrote.
\<close>

section \<open>Progress\<close>

lemma length_skip_space: "length (skip_space s) \<le> length s"
  by (simp add: skip_space_def length_dropWhile_le)

lemma parse_string_rest: "parse_string acc s = Inr (t, r) \<Longrightarrow> length r < length s"
proof (induction acc s rule: parse_string.induct)
  case (2 acc c cs)
  show ?case
  proof (cases "c = CHR ''\"''")
    case True
    with 2 show ?thesis by simp
  next
    case quote: False
    show ?thesis
    proof (cases "c = CHR 0x5C")
      case False
      with quote 2 show ?thesis by (auto split: if_splits dest!: "2.IH"(3))
    next
      case True
      then obtain e es where cs: "cs = e # es" using 2(4) by (cases cs) auto
      show ?thesis
      proof (cases "e = CHR ''u''")
        case True
        with cs quote \<open>c = CHR 0x5C\<close> obtain n where "hex4 (take 4 es) = Some n" "n < 256"
          and r: "parse_string (acc @ [char_of n]) (drop 4 es) = Inr (t, r)"
          using 2(4) by (auto split: option.splits if_splits)
        then have "length r < length (drop 4 es)" using 2(1) quote \<open>c = CHR 0x5C\<close> cs True by simp
        then show ?thesis by (simp add: cs)
      next
        case False
        with cs quote \<open>c = CHR 0x5C\<close> obtain d where "simple_escape e = Some d"
          and r: "parse_string (acc @ [d]) es = Inr (t, r)"
          using 2(4) by (auto split: option.splits)
        then have "length r < length es" using 2(2) quote \<open>c = CHR 0x5C\<close> cs False by simp
        then show ?thesis by (simp add: cs)
      qed
    qed
  qed
qed simp

lemma scan_fraction_rest: "length (snd (scan_fraction s)) \<le> length s"
  using length_dropWhile_le [of is_dec_digit "tl s"]
  by (auto simp: scan_fraction_def split: list.splits)

lemma scan_exponent_rest: "length (snd (scan_exponent s)) \<le> length s"
  using length_dropWhile_le [of is_dec_digit "tl s"] length_dropWhile_le [of is_dec_digit "tl (tl s)"]
  by (auto simp: scan_exponent_def Let_def split: list.splits)

lemma parse_number_rest: "parse_number s = Inr (v, r) \<Longrightarrow> length r < length s"
proof -
  assume ok: "parse_number s = Inr (v, r)"
  define neg where "neg = (s \<noteq> [] \<and> hd s = CHR ''-'')"
  define t where "t = (if neg then tl s else s)"
  define ds where "ds = (if t \<noteq> [] \<and> hd t = CHR ''0'' then [CHR ''0''] else takeWhile is_dec_digit t)"
  obtain fr r1 where fr: "scan_fraction (drop (length ds) t) = (fr, r1)" by force
  obtain ex r2 where ex: "scan_exponent r1 = (ex, r2)" by force
  have ne: "ds \<noteq> []" and r: "r = r2"
    using ok fr ex unfolding parse_number_def Let_def neg_def [symmetric] t_def [symmetric]
      ds_def [symmetric]
    by (auto split: if_splits)
  have "length ds \<le> length t"
    using length_takeWhile_le [of is_dec_digit t] by (auto simp: ds_def Suc_le_eq)
  moreover have "length t \<le> length s" by (auto simp: t_def)
  moreover have "length r2 \<le> length (drop (length ds) t)"
    using scan_fraction_rest [of "drop (length ds) t"] scan_exponent_rest [of r1] fr ex by simp
  moreover have "0 < length ds" using ne by simp
  ultimately show ?thesis unfolding r length_drop by linarith
qed

lemma strip_prefix_rest: "strip_prefix p s = Some r \<Longrightarrow> p \<noteq> [] \<Longrightarrow> length r < length s"
  by (cases s) (auto simp: strip_prefix_def neq_Nil_conv split: if_splits)

lemma parse_constant_rest: "parse_constant s = Inr (v, r) \<Longrightarrow> length r < length s"
  unfolding parse_constant_def
  by (auto split: option.splits dest: strip_prefix_rest parse_number_rest)

lemma parse_string_errors: "parse_string acc s = Inl e \<Longrightarrow> e = json_error \<or> e = json_not_modelled"
  by (induction acc s rule: parse_string.induct) (auto split: if_splits list.splits option.splits)

lemma parse_constant_errors: "parse_constant s = Inl e \<Longrightarrow> \<exists>m. e = ValueError m"
  by (auto simp: parse_constant_def parse_number_def Let_def json_error_def
      split: option.splits prod.splits if_splits)

section \<open>Fuel\<close>

lemma skip_space_less: "length r < n \<Longrightarrow> skip_space r = d # ds \<Longrightarrow> Suc (length ds) < n"
  using length_skip_space [of r] by simp

lemma skip_space_tail: "Suc (length ds) < n \<Longrightarrow> Suc (length (skip_space ds)) < n"
  using length_skip_space [of ds] by simp

definition scan_error :: "exn \<Rightarrow> bool" where
  "scan_error e \<longleftrightarrow> (\<exists>m. e = ValueError m) \<or> e = RecursionError \<or> e = json_not_modelled"

definition fed :: "string \<Rightarrow> (json \<times> string) res \<Rightarrow> bool" where
  "fed s x \<longleftrightarrow> (case x of Inl e \<Rightarrow> scan_error e | Inr (v, r) \<Rightarrow> length r < length s)"

lemma fed_error [simp]: "fed s (Inl json_error)" "fed s (Inl RecursionError)"
  by (simp_all add: fed_def scan_error_def json_error_def)

lemma fed_string: "fed (c # cs) (rbind (parse_string [] cs) (\<lambda>(t, r). Inr (JStr t, r)))"
proof (cases "parse_string [] cs")
  case (Inl e)
  then show ?thesis using parse_string_errors [OF Inl]
    by (auto simp: fed_def scan_error_def json_error_def)
next
  case (Inr p)
  then show ?thesis using parse_string_rest [of "[]" cs] by (cases p) (simp add: fed_def less_SucI)
qed

lemma fed_constant: "fed s (parse_constant s)"
  by (auto simp: fed_def scan_error_def split: sum.splits
      dest: parse_constant_rest parse_constant_errors)

lemma fed_shorter: "fed s x \<Longrightarrow> length s \<le> length t \<Longrightarrow> fed t x"
  by (auto simp: fed_def split: sum.splits)

lemma fed_rbind:
  assumes "fed s x" "\<And>v r. length r < length s \<Longrightarrow> fed s (f (v, r))"
  shows "fed s (rbind x f)"
  using assms by (cases x) (auto simp: fed_def)

lemma parse_fed:
  "3 * length s < fuel \<Longrightarrow> fed s (parse_value fuel depth s)"
  "3 * length s + 1 < fuel \<Longrightarrow> fed s (parse_items fuel depth items s)"
  "3 * length s + 1 < fuel \<Longrightarrow> fed s (parse_members fuel depth members s)"
proof (induction fuel depth s and fuel depth items s and fuel depth members s
    rule: parse_value_parse_items_parse_members.induct)
  case (2 fuel depth s)
  show ?case
  proof (cases s)
    case (Cons c cs)
    have sub: "fed s x" if "skip_space cs = d # ds" "fed (d # ds) x" for d ds x
      using that length_skip_space [of cs] by (intro fed_shorter [OF that(2)]) (simp add: Cons)
    have fuel: "3 * length (d # ds) + 1 < fuel" if "skip_space cs = d # ds" for d ds
      using 2(3) length_skip_space [of cs] that by (simp add: Cons)
    consider "c = CHR ''\"''" | "c = CHR ''{''" | "c = CHR ''[''"
      | "c \<noteq> CHR ''\"''" "c \<noteq> CHR ''{''" "c \<noteq> CHR ''[''" by blast
    then show ?thesis
    proof cases
      case 1
      then show ?thesis by (simp add: Cons fed_string)
    next
      case c: 2
      show ?thesis
      proof (cases "depth = 0 \<or> skip_space cs = []")
        case False
        then obtain d ds where d: "skip_space cs = d # ds" "depth \<noteq> 0" by (cases "skip_space cs") auto
        show ?thesis
          using c d 2(1) [OF Cons] fuel [OF d(1)] sub [OF d(1)] length_skip_space [of cs]
          by (auto simp: Cons fed_def [of _ "Inr _"])
      qed (use c in \<open>auto simp: Cons\<close>)
    next
      case c: 3
      show ?thesis
      proof (cases "depth = 0 \<or> skip_space cs = []")
        case False
        then obtain d ds where d: "skip_space cs = d # ds" "depth \<noteq> 0" by (cases "skip_space cs") auto
        show ?thesis
          using c d 2(2) [OF Cons] fuel [OF d(1)] sub [OF d(1)] length_skip_space [of cs]
          by (auto simp: Cons fed_def [of _ "Inr _"])
      qed (use c in \<open>auto simp: Cons\<close>)
    next
      case 4
      then show ?thesis using fed_constant [of s] by (simp add: Cons)
    qed
  qed simp
next
  case (4 fuel depth items s)
  have v: "fed s (parse_value fuel depth s)" using 4 by simp
  show ?case
    unfolding parse_items.simps
  proof (rule fed_rbind [OF v])
    fix v :: json and r :: string
    assume r: "length r < length s"
    show "fed s (case (v, r) of (v, r) \<Rightarrow> (case skip_space r of [] \<Rightarrow> Inl json_error
       | d # ds \<Rightarrow> if d = CHR '']'' then Inr (JArr (items @ [v]), ds)
           else if d = CHR '','' then parse_items fuel depth (items @ [v]) (skip_space ds)
           else Inl json_error))"
    proof (cases "skip_space r")
      case (Cons d ds)
      note len = skip_space_less [OF r Cons]
      note len' = skip_space_tail [OF len]
      have "fed (skip_space ds) (parse_items fuel depth (items @ [v]) (skip_space ds))"
        if "d = CHR '',''" "d \<noteq> CHR '']''"
        using len' 4(3) that by (intro 4(2) [OF Cons]) auto
      then have "fed s (parse_items fuel depth (items @ [v]) (skip_space ds))"
        if "d = CHR '',''" "d \<noteq> CHR '']''"
        using that len' by (auto intro: fed_shorter)
      then show ?thesis using Cons len by (auto simp: fed_def [of _ "Inr _"])
    qed simp
  qed
next
  case (6 fuel depth members s)
  show ?case
  proof (cases s)
    case (Cons c cs)
    show ?thesis
    proof (cases "c = CHR ''\"'' \<and> (\<exists>k r d ds. parse_string [] cs = Inr (k, r) \<and>
        skip_space r = d # ds \<and> d = CHR '':'')")
      case False
      then show ?thesis
        using parse_string_errors [of "[]" cs]
        by (cases "parse_string [] cs")
          (auto simp: Cons fed_def [of _ "Inl _"] json_error_def json_not_modelled_def
            scan_error_def split: list.splits)
    next
      case True
      then obtain k r ds where c: "c = CHR ''\"''" and k: "parse_string [] cs = Inr (k, r)"
        and ds: "skip_space r = CHR '':'' # ds" by auto
      have "length r < length cs" using k by (rule parse_string_rest)
      note len = skip_space_tail [OF skip_space_less [OF this ds]]
      have v: "fed (skip_space ds) (parse_value fuel depth (skip_space ds))"
        using len 6(3) c k ds by (intro 6(1) [OF Cons]) (auto simp: Cons)
      have rest: "fed (skip_space ds) (case skip_space r2 of [] \<Rightarrow> Inl json_error
         | e # es \<Rightarrow> if e = CHR ''}'' then Inr (JObj (AList.update k v members), es)
             else if e = CHR '','' then
               parse_members fuel depth (AList.update k v members) (skip_space es)
             else Inl json_error)"
        if r2: "length r2 < length (skip_space ds)" for v r2
      proof (cases "skip_space r2")
        case (Cons e es)
        note l2 = skip_space_less [OF r2 Cons]
        have "fed (skip_space es) (parse_members fuel depth (AList.update k v members) (skip_space es))"
          if "e = CHR '',''"
          using skip_space_tail [OF l2] len 6(3) c k ds that Cons \<open>s = c # cs\<close>
          by (intro 6(2) [OF \<open>s = c # cs\<close> _ ds _ Cons]) auto
        then have "fed (skip_space ds) (parse_members fuel depth (AList.update k v members) (skip_space es))"
          if "e = CHR '',''"
          using that skip_space_tail [OF l2] by (auto intro: fed_shorter)
        then show ?thesis using Cons l2 by (auto simp: fed_def [of _ "Inr _"])
      qed simp
      have "fed (skip_space ds) (rbind (parse_value fuel depth (skip_space ds)) (\<lambda>(v, r2).
          case skip_space r2 of [] \<Rightarrow> Inl json_error
         | e # es \<Rightarrow> if e = CHR ''}'' then Inr (JObj (AList.update k v members), es)
             else if e = CHR '','' then
               parse_members fuel depth (AList.update k v members) (skip_space es)
             else Inl json_error))"
        using rest by (intro fed_rbind [OF v]) auto
      from fed_shorter [OF this, of s] show ?thesis
        using len by (simp add: Cons c k ds)
    qed
  qed simp
qed (auto simp: fed_def)

text \<open>The scanner never runs out of fuel.\<close>

lemma json_loads_errors: "json_loads limit s = Inl e \<Longrightarrow> scan_error e"
proof -
  assume e: "json_loads limit s = Inl e"
  have "fed (skip_space s) (parse_value (3 * length s + 3) limit (skip_space s))"
    using length_skip_space [of s] by (intro parse_fed(1)) simp
  with e show ?thesis
    by (auto simp: json_loads_def fed_def rbind_Inl_iff scan_error_def json_error_def split: if_splits)
qed

lemma json_loads_fuel: "json_loads limit s \<noteq> Inl json_out_of_fuel"
  using json_loads_errors by (fastforce simp: scan_error_def json_out_of_fuel_def json_not_modelled_def)

section \<open>Reading back what was printed\<close>

lemma hex4_byte:
  "hex4 [CHR ''0'', CHR ''0'', hex_digit (code c div 16), hex_digit (code c mod 16)] = Some (code c)"
proof -
  have h: "is_digit_in 16 (hex_digit d) \<and> digit_value (hex_digit d) = Some d" if "0 \<le> d" "d < 16" for d
    using hex_digit_ok [OF that] that by (simp add: is_digit_in_def)
  have q: "0 \<le> code c div 16" "code c div 16 < 16" "0 \<le> code c mod 16" "code c mod 16 < 16"
    using code_range [of c] by auto
  have z: "is_digit_in 16 CHR ''0''" "digit_value CHR ''0'' = Some 0" by code_simp+
  show ?thesis using h [OF q(1,2)] h [OF q(3,4)] z by (simp add: hex4_def)
qed

text \<open>One escaped character is read as the character.\<close>

lemma parse_string_quote [simp]: "parse_string acc (CHR ''\"'' # r) = Inr (acc, r)"
  by simp

lemma parse_string_escape: "parse_string acc (escape_char c @ r) = parse_string (acc @ [c]) r"
proof -
  have u: "simple_escape CHR ''u'' = None" and e: "CHR ''u'' \<noteq> CHR ''n''" by code_simp+
  have ch: "char_of (code c) = c" by (simp add: code_def)
  consider "c \<in> {CHR ''\"'', CHR 0x5C, CHR 0x0A, CHR 0x0D, CHR 0x09, CHR 0x0C, CHR 0x08}"
    | "c \<notin> {CHR ''\"'', CHR 0x5C, CHR 0x0A, CHR 0x0D, CHR 0x09, CHR 0x0C, CHR 0x08}"
      "32 \<le> code c" "code c < 127"
    | "escape_char c = [CHR 0x5C, CHR ''u'', CHR ''0'', CHR ''0'', hex_digit (code c div 16),
        hex_digit (code c mod 16)]"
    by (cases "c \<in> {CHR ''\"'', CHR 0x5C, CHR 0x0A, CHR 0x0D, CHR 0x09, CHR 0x0C, CHR 0x08}";
        cases "32 \<le> code c \<and> code c < 127") (simp_all add: escape_char_def)
  then show ?thesis
  proof cases
    case 1
    then show ?thesis by (auto simp: escape_char_def simple_escape_def)
  next
    case 2
    then show ?thesis by (auto simp: escape_char_def)
  next
    case 3
    show ?thesis
      unfolding 3 using code_range [of c] hex4_byte [of c] by (simp add: ch)
  qed
qed

lemma parse_string_escapes:
  "parse_string acc (concat (map escape_char s) @ CHR ''\"'' # r) = Inr (acc @ s, r)"
  by (induction s arbitrary: acc) (simp_all add: parse_string_escape del: parse_string.simps)

lemma parse_json_string: "parse_string [] (concat (map escape_char s) @ ''\"'' @ r) = Inr (s, r)"
  using parse_string_escapes [of "[]" s r] by simp

lemma parse_value_string: "parse_value (Suc fuel) depth (json_string v @ r) = Inr (JStr v, r)"
  using parse_json_string [of v r] by (simp add: json_string_def del: parse_string.simps)

lemma skip_space_mark [simp]:
  "skip_space (CHR ''\"'' # s) = CHR ''\"'' # s" "skip_space (CHR '':'' # s) = CHR '':'' # s"
  "skip_space (CHR '','' # s) = CHR '','' # s" "skip_space (CHR ''}'' # s) = CHR ''}'' # s"
  "skip_space (CHR ''{'' # s) = CHR ''{'' # s" "skip_space [] = []"
proof -
  have "\<not> is_json_space CHR ''\"''" "\<not> is_json_space CHR '':''" "\<not> is_json_space CHR '',''"
    "\<not> is_json_space CHR ''}''" "\<not> is_json_space CHR ''{''"
    by code_simp+
  then show "skip_space (CHR ''\"'' # s) = CHR ''\"'' # s" "skip_space (CHR '':'' # s) = CHR '':'' # s"
    "skip_space (CHR '','' # s) = CHR '','' # s" "skip_space (CHR ''}'' # s) = CHR ''}'' # s"
    "skip_space (CHR ''{'' # s) = CHR ''{'' # s" "skip_space [] = []"
    by (simp_all add: skip_space_def)
qed

lemma skip_space_json_string [simp]: "skip_space (json_string v @ r) = json_string v @ r"
  by (simp add: json_string_def)

abbreviation json_item :: "string \<times> string \<Rightarrow> string" where
  "json_item p \<equiv> json_string (fst p) @ '':'' @ json_string (snd p)"

lemma parse_members_item:
  assumes "0 < fuel"
  shows "parse_members (Suc fuel) depth acc (json_string k @ '':'' @ json_string v @ c # r) =
    (if c = CHR ''}'' then Inr (JObj (AList.update k (JStr v) acc), r)
     else if c = CHR '','' then parse_members fuel depth (AList.update k (JStr v) acc) (skip_space r)
     else parse_members (Suc fuel) depth acc (json_string k @ '':'' @ json_string v @ c # r))"
proof -
  obtain f where f: "fuel = Suc f" using assms by (cases fuel) auto
  have k: "json_string k @ '':'' @ json_string v @ c # r
      = CHR ''\"'' # (concat (map escape_char k) @ ''\"'' @ '':'' @ json_string v @ c # r)"
    by (simp add: json_string_def)
  show ?thesis
  proof (cases "c = CHR ''}'' \<or> c = CHR '',''")
    case True
    then show ?thesis
      unfolding k f using parse_value_string [of f depth v "c # r"]
        parse_json_string [of k "'':'' @ json_string v @ c # r"]
      by (auto simp del: parse_string.simps parse_value.simps)
  qed simp
qed

lemma parse_members_dumps:
  assumes "d \<noteq> []" "length d < fuel"
  shows "parse_members fuel depth acc (join_with '','' (map json_item d) @ CHR ''}'' # r) =
    Inr (JObj (fold (\<lambda>(k, v). AList.update k (JStr v)) d acc), r)"
  using assms
proof (induction d arbitrary: fuel acc)
  case (Cons p d)
  obtain f where f: "fuel = Suc f" "0 < f" using Cons.prems(2) by (cases fuel) auto
  obtain k v where p: "p = (k, v)" by force
  show ?case
  proof (cases d)
    case Nil
    then show ?thesis
      using parse_members_item [OF f(2), of depth acc k v "CHR ''}''" r] by (simp add: p f(1))
  next
    case (Cons q e)
    have skip: "skip_space (join_with '','' (map json_item d) @ CHR ''}'' # r)
        = join_with '','' (map json_item d) @ CHR ''}'' # r"
      unfolding Cons by (cases e) simp_all
    have "parse_members f depth (AList.update k (JStr v) acc)
        (join_with '','' (map json_item d) @ CHR ''}'' # r) =
      Inr (JObj (fold (\<lambda>(k, v). AList.update k (JStr v)) d (AList.update k (JStr v) acc)), r)"
      using Cons Cons.prems f by (intro Cons.IH) auto
    then show ?thesis
      using parse_members_item [OF f(2), of depth acc k v "CHR '',''"
          "join_with '','' (map json_item d) @ CHR ''}'' # r"] skip
      by (simp add: p f(1) Cons)
  qed
qed simp

lemma fold_update_fresh:
  "distinct (map fst d) \<Longrightarrow> fst ` set d \<inter> fst ` set acc = {} \<Longrightarrow>
     fold (\<lambda>(k, v). AList.update k (f v)) d acc = acc @ map (\<lambda>(k, v). (k, f v)) d"
proof (induction d arbitrary: acc)
  case (Cons p d)
  obtain k v where p: "p = (k, v)" by force
  have "k \<notin> fst ` set acc" using Cons.prems(2) by (simp add: p)
  then have "AList.update k (f v) acc = acc @ [(k, f v)]" by (induction acc) auto
  with Cons show ?case by (auto simp: p)
qed simp

text \<open>A dictionary of strings is read back by \<open>json.loads\<close>.\<close>

lemma json_round_trip:
  assumes "distinct (map fst d)" "0 < limit"
  shows "json_loads limit (json_dumps d) = Inr (JObj (map (\<lambda>(k, v). (k, JStr v)) d))"
proof -
  let ?body = "join_with '','' (map json_item d)"
  have map: "map (\<lambda>(k, v). json_string k @ '':'' @ json_string v) d = map json_item d"
    by (simp add: case_prod_beta)
  have len: "length d \<le> length ?body"
  proof (induction d)
    case (Cons p d)
    then show ?case by (cases d) (auto simp: json_string_def)
  qed simp
  have shape: "json_dumps d = CHR ''{'' # ?body @ ''}''" unfolding json_dumps_def map ..
  define n where "n = 3 * length (json_dumps d) + 2"
  have n: "length d < n" using len unfolding n_def shape by simp
  have "parse_value (Suc n) limit (json_dumps d) = Inr (JObj (map (\<lambda>(k, v). (k, JStr v)) d), [])"
  proof (cases d)
    case Nil
    then show ?thesis using assms(2) by (simp add: json_dumps_def)
  next
    case (Cons p e)
    have "hd (?body @ ''}'') = CHR ''\"'' \<and> ?body \<noteq> []"
      unfolding Cons by (cases e) (simp_all add: json_string_def)
    then obtain t where t: "?body @ ''}'' = CHR ''\"'' # t" by (cases "?body @ ''}''") auto
    have "parse_members n (limit - 1) [] (?body @ ''}'') =
        Inr (JObj (fold (\<lambda>(k, v). AList.update k (JStr v)) d []), [])"
      using Cons n by (intro parse_members_dumps) simp_all
    also have "fold (\<lambda>(k, v). AList.update k (JStr v)) d [] = map (\<lambda>(k, v). (k, JStr v)) d"
      using fold_update_fresh [OF assms(1), of "[]" JStr] by simp
    finally show ?thesis unfolding shape t using assms(2) by simp
  qed
  moreover have "skip_space (json_dumps d) = json_dumps d" unfolding shape by simp
  moreover have fuel: "3 * length (json_dumps d) + 3 = Suc n" unfolding n_def by simp
  ultimately show ?thesis unfolding json_loads_def fuel by (simp del: parse_value.simps)
qed

end
