(* ===== verification/Config_Properties.thy ===== *)
theory Config_Properties
  imports Auth_Config Json_Lemmas
begin

text \<open>
  What the configuration loader guarantees of every setting it returns, and what it refuses, each
  with an instance that meets its hypotheses.
\<close>

section \<open>Example environment\<close>

definition demo_environ :: environ where
  "demo_environ = [(''P5_SERVICE_NAME'', '' auth ''), (''PATH'', ''/bin''),
     (''P5_DATABASE_URL'', ''postgresql+psycopg://u:p@db/p5''), (''P5_OIDC_ISSUER'', ''https://id/''),
     (''P5_OIDC_CLIENT_ID'', ''c''), (''P5_OIDC_REDIRECT_URI'', ''https://a/cb''),
     (''P5_DESKTOP_CALLBACK_URI'', ''pentagon5://auth/callback''),
     (''P5_SESSION_HMAC_KEY'', ''AAAAAAAAAAAAAAAAAAAAAAAAAAAAAAAAAAAAAAAAAAA''),
     (''P5_OIDC_CLIENT_SECRET_FILE'', ''/run/s''), (''P5_WS_MAX_FRAME_BYTES'', ''4_096'')]"

definition demo_files :: files where
  "demo_files name = (if name = ''/run/s'' then Some ''hush\<newline>'' else None)"

lemma demo_loads: "\<exists>s. load_auth_settings demo_files demo_environ = Inr s \<and> as_issuer s = ''https://id'' \<and>
    as_client_secret s = ''hush'' \<and> as_ws_max_frame_bytes s = 4096"
proof -
  have "case load_auth_settings demo_files demo_environ of Inr s \<Rightarrow> as_issuer s = ''https://id'' \<and>
    as_client_secret s = ''hush'' \<and> as_ws_max_frame_bytes s = 4096 | Inl _ \<Rightarrow> False"
    unfolding demo_environ_def by code_simp
  then show ?thesis by (auto split: sum.splits)
qed

section \<open>Loaded settings\<close>

lemma loaded_runtime:
  assumes "load_runtime_settings files env extra = Inr s"
  shows "rs_log_level s \<in> {''DEBUG'', ''INFO'', ''WARNING'', ''ERROR'', ''CRITICAL''} \<and>
    rs_environment s \<in> {''development'', ''test'', ''staging'', ''production''} \<and>
    rs_service_name s \<noteq> [] \<and> (\<exists>u. urlparse (rs_database_url s) = Inr u \<and>
      url_scheme u \<in> {''postgresql'', ''postgresql+psycopg''})"
  using assms [unfolded load_runtime_settings_def Let_def rbind_Inr_iff guard_Inr_iff]
  by (elim exE conjE) (drule sum.inject(2) [THEN iffD1], hypsubst, simp)

lemma checked_callback:
  assumes "check_urls environment issuer redirect_uri desktop_callback_uri = Inr ()"
  shows "desktop_callback_uri \<noteq> []"
proof
  assume "desktop_callback_uri = []"
  moreover have "case urlparse [] of Inr p \<Rightarrow> url_scheme p = [] | Inl _ \<Rightarrow> True" by code_simp
  ultimately show False using assms unfolding check_urls_def rbind_Inr_iff guard_Inr_iff by auto
qed

text \<open>C14: Every setting the loader returns is within its bounds: the session key has at least 256
  bits, life times, frame size, subscriptions, body size and timeout are in their ranges, environment and
  log level are among the known ones, the database URL has one of the two accepted schemes, and no
  required text (service name, database URL, issuer, client identifier and secret, redirect and callback
  URI) is empty.\<close>

theorem loaded_settings_bounded:
  assumes "load_auth_settings files env = Inr s"
  shows "32 \<le> length (as_hmac_key s) \<and> as_session_ttl_seconds s \<in> {1..86400} \<and>
    as_flow_ttl_seconds s \<in> {1..600} \<and> as_login_grant_ttl_seconds s \<in> {1..120} \<and>
    as_ws_ticket_ttl_seconds s \<in> {1..60} \<and> as_ws_max_frame_bytes s \<in> {1024..65536} \<and>
    as_ws_max_subscriptions s \<in> {1..4} \<and> rs_max_body_bytes (as_runtime s) \<in> {1024..10485760} \<and>
    int_le_float 1 (rs_request_timeout_seconds (as_runtime s)) \<and>
    float_le_int (rs_request_timeout_seconds (as_runtime s)) 60 \<and>
    rs_environment (as_runtime s) \<in> {''development'', ''test'', ''staging'', ''production''} \<and>
    rs_log_level (as_runtime s) \<in> {''DEBUG'', ''INFO'', ''WARNING'', ''ERROR'', ''CRITICAL''} \<and>
    (\<exists>u. urlparse (rs_database_url (as_runtime s)) = Inr u \<and> url_scheme u \<in> {''postgresql'', ''postgresql+psycopg''}) \<and>
    rs_service_name (as_runtime s) \<noteq> [] \<and> rs_database_url (as_runtime s) \<noteq> [] \<and>
    as_issuer s \<noteq> [] \<and> as_client_id s \<noteq> [] \<and> as_client_secret s \<noteq> [] \<and> as_redirect_uri s \<noteq> [] \<and>
    as_desktop_callback_uri s \<noteq> []"
proof -
  note auth = load_auth_settings_ok [OF assms]
  then have runtime: "load_runtime_settings files env AUTH_KEYS = Inr (as_runtime s)" by simp
  note ok = load_runtime_settings_ok [OF runtime]
  from ok have "rs_max_body_bytes (as_runtime s) \<in> {1024..10485760} \<and>
    int_le_float 1 (rs_request_timeout_seconds (as_runtime s)) \<and>
    float_le_int (rs_request_timeout_seconds (as_runtime s)) 60"
    by (auto dest!: bounded_number_ok dest: int_of_float_bounds)
  moreover have "rs_database_url (as_runtime s) \<noteq> []" "as_client_secret s \<noteq> []" "as_desktop_callback_uri s \<noteq> []"
    using ok auth by (auto dest: secret_value_nonempty checked_callback)
  moreover have "32 \<le> length (as_hmac_key s) \<and> as_session_ttl_seconds s \<in> {1..86400} \<and>
    as_flow_ttl_seconds s \<in> {1..600} \<and> as_login_grant_ttl_seconds s \<in> {1..120} \<and>
    as_ws_ticket_ttl_seconds s \<in> {1..60} \<and> as_ws_max_frame_bytes s \<in> {1024..65536} \<and>
    as_ws_max_subscriptions s \<in> {1..4}"
    using auth by (auto dest: positive_int_ok decode_hmac_key_ok)
  moreover have "as_issuer s \<noteq> []" "as_client_id s \<noteq> []" "as_redirect_uri s \<noteq> []" using auth by blast+
  ultimately show ?thesis using loaded_runtime [OF runtime] by blast
qed

theorem loaded_settings_bounded_witness:
  "\<exists>s. load_auth_settings demo_files demo_environ = Inr s \<and> 32 \<le> length (as_hmac_key s) \<and>
     as_session_ttl_seconds s \<in> {1..86400}"
  using demo_loads loaded_settings_bounded [of demo_files demo_environ] by blast

text \<open>C15: Outside development and test no settings load unless both the issuer and the provider
  redirect URI are HTTPS URLs; and in every environment the desktop callback URI has a scheme of its
  own, a host, and neither query nor fragment.\<close>

theorem loaded_urls_safe:
  assumes "load_auth_settings files env = Inr s"
  shows "\<exists>i r d. urlparse (as_issuer s) = Inr i \<and> urlparse (as_redirect_uri s) = Inr r \<and>
    urlparse (as_desktop_callback_uri s) = Inr d \<and>
    (rs_environment (as_runtime s) \<notin> {''development'', ''test''} \<longrightarrow>
       url_scheme i = ''https'' \<and> url_scheme r = ''https'') \<and>
    url_scheme i \<in> {''http'', ''https''} \<and> url_scheme d \<notin> {[], ''http'', ''https''} \<and>
    url_netloc d \<noteq> [] \<and> url_query d = [] \<and> url_fragment d = []"
proof -
  have "check_urls (rs_environment (as_runtime s)) (as_issuer s) (as_redirect_uri s)
      (as_desktop_callback_uri s) = Inr ()"
    using load_auth_settings_ok [OF assms] by simp
  then show ?thesis unfolding check_urls_def rbind_Inr_iff guard_Inr_iff by blast
qed

theorem loaded_urls_safe_witness:
  "\<exists>s i. load_auth_settings demo_files demo_environ = Inr s \<and> urlparse (as_issuer s) = Inr i \<and>
     url_scheme i \<in> {''http'', ''https''}"
  using demo_loads loaded_urls_safe [of demo_files demo_environ] by blast

text \<open>An environment with a variable of the program's prefix that is not one of its settings
  is refused, and so is one that gives a secret both directly and as a file.\<close>

theorem unsafe_environment_refused:
  assumes "(\<exists>key v. (key, v) \<in> set env \<and> prefix ''P5_'' key \<and> key \<notin> set KNOWN_KEYS \<union> set AUTH_KEYS) \<or>
    (\<exists>name \<in> {''P5_DATABASE_URL'', ''P5_SESSION_HMAC_KEY'', ''P5_OIDC_CLIENT_SECRET''}.
       env_get env name [] \<noteq> [] \<and> env_get env (name @ ''_FILE'') [] \<noteq> [])"
  shows "\<exists>e. load_auth_settings files env = Inl e"
proof (rule ccontr)
  assume "\<not> ?thesis"
  then obtain s where s: "load_auth_settings files env = Inr s"
    by (cases "load_auth_settings files env") auto
  note auth = load_auth_settings_ok [OF s]
  then have rt: "load_runtime_settings files env AUTH_KEYS = Inr (as_runtime s)" by simp
  have "set (unknown_keys AUTH_KEYS env) = {}" using load_runtime_settings_ok [OF rt] by simp
  moreover have "key \<in> set (unknown_keys AUTH_KEYS env)"
    if "(key, v) \<in> set env" "prefix ''P5_'' key" "key \<notin> set KNOWN_KEYS \<union> set AUTH_KEYS" for key v
    using that by (force simp: unknown_keys_def PREFIX_def)
  moreover define S where "S = {''P5_DATABASE_URL'', ''P5_SESSION_HMAC_KEY'', ''P5_OIDC_CLIENT_SECRET''}"
  ultimately obtain name where name: "name \<in> S" "env_get env name [] \<noteq> []"
    "env_get env (name @ ''_FILE'') [] \<noteq> []"
    using assms unfolding S_def [symmetric] by (metis empty_iff)
  have "\<forall>name \<in> S. \<exists>v. secret_value files name env = Inr v"
    using auth load_runtime_settings_ok [OF rt] by (auto simp: S_def)
  with name show False by (auto simp: secret_value_def)
qed

theorem unsafe_environment_refused_witness:
  "\<exists>e. load_auth_settings demo_files ((''P5_SESION_TTL'', ''1'') # demo_environ) = Inl e"
proof (rule unsafe_environment_refused)
  have "''P5_SESION_TTL'' \<notin> set KNOWN_KEYS \<union> set AUTH_KEYS" "prefix ''P5_'' ''P5_SESION_TTL''"
    by code_simp+
  then show "(\<exists>key v. (key, v) \<in> set ((''P5_SESION_TTL'', ''1'') # demo_environ) \<and> prefix ''P5_'' key \<and>
      key \<notin> set KNOWN_KEYS \<union> set AUTH_KEYS) \<or>
    (\<exists>name \<in> {''P5_DATABASE_URL'', ''P5_SESSION_HMAC_KEY'', ''P5_OIDC_CLIENT_SECRET''}.
       env_get ((''P5_SESION_TTL'', ''1'') # demo_environ) name [] \<noteq> [] \<and>
       env_get ((''P5_SESION_TTL'', ''1'') # demo_environ) (name @ ''_FILE'') [] \<noteq> [])"
    by (intro disjI1) (meson list.set_intros(1))
qed

section \<open>The session key\<close>

text \<open>A key of at least 256 bits, written in URL-safe base64 with or without its padding,
  is read back unchanged.\<close>

theorem hmac_key_round_trip:
  assumes "32 \<le> length key"
  shows "decode_hmac_key (urlsafe_b64encode key) = Inr key \<and>
    decode_hmac_key (token_urlsafe key) = Inr key"
proof -
  have no_padding: "nat (- int (length (urlsafe_b64encode key)) mod 4) = 0"
  proof -
    have "int (length (urlsafe_b64encode key)) mod 4 = 0"
      using length_urlsafe_b64encode [of key] by (metis of_nat_0 of_nat_mod of_nat_numeral)
    then have "- int (length (urlsafe_b64encode key)) mod 4 = 0" by presburger
    then show ?thesis by simp
  qed
  have "decode_hmac_key (urlsafe_b64encode key) = Inr key"
    using assms by (simp add: decode_hmac_key_def no_padding b64_round_trip)
  moreover have "decode_hmac_key (token_urlsafe key) = Inr key"
    using assms by (simp add: decode_hmac_key_def repad_token b64_round_trip)
  ultimately show ?thesis ..
qed

theorem hmac_key_round_trip_witness:
  "decode_hmac_key (token_urlsafe (replicate 33 CHR ''k'')) = Inr (replicate 33 CHR ''k'')"
  using hmac_key_round_trip [of "replicate 33 CHR ''k''"] by simp

end
