(* ===== verification/PyRepr.thy ===== *)
theory PyRepr
  imports PyJson
begin

text \<open>
  \<open>str(v)\<close> of a JSON value, as the source applies it to values that need not be strings, and the
  dictionary method \<open>get\<close>.  \<open>float_repr\<close> is Python's shortest decimal text of a float.
\<close>

section \<open>Texts of values\<close>

function decimal_text :: "int \<Rightarrow> string" where
  "decimal_text n =
     (if n < 10 then [hex_digit n] else decimal_text (n div 10) @ [hex_digit (n mod 10)])"
  by pat_completeness auto
termination
  by (relation "measure nat") auto

declare decimal_text.simps [simp del]

definition int_text :: "int \<Rightarrow> string" where
  "int_text n = (if n < 0 then ''-'' @ decimal_text (- n) else decimal_text n)"

definition printable :: "char \<Rightarrow> bool" where
  "printable c \<longleftrightarrow> (let n = code c in 32 \<le> n \<and> n \<le> 126 \<or> 161 \<le> n \<and> n \<noteq> 173)"

definition repr_char :: "char \<Rightarrow> char \<Rightarrow> string" where
  "repr_char quote c =
     (if c = quote \<or> c = CHR 0x5C then [CHR 0x5C, c]
      else if c = CHR 0x09 then [CHR 0x5C, CHR ''t''] else if c = CHR 0x0A then [CHR 0x5C, CHR ''n'']
      else if c = CHR 0x0D then [CHR 0x5C, CHR ''r'']
      else if printable c then [c]
      else [CHR 0x5C, CHR ''x'', hex_digit (code c div 16), hex_digit (code c mod 16)])"

definition repr_str :: "string \<Rightarrow> string" where
  "repr_str s =
     (let quote = (if CHR 0x27 \<in> set s \<and> CHR 0x22 \<notin> set s then CHR 0x22 else CHR 0x27)
      in quote # concat (map (repr_char quote) s) @ [quote])"

fun py_repr :: "(pyfloat \<Rightarrow> string) \<Rightarrow> json \<Rightarrow> string" where
  "py_repr fr JNull = ''None''"
| "py_repr fr (JBool b) = (if b then ''True'' else ''False'')"
| "py_repr fr (JInt n) = int_text n"
| "py_repr fr (JFloat f) = fr f"
| "py_repr fr (JStr s) = repr_str s"
| "py_repr fr (JArr xs) = ''['' @ join_with '', '' (map (py_repr fr) xs) @ '']''"
| "py_repr fr (JObj d) =
     ''{'' @ join_with '', '' (map (\<lambda>kv. repr_str (fst kv) @ '': '' @ py_repr fr (snd kv)) d) @ ''}''"

fun py_str :: "(pyfloat \<Rightarrow> string) \<Rightarrow> json \<Rightarrow> string" where
  "py_str fr (JStr s) = s"
| "py_str fr v = py_repr fr v"

section \<open>Dictionaries\<close>

text \<open>\<open>v.get(k)\<close>: only a dictionary has the method.\<close>

fun json_get :: "json \<Rightarrow> string \<Rightarrow> json res" where
  "json_get (JObj d) k = Inr (dict_get d k)"
| "json_get _ k = Inl AttributeError"

end
