(* ===== verification/Oidc.thy ===== *)
theory Oidc
  imports Auth_Config PyRepr
begin

text \<open>
  The OpenID Connect client, \<open>pentagon5_auth/oidc.py\<close>.  Its state is the cached provider metadata.
  The HTTP client (httpx) and the token library (PyJWT) are records of functions: what a request
  returns and whether its status is a success, and the header, key and claims functions of PyJWT,
  each of which may raise.
\<close>

section \<open>The libraries\<close>

record http_response =
  hr_success :: bool
  hr_json :: "json res"

record http_client =
  ht_get :: "string \<Rightarrow> http_response res"
  ht_post :: "string \<Rightarrow> (string \<times> string) list \<Rightarrow> http_response res"

text \<open>\<open>jw_decode token key algorithm audience issuer\<close> is \<open>jwt.decode\<close> with the required claims.\<close>

record 'k jwt_library =
  jw_header :: "string \<Rightarrow> ((string \<times> json) list) res"
  jw_key :: "json \<Rightarrow> 'k res"
  jw_decode :: "string \<Rightarrow> 'k \<Rightarrow> string \<Rightarrow> string \<Rightarrow> string \<Rightarrow> ((string \<times> json) list) res"

text \<open>\<open>response.raise_for_status()\<close>.\<close>

definition raise_for_status :: "http_response res \<Rightarrow> http_response res" where
  "raise_for_status r = rbind r (\<lambda>h. if hr_success h then Inr h else Inl HTTPError)"

section \<open>Provider metadata\<close>

record provider_metadata =
  pm_authorization_endpoint :: string
  pm_token_endpoint :: string
  pm_jwks_uri :: string

text \<open>The three subscripts stand in one \<open>try\<close>: a missing key becomes an \<open>OIDCError\<close>.\<close>

definition endpoint :: "(pyfloat \<Rightarrow> string) \<Rightarrow> json \<Rightarrow> string \<Rightarrow> string res" where
  "endpoint fr document key =
     (case subscript_key document key of
        Inr v \<Rightarrow> Inr (py_str fr v)
      | Inl (KeyError k) \<Rightarrow> Inl (OIDCError ''provider metadata is incomplete'')
      | Inl e \<Rightarrow> Inl e)"

definition absolute_url :: "string \<Rightarrow> bool" where
  "absolute_url u \<longleftrightarrow> prefix ''https://'' u \<or> prefix ''http://'' u"

definition fetch_metadata ::
    "(pyfloat \<Rightarrow> string) \<Rightarrow> auth_settings \<Rightarrow> http_client \<Rightarrow> provider_metadata res" where
  "fetch_metadata fr S H =
     rbind (raise_for_status (ht_get H (as_issuer S @ ''/.well-known/openid-configuration''))) (\<lambda>response.
     rbind (hr_json response) (\<lambda>document.
     rbind (json_get document ''issuer'') (\<lambda>issuer.
     if issuer \<noteq> JStr (as_issuer S)
     then Inl (OIDCError ''discovered issuer does not match configured issuer'')
     else
     rbind (endpoint fr document ''authorization_endpoint'') (\<lambda>authorization.
     rbind (endpoint fr document ''token_endpoint'') (\<lambda>token.
     rbind (endpoint fr document ''jwks_uri'') (\<lambda>jwks.
     if \<not> list_all absolute_url [authorization, token, jwks]
     then Inl (OIDCError ''provider endpoints must be absolute HTTP URLs'')
     else if rs_environment (as_runtime S) \<notin> {''development'', ''test''} \<and>
        \<not> list_all (prefix ''https://'') [authorization, token, jwks]
     then Inl (OIDCError ''provider endpoints must use HTTPS'')
     else Inr \<lparr>pm_authorization_endpoint = authorization, pm_token_endpoint = token,
       pm_jwks_uri = jwks\<rparr>))))))"

definition metadata ::
    "(pyfloat \<Rightarrow> string) \<Rightarrow> auth_settings \<Rightarrow> http_client \<Rightarrow>
     (provider_metadata option, provider_metadata) op" where
  "metadata fr S H =
     bind (gets (\<lambda>cached. cached)) (\<lambda>cached.
     case cached of
       Some m \<Rightarrow> ret m
     | None \<Rightarrow>
         bind (lift (fetch_metadata fr S H)) (\<lambda>m.
         bind (modify (\<lambda>_. Some m)) (\<lambda>_. ret m)))"

section \<open>Authorization\<close>

definition query_string :: "(string \<times> string) list \<Rightarrow> string" where
  "query_string ps = urlencode (map (\<lambda>(k, v). (utf8 k, utf8 v)) ps)"

definition authorization_url ::
    "(pyfloat \<Rightarrow> string) \<Rightarrow> auth_settings \<Rightarrow> http_client \<Rightarrow> string \<Rightarrow> string \<Rightarrow> string \<Rightarrow>
     (provider_metadata option, string) op" where
  "authorization_url fr S H state nonce code_challenge =
     bind (metadata fr S H) (\<lambda>m.
     ret (pm_authorization_endpoint m @ ''?'' @ query_string
       [(''client_id'', as_client_id S), (''redirect_uri'', as_redirect_uri S),
        (''response_type'', ''code''), (''scope'', ''openid email profile''), (''state'', state),
        (''nonce'', nonce), (''code_challenge'', code_challenge),
        (''code_challenge_method'', ''S256'')]))"

section \<open>Token exchange\<close>

text \<open>Iterating over the value of \<open>keys\<close>, and \<open>key.get('kid')\<close> of each element.\<close>

fun iterate :: "json \<Rightarrow> (json list) res" where
  "iterate (JArr xs) = Inr xs"
| "iterate (JObj d) = Inr (map (\<lambda>kv. JStr (fst kv)) d)"
| "iterate (JStr s) = Inr (map (\<lambda>c. JStr [c]) s)"
| "iterate _ = Inl (TypeError ''object is not iterable'')"

fun matching_keys :: "json \<Rightarrow> json list \<Rightarrow> (json list) res" where
  "matching_keys kid [] = Inr []"
| "matching_keys kid (key # keys) =
     rbind (json_get key ''kid'') (\<lambda>k.
     rbind (matching_keys kid keys) (\<lambda>rest.
     Inr (if k = kid then key # rest else rest)))"

definition get_keys :: "json \<Rightarrow> json res" where
  "get_keys document =
     (case document of
        JObj d \<Rightarrow> Inr (case map_of d ''keys'' of None \<Rightarrow> JArr [] | Some v \<Rightarrow> v)
      | _ \<Rightarrow> Inl AttributeError)"

definition supported_algorithm :: "json \<Rightarrow> string res" where
  "supported_algorithm alg =
     (case alg of
        JStr a \<Rightarrow> if a \<in> {''RS256'', ''ES256''} then Inr a
          else Inl (OIDCError ''ID token uses an unsupported algorithm'')
      | _ \<Rightarrow> if unhashable alg then Inl (TypeError ''unhashable type'')
          else Inl (OIDCError ''ID token uses an unsupported algorithm''))"

text \<open>The claims of a verified ID token; PyJWT has checked that a \<open>kid\<close> is a string.\<close>

definition check_claims :: "string \<Rightarrow> (string \<times> json) list \<Rightarrow> ((string \<times> json) list) res" where
  "check_claims nonce claims =
     (if dict_get claims ''nonce'' \<noteq> JStr nonce
      then Inl (OIDCError ''ID token nonce does not match'')
      else if dict_get claims ''email_verified'' \<noteq> JBool True
      then Inl (OIDCError ''provider email is not verified'')
      else Inr claims)"

definition verify_id_token ::
    "auth_settings \<Rightarrow> 'k jwt_library \<Rightarrow> http_response \<Rightarrow> string \<Rightarrow> string \<Rightarrow>
     ((string \<times> json) list) res" where
  "verify_id_token S J jwks_response nonce id_token =
     rbind (jw_header J id_token) (\<lambda>header.
     rbind (supported_algorithm (dict_get header ''alg'')) (\<lambda>algorithm.
     rbind (rbind (hr_json jwks_response) get_keys) (\<lambda>keys.
     rbind (rbind (iterate keys) (matching_keys (dict_get header ''kid''))) (\<lambda>matching.
     case matching of
       [key] \<Rightarrow>
         rbind (jw_key J key) (\<lambda>k.
         rbind (jw_decode J id_token k algorithm (as_client_id S) (as_issuer S)) (check_claims nonce))
     | _ \<Rightarrow> Inl (OIDCError ''ID token signing key was not uniquely identified'')))))"

definition exchange ::
    "(pyfloat \<Rightarrow> string) \<Rightarrow> auth_settings \<Rightarrow> http_client \<Rightarrow> 'k jwt_library \<Rightarrow>
     string \<Rightarrow> string \<Rightarrow> string \<Rightarrow> (provider_metadata option, (string \<times> json) list) op" where
  "exchange fr S H J auth_code verifier nonce =
     bind (metadata fr S H) (\<lambda>m.
     lift (
       rbind (raise_for_status (ht_post H (pm_token_endpoint m)
         [(''grant_type'', ''authorization_code''), (''code'', auth_code),
          (''redirect_uri'', as_redirect_uri S), (''client_id'', as_client_id S),
          (''client_secret'', as_client_secret S), (''code_verifier'', verifier)])) (\<lambda>response.
       rbind (rbind (hr_json response) (\<lambda>d. json_get d ''id_token'')) (\<lambda>id_token.
       case id_token of
         JStr token \<Rightarrow>
           rbind (raise_for_status (ht_get H (pm_jwks_uri m))) (\<lambda>jwks_response.
           verify_id_token S J jwks_response nonce token)
       | _ \<Rightarrow> Inl (OIDCError ''token response did not contain an ID token'')))))"

end
