(* ===== verification/Auth_Service.thy ===== *)
theory Auth_Service
  imports Oidc Auth_Models Json_Lemmas
begin

text \<open>
  \<open>AuthenticationService\<close> (\<open>pentagon5_auth/service.py\<close>) over any repository and any OIDC client:
  the state is the pair of theirs, an operation runs theirs in the order of the source.  What a
  request reads from outside (clock, random bytes, what repository calls draw) comes in \<open>inputs\<close>,
  in the order the code reads it.
\<close>

section \<open>The parts of the service\<close>

type_synonym claims = "(string \<times> json) list"

record 'c oidc_ops =
  oi_authorization_url :: "string \<Rightarrow> string \<Rightarrow> string \<Rightarrow> ('c, string) op"
  oi_exchange :: "string \<Rightarrow> string \<Rightarrow> string \<Rightarrow> ('c, claims) op"

definition oidc_client ::
    "(pyfloat \<Rightarrow> string) \<Rightarrow> auth_settings \<Rightarrow> http_client \<Rightarrow> 'k jwt_library \<Rightarrow>
     provider_metadata option oidc_ops" where
  "oidc_client fr S H J =
     \<lparr>oi_authorization_url = authorization_url fr S H, oi_exchange = exchange fr S H J\<rparr>"

record inputs =
  in_now :: "nat \<Rightarrow> time"
  in_random :: "nat \<Rightarrow> string"
  in_env :: "nat \<Rightarrow> call_env"

definition on_repo :: "('d, 'a) op \<Rightarrow> ('d \<times> 'c, 'a) op" where
  "on_repo m s = (case m (fst s) of (r, d) \<Rightarrow> (r, (d, snd s)))"

definition on_oidc :: "('c, 'a) op \<Rightarrow> ('d \<times> 'c, 'a) op" where
  "on_oidc m s = (case m (snd s) of (r, c) \<Rightarrow> (r, (fst s, c)))"

lemma on_repo_eq [simp]: "on_repo m s = (r, t) \<longleftrightarrow> m (fst s) = (r, fst t) \<and> snd t = snd s"
  by (cases t) (auto simp: on_repo_def split: prod.splits)

lemma on_oidc_eq [simp]: "on_oidc m s = (r, t) \<longleftrightarrow> m (snd s) = (r, snd t) \<and> fst t = fst s"
  by (cases t) (auto simp: on_oidc_def split: prod.splits)

definition seconds :: "int \<Rightarrow> time" where
  "seconds n = n * 1000000"

definition WS_CHANNELS :: "string list" where
  "WS_CHANNELS = [''system.health'', ''session.events'']"

definition PLATFORMS :: "string list" where
  "PLATFORMS = [''macos'', ''windows'', ''linux'', ''ios'', ''android'', ''web'']"

definition FLOW_AAD :: string where "FLOW_AAD = ''p5-oidc-flow-v1''"
definition GRANT_AAD :: string where "GRANT_AAD = ''p5-login-grant-v1''"

section \<open>Sealed payloads\<close>

definition cipher_key :: "crypto \<Rightarrow> auth_settings \<Rightarrow> string" where
  "cipher_key C S = sha256 C (as_hmac_key S @ '':oidc-flow'')"

definition seal :: "crypto \<Rightarrow> auth_settings \<Rightarrow> string \<Rightarrow> (string \<times> string) list \<Rightarrow> string \<Rightarrow> string" where
  "seal C S nonce payload associated_data =
     urlsafe_b64encode
       (nonce @ aesgcm_encrypt C (cipher_key C S) nonce (utf8 (json_dumps payload)) associated_data)"

text \<open>
  \<open>json.loads\<close> of bytes: ASCII bytes without NUL are their own text.  Every exception is caught
  except the model's own report of text it cannot represent.
\<close>

definition json_loads_bytes :: "nat \<Rightarrow> string \<Rightarrow> json res" where
  "json_loads_bytes limit bs =
     (if list_all (\<lambda>c. 0 < code c \<and> code c < 128) bs then json_loads limit bs
      else Inl json_not_modelled)"

definition open_sealed ::
    "crypto \<Rightarrow> auth_settings \<Rightarrow> nat \<Rightarrow> string \<Rightarrow> string \<Rightarrow> ((string \<times> json) list) res" where
  "open_sealed C S limit v associated_data =
     (case rbind (b64decode False v) (\<lambda>encoded.
         case aesgcm_decrypt C (cipher_key C S) (take 12 encoded) (drop 12 encoded) associated_data of
           None \<Rightarrow> Inl (ValueError ''InvalidTag'')
         | Some decoded \<Rightarrow> json_loads_bytes limit decoded) of
        Inl e \<Rightarrow> Inl (if e = json_not_modelled then e
          else AuthenticationError ''authorization transaction cannot be decrypted'')
      | Inr (JObj payload) \<Rightarrow> Inr payload
      | Inr _ \<Rightarrow> Inl (AuthenticationError ''authorization transaction is malformed''))"

definition required :: "(string \<times> json) list \<Rightarrow> string \<Rightarrow> string res" where
  "required payload key =
     (case dict_get payload key of
        JStr v \<Rightarrow> if v = [] then Inl (AuthenticationError (''authorization transaction is missing '' @ key))
          else Inr v
      | _ \<Rightarrow> Inl (AuthenticationError (''authorization transaction is missing '' @ key)))"

definition identity_of_claims :: "auth_settings \<Rightarrow> claims \<Rightarrow> identity res" where
  "identity_of_claims S claims =
     (case (dict_get claims ''sub'', dict_get claims ''email'') of
        (JStr subject, JStr email) \<Rightarrow>
          let display_name = (case dict_get claims ''name'' of
              JStr n \<Rightarrow> if strip n = [] then email else n
            | _ \<Rightarrow> email)
          in Inr \<lparr>ide_issuer = as_issuer S, ide_subject = subject, ide_email = lower email,
               ide_display_name = strip display_name\<rparr>
      | _ \<Rightarrow> Inl (AuthenticationError ''ID token is missing subject or email''))"

section \<open>Login\<close>

definition start_login ::
    "crypto \<Rightarrow> auth_settings \<Rightarrow> 'd repo_ops \<Rightarrow> 'c oidc_ops \<Rightarrow> inputs \<Rightarrow> string \<Rightarrow> string \<Rightarrow>
     ('d \<times> 'c, string) op" where
  "start_login C S R Q I device_key platform =
     (if \<not> (8 \<le> length device_key \<and> length device_key \<le> 200)
      then raise (AuthenticationError ''device key must contain 8 to 200 characters'')
      else if platform \<notin> set PLATFORMS
      then raise (AuthenticationError ''unsupported device platform'')
      else
      bind (lift (random_token 32 (in_random I 0))) (\<lambda>state.
      bind (lift (random_token 32 (in_random I 1))) (\<lambda>nonce.
      bind (lift (random_token 48 (in_random I 2))) (\<lambda>verifier.
      let payload = seal C S (in_random I 3) [(''verifier'', verifier), (''nonce'', nonce),
            (''device_key'', device_key), (''platform'', platform)] FLOW_AAD
      in
      bind (lift (fingerprint C state (as_hmac_key S))) (\<lambda>fp.
      bind (on_repo (rp_put_flow R (in_env I 0) fp payload (as_redirect_uri S)
        (in_now I 0 + seconds (as_flow_ttl_seconds S)))) (\<lambda>_.
      bind (lift (pkce_challenge C verifier)) (\<lambda>challenge.
      on_oidc (oi_authorization_url Q state nonce challenge))))))))"

text \<open>The second half of \<open>complete_login\<close>: the identity's user gets a device, a session and a grant.\<close>

definition grant_session ::
    "crypto \<Rightarrow> auth_settings \<Rightarrow> 'd repo_ops \<Rightarrow> inputs \<Rightarrow> (string \<times> json) list \<Rightarrow> identity \<Rightarrow>
     ('d \<times> 'c, login_redirect) op" where
  "grant_session C S R I payload ident =
     bind (on_repo (rp_provision_identity R (in_env I 0) ident)) (\<lambda>user_id.
     bind (lift (required payload ''device_key'')) (\<lambda>device_key.
     bind (lift (fingerprint C device_key (as_hmac_key S))) (\<lambda>device_fp.
     bind (lift (required payload ''platform'')) (\<lambda>platform.
     bind (on_repo (rp_register_device R (in_env I 1) user_id device_fp platform (in_now I 0))) (\<lambda>device_id.
     bind (lift (random_token 32 (in_random I 0))) (\<lambda>token.
     bind (lift (fingerprint C token (as_hmac_key S))) (\<lambda>token_fp.
     bind (on_repo (rp_create_session R (in_env I 2) user_id device_id token_fp
       (in_now I 0 + seconds (as_session_ttl_seconds S)))) (\<lambda>_.
     bind (on_repo (rp_resolve_session R token_fp (in_now I 0))) (\<lambda>principal.
     case principal of
       None \<Rightarrow> raise (AuthenticationError ''identity is not permitted to create a session'')
     | Some _ \<Rightarrow>
         bind (lift (random_token 32 (in_random I 1))) (\<lambda>grant_code.
         bind (lift (fingerprint C grant_code (as_hmac_key S))) (\<lambda>grant_fp.
         bind (on_repo (rp_put_login_grant R (in_env I 3) grant_fp
           (seal C S (in_random I 2) [(''session_token'', token)] GRANT_AAD)
           (in_now I 0 + seconds (as_login_grant_ttl_seconds S)))) (\<lambda>_.
         ret \<lparr>red_code = grant_code, red_redirect_uri =
           as_desktop_callback_uri S @ ''?'' @ query_string [(''code'', grant_code)]\<rparr>))))))))))))"

text \<open>What \<open>complete_login\<close> does with the flow it consumed.\<close>

definition login_from_flow ::
    "crypto \<Rightarrow> auth_settings \<Rightarrow> 'd repo_ops \<Rightarrow> 'c oidc_ops \<Rightarrow> nat \<Rightarrow> inputs \<Rightarrow> string \<Rightarrow> flow \<Rightarrow>
     ('d \<times> 'c, login_redirect) op" where
  "login_from_flow C S R Q limit I auth_code f =
     (if flow_redirect_uri f \<noteq> as_redirect_uri S
      then raise (AuthenticationError ''authorization redirect URI does not match'')
      else
      bind (lift (open_sealed C S limit (flow_encrypted_payload f) FLOW_AAD)) (\<lambda>payload.
      bind (lift (required payload ''verifier'')) (\<lambda>verifier.
      bind (lift (required payload ''nonce'')) (\<lambda>nonce.
      bind (on_oidc (oi_exchange Q auth_code verifier nonce)) (\<lambda>claims.
      bind (lift (identity_of_claims S claims)) (\<lambda>ident.
      grant_session C S R I payload ident))))))"

definition complete_login ::
    "crypto \<Rightarrow> auth_settings \<Rightarrow> 'd repo_ops \<Rightarrow> 'c oidc_ops \<Rightarrow> nat \<Rightarrow> inputs \<Rightarrow> string \<Rightarrow> string \<Rightarrow>
     ('d \<times> 'c, login_redirect) op" where
  "complete_login C S R Q limit I state auth_code =
     (if state = [] \<or> auth_code = []
      then raise (AuthenticationError ''state and authorization code are required'')
      else
      bind (lift (fingerprint C state (as_hmac_key S))) (\<lambda>fp.
      bind (on_repo (rp_consume_flow R fp (in_now I 0))) (\<lambda>flow.
      case flow of
        None \<Rightarrow> raise (AuthenticationError ''authorization transaction is invalid or expired'')
      | Some f \<Rightarrow> login_from_flow C S R Q limit I auth_code f)))"

section \<open>Sessions\<close>

definition authenticate ::
    "crypto \<Rightarrow> auth_settings \<Rightarrow> 'd repo_ops \<Rightarrow> time \<Rightarrow> string \<Rightarrow> ('d, principal) op" where
  "authenticate C S R now token =
     (if token = [] then raise (AuthenticationError ''session token is required'')
      else
      bind (lift (fingerprint C token (as_hmac_key S))) (\<lambda>fp.
      bind (rp_resolve_session R fp now) (\<lambda>principal.
      case principal of
        None \<Rightarrow> raise (AuthenticationError ''session is invalid or expired'')
      | Some p \<Rightarrow> ret p)))"

text \<open>What \<open>exchange_login_grant\<close> does with the grant it consumed.\<close>

definition session_from_grant ::
    "crypto \<Rightarrow> auth_settings \<Rightarrow> 'd repo_ops \<Rightarrow> nat \<Rightarrow> inputs \<Rightarrow> string \<Rightarrow> ('d, session_grant) op" where
  "session_from_grant C S R limit I encrypted =
     bind (lift (open_sealed C S limit encrypted GRANT_AAD)) (\<lambda>payload.
     bind (lift (required payload ''session_token'')) (\<lambda>token.
     bind (authenticate C S R (in_now I 1) token) (\<lambda>principal.
     ret \<lparr>gra_token = token, gra_principal = principal\<rparr>)))"

definition exchange_login_grant ::
    "crypto \<Rightarrow> auth_settings \<Rightarrow> 'd repo_ops \<Rightarrow> nat \<Rightarrow> inputs \<Rightarrow> string \<Rightarrow> ('d, session_grant) op" where
  "exchange_login_grant C S R limit I grant_code =
     (if grant_code = [] then raise (AuthenticationError ''login grant code is required'')
      else
      bind (lift (fingerprint C grant_code (as_hmac_key S))) (\<lambda>fp.
      bind (rp_consume_login_grant R fp (in_now I 0)) (\<lambda>encrypted.
      case encrypted of
        None \<Rightarrow> raise (AuthenticationError ''login grant is invalid or expired'')
      | Some e \<Rightarrow> session_from_grant C S R limit I e)))"

definition require :: "principal \<Rightarrow> string \<Rightarrow> unit res" where
  "require pri permission =
     (if permission \<notin> pri_permissions pri
      then Inl (PermissionDenied (''missing permission: '' @ permission)) else Inr ())"

definition logout :: "'d repo_ops \<Rightarrow> call_env \<Rightarrow> time \<Rightarrow> principal \<Rightarrow> ('d, unit) op" where
  "logout R env now pri = rp_revoke_session R env (pri_session_id pri) now"

definition devices :: "'d repo_ops \<Rightarrow> principal \<Rightarrow> ('d, device list) op" where
  "devices R pri = rp_list_devices R (pri_user_id pri)"

definition service_revoke_device :: "'d repo_ops \<Rightarrow> time \<Rightarrow> principal \<Rightarrow> uuid \<Rightarrow> ('d, unit) op" where
  "service_revoke_device R now pri device_id =
     bind (rp_revoke_device R (pri_user_id pri) device_id now) (\<lambda>revoked.
     if \<not> revoked then raise (AuthenticationError ''device was not found'') else ret ())"

section \<open>WebSocket tickets\<close>

definition issue_ws_ticket ::
    "crypto \<Rightarrow> auth_settings \<Rightarrow> 'd repo_ops \<Rightarrow> inputs \<Rightarrow> principal \<Rightarrow> string \<Rightarrow> ('d, string) op" where
  "issue_ws_ticket C S R I pri channel =
     (if channel \<notin> set WS_CHANNELS then raise (AuthenticationError ''unsupported WebSocket channel'')
      else
      bind (lift (if channel = ''system.health'' then require pri ''system.health.read''
        else Inr ())) (\<lambda>_.
      bind (lift (random_token 32 (in_random I 0))) (\<lambda>ticket.
      bind (lift (fingerprint C ticket (as_hmac_key S))) (\<lambda>fp.
      bind (rp_put_ws_ticket R (in_env I 0) fp (pri_session_id pri) channel
        (in_now I 0 + seconds (as_ws_ticket_ttl_seconds S))) (\<lambda>_.
      ret ticket)))))"

definition service_consume_ws_ticket ::
    "crypto \<Rightarrow> auth_settings \<Rightarrow> 'd repo_ops \<Rightarrow> time \<Rightarrow> string \<Rightarrow> string \<Rightarrow> ('d, uuid) op" where
  "service_consume_ws_ticket C S R now ticket channel =
     (if channel \<notin> set WS_CHANNELS then raise (AuthenticationError ''unsupported WebSocket channel'')
      else
      bind (lift (fingerprint C ticket (as_hmac_key S))) (\<lambda>fp.
      bind (rp_consume_ws_ticket R fp channel now) (\<lambda>session_id.
      case session_id of
        None \<Rightarrow> raise (AuthenticationError ''WebSocket ticket is invalid or expired'')
      | Some s \<Rightarrow> ret s)))"

section \<open>What operations keep\<close>

definition keeps :: "('s \<Rightarrow> bool) \<Rightarrow> ('s, 'a) op \<Rightarrow> bool" where
  "keeps P m \<longleftrightarrow> (\<forall>s r t. P s \<longrightarrow> m s = (r, t) \<longrightarrow> P t)"

named_theorems keeps_rules "operations that keep a property of the state"

lemma keepsD: "keeps P m \<Longrightarrow> m s = (r, t) \<Longrightarrow> P s \<Longrightarrow> P t"
  by (auto simp: keeps_def)

lemma keeps_bind [keeps_rules]: "keeps P m \<Longrightarrow> (\<And>x. keeps P (f x)) \<Longrightarrow> keeps P (bind m f)"
proof (unfold keeps_def, intro allI impI)
  fix s r t
  assume m: "\<forall>s r t. P s \<longrightarrow> m s = (r, t) \<longrightarrow> P t" and f: "\<And>x. \<forall>s r t. P s \<longrightarrow> f x s = (r, t) \<longrightarrow> P t"
    and s: "P s" "bind m f s = (r, t)"
  obtain y u where y: "m s = (y, u)" by fastforce
  then have "P u" using m s(1) by blast
  then show "P t" using s(2) y f by (cases y) (auto simp: bind_def)
qed

lemma keeps_pure [keeps_rules]: "keeps P (ret x)" "keeps P (raise e)" "keeps P (lift r)"
  by (simp_all add: keeps_def)

lemma keeps_option [keeps_rules]:
  "keeps P m \<Longrightarrow> (\<And>x. keeps P (f x)) \<Longrightarrow> keeps P (case o' of None \<Rightarrow> m | Some x \<Rightarrow> f x)"
  by (cases o') auto

lemma keeps_if [keeps_rules]: "keeps P m \<Longrightarrow> keeps P n \<Longrightarrow> keeps P (if b then m else n)"
  by simp

lemma keeps_on_repo [keeps_rules]: "keeps Q m \<Longrightarrow> keeps (\<lambda>s. Q (fst s)) (on_repo m)"
  by (auto simp: keeps_def)

lemma keeps_on_oidc [keeps_rules]: "keeps (\<lambda>s. Q (fst s)) (on_oidc m)"
  by (auto simp: keeps_def)

section \<open>What the libraries guarantee\<close>

text \<open>
  HMAC-SHA-256 in hexadecimal has 64 digits, and AES-GCM decrypts what it encrypted under the same
  key, 12-byte nonce and associated data.
\<close>

definition crypto_ok :: "crypto \<Rightarrow> bool" where
  "crypto_ok C \<longleftrightarrow> (\<forall>k m. length (hmac_sha256_hex C k m) = 64) \<and>
     (\<forall>k n m a. length n = 12 \<longrightarrow> aesgcm_decrypt C k n (aesgcm_encrypt C k n m a) a = Some m)"

lemma hex_digit_ascii: "0 \<le> d \<Longrightarrow> d < 16 \<Longrightarrow> 0 < code (hex_digit d) \<and> code (hex_digit d) < 128"
proof -
  have "\<forall>d \<in> set [0..15]. 0 < code (hex_digit d) \<and> code (hex_digit d) < 128" by code_simp
  then show "0 \<le> d \<Longrightarrow> d < 16 \<Longrightarrow> 0 < code (hex_digit d) \<and> code (hex_digit d) < 128"
    using nibble_cases by blast
qed

definition ascii_text :: "string \<Rightarrow> bool" where
  "ascii_text s \<longleftrightarrow> list_all (\<lambda>c. 0 < code c \<and> code c < 128) s"

lemma ascii_text_simps [simp]:
  "ascii_text []" "ascii_text (c # s) \<longleftrightarrow> 0 < code c \<and> code c < 128 \<and> ascii_text s"
  "ascii_text (s @ t) \<longleftrightarrow> ascii_text s \<and> ascii_text t"
  by (simp_all add: ascii_text_def)

lemma escape_char_ascii: "ascii_text (escape_char c)"
  using hex_digit_ascii [of "code c div 16"] hex_digit_ascii [of "code c mod 16"] code_range [of c]
  by (simp add: escape_char_def) (simp add: code_def)

lemma json_dumps_ascii: "ascii_text (json_dumps d)"
proof -
  have "ascii_text (concat (map escape_char s))" for s
    by (induction s) (simp_all add: escape_char_ascii)
  then have "ascii_text (json_string s)" for s by (simp add: json_string_def) (simp add: code_def)
  then have "ascii_text (join_with '','' (map (\<lambda>(k, v). json_string k @ '':'' @ json_string v) d))"
  proof (induction d)
    case (Cons p d)
    then show ?case by (cases p; cases d) (simp_all add: code_def)
  qed simp
  then show ?thesis by (simp add: json_dumps_def) (simp add: code_def)
qed

lemma open_seal:
  assumes "crypto_ok C" "length nonce = 12" "distinct (map fst payload)" "0 < limit"
  shows "open_sealed C S limit (seal C S nonce payload aad) aad = Inr (map (\<lambda>(k, v). (k, JStr v)) payload)"
proof -
  have a: "list_all (\<lambda>c. 0 < code c \<and> code c < 128) (json_dumps payload)"
    using json_dumps_ascii unfolding ascii_text_def .
  then have "utf8 (json_dumps payload) = json_dumps payload"
    by (intro utf8_ascii) (simp add: list_all_iff)
  then have "json_loads_bytes limit (utf8 (json_dumps payload)) =
      Inr (JObj (map (\<lambda>(k, v). (k, JStr v)) payload))"
    using a json_round_trip [OF assms(3,4)] by (simp add: json_loads_bytes_def)
  then show ?thesis
    using assms(1,2) by (simp add: open_sealed_def seal_def b64_round_trip crypto_ok_def)
qed

end
