(* ===== verification/Auth_Contract.thy ===== *)
theory Auth_Contract
  imports Auth_Safety
begin

text \<open>
  What the service relies on the repository for, as the interface \<open>auth_repository\<close>: an abstract
  state of one-time stores with expiry for flows and grants and of the principal each token
  fingerprint resolves to, and the effect of each operation on it.  The PostgreSQL repository
  refines it, through its tables.
\<close>

section \<open>One-time stores\<close>

type_synonym 'v store = "string \<rightharpoonup> 'v \<times> time"

definition store_take :: "string \<Rightarrow> time \<Rightarrow> 'v store \<Rightarrow> 'v option" where
  "store_take k now m =
     (case m k of None \<Rightarrow> None | Some (v, e) \<Rightarrow> if now < e then Some v else None)"

definition store_drop :: "string \<Rightarrow> time \<Rightarrow> 'v store \<Rightarrow> 'v store" where
  "store_drop k now m = (if store_take k now m = None then m else m(k := None))"

text \<open>What was taken is gone, and what could not be taken cannot be taken later.\<close>

lemma store_take_drop: "now \<le> later \<Longrightarrow> store_take k later (store_drop k now m) = None"
  by (auto simp: store_take_def store_drop_def split: option.splits if_splits)

lemma store_drop_drop: "now \<le> later \<Longrightarrow> store_drop k later (store_drop k now m) = store_drop k now m"
  by (simp add: store_drop_def [of k later] store_take_drop)

lemma store_take_put: "now < e \<Longrightarrow> store_take k now (m(k \<mapsto> (v, e))) = Some v"
  by (simp add: store_take_def)

text \<open>A table with a unique key as a store.\<close>

definition table_store :: "('r \<Rightarrow> string) \<Rightarrow> ('r \<Rightarrow> 'v) \<Rightarrow> ('r \<Rightarrow> time) \<Rightarrow> 'r list \<Rightarrow> 'v store" where
  "table_store key val expires rows = map_of (map (\<lambda>r. (key r, (val r, expires r))) rows)"

lemma table_store_None: "table_store key val expires rows k = None \<longleftrightarrow> k \<notin> key ` set rows"
  by (auto simp: table_store_def map_of_eq_None_iff image_image)

lemma table_store_take:
  assumes "distinct (map key rows)"
  shows "store_take k now (table_store key val expires rows) =
    map_option val (List.find (\<lambda>r. key r = k \<and> now < expires r) rows)"
  using assms
proof (induction rows)
  case (Cons r rows)
  have "List.find (\<lambda>x. key x = key r \<and> now < expires x) rows = None"
    unfolding find_None_all using Cons.prems by (auto simp: image_iff)
  then show ?case
    using Cons by (auto simp: store_take_def table_store_def)
qed (simp add: store_take_def table_store_def)

lemma table_store_drop:
  assumes "distinct (map key rows)"
  shows "table_store key val expires (filter (\<lambda>r. \<not> (key r = k \<and> now < expires r)) rows) =
    store_drop k now (table_store key val expires rows)"
  using assms
proof (induction rows)
  case (Cons r rows)
  let ?P = "\<lambda>x. \<not> (key x = k \<and> now < expires x)"
  show ?case
  proof (cases "key r = k")
    case True
    then have "filter ?P rows = rows" using Cons.prems by (auto simp: filter_id_conv image_iff)
    moreover have "table_store key val expires rows k = None"
      using True Cons.prems by (auto simp: table_store_None)
    ultimately show ?thesis
      using True
      by (auto simp: table_store_def store_drop_def store_take_def fun_eq_iff split: option.splits)
  next
    case False
    then show ?thesis
      using Cons
      by (auto simp: table_store_def store_drop_def store_take_def fun_eq_iff split: option.splits)
  qed
qed (simp add: table_store_def store_drop_def store_take_def)

lemma table_store_append:
  assumes "key r \<notin> key ` set rows"
  shows "table_store key val expires (rows @ [r]) =
    (table_store key val expires rows)(key r \<mapsto> (val r, expires r))"
  using assms table_store_None [of key val expires rows "key r"]
  by (auto simp: table_store_def map_add_def fun_eq_iff split: option.splits)

section \<open>The interface\<close>

locale auth_repository =
  fixes R :: "'d repo_ops" and inv :: "'d \<Rightarrow> bool"
    and flows :: "'d \<Rightarrow> flow store" and grants :: "'d \<Rightarrow> string store"
    and resolves :: "'d \<Rightarrow> string \<Rightarrow> time \<Rightarrow> principal option"
  assumes put_flow: "inv d \<Longrightarrow> rp_put_flow R env fp box u e d = (Inr x, d') \<Longrightarrow> length fp \<le> 64 \<Longrightarrow>
      inv d' \<and> fp \<notin> dom (flows d) \<and> grants d' = grants d \<and> resolves d' = resolves d \<and>
      flows d' = (flows d)(fp \<mapsto> (\<lparr>flow_encrypted_payload = box, flow_redirect_uri = u\<rparr>, e))"
    and put_flow_error: "rp_put_flow R env fp box u e d = (Inl y, d') \<Longrightarrow> d' = d"
    and consume_flow: "inv d \<Longrightarrow> rp_consume_flow R fp now d = (rf, d') \<Longrightarrow>
      rf = Inr (store_take fp now (flows d)) \<and> inv d' \<and> flows d' = store_drop fp now (flows d) \<and>
      grants d' = grants d \<and> resolves d' = resolves d"
    and put_grant: "inv d \<Longrightarrow> rp_put_login_grant R env fp box e d = (Inr x, d') \<Longrightarrow> length fp \<le> 64 \<Longrightarrow>
      inv d' \<and> fp \<notin> dom (grants d) \<and> flows d' = flows d \<and> resolves d' = resolves d \<and>
      grants d' = (grants d)(fp \<mapsto> (box, e))"
    and put_grant_error: "rp_put_login_grant R env fp box e d = (Inl y, d') \<Longrightarrow> d' = d"
    and consume_grant: "inv d \<Longrightarrow> rp_consume_login_grant R fp now d = (rg, d') \<Longrightarrow>
      rg = Inr (store_take fp now (grants d)) \<and> inv d' \<and> grants d' = store_drop fp now (grants d) \<and>
      flows d' = flows d \<and> resolves d' = resolves d"
    and provision: "inv d \<Longrightarrow> rp_provision_identity R env i d = (r1, d') \<Longrightarrow>
      inv d' \<and> flows d' = flows d \<and> grants d' = grants d"
    and register: "inv d \<Longrightarrow> rp_register_device R env uid fp platform now d = (r1, d') \<Longrightarrow>
      inv d' \<and> flows d' = flows d \<and> grants d' = grants d"
    and create: "inv d \<Longrightarrow> rp_create_session R env uid did fp e d = (r1, d') \<Longrightarrow>
      inv d' \<and> flows d' = flows d \<and> grants d' = grants d"
    and created: "inv d \<Longrightarrow> rp_create_session R env uid did fp e d = (Inr sid, d') \<Longrightarrow>
      length fp \<le> 128 \<Longrightarrow> resolves d' fp now = Some p \<Longrightarrow>
      pri_session_id p = sid \<and> pri_user_id p = uid \<and> pri_device_id p = Some did \<and> pri_expires_at p = e"
    and resolve: "inv d \<Longrightarrow> rp_resolve_session R fp now d = (Inr (resolves d fp now), d)"
    and resolves_until: "inv d \<Longrightarrow> resolves d fp now = Some p \<Longrightarrow>
      resolves d fp later = (if later < pri_expires_at p then Some p else None)"
    and revoke: "inv d \<Longrightarrow> resolves d fp now = Some p \<Longrightarrow>
      rp_revoke_session R env (pri_session_id p) t d = (Inr x, d') \<Longrightarrow>
      inv d' \<and> resolves d' fp later = None"
    and revoke_ok: "inv d \<Longrightarrow> rp_revoke_session R env sid t d = (Inl y, d') \<Longrightarrow> d' = d"

section \<open>The PostgreSQL repository\<close>

definition flows_view :: "auth_db \<Rightarrow> flow store" where
  "flows_view db = table_store f_state_fingerprint
     (\<lambda>r. \<lparr>flow_encrypted_payload = f_encrypted_payload r, flow_redirect_uri = f_redirect_uri r\<rparr>)
     f_expires_at (db_flows db)"

definition grants_view :: "auth_db \<Rightarrow> string store" where
  "grants_view db = table_store g_code_fingerprint g_encrypted_payload g_expires_at (db_grants db)"

definition resolves_view :: "(string \<Rightarrow> string) \<Rightarrow> auth_db \<Rightarrow> string \<Rightarrow> time \<Rightarrow> principal option" where
  "resolves_view col db fp now =
     (case fst (resolve_session col fp now db) of Inl _ \<Rightarrow> None | Inr r \<Rightarrow> r)"

lemma resolve_session_view:
  "db_inv db \<Longrightarrow> resolve_session col fp now db = (Inr (resolves_view col db fp now), db)"
  by (simp add: resolves_view_def resolve_session_eq)

lemma resolves_view_Some:
  assumes "db_inv db"
  shows "resolves_view col db fp now = Some p \<longleftrightarrow>
    (\<exists>s \<in> set (db_sessions db). \<exists>u \<in> set (db_users db). s_token_fingerprint s = fp \<and>
      live_session now db s u \<and> p = make_principal s u (role_names col (s_user_id s) db)
        (permission_codes (s_user_id s) db))"
  using resolve_session_Some [OF assms, of col fp now p db] resolve_session_view [OF assms, of col fp now]
  by auto

lemma resolve_frame:
  "resolve_session col fp now (db\<lparr>db_flows := x\<rparr>) = apsnd (\<lambda>_. db\<lparr>db_flows := x\<rparr>) (resolve_session col fp now db)"
  "resolve_session col fp now (db\<lparr>db_grants := y\<rparr>) = apsnd (\<lambda>_. db\<lparr>db_grants := y\<rparr>) (resolve_session col fp now db)"
  by (auto simp: resolve_session_def session_rows_def joined_devices_def role_names_def
      permission_codes_def bind_def gets_def one_or_none_def ret_def raise_def
      split: list.splits option.splits prod.splits)

lemma resolves_frame [simp]:
  "resolves_view col (db\<lparr>db_flows := x\<rparr>) = resolves_view col db"
  "resolves_view col (db\<lparr>db_grants := y\<rparr>) = resolves_view col db"
  by (simp_all add: resolves_view_def fun_eq_iff resolve_frame)

lemma same_fingerprint:
  assumes "db_inv db" "s \<in> set (db_sessions db)" "t \<in> set (db_sessions db)"
    "s_token_fingerprint s = s_token_fingerprint t"
  shows "s = t"
  using assms by (auto simp: db_inv_defs distinct_map dest: inj_onD)

lemma created_view:
  assumes "db_inv db" "create_session env uid did fp e db = (Inr sid, db')" "length fp \<le> 128"
    "resolves_view col db' fp now = Some p"
  shows "pri_session_id p = sid \<and> pri_user_id p = uid \<and> pri_device_id p = Some did \<and> pri_expires_at p = e"
proof -
  from assms(2) obtain s ev where s: "varchar 128 fp = Inr (s_token_fingerprint s)" "s_id s = sid"
    "s_user_id s = uid" "s_device_id s = Some did" "s_expires_at s = e"
    "s \<in> set (db_sessions db')"
    by (rule create_session_ok) auto
  have inv: "db_inv db'" using assms(1,2) by (rule inv_create_session)
  have fp: "s_token_fingerprint s = fp" using varchar_cases [OF s(1)] assms(3) by simp
  obtain r u where r: "r \<in> set (db_sessions db')" "s_token_fingerprint r = fp"
    "p = make_principal r u (role_names col (s_user_id r) db') (permission_codes (s_user_id r) db')"
    using assms(4) unfolding resolves_view_Some [OF inv] by blast
  have "r = s" using same_fingerprint [OF inv r(1) s(6)] r(2) fp by simp
  then show ?thesis using r(3) s by (simp add: make_principal_def)
qed

lemma resolves_view_until:
  assumes inv: "db_inv db" and p: "resolves_view col db fp now = Some p"
  shows "resolves_view col db fp later = (if later < pri_expires_at p then Some p else None)"
proof -
  from p obtain s u where su: "s \<in> set (db_sessions db)" "u \<in> set (db_users db)"
    "s_token_fingerprint s = fp" "live_session now db s u"
    "p = make_principal s u (role_names col (s_user_id s) db) (permission_codes (s_user_id s) db)"
    unfolding resolves_view_Some [OF inv] by blast
  show ?thesis
  proof (cases "later < pri_expires_at p")
    case True
    then have "live_session later db s u" using su(4,5) by (simp add: live_session_def make_principal_def)
    then show ?thesis using True su resolves_view_Some [OF inv, of col fp later p] by auto
  next
    case False
    have "resolves_view col db fp later \<noteq> Some q" for q
    proof
      assume "resolves_view col db fp later = Some q"
      then obtain r where r: "r \<in> set (db_sessions db)" "s_token_fingerprint r = fp" "later < s_expires_at r"
        unfolding resolves_view_Some [OF inv] live_session_def by blast
      then have "r = s" using same_fingerprint [OF inv r(1) su(1)] su(3) by simp
      then show False using r(3) False su(5) by (simp add: make_principal_def)
    qed
    then show ?thesis using False by (cases "resolves_view col db fp later") auto
  qed
qed

lemma revoked_view:
  assumes inv: "db_inv db" and p: "resolves_view col db fp now = Some p"
    and rev: "revoke_session env (pri_session_id p) t db = (Inr x, db')"
  shows "resolves_view col db' fp later = None"
proof -
  from p obtain s u where su: "s \<in> set (db_sessions db)" "s_token_fingerprint s = fp"
    "s_revoked_at s = None" "pri_session_id p = s_id s"
    unfolding resolves_view_Some [OF inv] by (auto simp: live_session_def make_principal_def)
  have inv': "db_inv db'" using inv rev by (rule inv_revoke_session)
  from inv rev have sessions: "db_sessions db' = update_where (\<lambda>r. s_id r = pri_session_id p \<and> s_revoked_at r = None)
      (\<lambda>r. r\<lparr>s_revoked_at := Some t\<rparr>) (db_sessions db)"
    by (cases rule: revoke_session_ok) (use su in auto)
  have "resolves_view col db' fp later \<noteq> Some q" for q
  proof
    assume "resolves_view col db' fp later = Some q"
    then obtain r where r: "r \<in> set (db_sessions db')" "s_token_fingerprint r = fp" "s_revoked_at r = None"
      unfolding resolves_view_Some [OF inv'] by (auto simp: live_session_def)
    then have "r \<in> set (db_sessions db)" "\<not> (s_id r = pri_session_id p \<and> s_revoked_at r = None)"
      unfolding sessions set_update_where by (auto split: if_splits)
    then show False using same_fingerprint [OF inv su(1)] su r by auto
  qed
  then show ?thesis by (cases "resolves_view col db' fp later") auto
qed

lemma consume_flow_view:
  assumes "db_inv db"
  shows "consume_flow fp now db = (Inr (store_take fp now (flows_view db)),
    db\<lparr>db_flows := filter (\<lambda>r. \<not> flow_matches fp now r) (db_flows db)\<rparr>)"
proof -
  have "distinct (map f_state_fingerprint (db_flows db))" using assms by (simp add: db_inv_defs)
  then show ?thesis
    by (simp add: table_store_take consume_flow_eq [OF assms] flows_view_def flow_matches_def [abs_def])
qed

lemma consume_grant_view:
  assumes "db_inv db"
  shows "consume_login_grant fp now db = (Inr (store_take fp now (grants_view db)),
    db\<lparr>db_grants := filter (\<lambda>r. \<not> grant_matches fp now r) (db_grants db)\<rparr>)"
proof -
  have "distinct (map g_code_fingerprint (db_grants db))" using assms by (simp add: db_inv_defs)
  then show ?thesis
    by (simp add: table_store_take consume_login_grant_eq [OF assms] grants_view_def grant_matches_def [abs_def])
qed

lemma varchar_same: "varchar n s = Inr t \<Longrightarrow> length s \<le> n \<Longrightarrow> t = s"
  using varchar_cases by fastforce

lemmas views_def = flows_view_def grants_view_def

text \<open>Calls that leave flows and grants alone.\<close>

lemma provision_frame:
  assumes inv: "db_inv db" and step: "provision_identity env i db = (r, db')"
  shows "db_flows db' = db_flows db \<and> db_grants db' = db_grants db"
proof (cases r)
  case (Inl e)
  with step method_error(5) [of env i db e db'] show ?thesis by simp
next
  case (Inr uid)
  from inv step [unfolded Inr] show ?thesis by (cases rule: provision_identity_ok) auto
qed

lemma register_frame:
  assumes inv: "db_inv db" and step: "register_device env uid fp p now db = (r, db')"
  shows "db_flows db' = db_flows db \<and> db_grants db' = db_grants db"
proof (cases r)
  case (Inl e)
  with step method_error(6) [of env uid fp p now db e db'] show ?thesis by simp
next
  case (Inr did)
  from inv step [unfolded Inr] show ?thesis by (cases rule: register_device_ok) auto
qed

lemma create_frame:
  assumes "create_session env uid did fp e db = (r, db')"
  shows "db_flows db' = db_flows db \<and> db_grants db' = db_grants db"
proof (cases r)
  case (Inl y)
  with assms method_error(7) [of env uid did fp e db y db'] show ?thesis by simp
next
  case (Inr sid)
  from assms [unfolded Inr] show ?thesis by (rule create_session_ok) auto
qed

interpretation postgres: auth_repository "postgres col" db_inv flows_view grants_view "resolves_view col" for col
proof (unfold_locales, unfold postgres_def repo_ops.simps)
  fix db env fp box u e x db'
  assume inv: "db_inv db" and put: "put_flow env fp box u e db = (Inr x, db')" and len: "length fp \<le> 64"
  from put_flow_ok [OF put] obtain r where r: "flow_insertable r db" "db' = db\<lparr>db_flows := db_flows db @ [r]\<rparr>"
    "varchar 64 fp = Inr (f_state_fingerprint r)" "f_encrypted_payload r = box" "f_redirect_uri r = u"
    "f_expires_at r = e" by blast
  have fp: "f_state_fingerprint r = fp" using varchar_same [OF r(3) len] .
  then have fresh: "f_state_fingerprint r \<notin> f_state_fingerprint ` set (db_flows db)"
    using r(1) by (simp add: flow_insertable_def)
  show "db_inv db' \<and> fp \<notin> dom (flows_view db) \<and> grants_view db' = grants_view db \<and>
      resolves_view col db' = resolves_view col db \<and>
      flows_view db' = (flows_view db)(fp \<mapsto> (\<lparr>flow_encrypted_payload = box, flow_redirect_uri = u\<rparr>, e))"
    using inv_put_flow [OF inv put] fresh r fp
    by (auto simp: views_def table_store_append domIff table_store_None)
next
  fix db env fp box e x db'
  assume inv: "db_inv db" and put: "put_login_grant env fp box e db = (Inr x, db')" and len: "length fp \<le> 64"
  from put_login_grant_ok [OF put] obtain r where r: "grant_insertable r db"
    "db' = db\<lparr>db_grants := db_grants db @ [r]\<rparr>" "varchar 64 fp = Inr (g_code_fingerprint r)"
    "g_encrypted_payload r = box" "g_expires_at r = e" by blast
  have fp: "g_code_fingerprint r = fp" using varchar_same [OF r(3) len] .
  then have fresh: "g_code_fingerprint r \<notin> g_code_fingerprint ` set (db_grants db)"
    using r(1) by (simp add: grant_insertable_def)
  show "db_inv db' \<and> fp \<notin> dom (grants_view db) \<and> flows_view db' = flows_view db \<and>
      resolves_view col db' = resolves_view col db \<and> grants_view db' = (grants_view db)(fp \<mapsto> (box, e))"
    using inv_put_login_grant [OF inv put] fresh r fp
    by (auto simp: views_def table_store_append domIff table_store_None)
next
  fix db fp now rf db'
  assume inv: "db_inv db" and c: "consume_flow fp now db = (rf, db')"
  have d: "distinct (map f_state_fingerprint (db_flows db))" using inv by (simp add: db_inv_defs)
  show "rf = Inr (store_take fp now (flows_view db)) \<and> db_inv db' \<and>
      flows_view db' = store_drop fp now (flows_view db) \<and> grants_view db' = grants_view db \<and>
      resolves_view col db' = resolves_view col db"
    using c inv_consume_flow [OF inv c] table_store_drop [OF d]
    by (auto simp: consume_flow_view [OF inv] views_def flow_matches_def)
next
  fix db fp now rg db'
  assume inv: "db_inv db" and c: "consume_login_grant fp now db = (rg, db')"
  have d: "distinct (map g_code_fingerprint (db_grants db))" using inv by (simp add: db_inv_defs)
  show "rg = Inr (store_take fp now (grants_view db)) \<and> db_inv db' \<and>
      grants_view db' = store_drop fp now (grants_view db) \<and> flows_view db' = flows_view db \<and>
      resolves_view col db' = resolves_view col db"
    using c inv_consume_login_grant [OF inv c] table_store_drop [OF d]
    by (auto simp: consume_grant_view [OF inv] views_def grant_matches_def)
next
  fix db env i r db'
  assume "db_inv db" "provision_identity env i db = (r, db')"
  then show "db_inv db' \<and> flows_view db' = flows_view db \<and> grants_view db' = grants_view db"
    using inv_provision_identity provision_frame by (metis views_def)
next
  fix db env uid fp platform now r db'
  assume "db_inv db" "register_device env uid fp platform now db = (r, db')"
  then show "db_inv db' \<and> flows_view db' = flows_view db \<and> grants_view db' = grants_view db"
    using inv_register_device register_frame by (metis views_def)
next
  fix db env uid did fp e r db'
  assume "db_inv db" "create_session env uid did fp e db = (r, db')"
  then show "db_inv db' \<and> flows_view db' = flows_view db \<and> grants_view db' = grants_view db"
    using inv_create_session create_frame by (metis views_def)
next
  fix db fp now p later
  assume "db_inv db" "resolves_view col db fp now = Some p"
  then show "resolves_view col db fp later = (if later < pri_expires_at p then Some p else None)"
    by (rule resolves_view_until)
next
  fix db fp now p env t x db' later
  assume "db_inv db" "resolves_view col db fp now = Some p"
    "revoke_session env (pri_session_id p) t db = (Inr x, db')"
  then show "db_inv db' \<and> resolves_view col db' fp later = None"
    using inv_revoke_session revoked_view by blast
qed (erule method_error(1) | erule method_error(3) | erule method_error(8) |
    erule (3) created_view | erule resolve_session_view)+

end
