(* ===== verification/Service_Lemmas.thy ===== *)
theory Service_Lemmas
  imports Auth_Service Auth_Contract
begin

text \<open>
  What the service promises over any repository that meets \<open>auth_repository\<close>: codes are spent by
  the first attempt that names them, a completed login can be exchanged for a session that
  authenticates, and a logout ends it.
\<close>

lemma random_token_ok: "32 \<le> n \<Longrightarrow> random_token n b = Inr (token_urlsafe b)"
  by (simp add: random_token_def)

lemma fingerprint_ok: "32 \<le> length k \<Longrightarrow> fingerprint C t k = Inr (hmac_sha256_hex C k (utf8 t))"
  by (simp add: fingerprint_def)

lemma token_urlsafe_nonempty: "b \<noteq> [] \<Longrightarrow> token_urlsafe b \<noteq> []"
proof
  assume b: "b \<noteq> []" "token_urlsafe b = []"
  have "urlsafe_b64encode b = []" using repad_token [of b] b(2) by simp
  then show False using urlsafe_b64encode_head [OF b(1)] by simp
qed

definition token_fp :: "crypto \<Rightarrow> auth_settings \<Rightarrow> string \<Rightarrow> string" where
  "token_fp C S token = hmac_sha256_hex C (as_hmac_key S) (utf8 token)"

lemma token_fp_length: "crypto_ok C \<Longrightarrow> length (token_fp C S t) = 64"
  by (simp add: token_fp_def crypto_ok_def)

context auth_repository
begin

section \<open>Spent codes\<close>

lemma keeps_no_flow [keeps_rules]:
  "keeps (\<lambda>d. inv d \<and> store_take k later (flows d) = None) (rp_provision_identity R env i)"
  "keeps (\<lambda>d. inv d \<and> store_take k later (flows d) = None) (rp_register_device R env uid fp pl now)"
  "keeps (\<lambda>d. inv d \<and> store_take k later (flows d) = None) (rp_create_session R env uid did fp e)"
  "keeps (\<lambda>d. inv d \<and> store_take k later (flows d) = None) (rp_resolve_session R fp now)"
  unfolding keeps_def
  subgoal using provision by metis
  subgoal using register by metis
  subgoal using create by metis
  subgoal using resolve by (metis prod.inject)
  done

lemma keeps_no_flow_grant:
  assumes "length fp \<le> 64"
  shows "keeps (\<lambda>d. inv d \<and> store_take k later (flows d) = None) (rp_put_login_grant R env fp p e)"
proof (unfold keeps_def, intro allI impI)
  fix d r t assume d: "inv d \<and> store_take k later (flows d) = None" "rp_put_login_grant R env fp p e d = (r, t)"
  then have inv: "inv d" and put: "rp_put_login_grant R env fp p e d = (r, t)" by blast+
  show "inv t \<and> store_take k later (flows t) = None"
  proof (cases r)
    case (Inl y)
    then show ?thesis using put_grant_error put d(1) by metis
  next
    case (Inr x)
    from put_grant [OF inv put [unfolded Inr] assms] d(1) show ?thesis by metis
  qed
qed

lemma grant_session_keeps:
  assumes "crypto_ok C" "32 \<le> length (as_hmac_key S)"
  shows "keeps (\<lambda>s. inv (fst s) \<and> store_take k later (flows (fst s)) = None)
    (grant_session C S R I payload ident)"
proof -
  have len: "length (hmac_sha256_hex C (as_hmac_key S) t) \<le> 64" for t
    using assms(1) by (simp add: crypto_ok_def)
  show ?thesis
    unfolding grant_session_def fingerprint_ok [OF assms(2)] random_token_ok [OF order_refl] bind_simps
    by (intro keeps_rules keeps_no_flow_grant len
        keeps_on_repo [where Q = "\<lambda>d. inv d \<and> store_take k later (flows d) = None"])
qed

text \<open>A state value is spent by its first use, whatever becomes of that login.\<close>

lemma complete_login_spends:
  assumes ok: "crypto_ok C" "32 \<le> length (as_hmac_key S)" and s: "inv (fst s)" "state \<noteq> []" "c \<noteq> []"
    and first: "complete_login C S R Q limit I state c s = (r, t)" and later: "in_now I 0 \<le> now"
  shows "inv (fst t) \<and> store_take (token_fp C S state) now (flows (fst t)) = None"
proof -
  let ?P = "\<lambda>d. inv d \<and> store_take (token_fp C S state) now (flows d) = None"
  obtain rf d where f: "rp_consume_flow R (token_fp C S state) (in_now I 0) (fst s) = (rf, d)"
    by fastforce
  from consume_flow [OF s(1) f] have rf: "rf = Inr (store_take (token_fp C S state) (in_now I 0) (flows (fst s)))"
    and d: "?P d" using store_take_drop [OF later] by auto
  have kept: "keeps (\<lambda>s. ?P (fst s)) (case x of
        None \<Rightarrow> raise (AuthenticationError ''authorization transaction is invalid or expired'')
      | Some f \<Rightarrow> login_from_flow C S R Q limit I c f)" for x
    unfolding login_from_flow_def
    by (intro keeps_rules grant_session_keeps [OF ok] keeps_on_oidc [of ?P])
  have run: "complete_login C S R Q limit I state c s = (case store_take (token_fp C S state) (in_now I 0)
        (flows (fst s)) of
        None \<Rightarrow> raise (AuthenticationError ''authorization transaction is invalid or expired'')
      | Some f \<Rightarrow> login_from_flow C S R Q limit I c f) (d, snd s)"
    using f s(2,3) rf by (simp add: complete_login_def fingerprint_ok [OF ok(2)] token_fp_def
        bind_def [of "on_repo _"] on_repo_def)
  have "?P (fst (d, snd s))" using d by simp
  from keepsD [OF kept first [unfolded run] this] show ?thesis .
qed

lemma complete_login_replay:
  assumes "crypto_ok C" "32 \<le> length (as_hmac_key S)" "inv (fst s)" "state \<noteq> []" "c \<noteq> []" "c' \<noteq> []"
    and "complete_login C S R Q limit I state c s = (r, t)" "in_now I 0 \<le> in_now J 0"
  shows "fst (complete_login C S R Q limit J state c' t) =
    Inl (AuthenticationError ''authorization transaction is invalid or expired'')"
proof -
  from complete_login_spends [OF assms(1-5,7,8)]
  have t: "inv (fst t)" "store_take (token_fp C S state) (in_now J 0) (flows (fst t)) = None" by auto
  obtain rf d where f: "rp_consume_flow R (token_fp C S state) (in_now J 0) (fst t) = (rf, d)" by fastforce
  with consume_flow [OF t(1) f] t(2)
  have "on_repo (rp_consume_flow R (token_fp C S state) (in_now J 0)) t = (Inr None, (d, snd t))" by simp
  then show ?thesis
    using assms(4,6) by (simp add: complete_login_def fingerprint_ok [OF assms(2)] bind_def [of "on_repo _"]
        token_fp_def raise_def on_repo_def)
qed

text \<open>A login code likewise.\<close>

lemma exchange_replay:
  assumes key: "32 \<le> length (as_hmac_key S)" and d: "inv d" "c \<noteq> []"
    and first: "exchange_login_grant C S R limit I c d = (r, d1)" and later: "in_now I 0 \<le> in_now J 0"
  shows "fst (exchange_login_grant C S R limit J c d1) =
    Inl (AuthenticationError ''login grant is invalid or expired'')"
proof -
  let ?P = "\<lambda>d. inv d \<and> store_take (token_fp C S c) (in_now J 0) (grants d) = None"
  obtain rg e where g: "rp_consume_login_grant R (token_fp C S c) (in_now I 0) d = (rg, e)" by fastforce
  from consume_grant [OF d(1) g] have rg: "rg = Inr (store_take (token_fp C S c) (in_now I 0) (grants d))"
    and e: "?P e" using store_take_drop [OF later] by auto
  have res: "keeps ?P (rp_resolve_session R fp now)" for fp now
    unfolding keeps_def using resolve by (metis prod.inject)
  have kept: "keeps ?P (case x of
        None \<Rightarrow> raise (AuthenticationError ''login grant is invalid or expired'')
      | Some e \<Rightarrow> session_from_grant C S R limit I e)" for x
    unfolding session_from_grant_def authenticate_def by (intro keeps_rules res)
  have run: "exchange_login_grant C S R limit I c d = (case store_take (token_fp C S c) (in_now I 0)
        (grants d) of
        None \<Rightarrow> raise (AuthenticationError ''login grant is invalid or expired'')
      | Some e \<Rightarrow> session_from_grant C S R limit I e) e"
    using g d(2) rg by (simp add: exchange_login_grant_def fingerprint_ok [OF key] token_fp_def
        bind_def [of "rp_consume_login_grant _ _ _"])
  have d1: "?P d1" using keepsD [OF kept first [unfolded run] e] .
  obtain rg2 e2 where g2: "rp_consume_login_grant R (token_fp C S c) (in_now J 0) d1 = (rg2, e2)" by fastforce
  with consume_grant [OF _ g2] d1 have "rg2 = Inr None" by simp
  with g2 d(2) show ?thesis
    by (simp add: exchange_login_grant_def fingerprint_ok [OF key] bind_def [of "rp_consume_login_grant _ _ _"]
        token_fp_def raise_def)
qed

section \<open>Sessions\<close>

lemma authenticate_eq:
  assumes "32 \<le> length (as_hmac_key S)" "inv d"
  shows "authenticate C S R now token d =
    (if token = [] then (Inl (AuthenticationError ''session token is required''), d)
     else case resolves d (token_fp C S token) now of
       None \<Rightarrow> (Inl (AuthenticationError ''session is invalid or expired''), d)
     | Some p \<Rightarrow> (Inr p, d))"
  using assms resolve [OF assms(2)]
  by (auto simp: authenticate_def fingerprint_ok bind_def [of "rp_resolve_session _ _ _"] token_fp_def
      raise_def ret_def split: option.splits)

lemma logout_ends:
  assumes "32 \<le> length (as_hmac_key S)" "inv d" "authenticate C S R now token d = (Inr p, d)"
    and "logout R env t p d = (Inr (), d')"
  shows "authenticate C S R later token d' = (Inl (AuthenticationError ''session is invalid or expired''), d')"
proof -
  from assms(1-3) have p: "resolves d (token_fp C S token) now = Some p" "token \<noteq> []"
    by (auto simp: authenticate_eq split: if_splits option.splits)
  from revoke [OF assms(2) p(1) assms(4) [unfolded logout_def]]
  have "inv d'" "resolves d' (token_fp C S token) later = None" by blast+
  then show ?thesis using assms(1) p(2) by (simp add: authenticate_eq)
qed

section \<open>From a login to its session\<close>

text \<open>What a completed login leaves behind: a sealed token under the code's fingerprint, and a
  session the token resolves to.\<close>

definition granted :: "crypto \<Rightarrow> auth_settings \<Rightarrow> inputs \<Rightarrow> 'd \<Rightarrow> bool" where
  "granted C S I d \<longleftrightarrow> inv d \<and>
     grants d (token_fp C S (token_urlsafe (in_random I 1))) =
       Some (seal C S (in_random I 2) [(''session_token'', token_urlsafe (in_random I 0))] GRANT_AAD,
         in_now I 0 + seconds (as_login_grant_ttl_seconds S)) \<and>
     (\<exists>p. resolves d (token_fp C S (token_urlsafe (in_random I 0))) (in_now I 0) = Some p \<and>
        pri_expires_at p = in_now I 0 + seconds (as_session_ttl_seconds S))"

lemma grant_session_ok:
  assumes ok: "crypto_ok C" "32 \<le> length (as_hmac_key S)" and s: "inv (fst s)"
    and run: "grant_session C S R I payload ident s = (Inr red, t)"
  shows "red_code red = token_urlsafe (in_random I 1) \<and> granted C S I (fst t)"
proof -
  have len: "length (token_fp C S x) \<le> 64" "length (token_fp C S x) \<le> 128" for x
    using token_fp_length [OF ok(1)] by simp_all
  from run obtain uid did sid p d1 d2 d3 d4 d5 dfp plat where
    steps: "rp_provision_identity R (in_env I 0) ident (fst s) = (Inr uid, d1)"
      "rp_register_device R (in_env I 1) uid dfp plat (in_now I 0) d1 = (Inr did, d2)"
      "rp_create_session R (in_env I 2) uid did (token_fp C S (token_urlsafe (in_random I 0)))
        (in_now I 0 + seconds (as_session_ttl_seconds S)) d2 = (Inr sid, d3)"
      "rp_resolve_session R (token_fp C S (token_urlsafe (in_random I 0))) (in_now I 0) d3 = (Inr (Some p), d4)"
      "rp_put_login_grant R (in_env I 3) (token_fp C S (token_urlsafe (in_random I 1)))
        (seal C S (in_random I 2) [(''session_token'', token_urlsafe (in_random I 0))] GRANT_AAD)
        (in_now I 0 + seconds (as_login_grant_ttl_seconds S)) d4 = (Inr (), d5)"
    and red: "red_code red = token_urlsafe (in_random I 1)" "fst t = d5"
    unfolding grant_session_def fingerprint_ok [OF ok(2)] random_token_ok [OF order_refl] bind_simps
      token_fp_def [symmetric]
    by (auto simp: bind_Inr_iff split: option.splits)
  have d: "inv d1" "inv d2" "inv d3"
    using provision [OF s steps(1)] register [of d1] create [of d2] steps(2,3) by blast+
  have "resolves d3 (token_fp C S (token_urlsafe (in_random I 0))) (in_now I 0) = Some p" "d4 = d3"
    using resolve [OF d(3)] steps(4) by auto
  moreover from created [OF d(2) steps(3) len(2) this(1)]
  have "pri_expires_at p = in_now I 0 + seconds (as_session_ttl_seconds S)" by blast
  moreover note put_grant [OF d(3) steps(5) [unfolded \<open>d4 = d3\<close>] len(1)]
  ultimately show ?thesis using red by (simp add: granted_def)
qed

lemma complete_login_ok:
  assumes ok: "crypto_ok C" "32 \<le> length (as_hmac_key S)" and s: "inv (fst s)"
    and run: "complete_login C S R Q limit I state c s = (Inr red, t)"
  shows "red_code red = token_urlsafe (in_random I 1) \<and> granted C S I (fst t)"
proof -
  from run obtain f d1 u payload ident where "rp_consume_flow R (token_fp C S state) (in_now I 0) (fst s) = (Inr (Some f), d1)"
    "grant_session C S R I payload ident u = (Inr red, t)" "fst u = d1"
    unfolding complete_login_def login_from_flow_def fingerprint_ok [OF ok(2)] bind_simps token_fp_def [symmetric]
    by (auto simp: bind_Inr_iff split: option.splits if_splits)
  moreover from this(1) consume_flow [OF s] have "inv d1" by blast
  ultimately show ?thesis using grant_session_ok [OF ok] by blast
qed

lemma exchange_granted:
  assumes ok: "crypto_ok C" "32 \<le> length (as_hmac_key S)" "0 < limit" "length (in_random I 2) = 12"
    and I: "in_random I 0 \<noteq> []" "in_random I 1 \<noteq> []" and d: "granted C S I d"
    and now: "in_now J 0 < in_now I 0 + seconds (as_login_grant_ttl_seconds S)"
      "in_now J 1 < in_now I 0 + seconds (as_session_ttl_seconds S)"
  shows "\<exists>p d'. exchange_login_grant C S R limit J (token_urlsafe (in_random I 1)) d =
      (Inr \<lparr>gra_token = token_urlsafe (in_random I 0), gra_principal = p\<rparr>, d') \<and>
    pri_expires_at p = in_now I 0 + seconds (as_session_ttl_seconds S) \<and>
    (\<forall>later < pri_expires_at p.
       authenticate C S R later (token_urlsafe (in_random I 0)) d' = (Inr p, d'))"
proof -
  let ?t = "token_urlsafe (in_random I 0)" let ?c = "token_urlsafe (in_random I 1)"
  have ne: "?t \<noteq> []" "?c \<noteq> []" using I token_urlsafe_nonempty by blast+
  from d obtain p where inv: "inv d"
    and p: "resolves d (token_fp C S ?t) (in_now I 0) = Some p"
      "pri_expires_at p = in_now I 0 + seconds (as_session_ttl_seconds S)"
    and g: "grants d (token_fp C S ?c) = Some (seal C S (in_random I 2) [(''session_token'', ?t)] GRANT_AAD,
      in_now I 0 + seconds (as_login_grant_ttl_seconds S))"
    unfolding granted_def by blast
  obtain rg d' where c: "rp_consume_login_grant R (token_fp C S ?c) (in_now J 0) d = (rg, d')" by fastforce
  from consume_grant [OF inv c] have rg: "rg = Inr (Some (seal C S (in_random I 2) [(''session_token'', ?t)] GRANT_AAD))"
    and d': "inv d'" "resolves d' = resolves d" using g now(1) by (auto simp: store_take_def)
  have auth: "authenticate C S R later ?t d' = (Inr p, d')" if "later < pri_expires_at p" for later
    using resolves_until [OF inv p(1), of later] that ne(1) d' authenticate_eq [OF ok(2) d'(1)] by simp
  have "open_sealed C S limit (seal C S (in_random I 2) [(''session_token'', ?t)] GRANT_AAD) GRANT_AAD =
      Inr [(''session_token'', JStr ?t)]"
    using open_seal [OF ok(1,4) _ ok(3), of "[(''session_token'', ?t)]"] by simp
  then have "exchange_login_grant C S R limit J ?c d = (Inr \<lparr>gra_token = ?t, gra_principal = p\<rparr>, d')"
    using c rg ne auth [of "in_now J 1"] now(2) p(2)
    by (simp add: exchange_login_grant_def session_from_grant_def fingerprint_ok [OF ok(2)]
        token_fp_def [symmetric] required_def dict_get_def bind_def [of "rp_consume_login_grant _ _ _"]
        bind_def [of "authenticate _ _ _ _ _"] ret_def)
  then show ?thesis using auth p(2) by blast
qed

end

section \<open>WebSocket tickets\<close>

text \<open>A stored ticket: its row is the only one with its fingerprint.\<close>

lemma put_ticket_row:
  assumes inv: "db_inv db" and put: "put_ws_ticket env fp sid channel e db = (Inr x, db')"
    and len: "length fp \<le> 64" "length channel \<le> 32"
  shows "\<exists>r. t_ticket_fingerprint r = fp \<and> t_session_id r = sid \<and> t_channel r = channel \<and>
    t_expires_at r = e \<and> r \<in> set (db_tickets db') \<and> db_sessions db' = db_sessions db \<and> db_inv db' \<and>
    (\<forall>t \<in> set (db_tickets db'). t_ticket_fingerprint t = fp \<longrightarrow> t = r)"
proof -
  from put_ws_ticket_ok [OF put] obtain r where r: "ticket_insertable r db"
    "db' = db\<lparr>db_tickets := db_tickets db @ [r]\<rparr>" "varchar 64 fp = Inr (t_ticket_fingerprint r)"
    "t_session_id r = sid" "varchar 32 channel = Inr (t_channel r)" "t_expires_at r = e" by blast
  then have "t_ticket_fingerprint r = fp" "t_channel r = channel"
    using varchar_same [OF r(3) len(1)] varchar_same [OF r(5) len(2)] by simp_all
  moreover have "t_ticket_fingerprint r \<notin> t_ticket_fingerprint ` set (db_tickets db)"
    using r(1) by (simp add: ticket_insertable_def)
  ultimately show ?thesis
    using r inv_put_ws_ticket [OF inv put] by (intro exI [of _ r]) (auto simp: image_iff)
qed

text \<open>Consuming it: once, on its channel, while its session lives.\<close>

lemma consume_ticket_row:
  assumes inv: "db_inv db" and r: "r \<in> set (db_tickets db)"
    "\<forall>t \<in> set (db_tickets db). t_ticket_fingerprint t = t_ticket_fingerprint r \<longrightarrow> t = r"
  shows "consume_ws_ticket (t_ticket_fingerprint r) channel now db =
    (if ticket_matches (t_ticket_fingerprint r) channel now db r
     then (Inr (Some (t_session_id r)), db\<lparr>db_tickets := filter (\<lambda>t. t \<noteq> r) (db_tickets db)\<rparr>)
     else (Inr None, db))"
proof -
  let ?P = "ticket_matches (t_ticket_fingerprint r) channel now db"
  have only: "?P t \<longleftrightarrow> t = r \<and> ?P r" if "t \<in> set (db_tickets db)" for t
    using r(2) that by (auto simp: ticket_matches_def)
  have "List.find ?P (db_tickets db) = (if ?P r then Some r else None)"
  proof (cases "List.find ?P (db_tickets db)")
    case None
    then show ?thesis using r(1) by (auto simp: find_None_all)
  next
    case (Some t)
    then show ?thesis using find_Some_set [OF Some] only by auto
  qed
  moreover have "filter (\<lambda>t. \<not> ?P t) (db_tickets db) =
      (if ?P r then filter (\<lambda>t. t \<noteq> r) (db_tickets db) else db_tickets db)"
  proof (cases "?P r")
    case True
    then show ?thesis using only by (simp cong: filter_cong)
  next
    case False
    then show ?thesis using only by (simp add: filter_id_conv)
  qed
  ultimately show ?thesis by (simp add: consume_ws_ticket_eq [OF inv])
qed

lemma service_consume_eq:
  assumes "32 \<le> length (as_hmac_key S)" "channel \<in> set WS_CHANNELS"
  shows "service_consume_ws_ticket C S (postgres col) now ticket channel db =
    (case consume_ws_ticket (token_fp C S ticket) channel now db of
       (Inl e, d) \<Rightarrow> (Inl e, d)
     | (Inr None, d) \<Rightarrow> (Inl (AuthenticationError ''WebSocket ticket is invalid or expired''), d)
     | (Inr (Some s), d) \<Rightarrow> (Inr s, d))"
  using assms by (simp add: service_consume_ws_ticket_def fingerprint_ok token_fp_def postgres_def
      bind_def raise_def ret_def split: prod.splits sum.splits option.splits)

lemma issue_ticket_ok:
  assumes "32 \<le> length (as_hmac_key S)"
    "issue_ws_ticket C S (postgres col) I p channel db = (Inr ticket, db')"
  shows "channel \<in> set WS_CHANNELS \<and> (channel = ''system.health'' \<longrightarrow> ''system.health.read'' \<in> pri_permissions p) \<and>
    ticket = token_urlsafe (in_random I 0) \<and>
    put_ws_ticket (in_env I 0) (token_fp C S ticket) (pri_session_id p) channel
      (in_now I 0 + seconds (as_ws_ticket_ttl_seconds S)) db = (Inr (), db')"
proof -
  let ?health = "''system.health'' :: string" and ?perm = "''system.health.read'' :: string"
  have channel: "channel \<in> set WS_CHANNELS"
    using assms(2) by (cases "channel \<in> set WS_CHANNELS") (simp_all add: issue_ws_ticket_def)
  obtain u where perm: "(if channel = ?health then require p ?perm else Inr ()) = Inr u"
    and run: "put_ws_ticket (in_env I 0) (token_fp C S (token_urlsafe (in_random I 0))) (pri_session_id p) channel
        (in_now I 0 + seconds (as_ws_ticket_ttl_seconds S)) db = (Inr (), db')"
      "ticket = token_urlsafe (in_random I 0)"
    using assms(2) channel
    unfolding issue_ws_ticket_def random_token_ok [OF order_refl] fingerprint_ok [OF assms(1)]
      bind_simps postgres_def repo_ops.simps token_fp_def [symmetric]
    by (cases "if channel = ?health then require p ?perm else Inr ()") (simp_all only: bind_Inr_iff bind_simps if_not_P not_not, auto)
  have "channel = ?health \<longrightarrow> ?perm \<in> pri_permissions p"
    using perm by (simp add: require_def split: if_splits)
  then show ?thesis using channel run by simp
qed

end
