(* ===== verification/Service_Properties.thy ===== *)
theory Service_Properties
  imports Service_Lemmas Auth_Properties
begin

text \<open>
  The correctness properties of the authentication service over the PostgreSQL repository, each
  with an instance that meets its hypotheses.  The example login comes first.
\<close>

section \<open>Example login\<close>

definition demo_crypto :: crypto where
  "demo_crypto = \<lparr>hmac_sha256_hex = (\<lambda>k m. take 64 (m @ replicate 64 CHR ''0'')),
     sha256 = (\<lambda>m. take 32 (m @ replicate 32 CHR ''0'')),
     aesgcm_encrypt = (\<lambda>k n m a. m), aesgcm_decrypt = (\<lambda>k n c a. Some c)\<rparr>"

definition demo_settings :: auth_settings where
  "demo_settings = \<lparr>as_runtime = \<lparr>rs_service_name = ''auth'', rs_environment = ''test'',
       rs_database_url = ''postgresql://db'', rs_log_level = ''INFO'', rs_otlp_endpoint = None,
       rs_cors_origins = [], rs_max_body_bytes = 1048576, rs_request_timeout_seconds = FFin 15 0\<rparr>,
     as_issuer = ''https://id'', as_client_id = ''c'', as_client_secret = ''hush'',
     as_redirect_uri = ''https://a/cb'', as_hmac_key = replicate 32 CHR ''k'',
     as_desktop_callback_uri = ''pentagon5://auth'', as_session_ttl_seconds = 28800,
     as_flow_ttl_seconds = 300, as_login_grant_ttl_seconds = 60, as_ws_ticket_ttl_seconds = 30,
     as_ws_max_frame_bytes = 16384, as_ws_max_subscriptions = 1, as_web_cookie_mode = False\<rparr>"

definition demo_oidc :: "unit oidc_ops" where
  "demo_oidc = \<lparr>oi_authorization_url = (\<lambda>state nonce challenge. ret (''https://id?'' @ state)),
     oi_exchange = (\<lambda>c verifier nonce. ret [(''sub'', JStr ''s1''), (''email'', JStr ''A@b'')])\<rparr>"

text \<open>Random draws of 32 bytes, 12 for the one that is a cipher nonce.\<close>

definition demo_inputs :: "int \<Rightarrow> nat \<Rightarrow> inputs" where
  "demo_inputs start nonce = \<lparr>in_now = (\<lambda>k. start), in_random = (\<lambda>k. replicate (if k = nonce then 12 else 32)
       (char_of (65 + k))), in_env = (\<lambda>k. demo_env (start + 10 * int k))\<rparr>"

definition demo_state :: string where
  "demo_state = token_urlsafe (replicate 32 CHR ''A'')"

definition demo_started :: "auth_db \<times> unit" where
  "demo_started = snd (start_login demo_crypto demo_settings (postgres id) demo_oidc
     (demo_inputs 1000 3) ''device-1'' ''linux'' (empty_db, ()))"

definition demo_completed :: "login_redirect res \<times> auth_db \<times> unit" where
  "demo_completed = complete_login demo_crypto demo_settings (postgres id) demo_oidc 10
     (demo_inputs 2000 2) demo_state ''code'' demo_started"

lemma demo_crypto_ok: "crypto_ok demo_crypto"
  by (auto simp: crypto_ok_def demo_crypto_def min_def)

lemma demo_key: "32 \<le> length (as_hmac_key demo_settings)"
  by (simp add: demo_settings_def)

lemmas demo_defs = demo_completed_def demo_started_def demo_state_def demo_settings_def
  demo_inputs_def demo_oidc_def

lemma demo_started_inv: "db_inv (fst demo_started)"
  unfolding demo_defs by code_simp

lemma demo_login_ok:
  "\<exists>red. demo_completed = (Inr red, snd demo_completed) \<and> red_code red = token_urlsafe (replicate 32 CHR ''B'')"
proof -
  have "case fst demo_completed of Inr red \<Rightarrow> red_code red = token_urlsafe (replicate 32 CHR ''B'') | _ \<Rightarrow> False"
    unfolding demo_defs by code_simp
  then show ?thesis by (auto simp: prod_eq_iff split: sum.splits)
qed

lemma demo_state_nonempty: "demo_state \<noteq> []"
  unfolding demo_state_def by code_simp

section \<open>Refinement\<close>

text \<open>C16: The repository implements two abstract one-time stores with expiry and a map from token
  fingerprints to principals: storing a code adds a fresh entry, consuming it returns and removes
  an unexpired entry, an error changes nothing, and no operation on one store touches the other or
  the sessions.\<close>

theorem repository_refines_stores:
  assumes "db_inv db"
  shows "(\<exists>db'. consume_flow k now db = (Inr (store_take k now (flows_view db)), db') \<and>
      flows_view db' = store_drop k now (flows_view db) \<and> grants_view db' = grants_view db \<and>
      resolves_view col db' = resolves_view col db) \<and>
    (\<exists>db'. consume_login_grant k now db = (Inr (store_take k now (grants_view db)), db') \<and>
      grants_view db' = store_drop k now (grants_view db) \<and> flows_view db' = flows_view db \<and>
      resolves_view col db' = resolves_view col db) \<and>
    (length k \<le> 64 \<longrightarrow> (case put_login_grant env k box e db of
        (Inr _, db') \<Rightarrow> k \<notin> dom (grants_view db) \<and> grants_view db' = (grants_view db)(k \<mapsto> (box, e)) \<and>
          flows_view db' = flows_view db \<and> resolves_view col db' = resolves_view col db
      | (Inl _, db') \<Rightarrow> db' = db)) \<and>
    (length k \<le> 64 \<longrightarrow> (case put_flow env k box uri e db of
        (Inr _, db') \<Rightarrow> k \<notin> dom (flows_view db) \<and>
          flows_view db' = (flows_view db)(k \<mapsto> (\<lparr>flow_encrypted_payload = box, flow_redirect_uri = uri\<rparr>, e)) \<and>
          grants_view db' = grants_view db \<and> resolves_view col db' = resolves_view col db
      | (Inl _, db') \<Rightarrow> db' = db)) \<and>
    resolve_session col k now db = (Inr (resolves_view col db k now), db)"
proof -
  note laws = postgres.consume_flow [unfolded postgres_def repo_ops.simps]
    postgres.consume_grant [unfolded postgres_def repo_ops.simps]
    postgres.put_grant [unfolded postgres_def repo_ops.simps]
    postgres.put_flow [unfolded postgres_def repo_ops.simps]
  show ?thesis
  proof (intro conjI impI)
    obtain r db' where "consume_flow k now db = (r, db')" by fastforce
    with laws(1) [OF assms this, of col] show "\<exists>db'. consume_flow k now db = (Inr (store_take k now (flows_view db)), db') \<and>
      flows_view db' = store_drop k now (flows_view db) \<and> grants_view db' = grants_view db \<and>
      resolves_view col db' = resolves_view col db" by blast
  next
    obtain r db' where "consume_login_grant k now db = (r, db')" by fastforce
    with laws(2) [OF assms this, of col] show "\<exists>db'. consume_login_grant k now db = (Inr (store_take k now (grants_view db)), db') \<and>
      grants_view db' = store_drop k now (grants_view db) \<and> flows_view db' = flows_view db \<and>
      resolves_view col db' = resolves_view col db" by blast
  next
    assume len: "length k \<le> 64"
    obtain r db' where put: "put_login_grant env k box e db = (r, db')" by fastforce
    show "case put_login_grant env k box e db of
        (Inr _, db') \<Rightarrow> k \<notin> dom (grants_view db) \<and> grants_view db' = (grants_view db)(k \<mapsto> (box, e)) \<and>
          flows_view db' = flows_view db \<and> resolves_view col db' = resolves_view col db
      | (Inl _, db') \<Rightarrow> db' = db"
      using put method_error(3) [of env k box e db _ db'] laws(3) [OF assms _ len, of env box e _ db' col]
      by (cases r) simp_all
  next
    assume len: "length k \<le> 64"
    obtain r db' where put: "put_flow env k box uri e db = (r, db')" by fastforce
    show "case put_flow env k box uri e db of
        (Inr _, db') \<Rightarrow> k \<notin> dom (flows_view db) \<and>
          flows_view db' = (flows_view db)(k \<mapsto> (\<lparr>flow_encrypted_payload = box, flow_redirect_uri = uri\<rparr>, e)) \<and>
          grants_view db' = grants_view db \<and> resolves_view col db' = resolves_view col db
      | (Inl _, db') \<Rightarrow> db' = db"
      using put method_error(1) [of env k box uri e db _ db'] laws(4) [OF assms _ len, of env box uri e _ db' col]
      by (cases r) simp_all
  qed (rule resolve_session_view [OF assms])
qed

theorem repository_refines_stores_witness:
  "resolve_session id ''tok'' 5 demo_db = (Inr (resolves_view id demo_db ''tok'' 5), demo_db) \<and>
   (\<exists>db'. consume_flow ''fp'' 5 demo_db = (Inr (store_take ''fp'' 5 (flows_view demo_db)), db'))"
  using repository_refines_stores [OF demo_inv, of "''fp''" 5 id]
    repository_refines_stores [OF demo_inv, of "''tok''" 5 id] by blast

text \<open>C17: What the service seals it opens again unchanged, under the same associated data.\<close>

theorem seal_round_trip:
  assumes "crypto_ok C" "length nonce = 12" "distinct (map fst payload)" "0 < limit"
  shows "open_sealed C S limit (seal C S nonce payload aad) aad =
    Inr (map (\<lambda>(k, v). (k, JStr v)) payload)"
  using assms by (rule open_seal)

theorem seal_round_trip_witness:
  "open_sealed demo_crypto demo_settings 10 (seal demo_crypto demo_settings (replicate 12 CHR ''n'')
      [(''session_token'', ''t\<newline>'')] GRANT_AAD) GRANT_AAD = Inr [(''session_token'', JStr ''t\<newline>'')]"
  using seal_round_trip [OF demo_crypto_ok, of "replicate 12 CHR ''n''" "[(''session_token'', ''t\<newline>'')]" 10]
  by simp

section \<open>Login\<close>

text \<open>The code of a completed login, exchanged before it expires, yields a session whose token
  authenticates as the same principal until the session expires.\<close>

theorem completed_login_authenticates:
  assumes "crypto_ok C" "32 \<le> length (as_hmac_key S)" "0 < limit" "db_inv db"
    and "length (in_random I 0) = 32" "length (in_random I 1) = 32" "length (in_random I 2) = 12"
    and "complete_login C S (postgres col) Q limit I state auth_code (db, q) = (Inr red, (db1, q1))"
    and "in_now J 0 < in_now I 0 + seconds (as_login_grant_ttl_seconds S)"
    and "in_now J 1 < in_now I 0 + seconds (as_session_ttl_seconds S)"
  shows "\<exists>token p db2. exchange_login_grant C S (postgres col) limit J (red_code red) db1 =
      (Inr \<lparr>gra_token = token, gra_principal = p\<rparr>, db2) \<and>
    pri_expires_at p = in_now I 0 + seconds (as_session_ttl_seconds S) \<and>
    (\<forall>now < pri_expires_at p. authenticate C S (postgres col) now token db2 = (Inr p, db2))"
proof -
  have ne: "in_random I 0 \<noteq> []" "in_random I 1 \<noteq> []" using assms(5,6) by auto
  from postgres.complete_login_ok [OF assms(1,2) _ assms(8)] assms(4)
  have code: "red_code red = token_urlsafe (in_random I 1)" and g: "postgres.granted col C S I db1"
    by simp_all
  from postgres.exchange_granted [OF assms(1-3,7) ne g assms(9,10)] show ?thesis
    unfolding code by blast
qed

theorem completed_login_authenticates_witness:
  "\<exists>token p db2. exchange_login_grant demo_crypto demo_settings (postgres id) 10 (demo_inputs 3000 9)
     (token_urlsafe (replicate 32 CHR ''B'')) (fst (snd demo_completed)) =
       (Inr \<lparr>gra_token = token, gra_principal = p\<rparr>, db2) \<and>
     authenticate demo_crypto demo_settings (postgres id) 4000 token db2 = (Inr p, db2)"
proof -
  obtain red where red: "demo_completed = (Inr red, snd demo_completed)"
    "red_code red = token_urlsafe (replicate 32 CHR ''B'')" using demo_login_ok by blast
  have run: "complete_login demo_crypto demo_settings (postgres id) demo_oidc 10 (demo_inputs 2000 2)
      demo_state ''code'' (fst demo_started, ()) = (Inr red, (fst (snd demo_completed), ()))"
  proof -
    have "(fst demo_started, ()) = demo_started" "(fst (snd demo_completed), ()) = snd demo_completed"
      by (simp_all add: prod_eq_iff)
    then show ?thesis using red(1) by (simp only: demo_completed_def [symmetric])
  qed
  have len: "length (in_random (demo_inputs 2000 2) 0) = 32" "length (in_random (demo_inputs 2000 2) 1) = 32"
    "length (in_random (demo_inputs 2000 2) 2) = 12" by (simp_all add: demo_inputs_def)
  have now: "in_now (demo_inputs 3000 9) 0 < in_now (demo_inputs 2000 2) 0 + seconds (as_login_grant_ttl_seconds demo_settings)"
    "in_now (demo_inputs 3000 9) 1 < in_now (demo_inputs 2000 2) 0 + seconds (as_session_ttl_seconds demo_settings)"
    "4000 < in_now (demo_inputs 2000 2) 0 + seconds (as_session_ttl_seconds demo_settings)"
    by (simp_all add: demo_inputs_def demo_settings_def seconds_def)
  have "0 < (10 :: nat)" by simp
  from completed_login_authenticates [OF demo_crypto_ok demo_key this demo_started_inv len run now(1,2)]
  obtain token p db2 where e: "exchange_login_grant demo_crypto demo_settings (postgres id) 10 (demo_inputs 3000 9)
      (red_code red) (fst (snd demo_completed)) = (Inr \<lparr>gra_token = token, gra_principal = p\<rparr>, db2)"
    and p: "pri_expires_at p = in_now (demo_inputs 2000 2) 0 + seconds (as_session_ttl_seconds demo_settings)"
      "\<forall>now < pri_expires_at p. authenticate demo_crypto demo_settings (postgres id) now token db2 = (Inr p, db2)"
    by blast
  have "authenticate demo_crypto demo_settings (postgres id) 4000 token db2 = (Inr p, db2)"
    using p now(3) by simp
  with e show ?thesis unfolding red(2) by blast
qed

text \<open>An OIDC state value is spent by its first use: whatever became of that login, a second
  one with the same state is refused.\<close>

theorem login_state_single_use:
  assumes "crypto_ok C" "32 \<le> length (as_hmac_key S)" "db_inv (fst s)"
    and "state \<noteq> []" "c \<noteq> []" "c' \<noteq> []" "in_now I 0 \<le> in_now J 0"
    and "complete_login C S (postgres col) Q limit I state c s = (r, t)"
  shows "fst (complete_login C S (postgres col) Q limit J state c' t) =
    Inl (AuthenticationError ''authorization transaction is invalid or expired'')"
  using assms(1-6) assms(8) assms(7) by (rule postgres.complete_login_replay)

theorem login_state_single_use_witness:
  "fst (complete_login demo_crypto demo_settings (postgres id) demo_oidc 10 (demo_inputs 5000 2)
     demo_state ''code2'' (snd demo_completed)) =
   Inl (AuthenticationError ''authorization transaction is invalid or expired'')"
proof -
  have "complete_login demo_crypto demo_settings (postgres id) demo_oidc 10 (demo_inputs 2000 2)
      demo_state ''code'' demo_started = (fst demo_completed, snd demo_completed)"
    by (simp add: demo_completed_def)
  from login_state_single_use [OF demo_crypto_ok demo_key demo_started_inv demo_state_nonempty _ _ _ this]
  show ?thesis by (simp add: demo_inputs_def)
qed

text \<open>A login code is spent by its first use, successful or not.\<close>

theorem login_code_single_use:
  assumes "32 \<le> length (as_hmac_key S)" "db_inv db" "c \<noteq> []" "in_now I 0 \<le> in_now J 0"
    and "exchange_login_grant C S (postgres col) limit I c db = (r, db1)"
  shows "fst (exchange_login_grant C S (postgres col) limit J c db1) =
    Inl (AuthenticationError ''login grant is invalid or expired'')"
  using assms(1-3) assms(5) assms(4) by (rule postgres.exchange_replay)

theorem login_code_single_use_witness:
  "fst (exchange_login_grant demo_crypto demo_settings (postgres id) 10 (demo_inputs 6000 9) ''code''
     (snd (exchange_login_grant demo_crypto demo_settings (postgres id) 10 (demo_inputs 3000 9) ''code'' demo_db))) =
   Inl (AuthenticationError ''login grant is invalid or expired'')"
  by (rule login_code_single_use [OF demo_key demo_inv _ _ prod.collapse [symmetric]])
    (simp_all add: demo_inputs_def)

section \<open>Sessions\<close>

text \<open>After a logout the token no longer authenticates, at any time.\<close>

theorem logout_ends_session:
  assumes "32 \<le> length (as_hmac_key S)" "db_inv db"
    and "authenticate C S (postgres col) now token db = (Inr p, db)"
    and "logout (postgres col) env t p db = (Inr (), db1)"
  shows "authenticate C S (postgres col) later token db1 =
    (Inl (AuthenticationError ''session is invalid or expired''), db1)"
  using assms by (rule postgres.logout_ends)

definition demo_session :: auth_db where
  "demo_session = snd (create_session (demo_env 60) 20 30
     (token_fp demo_crypto demo_settings ''token'') 900 demo_db)"

lemmas demo_session_defs = demo_session_def demo_db_def demo_calls_def token_fp_def demo_settings_def

lemma demo_session_inv: "db_inv demo_session"
  unfolding demo_session_defs by code_simp

lemma demo_authenticates:
  "\<exists>p. authenticate demo_crypto demo_settings (postgres id) 5 ''token'' demo_session = (Inr p, demo_session) \<and>
     pri_session_id p = 60"
proof -
  have "case resolves_view id demo_session (token_fp demo_crypto demo_settings ''token'') 5 of
      Some p \<Rightarrow> pri_session_id p = 60 | None \<Rightarrow> False"
    unfolding demo_session_defs by code_simp
  then show ?thesis
    using postgres.authenticate_eq [OF demo_key demo_session_inv] by (auto split: option.splits)
qed

theorem logout_ends_session_witness:
  "\<exists>db1. authenticate demo_crypto demo_settings (postgres id) 7 ''token'' db1 =
    (Inl (AuthenticationError ''session is invalid or expired''), db1)"
proof -
  obtain p where p: "authenticate demo_crypto demo_settings (postgres id) 5 ''token'' demo_session =
      (Inr p, demo_session)" "pri_session_id p = 60" using demo_authenticates by blast
  have "fst (revoke_session (demo_env 70) 60 6 demo_session) = Inr ()"
    unfolding demo_session_defs by code_simp
  then have "logout (postgres id) (demo_env 70) 6 p demo_session =
      (Inr (), snd (revoke_session (demo_env 70) 60 6 demo_session))"
    using p(2) by (simp add: logout_def postgres_def prod_eq_iff)
  from logout_ends_session [OF demo_key demo_session_inv p(1) this] show ?thesis by blast
qed

section \<open>WebSocket tickets\<close>

lemma consumed_ticket_gone:
  assumes "db_inv db" "t \<in> set (db_tickets db)"
    and "\<forall>x \<in> set (db_tickets db). t_ticket_fingerprint x = t_ticket_fingerprint t \<longrightarrow> x = t"
    and "ticket_matches (t_ticket_fingerprint t) channel now db t"
  shows "consume_ws_ticket (t_ticket_fingerprint t) c later (db\<lparr>db_tickets := filter (\<lambda>x. x \<noteq> t) (db_tickets db)\<rparr>) =
    (Inr None, db\<lparr>db_tickets := filter (\<lambda>x. x \<noteq> t) (db_tickets db)\<rparr>)"
proof -
  let ?fp = "t_ticket_fingerprint t" let ?db = "db\<lparr>db_tickets := filter (\<lambda>x. x \<noteq> t) (db_tickets db)\<rparr>"
  have "snd (consume_ws_ticket ?fp channel now db) = ?db"
    using consume_ticket_row [OF assms(1,2) assms(3)] assms(4) by simp
  then have inv: "db_inv ?db" using inv_consume_ws_ticket [OF assms(1), of ?fp channel now] by (metis surj_pair snd_conv)
  have none: "List.find (ticket_matches ?fp c later ?db) (db_tickets ?db) = None"
    using assms(3) by (auto simp: find_None_all ticket_matches_def)
  then have "filter (\<lambda>x. \<not> ticket_matches ?fp c later ?db x) (db_tickets ?db) = db_tickets ?db"
    unfolding find_None_all filter_id_conv by blast
  then show ?thesis using none by (simp add: consume_ws_ticket_eq [OF inv])
qed

text \<open>C18: A ticket is issued only for a known channel, and for system health only with its
  permission.  Before it expires, and while its session lives, it is accepted once, for the session
  and on the channel it was issued for, and never again.\<close>

theorem ws_ticket_single_use:
  assumes "crypto_ok C" "32 \<le> length (as_hmac_key S)" "db_inv db"
    and "issue_ws_ticket C S (postgres col) I p channel db = (Inr ticket, db1)"
    and "now < in_now I 0 + seconds (as_ws_ticket_ttl_seconds S)"
    and "s \<in> set (db_sessions db)" "s_id s = pri_session_id p" "s_revoked_at s = None" "now < s_expires_at s"
  shows "channel \<in> set WS_CHANNELS \<and>
    (channel = ''system.health'' \<longrightarrow> ''system.health.read'' \<in> pri_permissions p) \<and>
    (\<exists>db2. service_consume_ws_ticket C S (postgres col) now ticket channel db1 = (Inr (pri_session_id p), db2) \<and>
      (\<forall>later. \<forall>c \<in> set WS_CHANNELS. service_consume_ws_ticket C S (postgres col) later ticket c db2 =
        (Inl (AuthenticationError ''WebSocket ticket is invalid or expired''), db2))) \<and>
    (\<forall>c \<in> set WS_CHANNELS - {channel}. service_consume_ws_ticket C S (postgres col) now ticket c db1 =
      (Inl (AuthenticationError ''WebSocket ticket is invalid or expired''), db1))"
proof -
  let ?fp = "token_fp C S ticket"
  note issued = issue_ticket_ok [OF assms(2,4)]
  then have len: "length channel \<le> 32" by (auto simp: WS_CHANNELS_def)
  have put: "put_ws_ticket (in_env I 0) ?fp (pri_session_id p) channel
      (in_now I 0 + seconds (as_ws_ticket_ttl_seconds S)) db = (Inr (), db1)" using issued by blast
  have "length ?fp \<le> 64" using token_fp_length [OF assms(1)] by simp
  from put_ticket_row [OF assms(3) put this len]
  obtain r where r: "t_ticket_fingerprint r = ?fp" "t_session_id r = pri_session_id p" "t_channel r = channel"
    "t_expires_at r = in_now I 0 + seconds (as_ws_ticket_ttl_seconds S)" "r \<in> set (db_tickets db1)"
    "db_sessions db1 = db_sessions db" "db_inv db1"
    "\<forall>t \<in> set (db_tickets db1). t_ticket_fingerprint t = ?fp \<longrightarrow> t = r"
    by blast
  note consume = consume_ticket_row [OF r(7,5), unfolded r(1), OF r(8)]
  have other: "\<not> ticket_matches ?fp c now db1 r" if "c \<noteq> channel" for c
    using r(3) that by (simp add: ticket_matches_def)
  let ?db2 = "db1\<lparr>db_tickets := filter (\<lambda>t. t \<noteq> r) (db_tickets db1)\<rparr>"
  have "\<exists>s \<in> set (db_sessions db1). t_session_id r = s_id s \<and> s_revoked_at s = None \<and> now < s_expires_at s"
    by (intro bexI [of _ s]) (use r(2,6) assms(6-9) in simp_all)
  then have m: "ticket_matches ?fp channel now db1 r"
    using r(1,3,4) assms(5) by (simp add: ticket_matches_def)
  have first: "service_consume_ws_ticket C S (postgres col) now ticket channel db1 =
      (Inr (pri_session_id p), ?db2)"
    using m r(2) by (simp add: service_consume_eq [OF assms(2) conjunct1 [OF issued]] consume)
  have gone: "consume_ws_ticket ?fp c later ?db2 = (Inr None, ?db2)" for c later
    using consumed_ticket_gone [OF r(7,5), unfolded r(1), OF r(8) m] .
  have "service_consume_ws_ticket C S (postgres col) later ticket c ?db2 =
      (Inl (AuthenticationError ''WebSocket ticket is invalid or expired''), ?db2)"
    if "c \<in> set WS_CHANNELS" for later c
    by (simp add: service_consume_eq [OF assms(2) that] gone)
  moreover have "service_consume_ws_ticket C S (postgres col) now ticket c db1 =
      (Inl (AuthenticationError ''WebSocket ticket is invalid or expired''), db1)"
    if "c \<in> set WS_CHANNELS - {channel}" for c
    using that other [of c] by (simp add: service_consume_eq [OF assms(2)] consume)
  ultimately show ?thesis using issued first by blast
qed

theorem ws_ticket_single_use_witness:
  "\<exists>ticket db1 db2. service_consume_ws_ticket demo_crypto demo_settings (postgres id) 7 ticket ''session.events'' db1 =
      (Inr 60, db2) \<and>
    service_consume_ws_ticket demo_crypto demo_settings (postgres id) 8 ticket ''session.events'' db2 =
      (Inl (AuthenticationError ''WebSocket ticket is invalid or expired''), db2)"
proof -
  obtain p :: principal where p: "pri_session_id p = 60" using demo_authenticates by blast
  let ?run = "issue_ws_ticket demo_crypto demo_settings (postgres id) (demo_inputs 6 9) p ''session.events'' demo_session"
  let ?put = "put_ws_ticket (in_env (demo_inputs 6 9) 0) (token_fp demo_crypto demo_settings
      (token_urlsafe (in_random (demo_inputs 6 9) 0))) 60 ''session.events''
      (in_now (demo_inputs 6 9) 0 + seconds 30) demo_session"
  have "fst ?put = Inr ()" unfolding demo_session_defs demo_inputs_def by code_simp
  then have "?run = (Inr (token_urlsafe (in_random (demo_inputs 6 9) 0)), snd ?put)"
    using p demo_key by (cases ?put) (simp add: issue_ws_ticket_def random_token_ok fingerprint_ok
        token_fp_def [symmetric] postgres_def WS_CHANNELS_def bind_def ret_def, simp add: demo_settings_def)
  moreover have "\<exists>s \<in> set (db_sessions demo_session). s_id s = 60 \<and> s_revoked_at s = None \<and> 7 < s_expires_at s"
    unfolding demo_session_defs by code_simp
  moreover have "7 < in_now (demo_inputs 6 9) 0 + seconds (as_ws_ticket_ttl_seconds demo_settings)"
    by (simp add: demo_inputs_def demo_settings_def seconds_def)
  moreover have "''session.events'' \<in> set WS_CHANNELS" by (simp add: WS_CHANNELS_def)
  ultimately show ?thesis
    using ws_ticket_single_use [OF demo_crypto_ok demo_key demo_session_inv, of id _ p "''session.events''"] p
    by metis
qed

end
