(* ===== verification/IsoTime.thy ===== *)
theory IsoTime
  imports Json_Text Security
begin

text \<open>
  \<open>datetime\<close> texts: \<open>isoformat\<close> of a UTC time stamp, and \<open>datetime.fromisoformat\<close> as CPython 3.12's
  C code reads a text that ends in \<open>+00:00\<close>, on the UTF-8 bytes of the text.
\<close>

section \<open>The calendar\<close>

definition leap_year :: "int \<Rightarrow> bool" where
  "leap_year y \<longleftrightarrow> y mod 4 = 0 \<and> (y mod 100 \<noteq> 0 \<or> y mod 400 = 0)"

definition month_days :: "bool \<Rightarrow> int \<Rightarrow> int" where
  "month_days leap m = (if m = 2 then (if leap then 29 else 28)
     else if m \<in> {4, 6, 9, 11} then 30 else 31)"

definition date_ok :: "int \<Rightarrow> int \<Rightarrow> int \<Rightarrow> bool" where
  "date_ok y m d \<longleftrightarrow> 1 \<le> y \<and> y \<le> 9999 \<and> 1 \<le> m \<and> m \<le> 12 \<and> 1 \<le> d \<and> d \<le> month_days (leap_year y) m"

definition days_before_year :: "int \<Rightarrow> int" where
  "days_before_year y = (y - 1) * 365 + (y - 1) div 4 - (y - 1) div 100 + (y - 1) div 400"

text \<open>Days of a year before a month that is not leap, for months 1 to 12.\<close>

definition days_before_month :: "int \<Rightarrow> int" where
  "days_before_month m = [0, 0, 31, 59, 90, 120, 151, 181, 212, 243, 273, 304, 334] ! nat m"

definition month_day :: "bool \<Rightarrow> int \<Rightarrow> int \<times> int" where
  "month_day leap n =
     (let m = (n + 50) div 32;
          start = days_before_month m + (if 2 < m \<and> leap then 1 else 0)
      in if n < start then (m - 1, n - (start - month_days leap (m - 1)) + 1)
         else (m, n - start + 1))"

definition ymd_of_ordinal :: "int \<Rightarrow> int \<times> int \<times> int" where
  "ymd_of_ordinal ordinal =
     (let n400 = (ordinal - 1) div 146097; a = (ordinal - 1) mod 146097;
          n100 = a div 36524; b = a mod 36524;
          n4 = b div 1461; c = b mod 1461;
          n1 = c div 365; n = c mod 365;
          year = n400 * 400 + 1 + n100 * 100 + n4 * 4 + n1
      in if n1 = 4 \<or> n100 = 4 then (year - 1, 12, 31)
         else (let (m, d) = month_day (n1 = 3 \<and> (n4 \<noteq> 24 \<or> n100 = 3)) n in (year, m, d)))"

section \<open>Printing\<close>

definition padded :: "nat \<Rightarrow> int \<Rightarrow> string" where
  "padded w n = map (\<lambda>i. hex_digit (n div 10 ^ (w - 1 - i) mod 10)) [0..<w]"

text \<open>Microseconds since the epoch as \<open>YYYY-MM-DDTHH:MM:SS[.ffffff]\<close>.\<close>

definition isoformat :: "int \<Rightarrow> string" where
  "isoformat t =
     (let (y, m, d) = ymd_of_ordinal (t div 86400000000 + 719163);
          us = t mod 86400000000; s = us div 1000000; f = us mod 1000000
      in padded 4 y @ ''-'' @ padded 2 m @ ''-'' @ padded 2 d @ ''T'' @ padded 2 (s div 3600) @ '':'' @
         padded 2 (s div 60 mod 60) @ '':'' @ padded 2 (s mod 60) @
         (if f = 0 then [] else ''.'' @ padded 6 f))"

section \<open>Reading\<close>

definition iso_digits :: "nat \<Rightarrow> string \<Rightarrow> (int \<times> string) option" where
  "iso_digits n s =
     (if length s < n \<or> \<not> list_all is_dec_digit (take n s) then None
      else Some (dec_value (take n s), drop n s))"

text \<open>Where the date ends: the characters after the year tell the formats apart.\<close>

definition separator_at :: "string \<Rightarrow> nat option" where
  "separator_at s =
     (let n = length s in
      if n = 7 then Some 7
      else if s ! 4 = CHR ''-'' then
        (if s ! 5 = CHR ''W'' then
           (if 8 < n \<and> s ! 8 = CHR ''-'' then
              (if n = 9 then None else if 10 < n \<and> is_dec_digit (s ! 10) then Some 8 else Some 10)
            else Some 8)
         else Some 10)
      else if s ! 4 = CHR ''W'' then
        (let pos = 7 + length (takeWhile is_dec_digit (drop 7 s))
         in if pos < 9 then Some pos else if pos mod 2 = 0 then Some 7 else Some 8)
      else Some 8)"

text \<open>An ISO week date names a day from year 1 to 9999.\<close>

definition week_date_ok :: "int \<Rightarrow> int \<Rightarrow> int \<Rightarrow> bool" where
  "week_date_ok y w d =
     (let first = (days_before_year y + 7) mod 7;
          monday = days_before_year y + 1 - first + (if 3 < first then 7 else 0);
          ordinal = monday + (w - 1) * 7 + d - 1
      in 1 \<le> y \<and> y \<le> 9999 \<and>
         (1 \<le> w \<and> w \<le> 52 \<or> w = 53 \<and> (first = 3 \<or> first = 2 \<and> leap_year y)) \<and>
         1 \<le> d \<and> d \<le> 7 \<and> 1 \<le> ordinal \<and> ordinal \<le> 3652059)"

definition skip_char :: "char \<Rightarrow> string \<Rightarrow> string option" where
  "skip_char c s = (if s \<noteq> [] \<and> hd s = c then Some (tl s) else None)"

text \<open>The date is the first \<open>n\<close> characters.\<close>

definition iso_date_ok :: "string \<Rightarrow> nat \<Rightarrow> bool" where
  "iso_date_ok s n =
     (case iso_digits 4 s of
        None \<Rightarrow> False
      | Some (y, p) \<Rightarrow>
          let dash = (p \<noteq> [] \<and> hd p = CHR ''-''); p1 = (if dash then tl p else p);
              skip = (\<lambda>q. if dash then skip_char CHR ''-'' q else Some q)
          in if p1 \<noteq> [] \<and> hd p1 = CHR ''W'' then
               (case iso_digits 2 (tl p1) of
                  None \<Rightarrow> False
                | Some (w, p2) \<Rightarrow>
                    if length s - length p2 < n then
                      (case skip p2 of
                         None \<Rightarrow> False
                       | Some p3 \<Rightarrow> (case iso_digits 1 p3 of
                            None \<Rightarrow> False | Some (d, _) \<Rightarrow> week_date_ok y w d))
                    else week_date_ok y w 1)
             else
               (case iso_digits 2 p1 of
                  None \<Rightarrow> False
                | Some (m, p2) \<Rightarrow>
                    (case skip p2 of
                       None \<Rightarrow> False
                     | Some p3 \<Rightarrow> (case iso_digits 2 p3 of
                          None \<Rightarrow> False
                        | Some (d, p4) \<Rightarrow> length s - length p4 = n \<and> date_ok y m d))))"

text \<open>\<open>HH[:?MM[:?SS[.f...]]]\<close> up to the time zone; text after six digits of the fraction is skipped.\<close>

fun iso_time_from :: "nat \<Rightarrow> bool \<Rightarrow> int list \<Rightarrow> string \<Rightarrow> int list option" where
  "iso_time_from i colon vals p =
     (case iso_digits 2 p of
        None \<Rightarrow> None
      | Some (v, q) \<Rightarrow>
          let vals1 = vals @ [v]; c = (if q = [] then CHR 0x00 else hd q); r = tl q;
              colon1 = (if vals = [] then c = CHR '':'' else colon);
              fraction = (\<lambda>r. if list_all is_dec_digit (take 6 r) then Some vals1 else None)
          in if r = [] then Some vals1
             else if colon1 \<and> c = CHR '':'' then
               (case i of 0 \<Rightarrow> fraction r | Suc j \<Rightarrow> iso_time_from j colon1 vals1 r)
             else if c = CHR ''.'' \<or> c = CHR '','' then fraction r
             else if \<not> colon1 then
               (case i of 0 \<Rightarrow> fraction q | Suc j \<Rightarrow> iso_time_from j colon1 vals1 q)
             else None)"

definition time_fields_ok :: "int list \<Rightarrow> bool" where
  "time_fields_ok vals \<longleftrightarrow> list_all2 (<) vals (take (length vals) [24, 60, 60])"

definition is_zone_mark :: "char \<Rightarrow> bool" where
  "is_zone_mark c \<longleftrightarrow> c = CHR ''+'' \<or> c = CHR ''-'' \<or> c = CHR ''Z''"

text \<open>\<open>fromisoformat(body + "+00:00")\<close> returns a time stamp whose offset is zero.\<close>

definition iso_utc_ok :: "string \<Rightarrow> bool" where
  "iso_utc_ok body =
     (let s = utf8 body @ ''+00:00'' in
      7 \<le> length s \<and>
      (case separator_at s of
         None \<Rightarrow> False
       | Some n \<Rightarrow>
           iso_date_ok s n \<and> n + 1 < length s \<and>
           (let t = drop (n + (if code (s ! n) < 128 then 1 else 2)) s;
                time = takeWhile (\<lambda>c. \<not> is_zone_mark c) t;
                zone = dropWhile (\<lambda>c. \<not> is_zone_mark c) t
            in (case iso_time_from 2 True [] time of
                  None \<Rightarrow> False
                | Some vals \<Rightarrow> time_fields_ok vals) \<and>
               zone \<noteq> [] \<and>
               (if hd zone = CHR ''Z'' then tl zone \<noteq> [] \<and> hd (tl zone) = CHR 0x00
                else tl zone = ''00:00''))))"

end
