(* ===== verification/Envelopes.thy ===== *)
theory Envelopes
  imports IsoTime Uuid7 PyRepr
begin

text \<open>
  The message envelopes of \<open>pentagon5_runtime/envelopes.py\<close>, as the JSON objects the builders
  return.  The builders draw identifiers from the process's UUIDv7 generator, whose state they
  thread; the clocks and random bits they read are \<open>draws\<close>.
\<close>

record draws =
  dr_now :: "nat \<Rightarrow> int"
  dr_time_ns :: "nat \<Rightarrow> int"
  dr_randbits :: "nat \<Rightarrow> int"

text \<open>\<open>str(uuid7())\<close>, the \<open>k\<close>-th draw.\<close>

definition new_id :: "draws \<Rightarrow> nat \<Rightarrow> uuid7_state \<Rightarrow> string \<times> uuid7_state" where
  "new_id D k s = (case uuid7 (dr_time_ns D k) (dr_randbits D k) s of (v, t) \<Rightarrow> (uuid_str v, t))"

text \<open>\<open>isoformat\<close> of a UTC time stamp ends in \<open>+00:00\<close>, which \<open>Z\<close> replaces.\<close>

definition utc_z :: "int \<Rightarrow> string" where
  "utc_z now = isoformat now @ ''Z''"

definition base_envelope ::
    "string \<Rightarrow> string \<Rightarrow> (string \<times> json) list \<Rightarrow> string \<Rightarrow> string \<Rightarrow> json" where
  "base_envelope category correlation_id payload occurred_at message_id =
     JObj [(''schemaVersion'', JStr ''1.0.0''), (''messageId'', JStr message_id),
       (''category'', JStr category), (''occurredAt'', JStr occurred_at),
       (''metadata'', JObj [(''correlationId'', JStr correlation_id)]), (''payload'', JObj payload)]"

definition error_envelope ::
    "draws \<Rightarrow> string \<Rightarrow> string \<Rightarrow> string \<Rightarrow> bool \<Rightarrow> string option \<Rightarrow> uuid7_state \<Rightarrow> json \<times> uuid7_state" where
  "error_envelope D correlation_id ecode message retryable field s =
     (let payload = [(''code'', JStr ecode), (''message'', JStr message), (''retryable'', JBool retryable)] @
            (case field of None \<Rightarrow> [] | Some f \<Rightarrow> if f = [] then [] else [(''field'', JStr f)]);
          (i, t) = new_id D 0 s
      in (base_envelope ''error'' correlation_id payload (utc_z (dr_now D 0)) i, t))"

definition health_envelope ::
    "draws \<Rightarrow> string \<Rightarrow> string \<Rightarrow> string \<Rightarrow> string option \<Rightarrow> uuid7_state \<Rightarrow> json \<times> uuid7_state" where
  "health_envelope D correlation_id component status detail s =
     (let observed_at = utc_z (dr_now D 0);
          (i, t) = new_id D 0 s;
          payload = [(''schemaVersion'', JStr ''1.0.0''), (''id'', JStr i), (''component'', JStr component),
            (''status'', JStr status), (''observedAt'', JStr observed_at)] @
            (case detail of None \<Rightarrow> [] | Some d \<Rightarrow> if d = [] then [] else [(''detail'', JStr d)]);
          (j, u) = new_id D 1 t
      in (base_envelope ''health'' correlation_id payload observed_at j, u))"

definition websocket_envelope ::
    "draws \<Rightarrow> string \<Rightarrow> string \<Rightarrow> string \<Rightarrow> string option \<Rightarrow> uuid7_state \<Rightarrow> json \<times> uuid7_state" where
  "websocket_envelope D correlation_id operation channel subscription_id s =
     (let payload = [(''operation'', JStr operation), (''channel'', JStr channel)] @
            (case subscription_id of None \<Rightarrow> [] | Some i \<Rightarrow>
               if i = [] then [] else [(''subscriptionId'', JStr i)]);
          (i, t) = new_id D 0 s
      in (base_envelope ''websocket'' correlation_id payload (utc_z (dr_now D 0)) i, t))"

end
