(* ===== verification/Websocket.thy ===== *)
theory Websocket
  imports Envelopes Auth_Service
begin

text \<open>
  The WebSocket endpoint of \<open>pentagon5_auth/app.py\<close>: the strict check of control messages and the
  session loop, from the ticket to the close code.  Frames arrive as a list of events.
\<close>

section \<open>Control messages\<close>

definition is_utc_z :: "json \<Rightarrow> bool" where
  "is_utc_z v =
     (case v of
        JStr s \<Rightarrow> s \<noteq> [] \<and> last s = CHR ''Z'' \<and> iso_utc_ok (butlast s)
      | _ \<Rightarrow> False)"

definition keys :: "(string \<times> json) list \<Rightarrow> string set" where
  "keys d = set (map fst d)"

text \<open>\<open>is_uuid7(str(d.get(k, "")))\<close>.\<close>

definition uuid_member :: "(pyfloat \<Rightarrow> string) \<Rightarrow> (string \<times> json) list \<Rightarrow> string \<Rightarrow> bool" where
  "uuid_member fr d k \<longleftrightarrow> is_uuid7 (case map_of d k of None \<Rightarrow> [] | Some v \<Rightarrow> py_str fr v)"

text \<open>The single condition on the envelope and its three objects.\<close>

definition envelope_rejected ::
    "(pyfloat \<Rightarrow> string) \<Rightarrow> (string \<times> json) list \<Rightarrow> (string \<times> json) list option \<Rightarrow>
     (string \<times> json) list option \<Rightarrow> bool" where
  "envelope_rejected fr message md payload \<longleftrightarrow>
     dict_get message ''schemaVersion'' \<noteq> JStr ''1.0.0'' \<or>
     dict_get message ''category'' \<noteq> JStr ''websocket'' \<or>
     \<not> uuid_member fr message ''messageId'' \<or>
     \<not> is_utc_z (dict_get message ''occurredAt'') \<or>
     (case md of
        None \<Rightarrow> True
      | Some m \<Rightarrow>
          \<not> keys m \<subseteq> {''correlationId'', ''causationId''} \<or>
          \<not> uuid_member fr m ''correlationId'' \<or>
          (dict_get m ''causationId'' \<noteq> JNull \<and> \<not> uuid_member fr m ''causationId'')) \<or>
     (case payload of
        None \<Rightarrow> True
      | Some p \<Rightarrow> \<not> keys p \<subseteq> {''operation'', ''channel'', ''subscriptionId''})"

fun as_object :: "json \<Rightarrow> (string \<times> json) list option" where
  "as_object (JObj d) = Some d"
| "as_object _ = None"

definition check_operation ::
    "(pyfloat \<Rightarrow> string) \<Rightarrow> string \<Rightarrow> (string \<times> json) list \<Rightarrow> (string \<times> string option) res" where
  "check_operation fr expected_channel payload =
     (let operation = dict_get payload ''operation''; subscription = dict_get payload ''subscriptionId'' in
      if unhashable operation then Inl (TypeError ''unhashable type'')
      else if operation \<notin> {JStr ''subscribe'', JStr ''unsubscribe'', JStr ''heartbeat''}
      then Inl (ValueError ''unsupported WebSocket operation'')
      else if dict_get payload ''channel'' \<noteq> JStr expected_channel
      then Inl (ValueError ''WebSocket channel does not match ticket'')
      else if subscription \<noteq> JNull \<and> \<not> is_uuid7 (py_str fr subscription)
      then Inl (ValueError ''invalid subscription ID'')
      else if operation \<in> {JStr ''subscribe'', JStr ''unsubscribe''} \<and> subscription = JNull
      then Inl (ValueError ''subscription ID is required'')
      else Inr (py_str fr operation,
        if subscription = JNull then None else Some (py_str fr subscription)))"

definition check_control ::
    "(pyfloat \<Rightarrow> string) \<Rightarrow> string \<Rightarrow> json \<Rightarrow> (string \<times> string \<times> string option) res" where
  "check_control fr expected_channel v =
     (case v of
        JObj message \<Rightarrow>
          if keys message \<noteq> {''schemaVersion'', ''messageId'', ''category'', ''occurredAt'', ''metadata'',
            ''payload''} then Inl (ValueError ''invalid WebSocket envelope'')
          else
            let md = as_object (dict_get message ''metadata'');
                payload = as_object (dict_get message ''payload'')
            in if envelope_rejected fr message md payload
               then Inl (ValueError ''invalid WebSocket envelope'')
               else
                 rbind (check_operation fr expected_channel (the payload)) (\<lambda>(operation, subscription).
                 Inr (operation, py_str fr (dict_get (the md) ''correlationId''), subscription))
      | _ \<Rightarrow> Inl (ValueError ''invalid WebSocket envelope''))"

definition websocket_control ::
    "(pyfloat \<Rightarrow> string) \<Rightarrow> nat \<Rightarrow> string \<Rightarrow> string \<Rightarrow> (string \<times> string \<times> string option) res" where
  "websocket_control fr limit text expected_channel =
     (case json_loads limit text of
        Inl e \<Rightarrow> Inl (if e = json_error then ValueError ''malformed JSON'' else e)
      | Inr v \<Rightarrow> check_control fr expected_channel v)"

section \<open>The session loop\<close>

text \<open>
  An event is what \<open>receive()\<close> returned: the client's disconnect, or a frame, \<open>None\<close> when it is
  not text.  A session ends with a return, a close code, or an exception the loop does not catch.
\<close>

datatype ws_event = Ws_Disconnect | Ws_Frame "string option"

datatype ws_action = Ws_Send json | Ws_Close int | Ws_Return | Ws_Crash exn

record ws_state =
  ws_subscriptions :: "string list"
  ws_uuid7 :: uuid7_state

definition WS_1003 :: int where "WS_1003 = 1003"
definition WS_1008 :: int where "WS_1008 = 1008"
definition WS_1009 :: int where "WS_1009 = 1009"

text \<open>The set of subscriptions after an operation, or \<open>None\<close> when there are too many.\<close>

definition update_subscriptions ::
    "int \<Rightarrow> string \<Rightarrow> string option \<Rightarrow> string list \<Rightarrow> string list option" where
  "update_subscriptions max_subscriptions operation subscription subs =
     (if operation = ''subscribe'' then
        (if (case subscription of None \<Rightarrow> True | Some i \<Rightarrow> i \<notin> set subs) \<and>
            max_subscriptions \<le> int (length subs) then None
         else Some (case subscription of None \<Rightarrow> subs | Some i \<Rightarrow> List.insert i subs))
      else if operation = ''unsubscribe'' then
        Some (case subscription of None \<Rightarrow> subs | Some i \<Rightarrow> removeAll i subs)
      else Some subs)"

text \<open>The replies to an accepted message: the acknowledgement, and the health of the service.\<close>

definition ws_replies ::
    "auth_settings \<Rightarrow> draws \<Rightarrow> draws \<Rightarrow> string \<Rightarrow> string \<Rightarrow> string \<Rightarrow> string option \<Rightarrow> uuid7_state \<Rightarrow>
     json list \<times> uuid7_state" where
  "ws_replies S D1 D2 channel operation correlation_id subscription u =
     (let (ack, u1) = websocket_envelope D1 correlation_id
            (if operation \<noteq> ''heartbeat'' then ''ack'' else ''heartbeat'') channel subscription u
      in if operation = ''subscribe'' \<and> channel = ''system.health'' then
           (let (health, u2) = health_envelope D2 correlation_id (rs_service_name (as_runtime S))
                  ''healthy'' None u1
            in ([ack, health], u2))
         else ([ack], u1))"

text \<open>One turn of the loop: the actions, and the state when the loop goes on.\<close>

definition ws_turn ::
    "(pyfloat \<Rightarrow> string) \<Rightarrow> nat \<Rightarrow> auth_settings \<Rightarrow> string \<Rightarrow> draws \<times> draws \<Rightarrow> ws_event \<Rightarrow> ws_state \<Rightarrow>
     ws_action list \<times> ws_state option" where
  "ws_turn fr limit S channel D event st =
     (case event of
        Ws_Disconnect \<Rightarrow> ([Ws_Return], None)
      | Ws_Frame None \<Rightarrow> ([Ws_Close WS_1003], None)
      | Ws_Frame (Some frame) \<Rightarrow>
          if as_ws_max_frame_bytes S < int (length (utf8 frame)) then ([Ws_Close WS_1009], None)
          else (case websocket_control fr limit frame channel of
              Inl (ValueError m) \<Rightarrow> ([Ws_Close WS_1008], None)
            | Inl e \<Rightarrow> ([Ws_Crash e], None)
            | Inr (operation, correlation_id, subscription) \<Rightarrow>
                (case update_subscriptions (as_ws_max_subscriptions S) operation subscription
                    (ws_subscriptions st) of
                  None \<Rightarrow> ([Ws_Close WS_1008], None)
                | Some subs \<Rightarrow>
                    let (replies, u) = ws_replies S (fst D) (snd D) channel operation correlation_id
                          subscription (ws_uuid7 st)
                    in (map Ws_Send replies, Some \<lparr>ws_subscriptions = subs, ws_uuid7 = u\<rparr>))))"

fun ws_loop ::
    "(pyfloat \<Rightarrow> string) \<Rightarrow> nat \<Rightarrow> auth_settings \<Rightarrow> string \<Rightarrow> ((draws \<times> draws) \<times> ws_event) list \<Rightarrow>
     ws_state \<Rightarrow> ws_action list \<times> ws_state option" where
  "ws_loop fr limit S channel [] st = ([], Some st)"
| "ws_loop fr limit S channel ((D, event) # events) st =
     (case ws_turn fr limit S channel D event st of
        (actions, None) \<Rightarrow> (actions, None)
      | (actions, Some st1) \<Rightarrow>
          (case ws_loop fr limit S channel events st1 of (rest, r) \<Rightarrow> (actions @ rest, r)))"

text \<open>The endpoint: the ticket first, then the loop with no subscriptions.\<close>

definition websocket_endpoint ::
    "(pyfloat \<Rightarrow> string) \<Rightarrow> nat \<Rightarrow> crypto \<Rightarrow> auth_settings \<Rightarrow> 'd repo_ops \<Rightarrow> time \<Rightarrow> string \<Rightarrow> string \<Rightarrow>
     ((draws \<times> draws) \<times> ws_event) list \<Rightarrow> uuid7_state \<Rightarrow> 'd \<Rightarrow> ws_action list \<times> 'd" where
  "websocket_endpoint fr limit C S R now channel ticket events u d =
     (case service_consume_ws_ticket C S R now ticket channel d of
        (Inl (AuthenticationError m), d1) \<Rightarrow> ([Ws_Close WS_1008], d1)
      | (Inl e, d1) \<Rightarrow> ([Ws_Crash e], d1)
      | (Inr _, d1) \<Rightarrow>
          (fst (ws_loop fr limit S channel events \<lparr>ws_subscriptions = [], ws_uuid7 = u\<rparr>), d1))"

end
