(* ===== verification/IsoTime_Lemmas.thy ===== *)
theory IsoTime_Lemmas
  imports IsoTime
begin

text \<open>
  Every time stamp of the years 1 to 9999 that \<open>isoformat\<close> prints is read as a UTC time stamp.
\<close>

section \<open>Dates\<close>

lemma month_day_all: "\<forall>leap \<in> {True, False}. \<forall>n \<in> set [0..364]. case month_day leap n of
    (m, d) \<Rightarrow> 1 \<le> m \<and> m \<le> 12 \<and> 1 \<le> d \<and> d \<le> month_days leap m"
  by code_simp

lemma month_day_ok:
  "0 \<le> n \<Longrightarrow> n \<le> 364 \<Longrightarrow> month_day leap n = (m, d) \<Longrightarrow>
     1 \<le> m \<and> m \<le> 12 \<and> 1 \<le> d \<and> d \<le> month_days leap m"
proof -
  assume n: "0 \<le> n" "n \<le> 364" and md: "month_day leap n = (m, d)"
  have "leap \<in> {True, False}" "n \<in> set [0..364]" using n by simp_all
  from bspec [OF bspec [OF month_day_all this(1)] this(2)] md
  show "1 \<le> m \<and> m \<le> 12 \<and> 1 \<le> d \<and> d \<le> month_days leap m" by simp
qed

lemma mod_top: "0 < z \<Longrightarrow> z \<le> k \<Longrightarrow> (z + k * j) mod k = 0 \<longleftrightarrow> z = k" for z k j :: int
  by (cases "z = k") auto

lemma leap_year_parts:
  assumes "0 \<le> n100" "n100 \<le> 3" "0 \<le> n4" "n4 \<le> 24" "0 \<le> n1" "n1 \<le> 3"
  shows "leap_year (n400 * 400 + 1 + n100 * 100 + n4 * 4 + n1) \<longleftrightarrow> n1 = 3 \<and> (n4 \<noteq> 24 \<or> n100 = 3)"
proof -
  let ?y = "n400 * 400 + 1 + n100 * 100 + n4 * 4 + n1"
  have e_m4: "?y = (1 + n1) + 4 * (n400 * 100 + n100 * 25 + n4)" by simp
  have m4: "?y mod 4 = 0 \<longleftrightarrow> n1 = 3"
    unfolding e_m4 using mod_top [of "1 + n1" 4 "n400 * 100 + n100 * 25 + n4"] assms by simp
  have e_m100: "?y = (1 + n4 * 4 + n1) + 100 * (n400 * 4 + n100)" by simp
  have m100: "?y mod 100 = 0 \<longleftrightarrow> 1 + n4 * 4 + n1 = 100"
    unfolding e_m100 using mod_top [of "1 + n4 * 4 + n1" 100 "n400 * 4 + n100"] assms by simp
  have e_m400: "?y = (1 + n100 * 100 + n4 * 4 + n1) + 400 * n400" by simp
  have m400: "?y mod 400 = 0 \<longleftrightarrow> 1 + n100 * 100 + n4 * 4 + n1 = 400"
    unfolding e_m400 using mod_top [of "1 + n100 * 100 + n4 * 4 + n1" 400 n400] assms by simp
  show ?thesis unfolding leap_year_def m4 m100 m400 by (cases "n1 = 3"; cases "n4 = 24") auto
qed

lemma ymd_ok:
  assumes "1 \<le> ordinal" "ordinal \<le> 3652059" "ymd_of_ordinal ordinal = (y, m, d)"
  shows "date_ok y m d"
proof -
  define N where "N = ordinal - 1"
  define n400 a where "n400 = N div 146097" and "a = N mod 146097"
  define n100 b where "n100 = a div 36524" and "b = a mod 36524"
  define n4 c where "n4 = b div 1461" and "c = b mod 1461"
  define n1 n where "n1 = c div 365" and "n = c mod 365"
  note parts = n400_def a_def n100_def b_def n4_def c_def n1_def n_def
  have N: "0 \<le> N" "N \<le> 3652058" using assms(1,2) by (simp_all add: N_def)
  have eqs: "N = n400 * 146097 + a" "a = n100 * 36524 + b" "b = n4 * 1461 + c" "c = n1 * 365 + n"
    unfolding parts by simp_all
  have r: "0 \<le> a" "a < 146097" "0 \<le> b" "b < 36524" "0 \<le> c" "c < 1461" "0 \<le> n" "n < 365"
    unfolding parts by simp_all
  have lo: "0 \<le> n400" "0 \<le> n100" "0 \<le> n4" "0 \<le> n1"
    unfolding parts using N(1) by (simp_all add: pos_imp_zdiv_nonneg_iff)
  have hi: "n400 \<le> 24" "n100 \<le> 4" "n4 \<le> 24" "n1 \<le> 4" using eqs r N lo by linarith+
  let ?y = "n400 * 400 + 1 + n100 * 100 + n4 * 4 + n1"
  have top: "?y \<le> 9999 \<or> (n1 = 4 \<or> n100 = 4) \<and> ?y \<le> 10000"
  proof (cases "n400 \<le> 23")
    case True
    show ?thesis
    proof (cases "n100 = 4")
      case True
      then have "b = 0" using eqs(2) r by linarith
      then have "n4 = 0" "n1 = 0" using eqs r lo by linarith+
      then show ?thesis using True \<open>n400 \<le> 23\<close> by linarith
    qed (use True hi in linarith)
  next
    case False
    then have n400: "n400 = 24" using hi by linarith
    then have "a \<le> 145730" using eqs(1) N(2) by linarith
    then have n100: "n100 \<le> 3" using eqs(2) r(3) by linarith
    show ?thesis
    proof (cases "n100 = 3 \<and> n4 = 24")
      case True
      then have "c \<le> 1094" using \<open>a \<le> 145730\<close> eqs(2,3) by linarith
      then have "n1 \<le> 2" using eqs(4) r(7) by linarith
      then show ?thesis using True n400 by linarith
    next
      case False
      then show ?thesis using n400 n100 hi by linarith
    qed
  qed
  have ymd: "ymd_of_ordinal ordinal = (if n1 = 4 \<or> n100 = 4 then (?y - 1, 12, 31)
      else (let (m, d) = month_day (n1 = 3 \<and> (n4 \<noteq> 24 \<or> n100 = 3)) n in (?y, m, d)))"
    unfolding ymd_of_ordinal_def parts N_def Let_def ..
  show ?thesis
  proof (cases "n1 = 4 \<or> n100 = 4")
    case True
    then show ?thesis
      using assms(3) ymd top lo by (auto simp: date_ok_def month_days_def)
  next
    case False
    then have small: "n100 \<le> 3" "n1 \<le> 3" using hi by linarith+
    obtain m' d' where md: "month_day (leap_year ?y) n = (m', d')" by fastforce
    have "ymd_of_ordinal ordinal = (?y, m', d')"
      using False ymd md leap_year_parts [OF lo(2) small(1) lo(3) hi(3) lo(4) small(2), of n400] by simp
    then have "y = ?y" "m = m'" "d = d'" using assms(3) by simp_all
    moreover have "1 \<le> ?y" "?y \<le> 9999" using lo top False by linarith+
    ultimately show ?thesis using month_day_ok [OF _ _ md] r(7,8) by (simp add: date_ok_def)
  qed
qed

section \<open>Digits\<close>

lemma dec_digit_all: "\<forall>d \<in> set [0..9]. is_dec_digit (hex_digit d) \<and> code (hex_digit d) = d + 48"
  by code_simp

lemma dec_digit: "0 \<le> d \<Longrightarrow> d < 10 \<Longrightarrow> is_dec_digit (hex_digit d) \<and> code (hex_digit d) = d + 48"
proof -
  assume "0 \<le> d" "d < 10"
  then have "d \<in> set [0..9]" by simp
  then show ?thesis using dec_digit_all by blast
qed

lemma padded_digit: "c \<in> set (padded w n) \<Longrightarrow> is_dec_digit c"
  using dec_digit by (auto simp: padded_def)

lemma length_padded [simp]: "length (padded w n) = w"
  by (simp add: padded_def)

lemma dec_value_append: "dec_value (s @ [c]) = dec_value s * 10 + (code c - 48)"
  by (simp add: dec_value_def)

lemma padded_Suc: "padded (Suc w) n = padded w (n div 10) @ [hex_digit (n mod 10)]"
proof -
  have "n div 10 ^ (w - i) = n div 10 div 10 ^ (w - 1 - i)" if "i < w" for i
  proof -
    have "w - i = Suc (w - 1 - i)" using that by simp
    then show ?thesis by (simp add: zdiv_zmult2_eq)
  qed
  then show ?thesis by (simp add: padded_def)
qed

lemma dec_value_padded: "0 \<le> n \<Longrightarrow> n < 10 ^ w \<Longrightarrow> dec_value (padded w n) = n"
proof (induction w arbitrary: n)
  case 0
  then show ?case by (simp add: padded_def dec_value_def)
next
  case (Suc w)
  have "n div 10 < 10 ^ w" using Suc.prems by (simp add: div_less_iff_less_mult mult.commute)
  then show ?case
    using Suc.IH [of "n div 10"] Suc.prems dec_digit [of "n mod 10"]
    by (simp add: padded_Suc dec_value_append)
qed

lemma iso_digits_padded: "0 \<le> n \<Longrightarrow> n < 10 ^ w \<Longrightarrow> iso_digits w (padded w n @ r) = Some (n, r)"
  using padded_digit [of _ w n] by (auto simp: iso_digits_def dec_value_padded list_all_iff)

section \<open>Reading a printed time stamp\<close>

lemma utf8_append: "utf8 (s @ t) = utf8 s @ utf8 t"
  by (simp add: utf8_def)

lemma utf8_padded [simp]: "utf8 (padded w n) = padded w n"
  using padded_digit by (intro utf8_ascii) (fastforce simp: is_dec_digit_def)

lemma padded_plain: "c \<in> set (padded w n) \<Longrightarrow> \<not> is_zone_mark c \<and> c \<noteq> CHR ''W''"
proof -
  have "\<not> is_dec_digit CHR ''+''" "\<not> is_dec_digit CHR ''-''" "\<not> is_dec_digit CHR ''Z''"
    "\<not> is_dec_digit CHR ''W''" by code_simp+
  then show "c \<in> set (padded w n) \<Longrightarrow> \<not> is_zone_mark c \<and> c \<noteq> CHR ''W''"
    using padded_digit [of c w n] by (auto simp: is_zone_mark_def)
qed

lemma utf8_ascii_char: "code c < 128 \<Longrightarrow> utf8 (c # s) = c # utf8 s"
  by (simp add: utf8_def)

lemma padded_nonempty [simp]: "padded (Suc w) n \<noteq> []"
  by (simp add: padded_Suc)

lemma iso_date_padded:
  assumes "date_ok y m d"
  shows "iso_date_ok (padded 4 y @ ''-'' @ padded 2 m @ ''-'' @ padded 2 d @ r) 10"
proof -
  have b: "0 \<le> y" "y < 10 ^ 4" "0 \<le> m" "m < 10 ^ 2" "0 \<le> d" "d < 10 ^ 2"
    using assms by (auto simp: date_ok_def month_days_def split: if_splits)
  have "padded 2 m \<noteq> []" using padded_nonempty [of 1 m] by (simp add: numeral_2_eq_2)
  then have "hd (padded 2 m @ x) \<noteq> CHR ''W''" for x
    using padded_plain [of "hd (padded 2 m)" 2 m] by (simp add: hd_in_set)
  then show ?thesis
    using assms by (simp add: iso_date_ok_def iso_digits_padded [OF b(1,2)] iso_digits_padded [OF b(3,4)]
        iso_digits_padded [OF b(5,6)] skip_char_def Let_def del: power.simps)
qed

lemma while_append:
  "\<forall>c \<in> set xs. P c \<Longrightarrow> \<not> P z \<Longrightarrow>
     takeWhile P (xs @ z # ys) = xs \<and> dropWhile P (xs @ z # ys) = z # ys"
  by (induction xs) auto

lemma iso_time_ok:
  assumes "0 \<le> h" "h < 24" "0 \<le> m" "m < 60" "0 \<le> s" "s < 60"
    and f: "f = [] \<or> (\<exists>u. f = ''.'' @ padded 6 u)"
  shows "iso_time_from 2 True [] (padded 2 h @ '':'' @ padded 2 m @ '':'' @ padded 2 s @ f) = Some [h, m, s]"
proof -
  have two: "iso_digits 2 (padded 2 v @ r) = Some (v, r)" if "0 \<le> v" "v < 60" for v r
    using that iso_digits_padded [of v 2 r] by simp
  have "list_all is_dec_digit (take 6 (padded 6 u))" for u
    using padded_digit by (auto simp: list_all_iff)
  moreover have "padded 6 u \<noteq> []" for u by (metis length_padded list.size(3) zero_neq_numeral)
  ultimately show ?thesis
    using two [of h] two [of m] two [of s] two [of s "[]"] assms
    by (auto simp: numeral_2_eq_2 Let_def)
qed

lemma isoformat_ok:
  assumes "- 62135596800000000 \<le> t" "t \<le> 253402300799999999"
  shows "iso_utc_ok (isoformat t)"
proof -
  obtain y m d where ymd: "ymd_of_ordinal (t div 86400000000 + 719163) = (y, m, d)"
    by (cases "ymd_of_ordinal (t div 86400000000 + 719163)")
  have "1 \<le> t div 86400000000 + 719163" "t div 86400000000 + 719163 \<le> 3652059"
    using assms by simp_all
  from ymd_ok [OF this ymd] have ok: "date_ok y m d" .
  then have md: "0 \<le> m \<and> m < 100 \<and> 0 \<le> d \<and> d < 100 \<and> 0 \<le> y \<and> y < 10000"
    by (auto simp: date_ok_def month_days_def split: if_splits)
  define us where "us = t mod 86400000000"
  define sec where "sec = us div 1000000"
  have us: "0 \<le> us" "us < 86400000000" by (simp_all add: us_def)
  then have sec: "0 \<le> sec" "sec < 86400" by (auto simp: sec_def)
  let ?f = "if us mod 1000000 = 0 then [] else ''.'' @ padded 6 (us mod 1000000)"
  let ?time = "padded 2 (sec div 3600) @ '':'' @ padded 2 (sec div 60 mod 60) @ '':'' @ padded 2 (sec mod 60) @ ?f"
  have iso: "isoformat t = padded 4 y @ ''-'' @ padded 2 m @ ''-'' @ padded 2 d @ ''T'' @ ?time"
    by (simp add: isoformat_def ymd us_def sec_def Let_def)
  let ?s = "isoformat t @ ''+00:00''"
  have "code CHR ''-'' < 128" "code CHR '':'' < 128" "code CHR ''T'' < 128" "code CHR ''.'' < 128"
    by code_simp+
  then have u: "utf8 (isoformat t) = isoformat t"
    unfolding iso by (simp add: utf8_append utf8_ascii_char) (simp add: utf8_def)
  have "padded 2 m ! 0 \<noteq> CHR ''W''" using padded_plain [of "padded 2 m ! 0" 2 m] by simp
  then have sep: "separator_at ?s = Some 10"
    unfolding iso by (simp add: separator_at_def nth_append)
  have date: "iso_date_ok ?s 10"
    using iso_date_padded [OF ok, of "''T'' @ ?time @ ''+00:00''"] unfolding iso by simp
  have T: "?s ! 10 = CHR ''T''" "drop 11 ?s = ?time @ ''+00:00''" "11 < length ?s"
    unfolding iso by (simp_all add: nth_append)
  have plain: "\<forall>c \<in> set ?time. \<not> is_zone_mark c"
  proof -
    have "\<not> is_zone_mark CHR '':''" "\<not> is_zone_mark CHR ''.''" by code_simp+
    moreover have "\<forall>c \<in> set (padded w n). \<not> is_zone_mark c" for w n using padded_plain by blast
    ultimately show ?thesis by (simp add: ball_Un)
  qed
  then have tw: "takeWhile (\<lambda>c. \<not> is_zone_mark c) (?time @ ''+00:00'') = ?time"
    "dropWhile (\<lambda>c. \<not> is_zone_mark c) (?time @ ''+00:00'') = ''+00:00''"
    using while_append [of ?time "\<lambda>c. \<not> is_zone_mark c" "CHR ''+''" "''00:00''"]
    unfolding is_zone_mark_def by blast+
  have "iso_time_from 2 True [] ?time = Some [sec div 3600, sec div 60 mod 60, sec mod 60]"
    by (rule iso_time_ok) (use sec in auto)
  moreover have "time_fields_ok [sec div 3600, sec div 60 mod 60, sec mod 60]"
    using sec by (auto simp: time_fields_ok_def)
  ultimately show ?thesis
    unfolding iso_utc_ok_def u Let_def sep using date T tw
    by (simp add: code_def del: iso_time_from.simps)
qed

end
