(* ===== verification/Json_Escapes.thy ===== *)
theory Json_Escapes
  imports Json_Lemmas
begin

text \<open>
  The texts the JSON reader represents: strings have characters below 256, so a \<open>\u\<close> escape above
  that is reported as \<open>json_not_modelled\<close>.  Without such an escape the report never happens, and what
  the reader says of a text is what Python says.
\<close>

fun wide_escape :: "string \<Rightarrow> bool" where
  "wide_escape [] \<longleftrightarrow> False"
| "wide_escape (c # s) \<longleftrightarrow>
     (c = CHR 0x5C \<and> take 1 s = ''u'' \<and> (case hex4 (take 4 (drop 1 s)) of None \<Rightarrow> False | Some n \<Rightarrow> 256 \<le> n)) \<or>
     wide_escape s"

lemma wide_escape_suffix: "suffix r s \<Longrightarrow> wide_escape r \<Longrightarrow> wide_escape s"
  by (induction s) (auto simp: suffix_Cons)

section \<open>The rest of a text\<close>

lemma suffix_skip_space: "suffix (skip_space s) s"
  by (simp add: skip_space_def suffix_dropWhile)

lemma suffix_tail: "suffix (d # ds) s \<Longrightarrow> suffix ds s"
  by (metis suffix_ConsD)

text \<open>An outcome that leaves a rest of the text, and blames only the text's own escapes.\<close>

definition confined :: "string \<Rightarrow> (json \<times> string) res \<Rightarrow> bool" where
  "confined s x \<longleftrightarrow> (case x of Inl e \<Rightarrow> (e = json_not_modelled \<longrightarrow> wide_escape s) | Inr (v, r) \<Rightarrow> suffix r s)"

lemma confined_error [simp]:
  "confined s (Inl json_error)" "confined s (Inl RecursionError)" "confined s (Inl json_out_of_fuel)"
  by (simp_all add: confined_def json_error_def json_not_modelled_def json_out_of_fuel_def)

lemma confined_Inr [simp]: "confined s (Inr (v, r)) \<longleftrightarrow> suffix r s"
  by (simp add: confined_def)

lemma confined_suffix: "confined r x \<Longrightarrow> suffix r s \<Longrightarrow> confined s x"
  by (auto simp: confined_def wide_escape_suffix split: sum.splits intro: suffix_order.trans)

lemma confined_rbind:
  assumes "confined s x" "\<And>v r. suffix r s \<Longrightarrow> confined s (f (v, r))"
  shows "confined s (rbind x f)"
  using assms by (cases x) (auto simp: confined_def)

lemma wide_escape_drop: "wide_escape (drop n s) \<Longrightarrow> wide_escape s"
  by (rule wide_escape_suffix [OF suffix_drop])

lemma string_wide: "parse_string acc s = Inl json_not_modelled \<Longrightarrow> wide_escape s"
  by (induction acc s rule: parse_string.induct)
    (auto simp: json_error_def json_not_modelled_def dest: wide_escape_drop split: if_splits list.splits option.splits)

lemma string_rest:
  assumes "parse_string acc s = Inr (t, r)"
  shows "suffix r s"
  using assms
proof (induction acc s rule: parse_string.induct)
  case (2 acc c cs)
  have "suffix r cs"
  proof (cases "c = CHR ''\"''")
    case quote: False
    show ?thesis
    proof (cases "c = CHR 0x5C")
      case True
      then obtain e x where cs: "cs = e # x" using 2(4) quote by (cases cs) simp_all
      show ?thesis
      proof (cases "e = CHR ''u''")
        case u: True
        then obtain n where n: "hex4 (take 4 x) = Some n" "\<not> 256 \<le> n"
            "parse_string (acc @ [char_of n]) (drop 4 x) = Inr (t, r)"
          using 2(4) quote True cs by (auto split: option.splits if_splits)
        have "suffix r (drop 4 x)" by (rule 2(1) [OF quote True cs u n])
        then show ?thesis using suffix_drop [of 4 x] unfolding cs by (metis suffix_ConsI suffix_order.trans)
      next
        case u: False
        then obtain d where d: "simple_escape e = Some d" "parse_string (acc @ [d]) x = Inr (t, r)"
          using 2(4) quote True cs by (auto split: option.splits)
        then show ?thesis using 2(2) [OF quote True cs u] unfolding cs by (simp add: suffix_ConsI)
      qed
    next
      case False
      then show ?thesis using 2(3) [OF quote] 2(4) quote by (auto split: if_splits)
    qed
  qed (use 2(4) in simp)
  then show ?case by (rule suffix_ConsI)
qed simp

section \<open>Values\<close>

lemma confined_JStr: "confined (c # cs) (rbind (parse_string [] cs) (\<lambda>(t, r). Inr (JStr t, r)))"
  by (cases "parse_string [] cs") (auto simp: confined_def intro!: suffix_ConsI dest: string_rest string_wide)

lemma suffix_scan_fraction: "suffix (snd (scan_fraction s)) s"
  by (auto simp: scan_fraction_def suffix_ConsI suffix_dropWhile split: list.splits)

lemma suffix_scan_exponent: "suffix (snd (scan_exponent s)) s"
proof (cases s)
  case (Cons c r)
  have "suffix (dropWhile is_dec_digit (if b then tl r else r)) (c # r)" for b
    by (cases b; cases r) (auto intro: suffix_ConsI suffix_dropWhile)
  from this [of True] this [of False] show ?thesis by (auto simp: Cons scan_exponent_def Let_def)
qed (simp add: scan_exponent_def)

lemma confined_number: "confined s (parse_number s)"
proof -
  define t where "t = (if s \<noteq> [] \<and> hd s = CHR ''-'' then tl s else s)"
  define ds where "ds = (if t \<noteq> [] \<and> hd t = CHR ''0'' then [CHR ''0''] else takeWhile is_dec_digit t)"
  obtain fr r1 where fr: "scan_fraction (drop (length ds) t) = (fr, r1)" by force
  obtain ex r2 where ex: "scan_exponent r1 = (ex, r2)" by force
  have "suffix t s" by (cases s) (auto simp: t_def suffix_ConsI)
  moreover have "suffix r2 r1" "suffix r1 (drop (length ds) t)"
    using suffix_scan_exponent [of r1] suffix_scan_fraction [of "drop (length ds) t"] ex fr by simp_all
  ultimately have "suffix r2 s" using suffix_drop by (metis suffix_order.trans)
  then show ?thesis
    using fr ex unfolding parse_number_def Let_def t_def [symmetric] ds_def [symmetric]
    by (auto simp: confined_def json_error_def json_not_modelled_def split: if_splits)
qed

lemma confined_constant: "confined s (parse_constant s)"
proof -
  have "suffix r s" if "strip_prefix p s = Some r" for p r
    using that by (auto simp: strip_prefix_def suffix_drop split: if_splits)
  then show ?thesis
    using confined_number [of s] unfolding parse_constant_def by (auto split: option.splits)
qed

lemma confined_parse:
  "confined s (parse_value fuel depth s)"
  "confined s (parse_items fuel depth items s)"
  "confined s (parse_members fuel depth members s)"
proof (induction fuel depth s and fuel depth items s and fuel depth members s
    rule: parse_value_parse_items_parse_members.induct)
  case (2 fuel depth s)
  show ?case
  proof (cases s)
    case (Cons c cs)
    have sub: "confined s x" if "skip_space cs = d # ds" "confined (d # ds) x" for d ds x
      using that suffix_skip_space [of cs] by (intro confined_suffix [OF that(2)]) (simp add: Cons suffix_ConsI)
    have "suffix ds s" if "skip_space cs = d # ds" for d ds
      using that suffix_skip_space [of cs] by (simp add: Cons suffix_ConsI suffix_ConsD)
    then show ?thesis
      using confined_JStr confined_constant [of s] 2(1,2) [OF Cons] sub
      by (auto simp: Cons split: list.split)
  qed simp
next
  case (4 fuel depth items s)
  show ?case
    unfolding parse_items.simps
  proof (rule confined_rbind [OF 4(1)])
    fix v :: json and r :: string
    assume r: "suffix r s"
    show "confined s (case (v, r) of (v, r) \<Rightarrow> (case skip_space r of [] \<Rightarrow> Inl json_error
       | d # ds \<Rightarrow> if d = CHR '']'' then Inr (JArr (items @ [v]), ds)
           else if d = CHR '','' then parse_items fuel depth (items @ [v]) (skip_space ds)
           else Inl json_error))"
    proof (cases "skip_space r")
      case (Cons d ds)
      then have ds: "suffix ds s" using suffix_skip_space [of r] r by (metis suffix_ConsD suffix_order.trans)
      then have "suffix (skip_space ds) s" using suffix_skip_space suffix_order.trans by blast
      then show ?thesis using Cons ds 4(2) [OF Cons] by (auto intro: confined_suffix)
    qed simp
  qed
next
  case (6 fuel depth members s)
  show ?case
  proof (cases s)
    case (Cons c cs)
    show ?thesis
    proof (cases "c = CHR ''\"'' \<and> (\<exists>k r d ds. parse_string [] cs = Inr (k, r) \<and>
        skip_space r = d # ds \<and> d = CHR '':'')")
      case False
      then show ?thesis
        using string_wide [of "[]" cs]
        by (cases "parse_string [] cs") (auto simp: Cons confined_def [of _ "Inl _"] json_error_def
            json_not_modelled_def split: list.splits)
    next
      case True
      then obtain k r ds where c: "c = CHR ''\"''" and k: "parse_string [] cs = Inr (k, r)"
        and ds: "skip_space r = CHR '':'' # ds" by auto
      have "suffix r cs" using string_rest [OF k] .
      then have "suffix (skip_space ds) cs"
        using ds suffix_skip_space [of r] suffix_skip_space [of ds]
        by (metis suffix_ConsD suffix_order.trans)
      then have sub: "suffix (skip_space ds) s" by (simp add: Cons suffix_ConsI)
      have v: "confined s (parse_value fuel depth (skip_space ds))"
        using 6(1) [OF Cons] c k ds sub by (auto intro: confined_suffix)
      have rest: "confined s (case skip_space r2 of [] \<Rightarrow> Inl json_error
         | e # es \<Rightarrow> if e = CHR ''}'' then Inr (JObj (AList.update k v members), es)
             else if e = CHR '','' then
               parse_members fuel depth (AList.update k v members) (skip_space es)
             else Inl json_error)"
        if r2: "suffix r2 s" for v r2
      proof (cases "skip_space r2")
        case c2: (Cons e es)
        then have es: "suffix es s" using suffix_skip_space [of r2] r2 by (metis suffix_ConsD suffix_order.trans)
        then have "suffix (skip_space es) s" using suffix_skip_space suffix_order.trans by blast
        then have "confined s (parse_members fuel depth (AList.update k v members) (skip_space es))"
          if "e = CHR '',''"
          using that c k ds c2 by (intro confined_suffix [OF 6(2) [OF Cons _ ds _ c2]]) auto
        then show ?thesis using c2 es by auto
      qed simp
      show ?thesis
        using confined_rbind [OF v, of "\<lambda>(v, r2). case skip_space r2 of [] \<Rightarrow> Inl json_error
          | e # es \<Rightarrow> if e = CHR ''}'' then Inr (JObj (AList.update k v members), es)
             else if e = CHR '','' then
               parse_members fuel depth (AList.update k v members) (skip_space es)
             else Inl json_error"] rest
        by (simp add: Cons c k ds)
    qed
  qed simp
qed simp_all

text \<open>A text without a wide escape is always read as Python reads it.\<close>

lemma json_loads_modelled:
  assumes "\<not> wide_escape s"
  shows "json_loads limit s \<noteq> Inl json_not_modelled"
proof -
  have "\<not> wide_escape (skip_space s)" using assms wide_escape_suffix [OF suffix_skip_space] by blast
  then show ?thesis
    using confined_parse(1) [of "skip_space s" "3 * length s + 3" limit]
    by (auto simp: json_loads_def rbind_Inl_iff confined_def json_error_def json_not_modelled_def split: if_splits)
qed

end
