(* ===== verification/Websocket_Properties.thy ===== *)
theory Websocket_Properties
  imports Websocket IsoTime_Lemmas Json_Escapes Service_Properties Uuid7_Properties
begin

text \<open>
  The correctness properties of the WebSocket endpoint and of the envelopes it sends, each with an
  instance that meets its hypotheses.
\<close>

section \<open>Control messages\<close>

lemma check_operation_ok:
  assumes "check_operation fr channel payload = Inr (operation, subscription)"
  shows "operation \<in> {''subscribe'', ''unsubscribe'', ''heartbeat''} \<and>
    dict_get payload ''channel'' = JStr channel \<and>
    (case subscription of None \<Rightarrow> operation = ''heartbeat'' | Some i \<Rightarrow> is_uuid7 i)"
  using assms unfolding check_operation_def Let_def guard_Inr_iff by (auto split: if_splits)

lemma check_operation_error:
  "check_operation fr channel payload = Inl e \<Longrightarrow>
     (\<exists>m. e = ValueError m) \<or> (e = TypeError ''unhashable type'' \<and> unhashable (dict_get payload ''operation''))"
  by (auto simp: check_operation_def Let_def split: if_splits)

lemma as_object_Some: "as_object j = Some d \<longleftrightarrow> j = JObj d"
  by (cases j) auto

lemma check_control_ok:
  assumes "check_control fr channel v = Inr (operation, correlation_id, subscription)"
  obtains message md payload where "v = JObj message" "dict_get message ''metadata'' = JObj md"
    "dict_get message ''payload'' = JObj payload" "\<not> envelope_rejected fr message (Some md) (Some payload)"
    "check_operation fr channel payload = Inr (operation, subscription)"
    "correlation_id = py_str fr (dict_get md ''correlationId'')"
proof -
  from assms obtain message where v: "v = JObj message" by (cases v) (auto simp: check_control_def)
  let ?md = "as_object (dict_get message ''metadata'')" and ?p = "as_object (dict_get message ''payload'')"
  from assms v have ok: "\<not> envelope_rejected fr message ?md ?p"
    and op: "check_operation fr channel (the ?p) = Inr (operation, subscription)"
    and id: "correlation_id = py_str fr (dict_get (the ?md) ''correlationId'')"
    by (auto simp: check_control_def Let_def rbind_Inr_iff split: if_splits)
  obtain md payload where mp: "?md = Some md" "?p = Some payload"
    using ok by (cases ?md; cases ?p) (auto simp: envelope_rejected_def)
  have obj: "as_object j = Some d \<Longrightarrow> j = JObj d" for j d by (cases j) auto
  show thesis using that [OF v obj [OF mp(1)] obj [OF mp(2)]] ok op id mp by simp
qed

lemma control_ok:
  assumes "websocket_control fr limit t channel = Inr (operation, correlation_id, subscription)"
  shows "operation \<in> {''subscribe'', ''unsubscribe'', ''heartbeat''} \<and> is_uuid7 correlation_id \<and>
    (case subscription of None \<Rightarrow> operation = ''heartbeat'' | Some i \<Rightarrow> is_uuid7 i)"
proof -
  from assms obtain v where "check_control fr channel v = Inr (operation, correlation_id, subscription)"
    by (auto simp: websocket_control_def split: sum.splits)
  then obtain message md payload where ok: "\<not> envelope_rejected fr message (Some md) (Some payload)"
    and op: "check_operation fr channel payload = Inr (operation, subscription)"
    and id: "correlation_id = py_str fr (dict_get md ''correlationId'')" by (rule check_control_ok)
  have "uuid_member fr md ''correlationId''" using ok by (simp add: envelope_rejected_def)
  moreover have "\<not> is_uuid7 []" by code_simp
  ultimately have "is_uuid7 correlation_id"
    by (cases "map_of md ''correlationId''") (simp_all add: uuid_member_def id dict_get_def)
  then show ?thesis using check_operation_ok [OF op] by simp
qed

text \<open>The objects of a frame that a control message is read from.\<close>

definition frame_objects ::
    "nat \<Rightarrow> string \<Rightarrow> (string \<times> json) list \<Rightarrow> (string \<times> json) list \<Rightarrow> (string \<times> json) list \<Rightarrow> bool" where
  "frame_objects limit frame message md payload \<longleftrightarrow> json_loads limit frame = Inr (JObj message) \<and>
     keys message = {''schemaVersion'', ''messageId'', ''category'', ''occurredAt'', ''metadata'', ''payload''} \<and>
     dict_get message ''metadata'' = JObj md \<and> dict_get message ''payload'' = JObj payload"

lemma control_objects:
  assumes "websocket_control fr limit frame channel = Inr (operation, correlation_id, subscription)"
  shows "\<exists>message md payload. frame_objects limit frame message md payload \<and>
    dict_get message ''schemaVersion'' = JStr ''1.0.0'' \<and> dict_get payload ''channel'' = JStr channel"
proof -
  from assms obtain v where v: "json_loads limit frame = Inr v" "check_control fr channel v = Inr (operation, correlation_id, subscription)"
    by (auto simp: websocket_control_def split: sum.splits)
  from v(2) obtain message md payload where m: "v = JObj message" "dict_get message ''metadata'' = JObj md"
    "dict_get message ''payload'' = JObj payload" "\<not> envelope_rejected fr message (Some md) (Some payload)"
    "check_operation fr channel payload = Inr (operation, subscription)" by (rule check_control_ok)
  moreover have "keys message = {''schemaVersion'', ''messageId'', ''category'', ''occurredAt'', ''metadata'', ''payload''}"
    using v(2) m(1) by (auto simp: check_control_def split: if_splits)
  moreover have "dict_get message ''schemaVersion'' = JStr ''1.0.0''"
    using m(4) by (simp add: envelope_rejected_def)
  ultimately show ?thesis using v(1) check_operation_ok [OF m(5)] unfolding frame_objects_def by blast
qed

lemma check_control_error:
  assumes "check_control fr channel v = Inl e"
  shows "(\<exists>m. e = ValueError m) \<or> (e = TypeError ''unhashable type'' \<and>
    (\<exists>message md payload. v = JObj message \<and>
       keys message = {''schemaVersion'', ''messageId'', ''category'', ''occurredAt'', ''metadata'', ''payload''} \<and>
       dict_get message ''metadata'' = JObj md \<and> dict_get message ''payload'' = JObj payload \<and>
       unhashable (dict_get payload ''operation'')))"
proof (cases "\<exists>m. e = ValueError m")
  case False
  with assms obtain message where v: "v = JObj message" by (cases v) (auto simp: check_control_def)
  let ?md = "as_object (dict_get message ''metadata'')" and ?p = "as_object (dict_get message ''payload'')"
  from assms v False have ok: "\<not> envelope_rejected fr message ?md ?p"
    and keys: "keys message = {''schemaVersion'', ''messageId'', ''category'', ''occurredAt'', ''metadata'', ''payload''}"
    and op: "check_operation fr channel (the ?p) = Inl e"
    by (auto simp: check_control_def Let_def rbind_Inl_iff split: if_splits)
  obtain md payload where mp: "?md = Some md" "?p = Some payload"
    using ok by (cases ?md; cases ?p) (auto simp: envelope_rejected_def)
  show ?thesis
    using check_operation_error [OF op] False keys v mp by (auto simp: as_object_Some)
qed simp

lemma control_errors:
  assumes "\<not> wide_escape frame" "websocket_control fr limit frame channel = Inl e"
  shows "(\<exists>m. e = ValueError m) \<or>
    (e = TypeError ''unhashable type'' \<and> (\<exists>message md payload.
       frame_objects limit frame message md payload \<and> unhashable (dict_get payload ''operation''))) \<or>
    (e = RecursionError \<and> json_loads limit frame = Inl RecursionError)"
proof (cases "json_loads limit frame")
  case l: (Inl x)
  have "x \<noteq> json_not_modelled" using json_loads_modelled [OF assms(1)] l by auto
  then show ?thesis
    using assms(2) l json_loads_errors [OF l]
    by (auto simp: websocket_control_def scan_error_def split: if_splits)
next
  case r: (Inr v)
  then have "check_control fr channel v = Inl e" using assms(2) by (simp add: websocket_control_def)
  from check_control_error [OF this] show ?thesis using r by (auto simp: frame_objects_def)
qed

text \<open>C19: Whatever a frame holds, reading it as a control message gives the accepted triple or one of three
  exceptions.  What is accepted is an object of the agreed schema for the channel of the ticket, has a known
  operation, canonical UUIDv7 correlation and subscription identifiers, and a subscription wherever the
  operation needs one.  What is not raises \<open>ValueError\<close>, except where the operation is an array or an
  object (\<open>TypeError\<close>) and where the text is nested too deep (\<open>RecursionError\<close>).  The frame has no
  \<open>\u\<close> escape above 255, as the development's strings have no such characters.\<close>

theorem control_message_checked:
  assumes "\<not> wide_escape frame"
  shows "case websocket_control fr limit frame channel of
     Inr (operation, correlation_id, subscription) \<Rightarrow>
       operation \<in> {''subscribe'', ''unsubscribe'', ''heartbeat''} \<and> is_uuid7 correlation_id \<and>
       (case subscription of None \<Rightarrow> operation = ''heartbeat'' | Some i \<Rightarrow> is_uuid7 i) \<and>
       (\<exists>message md payload. frame_objects limit frame message md payload \<and>
         dict_get message ''schemaVersion'' = JStr ''1.0.0'' \<and> dict_get payload ''channel'' = JStr channel)
   | Inl e \<Rightarrow> (\<exists>m. e = ValueError m) \<or>
       (e = TypeError ''unhashable type'' \<and> (\<exists>message md payload.
          frame_objects limit frame message md payload \<and> unhashable (dict_get payload ''operation''))) \<or>
       (e = RecursionError \<and> json_loads limit frame = Inl RecursionError)"
proof (cases "websocket_control fr limit frame channel")
  case (Inr r)
  then show ?thesis using control_ok [of fr limit frame channel] control_objects [of fr limit frame channel] by (cases r) auto
next
  case (Inl e)
  then show ?thesis using control_errors [OF assms Inl] by simp
qed

section \<open>Envelopes\<close>

text \<open>Draws whose random bits and clock are in range.\<close>

definition draws_ok :: "draws \<Rightarrow> bool" where
  "draws_ok D \<longleftrightarrow> (\<forall>k. 0 \<le> dr_randbits D k \<and> dr_randbits D k < 2 ^ 74) \<and>
     (\<forall>k. - 62135596800000000 \<le> dr_now D k \<and> dr_now D k \<le> 253402300799999999)"

lemma new_id_ok:
  assumes "state_ok u" "draws_ok D" "new_id D k u = (i, t)"
  shows "is_uuid7 i \<and> state_ok t"
proof -
  obtain v where v: "uuid7 (dr_time_ns D k) (dr_randbits D k) u = (v, t)" "i = uuid_str v"
    using assms(3) by (auto simp: new_id_def split: prod.splits)
  then show ?thesis using uuid7_ok [OF assms(1) _ _ v(1)] assms(2) by (simp add: draws_ok_def)
qed

lemma utc_z_ok: "draws_ok D \<Longrightarrow> is_utc_z (JStr (utc_z (dr_now D k)))"
  using isoformat_ok [of "dr_now D k"] by (simp add: is_utc_z_def utc_z_def draws_ok_def)

definition envelope_ok :: "string \<Rightarrow> string \<Rightarrow> json \<Rightarrow> bool" where
  "envelope_ok category correlation_id v \<longleftrightarrow> (\<exists>message.
     v = JObj message \<and> map fst message = [''schemaVersion'', ''messageId'', ''category'', ''occurredAt'',
       ''metadata'', ''payload''] \<and> dict_get message ''schemaVersion'' = JStr ''1.0.0'' \<and>
     dict_get message ''category'' = JStr category \<and>
     (\<exists>i. dict_get message ''messageId'' = JStr i \<and> is_uuid7 i) \<and>
     is_utc_z (dict_get message ''occurredAt'') \<and>
     dict_get message ''metadata'' = JObj [(''correlationId'', JStr correlation_id)] \<and>
     (\<exists>payload. dict_get message ''payload'' = JObj payload \<and> distinct (map fst payload)))"

lemma base_envelope_ok:
  "is_uuid7 i \<Longrightarrow> is_utc_z (JStr t) \<Longrightarrow> distinct (map fst p) \<Longrightarrow>
     envelope_ok category cid (base_envelope category cid p t i)"
  by (simp add: envelope_ok_def base_envelope_def dict_get_def)

section \<open>Example session\<close>

definition demo_draws :: draws where
  "demo_draws = \<lparr>dr_now = (\<lambda>k. 1700000000000000), dr_time_ns = (\<lambda>k. 1700000000000000000),
     dr_randbits = (\<lambda>k. 42)\<rparr>"

lemma demo_draws_ok: "draws_ok demo_draws"
  by (simp add: draws_ok_def demo_draws_def)

definition demo_id :: string where
  "demo_id = ''018bcfe5-6800-7000-8000-00000000002a''"

lemma demo_id_ok: "is_uuid7 demo_id"
  by code_simp

definition demo_frame :: "string \<Rightarrow> string" where
  "demo_frame operation = ''{\"schemaVersion\":\"1.0.0\",\"messageId\":\"'' @ demo_id @
     ''\",\"category\":\"websocket\",\"occurredAt\":\"2024-01-02T03:04:05Z\",\"metadata\":{\"correlationId\":\"'' @
     demo_id @ ''\"},\"payload\":{\"operation\":\"'' @ operation @
     ''\",\"channel\":\"session.events\",\"subscriptionId\":\"'' @ demo_id @ ''\"}}''"

lemma demo_frame_narrow: "\<not> wide_escape (demo_frame ''subscribe'')"
  unfolding demo_frame_def demo_id_def by code_simp

text \<open>A frame with a list for its operation.\<close>

definition demo_list_frame :: string where
  "demo_list_frame = ''{\"schemaVersion\":\"1.0.0\",\"messageId\":\"'' @ demo_id @
     ''\",\"category\":\"websocket\",\"occurredAt\":\"2024-01-02T03:04:05Z\",\"metadata\":{\"correlationId\":\"'' @
     demo_id @ ''\"},\"payload\":{\"operation\":[]}}''"

theorem control_message_checked_witness:
  "(\<exists>message md payload. frame_objects 10 demo_list_frame message md payload \<and>
      unhashable (dict_get payload ''operation'')) \<and>
   (\<exists>message md payload. frame_objects 10 (demo_frame ''subscribe'') message md payload \<and>
      dict_get payload ''channel'' = JStr ''session.events'')"
proof -
  have bad: "\<not> wide_escape demo_list_frame"
    "websocket_control (\<lambda>f. []) 10 demo_list_frame ''session.events'' = Inl (TypeError ''unhashable type'')"
    unfolding demo_list_frame_def demo_id_def by code_simp+
  have good: "websocket_control (\<lambda>f. []) 10 (demo_frame ''subscribe'') ''session.events'' =
      Inr (''subscribe'', demo_id, Some demo_id)"
    unfolding demo_frame_def demo_id_def by code_simp
  show ?thesis
    using control_message_checked [OF bad(1), where fr = "\<lambda>f. []" and limit = 10 and channel = "''session.events''"]
      control_message_checked [OF demo_frame_narrow, where fr = "\<lambda>f. []" and limit = 10 and channel = "''session.events''"]
    unfolding bad(2) good by auto
qed

definition demo_ws_start :: ws_state where
  "demo_ws_start = \<lparr>ws_subscriptions = [], ws_uuid7 = uuid7_init\<rparr>"

definition demo_session :: "ws_action list \<times> ws_state option" where
  "demo_session = ws_loop (\<lambda>f. []) 10 demo_settings ''session.events''
     [((demo_draws, demo_draws), Ws_Frame (Some (demo_frame ''subscribe'')))] demo_ws_start"

text \<open>C20: Every error, health and WebSocket envelope has exactly the six agreed members, the schema
  version, a canonical UUIDv7 message identifier, a UTC time stamp that the server's own reader
  accepts, and the correlation identifier it was given; and the generator stays well formed.\<close>

theorem envelopes_well_formed:
  assumes "state_ok u" "draws_ok D"
  shows "envelope_ok ''error'' cid (fst (error_envelope D cid ecode message retryable field u)) \<and>
    state_ok (snd (error_envelope D cid ecode message retryable field u)) \<and>
    envelope_ok ''health'' cid (fst (health_envelope D cid component status detail u)) \<and>
    state_ok (snd (health_envelope D cid component status detail u)) \<and>
    envelope_ok ''websocket'' cid (fst (websocket_envelope D cid operation channel subscription u)) \<and>
    state_ok (snd (websocket_envelope D cid operation channel subscription u))"
proof -
  obtain i t where i: "new_id D 0 u = (i, t)" by fastforce
  obtain j w where j: "new_id D 1 t = (j, w)" by fastforce
  have ok: "is_uuid7 i" "state_ok t" "is_uuid7 j" "state_ok w"
    using new_id_ok [OF assms i] new_id_ok [OF _ assms(2) j] by blast+
  show ?thesis
    using i j ok utc_z_ok [OF assms(2), of 0]
    by (auto simp: error_envelope_def health_envelope_def websocket_envelope_def Let_def
        intro!: base_envelope_ok split: option.splits)
qed

theorem envelopes_well_formed_witness:
  "envelope_ok ''error'' demo_id (fst (error_envelope demo_draws demo_id ''E'' ''m'' True None uuid7_init))"
  using envelopes_well_formed [OF state_ok_init demo_draws_ok] by blast

text \<open>C23: What the server sends as a heartbeat, on whatever channel and for whatever canonical
  identifiers, is itself a valid control message of that channel, read back (as the parsed value) with the
  same operation, correlation and subscription.\<close>

theorem heartbeat_round_trip:
  assumes "state_ok u" "draws_ok D" "is_uuid7 cid" "case subscription of None \<Rightarrow> True | Some i \<Rightarrow> is_uuid7 i"
  shows "check_control fr channel (fst (websocket_envelope D cid ''heartbeat'' channel subscription u)) =
    Inr (''heartbeat'', cid, subscription)"
proof -
  obtain i t where i: "new_id D 0 u = (i, t)" by fastforce
  have ok: "is_uuid7 i" using new_id_ok [OF assms(1,2) i] by blast
  have ne: "is_uuid7 x \<Longrightarrow> x \<noteq> []" for x
  proof -
    have "\<not> is_uuid7 []" by code_simp
    then show "is_uuid7 x \<Longrightarrow> x \<noteq> []" by auto
  qed
  have rejected: "\<not> envelope_rejected fr [(''schemaVersion'', JStr ''1.0.0''), (''messageId'', JStr i),
       (''category'', JStr ''websocket''), (''occurredAt'', JStr (utc_z (dr_now D 0))),
       (''metadata'', JObj [(''correlationId'', JStr cid)]), (''payload'', JObj p)]
       (Some [(''correlationId'', JStr cid)]) (Some p)"
    if "keys p \<subseteq> {''operation'', ''channel'', ''subscriptionId''}" for p
    using that ok assms(3) utc_z_ok [OF assms(2), of 0]
    by (simp add: envelope_rejected_def uuid_member_def dict_get_def keys_def)
  show ?thesis
    using i assms(4) ne rejected
    by (cases subscription)
      (simp_all add: websocket_envelope_def base_envelope_def check_control_def Let_def keys_def
        check_operation_def dict_get_def insert_commute)
qed

theorem heartbeat_round_trip_witness:
  "check_control (\<lambda>f. []) ''system.health''
     (fst (websocket_envelope demo_draws demo_id ''heartbeat'' ''system.health'' (Some demo_id) uuid7_init)) =
   Inr (''heartbeat'', demo_id, Some demo_id)"
  by (rule heartbeat_round_trip [OF state_ok_init demo_draws_ok demo_id_ok]) (simp add: demo_id_ok)

section \<open>The session loop\<close>

lemma update_subscriptions_ok:
  assumes "update_subscriptions m operation subscription subs = Some subs'"
    and "distinct subs \<and> int (length subs) \<le> m \<and> (\<forall>i \<in> set subs. is_uuid7 i)"
    and "case subscription of None \<Rightarrow> True | Some i \<Rightarrow> is_uuid7 i"
  shows "distinct subs' \<and> int (length subs') \<le> m \<and> (\<forall>i \<in> set subs'. is_uuid7 i)"
proof -
  have "int (length (removeAll i subs)) \<le> m" for i
    by (rule order_trans [of _ "int (length subs)"]) (use assms(2) in auto)
  then show ?thesis
    using assms by (auto simp: update_subscriptions_def List.insert_def distinct_removeAll
        split: if_splits option.splits)
qed

lemma ws_turn_continues:
  assumes "ws_turn fr limit S channel D event st = (acts, Some st')"
  obtains frame operation cid subscription replies where "event = Ws_Frame (Some frame)"
    "websocket_control fr limit frame channel = Inr (operation, cid, subscription)"
    "int (length (utf8 frame)) \<le> as_ws_max_frame_bytes S"
    "update_subscriptions (as_ws_max_subscriptions S) operation subscription (ws_subscriptions st) =
      Some (ws_subscriptions st')"
    "ws_replies S (fst D) (snd D) channel operation cid subscription (ws_uuid7 st) = (replies, ws_uuid7 st')"
    "acts = map Ws_Send replies"
  using assms
  by (auto simp: ws_turn_def Let_def split: ws_event.splits option.splits if_splits sum.splits exn.splits
      prod.splits)

text \<open>C21: However a client behaves, a session never holds more subscriptions than the settings
  allow, never the same one twice, and only canonical UUIDv7 identifiers.\<close>

theorem subscriptions_bounded:
  assumes "0 \<le> as_ws_max_subscriptions S"
    and "ws_loop fr limit S channel events \<lparr>ws_subscriptions = [], ws_uuid7 = u\<rparr> = (acts, Some st)"
  shows "distinct (ws_subscriptions st) \<and> int (length (ws_subscriptions st)) \<le> as_ws_max_subscriptions S \<and>
    (\<forall>i \<in> set (ws_subscriptions st). is_uuid7 i)"
proof -
  let ?ok = "\<lambda>st. distinct (ws_subscriptions st) \<and>
      int (length (ws_subscriptions st)) \<le> as_ws_max_subscriptions S \<and> (\<forall>i \<in> set (ws_subscriptions st). is_uuid7 i)"
  have turn: "?ok st'" if "?ok st" "ws_turn fr limit S channel D event st = (acts, Some st')"
    for st st' D event acts
  proof -
    from that(2) obtain frame operation cid subscription replies where
      ctl: "websocket_control fr limit frame channel = Inr (operation, cid, subscription)"
      and upd: "update_subscriptions (as_ws_max_subscriptions S) operation subscription (ws_subscriptions st) =
        Some (ws_subscriptions st')"
      by (rule ws_turn_continues)
    have "case subscription of None \<Rightarrow> True | Some i \<Rightarrow> is_uuid7 i"
      using control_ok [OF ctl] by (auto split: option.splits)
    from update_subscriptions_ok [OF upd _ this] that(1) show ?thesis by blast
  qed
  have "?ok st" if "?ok st0" "ws_loop fr limit S channel events st0 = (acts, Some st)" for st0 acts
    using that
  proof (induction events arbitrary: st0 acts)
    case (Cons e events)
    obtain D event where e: "e = (D, event)" by fastforce
    obtain a r where t: "ws_turn fr limit S channel D event st0 = (a, r)" by fastforce
    with Cons.prems(2) obtain st1 where r: "r = Some st1"
      by (cases r) (auto simp: e)
    obtain b where "ws_loop fr limit S channel events st1 = (b, Some st)"
      using Cons.prems(2) t r by (auto simp: e split: prod.splits)
    then show ?case using Cons.IH [of st1] turn [OF Cons.prems(1) t [unfolded r]] by blast
  qed simp
  from this [OF _ assms(2)] assms(1) show ?thesis by simp
qed

lemma demo_session_ok: "\<exists>st. snd demo_session = Some st \<and> ws_subscriptions st = [demo_id]"
proof -
  have "case snd demo_session of Some st \<Rightarrow> ws_subscriptions st = [demo_id] | None \<Rightarrow> False"
    unfolding demo_session_def demo_settings_def by code_simp
  then show ?thesis by (auto split: option.splits)
qed

theorem subscriptions_bounded_witness:
  "\<exists>st. snd demo_session = Some st \<and> ws_subscriptions st = [demo_id] \<and> distinct (ws_subscriptions st)"
proof -
  obtain st where st: "snd demo_session = Some st" "ws_subscriptions st = [demo_id]"
    using demo_session_ok by blast
  have "ws_loop (\<lambda>f. []) 10 demo_settings ''session.events''
      [((demo_draws, demo_draws), Ws_Frame (Some (demo_frame ''subscribe'')))]
      \<lparr>ws_subscriptions = [], ws_uuid7 = uuid7_init\<rparr> = (fst demo_session, Some st)"
    using st(1) by (simp add: demo_session_def demo_ws_start_def prod_eq_iff)
  from subscriptions_bounded [OF _ this] st show ?thesis by (simp add: demo_settings_def)
qed

text \<open>How a session ends at an event it does not accept, with its subscriptions; \<open>None\<close> where it goes on.\<close>

definition ending ::
    "(pyfloat \<Rightarrow> string) \<Rightarrow> nat \<Rightarrow> auth_settings \<Rightarrow> string \<Rightarrow> string list \<Rightarrow> ws_event \<Rightarrow> ws_action option" where
  "ending fr limit S channel subs event =
     (case event of
        Ws_Disconnect \<Rightarrow> Some Ws_Return
      | Ws_Frame None \<Rightarrow> Some (Ws_Close WS_1003)
      | Ws_Frame (Some frame) \<Rightarrow>
          if as_ws_max_frame_bytes S < int (length (utf8 frame)) then Some (Ws_Close WS_1009)
          else (case websocket_control fr limit frame channel of
              Inl (ValueError m) \<Rightarrow> Some (Ws_Close WS_1008)
            | Inl e \<Rightarrow> Some (Ws_Crash e)
            | Inr (operation, cid, Some i) \<Rightarrow>
                if operation = ''subscribe'' \<and> i \<notin> set subs \<and> as_ws_max_subscriptions S \<le> int (length subs)
                then Some (Ws_Close WS_1008) else None
            | Inr (operation, cid, None) \<Rightarrow> None))"

lemma subscriptions_full:
  assumes "websocket_control fr limit frame channel = Inr (operation, cid, subscription)"
  shows "update_subscriptions m operation subscription subs = None \<longleftrightarrow>
    (\<exists>i. operation = ''subscribe'' \<and> subscription = Some i \<and> i \<notin> set subs \<and> m \<le> int (length subs))"
  using control_ok [OF assms] by (auto simp: update_subscriptions_def split: option.splits)

text \<open>Every event ends the session in that way or is accepted.\<close>

lemma ws_turn_ending:
  assumes "\<forall>frame. event = Ws_Frame (Some frame) \<longrightarrow> \<not> wide_escape frame"
  shows "case ending fr limit S channel (ws_subscriptions st) event of
      Some a \<Rightarrow> ws_turn fr limit S channel D event st = ([a], None) \<and>
        (\<forall>e. a = Ws_Crash e \<longrightarrow> e \<in> {TypeError ''unhashable type'', RecursionError})
    | None \<Rightarrow> \<exists>acts st'. ws_turn fr limit S channel D event st = (acts, Some st') \<and> (\<forall>a \<in> set acts. \<exists>v. a = Ws_Send v)"
proof (cases event)
  case (Ws_Frame f)
  show ?thesis
  proof (cases f)
    case (Some frame)
    note e = Ws_Frame [unfolded Some]
    have narrow: "\<not> wide_escape frame" using assms e by simp
    show ?thesis
    proof (cases "websocket_control fr limit frame channel")
      case (Inl x)
      then have "(\<exists>m. x = ValueError m) \<or> x = TypeError ''unhashable type'' \<or> x = RecursionError"
        using control_errors [OF narrow Inl] by blast
      then show ?thesis using Inl by (auto simp: e ending_def ws_turn_def)
    next
      case (Inr r)
      then obtain operation cid subscription where r: "r = (operation, cid, subscription)" by (cases r)
      note c = Inr [unfolded r]
      show ?thesis
        using subscriptions_full [OF c, of "as_ws_max_subscriptions S" "ws_subscriptions st"]
        by (cases "update_subscriptions (as_ws_max_subscriptions S) operation subscription (ws_subscriptions st)")
          (auto simp: e c ending_def ws_turn_def Let_def split: prod.splits option.splits)
    qed
  qed (simp add: Ws_Frame ending_def ws_turn_def)
qed (simp add: ending_def ws_turn_def)

text \<open>C22: A session sends envelopes only while every event is accepted.  The first event that is not (a
  disconnect, a frame that is not text, is too large, is not a valid control message for the channel, or
  asks for one subscription too many) ends it, and nothing is sent after that: with the close code
  for its reason or, where reading the frame raises \<open>TypeError\<close> or \<open>RecursionError\<close>, which the loop does
  not catch, with that exception.  A session that did not meet such an event goes on.  Frames have no
  \<open>\u\<close> escape above 255.\<close>

theorem session_stops_at_first_bad_frame:
  assumes "ws_loop fr limit S channel (before @ (D, event) # later) st = (acts, r)"
    and "ws_loop fr limit S channel before st = (sent, Some st1)"
    and "\<forall>frame. event = Ws_Frame (Some frame) \<longrightarrow> \<not> wide_escape frame"
  shows "(\<forall>a \<in> set sent. \<exists>v. a = Ws_Send v) \<and>
    (case ending fr limit S channel (ws_subscriptions st1) event of
       Some a \<Rightarrow> acts = sent @ [a] \<and> r = None \<and>
         (\<forall>e. a = Ws_Crash e \<longrightarrow> e \<in> {TypeError ''unhashable type'', RecursionError})
     | None \<Rightarrow> \<exists>replies st2. ws_loop fr limit S channel (before @ [(D, event)]) st = (sent @ replies, Some st2) \<and>
         (\<forall>a \<in> set replies. \<exists>v. a = Ws_Send v))"
  using assms(1,2)
proof (induction before arbitrary: st acts sent)
  case Nil
  then show ?case
    using ws_turn_ending [OF assms(3), where fr = fr and limit = limit and S = S and channel = channel and
        st = st and D = D] by (auto split: option.splits prod.splits)
next
  case (Cons e before)
  obtain D' event' where e: "e = (D', event')" by fastforce
  obtain a x where t: "ws_turn fr limit S channel D' event' st = (a, x)" by fastforce
  with Cons.prems(2) obtain st2 where x: "x = Some st2" by (cases x) (auto simp: e)
  obtain b where b: "ws_loop fr limit S channel before st2 = (b, Some st1)" "sent = a @ b"
    using Cons.prems(2) t x by (auto simp: e split: prod.splits)
  obtain c where c: "ws_loop fr limit S channel (before @ (D, event) # later) st2 = (c, r)" "acts = a @ c"
    using Cons.prems(1) t x by (auto simp: e split: prod.splits)
  have "\<forall>y \<in> set a. \<exists>v. y = Ws_Send v"
    using t [unfolded x] by (rule ws_turn_continues) auto
  then show ?case using Cons.IH [OF c(1) b(1)] b(2) c(2) t x by (auto simp: e split: option.splits prod.splits)
qed

theorem session_stops_at_first_bad_frame_witness:
  "ws_loop (\<lambda>f. []) 10 demo_settings ''session.events''
     ([((demo_draws, demo_draws), Ws_Frame (Some (demo_frame ''subscribe'')))] @
      ((demo_draws, demo_draws), Ws_Frame (Some ''{'')) # []) demo_ws_start =
   (fst demo_session @ [Ws_Close WS_1008], None)"
proof -
  obtain st where st: "demo_session = (fst demo_session, Some st)"
    using demo_session_ok by (metis prod.collapse)
  have bad: "websocket_control (\<lambda>f. []) 10 ''{'' ''session.events'' = Inl (ValueError ''malformed JSON'')"
    "int (length (utf8 ''{'')) \<le> 16384" by code_simp+
  obtain acts r where run: "ws_loop (\<lambda>f. []) 10 demo_settings ''session.events''
     ([((demo_draws, demo_draws), Ws_Frame (Some (demo_frame ''subscribe'')))] @
      ((demo_draws, demo_draws), Ws_Frame (Some ''{'')) # []) demo_ws_start = (acts, r)" by fastforce
  have size: "as_ws_max_frame_bytes demo_settings = 16384" by (simp add: demo_settings_def)
  have narrow: "\<not> wide_escape ''{''" by code_simp
  from session_stops_at_first_bad_frame [OF run st [unfolded demo_session_def]] bad narrow
  have "r = None \<and> acts = fst demo_session @ [Ws_Close WS_1008]"
    by (simp add: size demo_session_def ending_def)
  then show ?thesis unfolding run by simp
qed

end
