(* ===== verification/Schema.thy ===== *)
theory Schema
  imports Prelude
begin

text \<open>
  The vocabulary of the modules in \<open>infrastructure/database\<close>: the calls to SQLAlchemy Core that
  declare columns, constraints, tables and indexes are data here, the SQL of the checks as terms.
  The names of \<open>metadata.py\<close> (\<open>UUID_TYPE\<close>, \<open>_id\<close>, \<open>_timestamps\<close>, \<open>_state_check\<close>) are kept.
\<close>

section \<open>Columns\<close>

datatype sql_type = Uuid | Timestamptz | String nat | Text | Boolean | Integer | Numeric nat nat | Jsonb

definition UUID_TYPE :: sql_type where "UUID_TYPE = Uuid"
definition UTC_TIMESTAMP :: sql_type where "UTC_TIMESTAMP = Timestamptz"
definition MONEY :: sql_type where "MONEY = Numeric 24 8"
definition PRICE :: sql_type where "PRICE = Numeric 28 12"
definition QUANTITY :: sql_type where "QUANTITY = Numeric 28 12"
definition JSON_TYPE :: sql_type where "JSON_TYPE = Jsonb"

lemmas type_defs = UUID_TYPE_def UTC_TIMESTAMP_def MONEY_def PRICE_def QUANTITY_def JSON_TYPE_def

datatype on_delete = CASCADE | SET_NULL | RESTRICT

datatype foreign_key = ForeignKey (fk_target: string) (fk_on_delete: on_delete)

datatype server_default = Now | Text_Default string

record column =
  col_name :: string
  col_type :: sql_type
  foreign_key :: "foreign_key option"
  nullable :: bool
  unique :: bool
  primary_key :: bool
  server_default :: "server_default option"

definition Column :: "string \<Rightarrow> sql_type \<Rightarrow> column" where
  "Column name type = \<lparr>col_name = name, col_type = type, foreign_key = None, nullable = True,
     unique = False, primary_key = False, server_default = None\<rparr>"

section \<open>Constraints\<close>

datatype operand = Ref string | Str string | Num int

datatype comparison = Eq | Ne | Gt | Ge | Le

datatype condition =
    Compare comparison operand operand
  | In operand "string list"
  | Is_Null operand
  | And condition condition
  | Or condition condition

datatype item =
    Col column
  | Check_Constraint condition string
  | Unique_Constraint "string list" string

definition row_id :: item where
  "row_id = Col ((Column ''id'' UUID_TYPE)\<lparr>primary_key := True\<rparr>)"

definition timestamps :: "item list" where
  "timestamps =
     [Col ((Column ''created_at'' UTC_TIMESTAMP)\<lparr>nullable := False, server_default := Some Now\<rparr>),
      Col ((Column ''updated_at'' UTC_TIMESTAMP)\<lparr>nullable := False, server_default := Some Now\<rparr>)]"

definition state_check :: "string \<Rightarrow> string list \<Rightarrow> string \<Rightarrow> item" where
  "state_check column values name = Check_Constraint (In (Ref column) values) name"

section \<open>Tables and indexes\<close>

record "table" =
  table_name :: string
  table_items :: "item list"
  table_schema :: string

definition Table :: "string \<Rightarrow> item list \<Rightarrow> string \<Rightarrow> table" where
  "Table name items schema = \<lparr>table_name = name, table_items = items, table_schema = schema\<rparr>"

definition columns :: "table \<Rightarrow> column list" where
  "columns t = concat (map (\<lambda>i. case i of Col c \<Rightarrow> [c] | _ \<Rightarrow> []) (table_items t))"

definition checks :: "table \<Rightarrow> (string \<times> condition) list" where
  "checks t = concat (map (\<lambda>i. case i of Check_Constraint e n \<Rightarrow> [(n, e)] | _ \<Rightarrow> []) (table_items t))"

definition uniques :: "table \<Rightarrow> (string \<times> string list) list" where
  "uniques t = concat (map (\<lambda>i. case i of Unique_Constraint cs n \<Rightarrow> [(n, cs)] | _ \<Rightarrow> []) (table_items t))"

definition full_name :: "table \<Rightarrow> string" where
  "full_name t = table_schema t @ ''.'' @ table_name t"

definition primary_columns :: "table \<Rightarrow> string list" where
  "primary_columns t = map col_name (filter primary_key (columns t))"

definition not_null :: "column \<Rightarrow> bool" where
  "not_null c \<longleftrightarrow> \<not> nullable c \<or> primary_key c"

text \<open>The targets a table's foreign keys name, and the columns foreign keys may name.\<close>

definition foreign_keys :: "table \<Rightarrow> (string \<times> sql_type \<times> on_delete \<times> bool) list" where
  "foreign_keys t = concat (map (\<lambda>c. case foreign_key c of None \<Rightarrow> []
     | Some (ForeignKey ref action) \<Rightarrow> [(ref, col_type c, action, not_null c)]) (columns t))"

definition references :: "table \<Rightarrow> string list" where
  "references t = map fst (foreign_keys t)"

definition key_columns :: "table \<Rightarrow> (string \<times> sql_type) list" where
  "key_columns t = map (\<lambda>c. (full_name t @ ''.'' @ col_name c, col_type c))
     ((if length (primary_columns t) = 1 then filter primary_key (columns t) else []) @
      filter unique (columns t))"

definition key_paths :: "table \<Rightarrow> string list" where
  "key_paths t = map fst (key_columns t)"

record index =
  index_name :: string
  index_table :: string
  index_columns :: "string list"

definition Index :: "string \<Rightarrow> table \<Rightarrow> string list \<Rightarrow> index" where
  "Index name t cs = \<lparr>index_name = name, index_table = full_name t, index_columns = cs\<rparr>"

section \<open>Names\<close>

text \<open>\<open>NAMING_CONVENTION\<close>: the names of the constraints that are not named in full.\<close>

definition pk_name :: "table \<Rightarrow> string" where
  "pk_name t = ''pk_'' @ table_name t"

definition uq_name :: "table \<Rightarrow> column \<Rightarrow> string" where
  "uq_name t c = ''uq_'' @ table_name t @ ''_'' @ col_name c"

definition ck_name :: "table \<Rightarrow> string \<Rightarrow> string" where
  "ck_name t name = ''ck_'' @ table_name t @ ''_'' @ name"

text \<open>Tables, indexes, and the constraints that PostgreSQL backs by an index share one name space.\<close>

definition table_names :: "table \<Rightarrow> string list" where
  "table_names t =
     [table_name t, pk_name t] @ map (uq_name t) (filter unique (columns t)) @ map fst (uniques t)"

definition table_indexes :: "index list \<Rightarrow> table \<Rightarrow> index list" where
  "table_indexes ixs t = filter (\<lambda>i. index_table i = full_name t) ixs"

definition relation_names :: "index list \<Rightarrow> table \<Rightarrow> (string \<times> string) list" where
  "relation_names ixs t = map (Pair (table_schema t)) (table_names t @ map index_name (table_indexes ixs t))"

section \<open>Well-formed schemas\<close>

fun operand_type :: "table \<Rightarrow> operand \<Rightarrow> sql_type option" where
  "operand_type t (Ref c) = map_option col_type (List.find (\<lambda>x. col_name x = c) (columns t))"
| "operand_type t (Str s) = Some (String (length s))"
| "operand_type t (Num n) = Some Integer"

text \<open>A comparison needs operands of one kind, and a text that is longer than its column never fits.\<close>

fun comparable :: "sql_type \<Rightarrow> sql_type \<Rightarrow> bool" where
  "comparable (String n) (String m) \<longleftrightarrow> m \<le> n"
| "comparable Integer Integer \<longleftrightarrow> True"
| "comparable (Numeric p s) Integer \<longleftrightarrow> True"
| "comparable Timestamptz Timestamptz \<longleftrightarrow> True"
| "comparable _ _ \<longleftrightarrow> False"

fun condition_ok :: "table \<Rightarrow> condition \<Rightarrow> bool" where
  "condition_ok t (Compare c a b) \<longleftrightarrow>
     (case (operand_type t a, operand_type t b) of (Some x, Some y) \<Rightarrow> comparable x y | _ \<Rightarrow> False)"
| "condition_ok t (In a vs) \<longleftrightarrow> (case operand_type t a of
     Some (String n) \<Rightarrow> list_all (\<lambda>v. length v \<le> n) vs \<and> distinct vs | _ \<Rightarrow> False)"
| "condition_ok t (Is_Null a) \<longleftrightarrow> operand_type t a \<noteq> None"
| "condition_ok t (And x y) \<longleftrightarrow> condition_ok t x \<and> condition_ok t y"
| "condition_ok t (Or x y) \<longleftrightarrow> condition_ok t x \<and> condition_ok t y"

text \<open>
  A foreign key names exactly one column that is a key of its table, and that has the same type;
  \<open>SET NULL\<close> needs a column that may be null.
\<close>

definition key_of :: "table list \<Rightarrow> string \<Rightarrow> (string \<times> sql_type) list" where
  "key_of md ref = filter (\<lambda>k. fst k = ref) (concat (map key_columns md))"

definition foreign_keys_ok :: "table list \<Rightarrow> table \<Rightarrow> bool" where
  "foreign_keys_ok md t \<longleftrightarrow> list_all (\<lambda>(ref, type, action, nn).
     key_of md ref = [(ref, type)] \<and> (action = SET_NULL \<longrightarrow> \<not> nn)) (foreign_keys t)"

text \<open>A server default is a value of the column's type that its list of states allows.\<close>

fun default_fits :: "sql_type \<Rightarrow> server_default \<Rightarrow> bool" where
  "default_fits Timestamptz Now \<longleftrightarrow> True"
| "default_fits (String n) (Text_Default s) \<longleftrightarrow> length s \<le> n"
| "default_fits Boolean (Text_Default s) \<longleftrightarrow> s = ''true'' \<or> s = ''false''"
| "default_fits Integer (Text_Default s) \<longleftrightarrow> s \<noteq> [] \<and> list_all (\<lambda>c. c \<in> set ''0123456789'') s"
| "default_fits (Numeric p q) (Text_Default s) \<longleftrightarrow> s \<noteq> [] \<and> list_all (\<lambda>c. c \<in> set ''.0123456789'') s"
| "default_fits Jsonb (Text_Default s) \<longleftrightarrow> s = ''{}''"
| "default_fits _ _ \<longleftrightarrow> False"

definition default_ok :: "table \<Rightarrow> column \<Rightarrow> bool" where
  "default_ok t c \<longleftrightarrow>
     (case server_default c of
        None \<Rightarrow> True
      | Some d \<Rightarrow> default_fits (col_type c) d \<and>
          list_all (\<lambda>k. case snd k of In (Ref n) vs \<Rightarrow>
              n \<noteq> col_name c \<or> (case d of Text_Default s \<Rightarrow> s \<in> set vs | Now \<Rightarrow> False)
            | _ \<Rightarrow> True) (checks t))"

definition table_ok :: "table \<Rightarrow> bool" where
  "table_ok t \<longleftrightarrow>
     (let names = map col_name (columns t) in
      distinct names \<and> primary_columns t \<noteq> [] \<and>
      list_all (default_ok t) (columns t) \<and>
      list_all (\<lambda>u. snd u \<noteq> [] \<and> distinct (snd u) \<and> set (snd u) \<subseteq> set names) (uniques t) \<and>
      list_all (\<lambda>k. condition_ok t (snd k)) (checks t) \<and>
      distinct (map fst (checks t)) \<and>
      list_all (\<lambda>k. length (ck_name t (fst k)) \<le> 63) (checks t))"

definition index_ok :: "table list \<Rightarrow> index \<Rightarrow> bool" where
  "index_ok md i \<longleftrightarrow>
     (case filter (\<lambda>t. full_name t = index_table i) md of
        [t] \<Rightarrow> index_columns i \<noteq> [] \<and> set (index_columns i) \<subseteq> set (map col_name (columns t))
      | _ \<Rightarrow> False)"

definition names_ok :: "table list \<Rightarrow> index list \<Rightarrow> bool" where
  "names_ok md ixs \<longleftrightarrow> distinct (map full_name md) \<and>
     distinct (concat (map (relation_names ixs) md)) \<and>
     list_all (\<lambda>t. list_all (\<lambda>n. length (snd n) \<le> 63) (relation_names ixs t)) md"

definition schema_ok :: "table list \<Rightarrow> index list \<Rightarrow> bool" where
  "schema_ok md ixs \<longleftrightarrow> list_all table_ok md \<and> list_all (foreign_keys_ok md) md \<and>
      list_all (index_ok md) ixs \<and> names_ok md ixs"

end
