(* ===== verification/Schema_Rows.thy ===== *)
theory Schema_Rows
  imports Schema
begin

text \<open>
  What PostgreSQL asks of a row before it inserts it into a declared table: values that fit their
  columns, checks that are not false, keys that are new, and foreign keys that name a row.  A
  condition over a null is unknown (\<open>None\<close>), and a check that is unknown passes.
\<close>

section \<open>Values\<close>

datatype sql_value =
    Null
  | Uuid_Value int
  | Time_Value int
  | Str_Value string
  | Bool_Value bool
  | Int_Value int
  | Num_Value int nat
  | Json_Value string

type_synonym row = "(string \<times> sql_value) list"
type_synonym store = "string \<Rightarrow> row list"

definition cell :: "row \<Rightarrow> string \<Rightarrow> sql_value" where
  "cell r c = (case map_of r c of None \<Rightarrow> Null | Some v \<Rightarrow> v)"

text \<open>\<open>Num_Value m s\<close> is \<open>m / 10 ^ s\<close>, as \<open>NUMERIC(p, s)\<close> stores it.\<close>

fun value_fits :: "sql_type \<Rightarrow> sql_value \<Rightarrow> bool" where
  "value_fits Uuid (Uuid_Value n) \<longleftrightarrow> True"
| "value_fits Timestamptz (Time_Value t) \<longleftrightarrow> True"
| "value_fits (String n) (Str_Value s) \<longleftrightarrow> length s \<le> n \<and> CHR 0x00 \<notin> set s"
| "value_fits Text (Str_Value s) \<longleftrightarrow> CHR 0x00 \<notin> set s"
| "value_fits Boolean (Bool_Value b) \<longleftrightarrow> True"
| "value_fits Integer (Int_Value n) \<longleftrightarrow> - (2 ^ 31) \<le> n \<and> n < 2 ^ 31"
| "value_fits (Numeric p s) (Num_Value m s') \<longleftrightarrow> s' = s \<and> \<bar>m\<bar> < 10 ^ p"
| "value_fits Jsonb (Json_Value j) \<longleftrightarrow> True"
| "value_fits _ _ \<longleftrightarrow> False"

section \<open>Conditions\<close>

fun number :: "sql_value \<Rightarrow> (int \<times> nat) option" where
  "number (Int_Value n) = Some (n, 0)"
| "number (Num_Value m s) = Some (m, s)"
| "number (Time_Value t) = Some (t, 0)"
| "number _ = None"

fun holds :: "comparison \<Rightarrow> int \<Rightarrow> int \<Rightarrow> bool" where
  "holds Eq x y \<longleftrightarrow> x = y"
| "holds Ne x y \<longleftrightarrow> x \<noteq> y"
| "holds Gt x y \<longleftrightarrow> y < x"
| "holds Ge x y \<longleftrightarrow> y \<le> x"
| "holds Le x y \<longleftrightarrow> x \<le> y"

definition compare_values :: "comparison \<Rightarrow> sql_value \<Rightarrow> sql_value \<Rightarrow> bool option" where
  "compare_values c x y =
     (case (x, y) of
        (Str_Value s, Str_Value t) \<Rightarrow>
          if c = Eq then Some (s = t) else if c = Ne then Some (s \<noteq> t) else None
      | _ \<Rightarrow> (case (number x, number y) of
            (Some (m, s), Some (n, t)) \<Rightarrow> Some (holds c (m * 10 ^ t) (n * 10 ^ s))
          | _ \<Rightarrow> None))"

fun operand_value :: "row \<Rightarrow> operand \<Rightarrow> sql_value" where
  "operand_value r (Ref c) = cell r c"
| "operand_value r (Str s) = Str_Value s"
| "operand_value r (Num n) = Int_Value n"

definition and3 :: "bool option \<Rightarrow> bool option \<Rightarrow> bool option" where
  "and3 x y = (if x = Some False \<or> y = Some False then Some False
     else if x = Some True \<and> y = Some True then Some True else None)"

definition or3 :: "bool option \<Rightarrow> bool option \<Rightarrow> bool option" where
  "or3 x y = (if x = Some True \<or> y = Some True then Some True
     else if x = Some False \<and> y = Some False then Some False else None)"

fun eval :: "row \<Rightarrow> condition \<Rightarrow> bool option" where
  "eval r (Compare c a b) = compare_values c (operand_value r a) (operand_value r b)"
| "eval r (In a vs) = (case operand_value r a of Str_Value s \<Rightarrow> Some (s \<in> set vs) | _ \<Rightarrow> None)"
| "eval r (Is_Null a) = Some (operand_value r a = Null)"
| "eval r (And x y) = and3 (eval r x) (eval r y)"
| "eval r (Or x y) = or3 (eval r x) (eval r y)"

section \<open>Rows\<close>

definition column_accepts :: "column \<Rightarrow> sql_value \<Rightarrow> bool" where
  "column_accepts c v \<longleftrightarrow> (if v = Null then \<not> not_null c else value_fits (col_type c) v)"

definition passes_checks :: "table \<Rightarrow> row \<Rightarrow> bool" where
  "passes_checks t r \<longleftrightarrow> list_all (\<lambda>k. eval r (snd k) \<noteq> Some False) (checks t)"

text \<open>The primary key, the columns declared unique, and the unique constraints.\<close>

definition unique_keys :: "table \<Rightarrow> string list list" where
  "unique_keys t = primary_columns t # map (\<lambda>c. [col_name c]) (filter unique (columns t)) @ map snd (uniques t)"

definition duplicates :: "string list \<Rightarrow> row \<Rightarrow> row \<Rightarrow> bool" where
  "duplicates cs r r' \<longleftrightarrow> list_all (\<lambda>c. cell r c \<noteq> Null \<and> cell r' c = cell r c) cs"

definition refers :: "table list \<Rightarrow> store \<Rightarrow> string \<Rightarrow> sql_value \<Rightarrow> bool" where
  "refers md st ref v \<longleftrightarrow>
     list_ex (\<lambda>u. list_ex (\<lambda>k. fst k = ref \<and>
       list_ex (\<lambda>r. cell r (drop (length (full_name u) + 1) ref) = v) (st (full_name u))) (key_columns u)) md"

definition row_accepted :: "table list \<Rightarrow> store \<Rightarrow> table \<Rightarrow> row \<Rightarrow> bool" where
  "row_accepted md st t r \<longleftrightarrow>
     list_all (\<lambda>c. column_accepts c (cell r (col_name c))) (columns t) \<and> passes_checks t r \<and>
     list_all (\<lambda>cs. \<not> list_ex (duplicates cs r) (st (full_name t))) (unique_keys t) \<and>
     list_all (\<lambda>c. case foreign_key c of
         None \<Rightarrow> True
       | Some k \<Rightarrow> cell r (col_name c) = Null \<or> refers md st (fk_target k) (cell r (col_name c))) (columns t)"

end
