(* ===== verification/Metadata_0001.thy ===== *)
theory Metadata_0001
  imports Schema
begin

text \<open>
  The snapshot \<open>infrastructure/database/metadata_0001.py\<close> that migration 0001 creates.
\<close>

definition users :: "table" where
  "users = Table ''users'' (
     [row_id,
      Col ((Column ''email'' (String 320))\<lparr>nullable := False, unique := True\<rparr>),
      Col ((Column ''display_name'' (String 120))\<lparr>nullable := False\<rparr>),
      Col ((Column ''status'' (String 24))
        \<lparr>nullable := False, server_default := Some (Text_Default ''active'')\<rparr>)] @
     timestamps @
     [state_check ''status'' [''active'', ''disabled'', ''deleted''] ''status''])
     ''identity''"

definition roles :: "table" where
  "roles = Table ''roles'' (
     [row_id,
      Col ((Column ''name'' (String 80))\<lparr>nullable := False, unique := True\<rparr>),
      Col (Column ''description'' Text)] @
     timestamps)
     ''identity''"

definition permissions :: "table" where
  "permissions = Table ''permissions'' (
     [row_id,
      Col ((Column ''code'' (String 120))\<lparr>nullable := False, unique := True\<rparr>),
      Col (Column ''description'' Text)] @
     timestamps)
     ''identity''"

definition user_roles :: "table" where
  "user_roles = Table ''user_roles'' (
     [Col ((Column ''user_id'' UUID_TYPE)
        \<lparr>foreign_key := Some (ForeignKey ''identity.users.id'' CASCADE),
          primary_key := True\<rparr>),
      Col ((Column ''role_id'' UUID_TYPE)
        \<lparr>foreign_key := Some (ForeignKey ''identity.roles.id'' CASCADE),
          primary_key := True\<rparr>),
      Col ((Column ''created_at'' UTC_TIMESTAMP)
        \<lparr>nullable := False, server_default := Some Now\<rparr>)])
     ''identity''"

definition role_permissions :: "table" where
  "role_permissions = Table ''role_permissions'' (
     [Col ((Column ''role_id'' UUID_TYPE)
        \<lparr>foreign_key := Some (ForeignKey ''identity.roles.id'' CASCADE),
          primary_key := True\<rparr>),
      Col ((Column ''permission_id'' UUID_TYPE)
        \<lparr>foreign_key := Some (ForeignKey ''identity.permissions.id'' CASCADE),
          primary_key := True\<rparr>),
      Col ((Column ''created_at'' UTC_TIMESTAMP)
        \<lparr>nullable := False, server_default := Some Now\<rparr>)])
     ''identity''"

definition devices :: "table" where
  "devices = Table ''devices'' (
     [row_id,
      Col ((Column ''user_id'' UUID_TYPE)
        \<lparr>foreign_key := Some (ForeignKey ''identity.users.id'' CASCADE),
          nullable := False\<rparr>),
      Col ((Column ''device_key'' (String 200))\<lparr>nullable := False\<rparr>),
      Col ((Column ''platform'' (String 40))\<lparr>nullable := False\<rparr>),
      Col (Column ''last_seen_at'' UTC_TIMESTAMP),
      Col (Column ''revoked_at'' UTC_TIMESTAMP)] @
     timestamps @
     [Unique_Constraint [''user_id'', ''device_key''] ''uq_devices_user_device''])
     ''identity''"

definition sessions :: "table" where
  "sessions = Table ''sessions'' (
     [row_id,
      Col ((Column ''user_id'' UUID_TYPE)
        \<lparr>foreign_key := Some (ForeignKey ''identity.users.id'' CASCADE),
          nullable := False\<rparr>),
      Col ((Column ''device_id'' UUID_TYPE)
        \<lparr>foreign_key := Some (ForeignKey ''identity.devices.id'' SET_NULL)\<rparr>),
      Col ((Column ''token_fingerprint'' (String 128))\<lparr>nullable := False, unique :=
        True\<rparr>),
      Col ((Column ''expires_at'' UTC_TIMESTAMP)\<lparr>nullable := False\<rparr>),
      Col (Column ''revoked_at'' UTC_TIMESTAMP),
      Col ((Column ''created_at'' UTC_TIMESTAMP)
        \<lparr>nullable := False, server_default := Some Now\<rparr>)])
     ''identity''"

definition themes :: "table" where
  "themes = Table ''themes'' (
     [row_id,
      Col ((Column ''name'' (String 80))\<lparr>nullable := False, unique := True\<rparr>),
      Col ((Column ''definition'' JSON_TYPE)\<lparr>nullable := False\<rparr>),
      Col ((Column ''is_system'' Boolean)
        \<lparr>nullable := False, server_default := Some (Text_Default ''false'')\<rparr>)] @
     timestamps)
     ''personalization''"

definition background_assets :: "table" where
  "background_assets = Table ''background_assets'' (
     [row_id,
      Col ((Column ''name'' (String 80))\<lparr>nullable := False, unique := True\<rparr>),
      Col ((Column ''asset_uri'' Text)\<lparr>nullable := False\<rparr>),
      Col ((Column ''is_system'' Boolean)
        \<lparr>nullable := False, server_default := Some (Text_Default ''false'')\<rparr>)] @
     timestamps)
     ''personalization''"

definition sound_assets :: "table" where
  "sound_assets = Table ''sound_assets'' (
     [row_id,
      Col ((Column ''name'' (String 80))\<lparr>nullable := False, unique := True\<rparr>),
      Col ((Column ''asset_uri'' Text)\<lparr>nullable := False\<rparr>),
      Col ((Column ''is_system'' Boolean)
        \<lparr>nullable := False, server_default := Some (Text_Default ''false'')\<rparr>)] @
     timestamps)
     ''personalization''"

definition user_preferences :: "table" where
  "user_preferences = Table ''user_preferences'' (
     [Col ((Column ''user_id'' UUID_TYPE)
        \<lparr>foreign_key := Some (ForeignKey ''identity.users.id'' CASCADE),
          primary_key := True\<rparr>),
      Col ((Column ''theme_id'' UUID_TYPE)
        \<lparr>foreign_key := Some (ForeignKey ''personalization.themes.id'' SET_NULL)\<rparr>),
      Col ((Column ''background_id'' UUID_TYPE)
        \<lparr>foreign_key := Some (ForeignKey ''personalization.background_assets.id'' SET_NULL)\<rparr>),
      Col ((Column ''sound_id'' UUID_TYPE)
        \<lparr>foreign_key := Some (ForeignKey ''personalization.sound_assets.id'' SET_NULL)\<rparr>),
      Col ((Column ''locale'' (String 16))
        \<lparr>nullable := False, server_default := Some (Text_Default ''en-US'')\<rparr>),
      Col ((Column ''timezone'' (String 64))
        \<lparr>nullable := False, server_default := Some (Text_Default ''UTC'')\<rparr>),
      Col ((Column ''settings'' JSON_TYPE)
        \<lparr>nullable := False, server_default := Some (Text_Default ''{}'')\<rparr>)] @
     timestamps)
     ''personalization''"

definition sound_preferences :: "table" where
  "sound_preferences = Table ''sound_preferences'' (
     [row_id,
      Col ((Column ''user_id'' UUID_TYPE)
        \<lparr>foreign_key := Some (ForeignKey ''identity.users.id'' CASCADE),
          nullable := False\<rparr>),
      Col ((Column ''event_type'' (String 80))\<lparr>nullable := False\<rparr>),
      Col ((Column ''sound_asset_id'' UUID_TYPE)
        \<lparr>foreign_key := Some (ForeignKey ''personalization.sound_assets.id'' SET_NULL)\<rparr>),
      Col ((Column ''enabled'' Boolean)
        \<lparr>nullable := False, server_default := Some (Text_Default ''true'')\<rparr>),
      Col ((Column ''volume'' (Numeric 4 3))
        \<lparr>nullable := False, server_default := Some (Text_Default ''1.000'')\<rparr>)] @
     timestamps @
     [Unique_Constraint [''user_id'', ''event_type''] ''uq_sound_preference'',
      Check_Constraint (And (Compare Ge (Ref ''volume'') (Num 0)) (Compare Le (Ref ''volume'') (Num
        1))) ''volume_range''])
     ''personalization''"

definition notification_preferences :: "table" where
  "notification_preferences = Table ''notification_preferences'' (
     [row_id,
      Col ((Column ''user_id'' UUID_TYPE)
        \<lparr>foreign_key := Some (ForeignKey ''identity.users.id'' CASCADE),
          nullable := False\<rparr>),
      Col ((Column ''channel'' (String 24))\<lparr>nullable := False\<rparr>),
      Col ((Column ''event_type'' (String 80))\<lparr>nullable := False\<rparr>),
      Col ((Column ''enabled'' Boolean)
        \<lparr>nullable := False, server_default := Some (Text_Default ''true'')\<rparr>)] @
     timestamps @
     [Unique_Constraint [''user_id'', ''channel'', ''event_type''] ''uq_notification_preference'',
      state_check ''channel'' [''in_app'', ''email'', ''push'', ''sms''] ''channel''])
     ''personalization''"

definition notification_events :: "table" where
  "notification_events = Table ''notification_events'' (
     [row_id,
      Col ((Column ''user_id'' UUID_TYPE)
        \<lparr>foreign_key := Some (ForeignKey ''identity.users.id'' CASCADE),
          nullable := False\<rparr>),
      Col ((Column ''event_type'' (String 80))\<lparr>nullable := False\<rparr>),
      Col ((Column ''payload'' JSON_TYPE)\<lparr>nullable := False\<rparr>),
      Col ((Column ''occurred_at'' UTC_TIMESTAMP)
        \<lparr>nullable := False, server_default := Some Now\<rparr>),
      Col (Column ''read_at'' UTC_TIMESTAMP)])
     ''personalization''"

definition dashboard_layouts :: "table" where
  "dashboard_layouts = Table ''dashboard_layouts'' (
     [row_id,
      Col ((Column ''user_id'' UUID_TYPE)
        \<lparr>foreign_key := Some (ForeignKey ''identity.users.id'' CASCADE),
          nullable := False\<rparr>),
      Col ((Column ''name'' (String 100))\<lparr>nullable := False\<rparr>),
      Col ((Column ''layout'' JSON_TYPE)\<lparr>nullable := False\<rparr>),
      Col ((Column ''is_default'' Boolean)
        \<lparr>nullable := False, server_default := Some (Text_Default ''false'')\<rparr>)] @
     timestamps @
     [Unique_Constraint [''user_id'', ''name''] ''uq_dashboard_user_name''])
     ''personalization''"

definition workspaces :: "table" where
  "workspaces = Table ''workspaces'' (
     [row_id,
      Col ((Column ''name'' (String 120))\<lparr>nullable := False\<rparr>),
      Col ((Column ''owner_user_id'' UUID_TYPE)
        \<lparr>foreign_key := Some (ForeignKey ''identity.users.id'' RESTRICT),
          nullable := False\<rparr>),
      Col ((Column ''status'' (String 24))
        \<lparr>nullable := False, server_default := Some (Text_Default ''active'')\<rparr>)] @
     timestamps @
     [state_check ''status'' [''active'', ''suspended'', ''archived''] ''status''])
     ''workspace''"

definition workspace_members :: "table" where
  "workspace_members = Table ''workspace_members'' (
     [Col ((Column ''workspace_id'' UUID_TYPE)
        \<lparr>foreign_key := Some (ForeignKey ''workspace.workspaces.id'' CASCADE),
          primary_key := True\<rparr>),
      Col ((Column ''user_id'' UUID_TYPE)
        \<lparr>foreign_key := Some (ForeignKey ''identity.users.id'' CASCADE),
          primary_key := True\<rparr>),
      Col ((Column ''member_role'' (String 24))\<lparr>nullable := False\<rparr>),
      Col ((Column ''created_at'' UTC_TIMESTAMP)
        \<lparr>nullable := False, server_default := Some Now\<rparr>),
      state_check ''member_role'' [''owner'', ''admin'', ''trader'', ''viewer''] ''member_role''])
     ''workspace''"

definition server_connections :: "table" where
  "server_connections = Table ''server_connections'' (
     [row_id,
      Col ((Column ''workspace_id'' UUID_TYPE)
        \<lparr>foreign_key := Some (ForeignKey ''workspace.workspaces.id'' CASCADE),
          nullable := False\<rparr>),
      Col ((Column ''connection_type'' (String 40))\<lparr>nullable := False\<rparr>),
      Col ((Column ''endpoint_label'' (String 120))\<lparr>nullable := False\<rparr>),
      Col ((Column ''status'' (String 24))\<lparr>nullable := False\<rparr>),
      Col (Column ''last_connected_at'' UTC_TIMESTAMP),
      Col (Column ''last_disconnected_at'' UTC_TIMESTAMP),
      Col ((Column ''details'' JSON_TYPE)
        \<lparr>nullable := False, server_default := Some (Text_Default ''{}'')\<rparr>)] @
     timestamps @
     [state_check ''status'' [''unknown'', ''connected'', ''degraded'', ''disconnected''] ''status'',
      Unique_Constraint [''workspace_id'', ''connection_type'', ''endpoint_label'']
        ''uq_server_connection''])
     ''operations''"

definition system_health_events :: "table" where
  "system_health_events = Table ''system_health_events'' (
     [row_id,
      Col ((Column ''server_connection_id'' UUID_TYPE)
        \<lparr>foreign_key := Some (ForeignKey ''operations.server_connections.id'' CASCADE)\<rparr>),
      Col ((Column ''component'' (String 120))\<lparr>nullable := False\<rparr>),
      Col ((Column ''status'' (String 24))\<lparr>nullable := False\<rparr>),
      Col (Column ''latency_ms'' Integer),
      Col ((Column ''details'' JSON_TYPE)
        \<lparr>nullable := False, server_default := Some (Text_Default ''{}'')\<rparr>),
      Col ((Column ''observed_at'' UTC_TIMESTAMP)
        \<lparr>nullable := False, server_default := Some Now\<rparr>),
      state_check ''status'' [''healthy'', ''degraded'', ''unhealthy'', ''unknown''] ''status'',
      Check_Constraint (Or (Is_Null (Ref ''latency_ms'')) (Compare Ge (Ref ''latency_ms'') (Num 0)))
        ''latency_nonnegative''])
     ''operations''"

definition instruments :: "table" where
  "instruments = Table ''instruments'' (
     [row_id,
      Col ((Column ''symbol'' (String 40))\<lparr>nullable := False\<rparr>),
      Col ((Column ''venue'' (String 40))\<lparr>nullable := False\<rparr>),
      Col ((Column ''asset_class'' (String 32))\<lparr>nullable := False\<rparr>),
      Col ((Column ''currency'' (String 3))\<lparr>nullable := False\<rparr>),
      Col ((Column ''price_increment'' PRICE)\<lparr>nullable := False\<rparr>),
      Col ((Column ''quantity_increment'' QUANTITY)\<lparr>nullable := False\<rparr>),
      Col ((Column ''active'' Boolean)
        \<lparr>nullable := False, server_default := Some (Text_Default ''true'')\<rparr>)] @
     timestamps @
     [Unique_Constraint [''symbol'', ''venue''] ''uq_instrument_symbol_venue'',
      Check_Constraint (Compare Gt (Ref ''price_increment'') (Num 0)) ''positive_price_increment'',
      Check_Constraint (Compare Gt (Ref ''quantity_increment'') (Num 0))
        ''positive_quantity_increment''])
     ''market''"

definition quotes :: "table" where
  "quotes = Table ''quotes'' (
     [row_id,
      Col ((Column ''instrument_id'' UUID_TYPE)
        \<lparr>foreign_key := Some (ForeignKey ''market.instruments.id'' CASCADE),
          nullable := False\<rparr>),
      Col (Column ''bid_price'' PRICE),
      Col (Column ''ask_price'' PRICE),
      Col (Column ''last_price'' PRICE),
      Col (Column ''bid_quantity'' QUANTITY),
      Col (Column ''ask_quantity'' QUANTITY),
      Col ((Column ''source'' (String 80))\<lparr>nullable := False\<rparr>),
      Col ((Column ''observed_at'' UTC_TIMESTAMP)\<lparr>nullable := False\<rparr>),
      Col ((Column ''received_at'' UTC_TIMESTAMP)
        \<lparr>nullable := False, server_default := Some Now\<rparr>),
      Check_Constraint (Or (Is_Null (Ref ''bid_price'')) (Compare Ge (Ref ''bid_price'') (Num 0)))
        ''bid_nonnegative'',
      Check_Constraint (Or (Is_Null (Ref ''ask_price'')) (Compare Ge (Ref ''ask_price'') (Num 0)))
        ''ask_nonnegative'',
      Check_Constraint (Or (Is_Null (Ref ''last_price'')) (Compare Ge (Ref ''last_price'') (Num 0)))
        ''last_nonnegative''])
     ''market''"

definition signals :: "table" where
  "signals = Table ''signals'' (
     [row_id,
      Col ((Column ''workspace_id'' UUID_TYPE)
        \<lparr>foreign_key := Some (ForeignKey ''workspace.workspaces.id'' CASCADE),
          nullable := False\<rparr>),
      Col ((Column ''instrument_id'' UUID_TYPE)
        \<lparr>foreign_key := Some (ForeignKey ''market.instruments.id'' CASCADE),
          nullable := False\<rparr>),
      Col ((Column ''signal_type'' (String 40))\<lparr>nullable := False\<rparr>),
      Col ((Column ''strength'' (Numeric 10 6))\<lparr>nullable := False\<rparr>),
      Col ((Column ''payload'' JSON_TYPE)
        \<lparr>nullable := False, server_default := Some (Text_Default ''{}'')\<rparr>),
      Col ((Column ''generated_at'' UTC_TIMESTAMP)\<lparr>nullable := False\<rparr>),
      Col (Column ''expires_at'' UTC_TIMESTAMP),
      Check_Constraint (And (Compare Ge (Ref ''strength'') (Num (-1))) (Compare Le (Ref ''strength'')
        (Num 1))) ''strength_range''])
     ''market''"

definition market_feed_health_events :: "table" where
  "market_feed_health_events = Table ''market_feed_health_events'' (
     [row_id,
      Col ((Column ''workspace_id'' UUID_TYPE)
        \<lparr>foreign_key := Some (ForeignKey ''workspace.workspaces.id'' CASCADE),
          nullable := False\<rparr>),
      Col ((Column ''feed_name'' (String 100))\<lparr>nullable := False\<rparr>),
      Col ((Column ''status'' (String 24))\<lparr>nullable := False\<rparr>),
      Col (Column ''last_message_at'' UTC_TIMESTAMP),
      Col ((Column ''observed_at'' UTC_TIMESTAMP)
        \<lparr>nullable := False, server_default := Some Now\<rparr>),
      Col ((Column ''details'' JSON_TYPE)
        \<lparr>nullable := False, server_default := Some (Text_Default ''{}'')\<rparr>),
      state_check ''status'' [''healthy'', ''degraded'', ''down'', ''unknown''] ''status''])
     ''market''"

definition trading_modes :: "table" where
  "trading_modes = Table ''trading_modes'' (
     [Col ((Column ''workspace_id'' UUID_TYPE)
        \<lparr>foreign_key := Some (ForeignKey ''workspace.workspaces.id'' CASCADE),
          primary_key := True\<rparr>),
      Col ((Column ''mode'' (String 24))
        \<lparr>nullable := False, server_default := Some (Text_Default ''observation'')\<rparr>),
      Col ((Column ''changed_by_user_id'' UUID_TYPE)
        \<lparr>foreign_key := Some (ForeignKey ''identity.users.id'' RESTRICT),
          nullable := False\<rparr>),
      Col ((Column ''changed_at'' UTC_TIMESTAMP)
        \<lparr>nullable := False, server_default := Some Now\<rparr>),
      Col ((Column ''version'' Integer)
        \<lparr>nullable := False, server_default := Some (Text_Default ''1'')\<rparr>),
      state_check ''mode'' [''observation'', ''paper'', ''small_live'', ''live'', ''emergency'']
        ''mode'',
      Check_Constraint (Compare Gt (Ref ''version'') (Num 0)) ''positive_version''])
     ''trading''"

definition mode_transitions :: "table" where
  "mode_transitions = Table ''mode_transitions'' (
     [row_id,
      Col ((Column ''workspace_id'' UUID_TYPE)
        \<lparr>foreign_key := Some (ForeignKey ''workspace.workspaces.id'' CASCADE),
          nullable := False\<rparr>),
      Col ((Column ''from_mode'' (String 24))\<lparr>nullable := False\<rparr>),
      Col ((Column ''to_mode'' (String 24))\<lparr>nullable := False\<rparr>),
      Col ((Column ''requested_by_user_id'' UUID_TYPE)
        \<lparr>foreign_key := Some (ForeignKey ''identity.users.id'' RESTRICT),
          nullable := False\<rparr>),
      Col ((Column ''reason'' Text)\<lparr>nullable := False\<rparr>),
      Col ((Column ''transitioned_at'' UTC_TIMESTAMP)
        \<lparr>nullable := False, server_default := Some Now\<rparr>),
      state_check ''from_mode'' [''observation'', ''paper'', ''small_live'', ''live'', ''emergency'']
        ''from_mode'',
      state_check ''to_mode'' [''observation'', ''paper'', ''small_live'', ''live'', ''emergency'']
        ''to_mode'',
      Check_Constraint (Compare Ne (Ref ''from_mode'') (Ref ''to_mode'')) ''mode_changes'',
      Check_Constraint (Or (And (Compare Eq (Ref ''from_mode'') (Str ''observation''))
            (In (Ref ''to_mode'') [''paper'', ''emergency'']))
        (Or (And (Compare Eq (Ref ''from_mode'') (Str ''paper''))
            (In (Ref ''to_mode'') [''observation'', ''small_live'', ''emergency'']))
        (Or (And (Compare Eq (Ref ''from_mode'') (Str ''small_live''))
            (In (Ref ''to_mode'') [''paper'', ''live'', ''emergency'']))
        (Or (And (Compare Eq (Ref ''from_mode'') (Str ''live''))
            (In (Ref ''to_mode'') [''small_live'', ''emergency'']))
        (And (Compare Eq (Ref ''from_mode'') (Str ''emergency'')) (Compare Eq (Ref ''to_mode'') (Str ''observation'')))))))
        ''allowed_transition''])
     ''trading''"

definition risk_configurations :: "table" where
  "risk_configurations = Table ''risk_configurations'' (
     [row_id,
      Col ((Column ''workspace_id'' UUID_TYPE)
        \<lparr>foreign_key := Some (ForeignKey ''workspace.workspaces.id'' CASCADE),
          nullable := False\<rparr>),
      Col ((Column ''max_order_notional'' MONEY)\<lparr>nullable := False\<rparr>),
      Col ((Column ''max_position_notional'' MONEY)\<lparr>nullable := False\<rparr>),
      Col ((Column ''daily_loss_limit'' MONEY)\<lparr>nullable := False\<rparr>),
      Col ((Column ''max_open_orders'' Integer)\<lparr>nullable := False\<rparr>),
      Col ((Column ''base_currency'' (String 3))\<lparr>nullable := False\<rparr>),
      Col ((Column ''effective_from'' UTC_TIMESTAMP)
        \<lparr>nullable := False, server_default := Some Now\<rparr>),
      Col (Column ''effective_to'' UTC_TIMESTAMP),
      Col ((Column ''created_by_user_id'' UUID_TYPE)
        \<lparr>foreign_key := Some (ForeignKey ''identity.users.id'' RESTRICT),
          nullable := False\<rparr>),
      Col ((Column ''created_at'' UTC_TIMESTAMP)
        \<lparr>nullable := False, server_default := Some Now\<rparr>),
      Check_Constraint (Compare Gt (Ref ''max_order_notional'') (Num 0)) ''positive_order_limit'',
      Check_Constraint (Compare Gt (Ref ''max_position_notional'') (Num 0)) ''positive_position_limit'',
      Check_Constraint (Compare Gt (Ref ''daily_loss_limit'') (Num 0)) ''positive_loss_limit'',
      Check_Constraint (Compare Gt (Ref ''max_open_orders'') (Num 0)) ''positive_open_orders'',
      Check_Constraint (Or (Is_Null (Ref ''effective_to'')) (Compare Gt (Ref ''effective_to'') (Ref
        ''effective_from''))) ''effective_window''])
     ''trading''"

definition risk_states :: "table" where
  "risk_states = Table ''risk_states'' (
     [Col ((Column ''workspace_id'' UUID_TYPE)
        \<lparr>foreign_key := Some (ForeignKey ''workspace.workspaces.id'' CASCADE),
          primary_key := True\<rparr>),
      Col ((Column ''risk_configuration_id'' UUID_TYPE)
        \<lparr>foreign_key := Some (ForeignKey ''trading.risk_configurations.id'' RESTRICT),
          nullable := False\<rparr>),
      Col ((Column ''state'' (String 24))\<lparr>nullable := False\<rparr>),
      Col ((Column ''daily_realized_pnl'' MONEY)
        \<lparr>nullable := False, server_default := Some (Text_Default ''0'')\<rparr>),
      Col ((Column ''open_order_count'' Integer)
        \<lparr>nullable := False, server_default := Some (Text_Default ''0'')\<rparr>),
      Col (Column ''reason'' Text),
      Col ((Column ''evaluated_at'' UTC_TIMESTAMP)
        \<lparr>nullable := False, server_default := Some Now\<rparr>),
      state_check ''state'' [''normal'', ''warning'', ''blocked'', ''emergency''] ''state'',
      Check_Constraint (Compare Ge (Ref ''open_order_count'') (Num 0)) ''open_orders_nonnegative''])
     ''trading''"

definition orders :: "table" where
  "orders = Table ''orders'' (
     [row_id,
      Col ((Column ''workspace_id'' UUID_TYPE)
        \<lparr>foreign_key := Some (ForeignKey ''workspace.workspaces.id'' RESTRICT),
          nullable := False\<rparr>),
      Col ((Column ''instrument_id'' UUID_TYPE)
        \<lparr>foreign_key := Some (ForeignKey ''market.instruments.id'' RESTRICT),
          nullable := False\<rparr>),
      Col ((Column ''client_id'' (String 100))\<lparr>nullable := False\<rparr>),
      Col ((Column ''idempotency_key'' (String 200))\<lparr>nullable := False\<rparr>),
      Col (Column ''broker_order_id'' (String 160)),
      Col ((Column ''side'' (String 8))\<lparr>nullable := False\<rparr>),
      Col ((Column ''order_type'' (String 24))\<lparr>nullable := False\<rparr>),
      Col ((Column ''status'' (String 24))\<lparr>nullable := False\<rparr>),
      Col ((Column ''quantity'' QUANTITY)\<lparr>nullable := False\<rparr>),
      Col (Column ''limit_price'' PRICE),
      Col (Column ''stop_price'' PRICE),
      Col ((Column ''time_in_force'' (String 16))
        \<lparr>nullable := False, server_default := Some (Text_Default ''day'')\<rparr>),
      Col (Column ''submitted_at'' UTC_TIMESTAMP),
      Col (Column ''cancelled_at'' UTC_TIMESTAMP)] @
     timestamps @
     [Unique_Constraint [''workspace_id'', ''client_id'', ''idempotency_key''] ''uq_order_idempotency'',
      state_check ''side'' [''buy'', ''sell''] ''side'',
      state_check ''order_type'' [''market'', ''limit'', ''stop'', ''stop_limit''] ''order_type'',
      state_check ''status'' [''pending'', ''submitted'', ''partially_filled'', ''filled'',
        ''cancelled'', ''rejected''] ''status'',
      Check_Constraint (Compare Gt (Ref ''quantity'') (Num 0)) ''positive_quantity'',
      Check_Constraint (Or (Is_Null (Ref ''limit_price'')) (Compare Gt (Ref ''limit_price'') (Num 0)))
        ''positive_limit_price'',
      Check_Constraint (Or (Is_Null (Ref ''stop_price'')) (Compare Gt (Ref ''stop_price'') (Num 0)))
        ''positive_stop_price''])
     ''trading''"

definition executions :: "table" where
  "executions = Table ''executions'' (
     [row_id,
      Col ((Column ''order_id'' UUID_TYPE)
        \<lparr>foreign_key := Some (ForeignKey ''trading.orders.id'' RESTRICT),
          nullable := False\<rparr>),
      Col ((Column ''broker_execution_id'' (String 160))\<lparr>nullable := False\<rparr>),
      Col ((Column ''quantity'' QUANTITY)\<lparr>nullable := False\<rparr>),
      Col ((Column ''price'' PRICE)\<lparr>nullable := False\<rparr>),
      Col ((Column ''commission'' MONEY)
        \<lparr>nullable := False, server_default := Some (Text_Default ''0'')\<rparr>),
      Col ((Column ''executed_at'' UTC_TIMESTAMP)\<lparr>nullable := False\<rparr>),
      Col ((Column ''created_at'' UTC_TIMESTAMP)
        \<lparr>nullable := False, server_default := Some Now\<rparr>),
      Unique_Constraint [''order_id'', ''broker_execution_id''] ''uq_execution_broker'',
      Check_Constraint (Compare Gt (Ref ''quantity'') (Num 0)) ''positive_quantity'',
      Check_Constraint (Compare Gt (Ref ''price'') (Num 0)) ''positive_price'',
      Check_Constraint (Compare Ge (Ref ''commission'') (Num 0)) ''commission_nonnegative''])
     ''trading''"

definition positions :: "table" where
  "positions = Table ''positions'' (
     [row_id,
      Col ((Column ''workspace_id'' UUID_TYPE)
        \<lparr>foreign_key := Some (ForeignKey ''workspace.workspaces.id'' RESTRICT),
          nullable := False\<rparr>),
      Col ((Column ''instrument_id'' UUID_TYPE)
        \<lparr>foreign_key := Some (ForeignKey ''market.instruments.id'' RESTRICT),
          nullable := False\<rparr>),
      Col ((Column ''quantity'' QUANTITY)\<lparr>nullable := False\<rparr>),
      Col ((Column ''average_price'' PRICE)\<lparr>nullable := False\<rparr>),
      Col (Column ''market_price'' PRICE),
      Col ((Column ''as_of'' UTC_TIMESTAMP)\<lparr>nullable := False\<rparr>)] @
     timestamps @
     [Unique_Constraint [''workspace_id'', ''instrument_id''] ''uq_position_workspace_instrument'',
      Check_Constraint (Compare Ge (Ref ''average_price'') (Num 0)) ''average_price_nonnegative'',
      Check_Constraint (Or (Is_Null (Ref ''market_price'')) (Compare Ge (Ref ''market_price'') (Num
        0))) ''market_price_nonnegative''])
     ''trading''"

definition pnl :: "table" where
  "pnl = Table ''pnl'' (
     [row_id,
      Col ((Column ''workspace_id'' UUID_TYPE)
        \<lparr>foreign_key := Some (ForeignKey ''workspace.workspaces.id'' CASCADE),
          nullable := False\<rparr>),
      Col ((Column ''instrument_id'' UUID_TYPE)
        \<lparr>foreign_key := Some (ForeignKey ''market.instruments.id'' SET_NULL)\<rparr>),
      Col ((Column ''realized'' MONEY)
        \<lparr>nullable := False, server_default := Some (Text_Default ''0'')\<rparr>),
      Col ((Column ''unrealized'' MONEY)
        \<lparr>nullable := False, server_default := Some (Text_Default ''0'')\<rparr>),
      Col ((Column ''currency'' (String 3))\<lparr>nullable := False\<rparr>),
      Col ((Column ''as_of'' UTC_TIMESTAMP)\<lparr>nullable := False\<rparr>),
      Col ((Column ''created_at'' UTC_TIMESTAMP)
        \<lparr>nullable := False, server_default := Some Now\<rparr>),
      Unique_Constraint [''workspace_id'', ''instrument_id'', ''as_of''] ''uq_pnl_snapshot''])
     ''trading''"

definition broker_health :: "table" where
  "broker_health = Table ''broker_health'' (
     [row_id,
      Col ((Column ''workspace_id'' UUID_TYPE)
        \<lparr>foreign_key := Some (ForeignKey ''workspace.workspaces.id'' CASCADE),
          nullable := False\<rparr>),
      Col ((Column ''broker_name'' (String 100))\<lparr>nullable := False\<rparr>),
      Col ((Column ''status'' (String 24))\<lparr>nullable := False\<rparr>),
      Col (Column ''last_heartbeat_at'' UTC_TIMESTAMP),
      Col ((Column ''observed_at'' UTC_TIMESTAMP)
        \<lparr>nullable := False, server_default := Some Now\<rparr>),
      Col ((Column ''details'' JSON_TYPE)
        \<lparr>nullable := False, server_default := Some (Text_Default ''{}'')\<rparr>),
      state_check ''status'' [''healthy'', ''degraded'', ''down'', ''unknown''] ''status''])
     ''trading''"

definition manual_broker_exits :: "table" where
  "manual_broker_exits = Table ''manual_broker_exits'' (
     [row_id,
      Col ((Column ''workspace_id'' UUID_TYPE)
        \<lparr>foreign_key := Some (ForeignKey ''workspace.workspaces.id'' RESTRICT),
          nullable := False\<rparr>),
      Col ((Column ''instrument_id'' UUID_TYPE)
        \<lparr>foreign_key := Some (ForeignKey ''market.instruments.id'' RESTRICT),
          nullable := False\<rparr>),
      Col ((Column ''reported_by_user_id'' UUID_TYPE)
        \<lparr>foreign_key := Some (ForeignKey ''identity.users.id'' RESTRICT),
          nullable := False\<rparr>),
      Col ((Column ''broker_reference'' (String 160))\<lparr>nullable := False\<rparr>),
      Col ((Column ''side'' (String 8))\<lparr>nullable := False\<rparr>),
      Col ((Column ''quantity'' QUANTITY)\<lparr>nullable := False\<rparr>),
      Col ((Column ''price'' PRICE)\<lparr>nullable := False\<rparr>),
      Col ((Column ''executed_at'' UTC_TIMESTAMP)\<lparr>nullable := False\<rparr>),
      Col ((Column ''reason'' Text)\<lparr>nullable := False\<rparr>),
      Col ((Column ''created_at'' UTC_TIMESTAMP)
        \<lparr>nullable := False, server_default := Some Now\<rparr>),
      state_check ''side'' [''buy'', ''sell''] ''side'',
      Check_Constraint (Compare Gt (Ref ''quantity'') (Num 0)) ''positive_quantity'',
      Check_Constraint (Compare Gt (Ref ''price'') (Num 0)) ''positive_price'',
      Unique_Constraint [''workspace_id'', ''broker_reference''] ''uq_manual_exit_reference''])
     ''trading''"

definition reconciliation_states :: "table" where
  "reconciliation_states = Table ''reconciliation_states'' (
     [row_id,
      Col ((Column ''workspace_id'' UUID_TYPE)
        \<lparr>foreign_key := Some (ForeignKey ''workspace.workspaces.id'' CASCADE),
          nullable := False\<rparr>),
      Col ((Column ''manual_broker_exit_id'' UUID_TYPE)
        \<lparr>foreign_key := Some (ForeignKey ''trading.manual_broker_exits.id'' SET_NULL)\<rparr>),
      Col ((Column ''outcome'' (String 24))\<lparr>nullable := False\<rparr>),
      Col ((Column ''differences'' JSON_TYPE)
        \<lparr>nullable := False, server_default := Some (Text_Default ''{}'')\<rparr>),
      Col (Column ''notes'' Text),
      Col ((Column ''reconciled_by_user_id'' UUID_TYPE)
        \<lparr>foreign_key := Some (ForeignKey ''identity.users.id'' RESTRICT),
          nullable := False\<rparr>),
      Col ((Column ''reconciled_at'' UTC_TIMESTAMP)
        \<lparr>nullable := False, server_default := Some Now\<rparr>),
      state_check ''outcome'' [''matched'', ''adjusted'', ''unresolved'', ''ignored''] ''outcome''])
     ''trading''"

definition audit_events :: "table" where
  "audit_events = Table ''events'' (
     [row_id,
      Col ((Column ''workspace_id'' UUID_TYPE)
        \<lparr>foreign_key := Some (ForeignKey ''workspace.workspaces.id'' SET_NULL)\<rparr>),
      Col ((Column ''actor_user_id'' UUID_TYPE)
        \<lparr>foreign_key := Some (ForeignKey ''identity.users.id'' SET_NULL)\<rparr>),
      Col ((Column ''event_type'' (String 120))\<lparr>nullable := False\<rparr>),
      Col ((Column ''aggregate_type'' (String 80))\<lparr>nullable := False\<rparr>),
      Col (Column ''aggregate_id'' UUID_TYPE),
      Col ((Column ''payload'' JSON_TYPE)\<lparr>nullable := False\<rparr>),
      Col ((Column ''occurred_at'' UTC_TIMESTAMP)
        \<lparr>nullable := False, server_default := Some Now\<rparr>)])
     ''audit''"

definition ix_identity_devices_user_id :: index where
  "ix_identity_devices_user_id = Index ''ix_identity_devices_user_id'' devices [''user_id'']"

definition ix_identity_sessions_user_id_expires :: index where
  "ix_identity_sessions_user_id_expires = Index ''ix_identity_sessions_user_id_expires'' sessions
    [''user_id'', ''expires_at'']"

definition ix_personalization_notification_events_user_occurred :: index where
  "ix_personalization_notification_events_user_occurred = Index
    ''ix_personalization_notification_events_user_occurred'' notification_events [''user_id'',
    ''occurred_at'']"

definition ix_workspace_members_user_id :: index where
  "ix_workspace_members_user_id = Index ''ix_workspace_members_user_id'' workspace_members
    [''user_id'']"

definition ix_operations_health_checks_component_observed :: index where
  "ix_operations_health_checks_component_observed = Index
    ''ix_operations_health_checks_component_observed'' system_health_events [''component'',
    ''observed_at'']"

definition ix_market_quotes_instrument_observed :: index where
  "ix_market_quotes_instrument_observed = Index ''ix_market_quotes_instrument_observed'' quotes
    [''instrument_id'', ''observed_at'']"

definition ix_market_signals_workspace_generated :: index where
  "ix_market_signals_workspace_generated = Index ''ix_market_signals_workspace_generated'' signals
    [''workspace_id'', ''generated_at'']"

definition ix_market_feed_health_workspace_observed :: index where
  "ix_market_feed_health_workspace_observed = Index ''ix_market_feed_health_workspace_observed''
    market_feed_health_events [''workspace_id'', ''observed_at'']"

definition ix_trading_mode_transitions_workspace_time :: index where
  "ix_trading_mode_transitions_workspace_time = Index ''ix_trading_mode_transitions_workspace_time''
    mode_transitions [''workspace_id'', ''transitioned_at'']"

definition ix_trading_risk_configurations_workspace_effective :: index where
  "ix_trading_risk_configurations_workspace_effective = Index
    ''ix_trading_risk_configurations_workspace_effective'' risk_configurations [''workspace_id'',
    ''effective_from'']"

definition ix_trading_orders_workspace_status :: index where
  "ix_trading_orders_workspace_status = Index ''ix_trading_orders_workspace_status'' orders
    [''workspace_id'', ''status'']"

definition ix_trading_executions_order_time :: index where
  "ix_trading_executions_order_time = Index ''ix_trading_executions_order_time'' executions
    [''order_id'', ''executed_at'']"

definition ix_trading_broker_health_workspace_observed :: index where
  "ix_trading_broker_health_workspace_observed = Index ''ix_trading_broker_health_workspace_observed''
    broker_health [''workspace_id'', ''observed_at'']"

definition ix_trading_reconciliation_workspace_time :: index where
  "ix_trading_reconciliation_workspace_time = Index ''ix_trading_reconciliation_workspace_time''
    reconciliation_states [''workspace_id'', ''reconciled_at'']"

definition ix_audit_events_workspace_occurred :: index where
  "ix_audit_events_workspace_occurred = Index ''ix_audit_events_workspace_occurred'' audit_events
    [''workspace_id'', ''occurred_at'']"

definition ix_audit_events_aggregate :: index where
  "ix_audit_events_aggregate = Index ''ix_audit_events_aggregate'' audit_events [''aggregate_type'',
    ''aggregate_id'']"

text \<open>The tables in the order they are declared, and the indexes.\<close>

definition metadata :: "table list" where
  "metadata = [users, roles, permissions, user_roles, role_permissions, devices, sessions, themes,
    background_assets, sound_assets, user_preferences, sound_preferences, notification_preferences,
    notification_events, dashboard_layouts, workspaces, workspace_members, server_connections,
    system_health_events, instruments, quotes, signals, market_feed_health_events, trading_modes,
    mode_transitions, risk_configurations, risk_states, orders, executions, positions, pnl,
    broker_health, manual_broker_exits, reconciliation_states, audit_events]"

definition indexes :: "index list" where
  "indexes = [ix_identity_devices_user_id, ix_identity_sessions_user_id_expires,
    ix_personalization_notification_events_user_occurred, ix_workspace_members_user_id,
    ix_operations_health_checks_component_observed, ix_market_quotes_instrument_observed,
    ix_market_signals_workspace_generated, ix_market_feed_health_workspace_observed,
    ix_trading_mode_transitions_workspace_time, ix_trading_risk_configurations_workspace_effective,
    ix_trading_orders_workspace_status, ix_trading_executions_order_time,
    ix_trading_broker_health_workspace_observed, ix_trading_reconciliation_workspace_time,
    ix_audit_events_workspace_occurred, ix_audit_events_aggregate]"

lemmas table_defs =
  users_def roles_def permissions_def user_roles_def role_permissions_def devices_def sessions_def
    themes_def background_assets_def sound_assets_def user_preferences_def sound_preferences_def
    notification_preferences_def notification_events_def dashboard_layouts_def workspaces_def
    workspace_members_def server_connections_def system_health_events_def instruments_def quotes_def
    signals_def market_feed_health_events_def trading_modes_def mode_transitions_def
    risk_configurations_def risk_states_def orders_def executions_def positions_def pnl_def
    broker_health_def manual_broker_exits_def reconciliation_states_def audit_events_def

lemmas index_defs =
  ix_identity_devices_user_id_def ix_identity_sessions_user_id_expires_def
    ix_personalization_notification_events_user_occurred_def ix_workspace_members_user_id_def
    ix_operations_health_checks_component_observed_def ix_market_quotes_instrument_observed_def
    ix_market_signals_workspace_generated_def ix_market_feed_health_workspace_observed_def
    ix_trading_mode_transitions_workspace_time_def
    ix_trading_risk_configurations_workspace_effective_def ix_trading_orders_workspace_status_def
    ix_trading_executions_order_time_def ix_trading_broker_health_workspace_observed_def
    ix_trading_reconciliation_workspace_time_def ix_audit_events_workspace_occurred_def
    ix_audit_events_aggregate_def

end
