(* ===== verification/Metadata_0002.thy ===== *)
theory Metadata_0002
  imports Schema
begin

text \<open>
  The snapshot \<open>infrastructure/database/metadata_0002.py\<close> of the tables migration 0002 adds;
  \<open>users\<close> and \<open>sessions\<close> only stand for the targets of foreign keys.
\<close>

definition users :: "table" where
  "users = Table ''users'' (
     [row_id])
     ''identity''"

definition sessions :: "table" where
  "sessions = Table ''sessions'' (
     [row_id])
     ''identity''"

definition oidc_identities :: "table" where
  "oidc_identities = Table ''oidc_identities'' (
     [row_id,
      Col ((Column ''user_id'' UUID_TYPE)
        \<lparr>foreign_key := Some (ForeignKey ''identity.users.id'' CASCADE),
          nullable := False\<rparr>),
      Col ((Column ''issuer'' (String 512))\<lparr>nullable := False\<rparr>),
      Col ((Column ''subject'' (String 512))\<lparr>nullable := False\<rparr>),
      Col ((Column ''created_at'' UTC_TIMESTAMP)
        \<lparr>nullable := False, server_default := Some Now\<rparr>),
      Unique_Constraint [''issuer'', ''subject''] ''uq_oidc_identity_issuer_subject''])
     ''identity''"

definition oidc_flows :: "table" where
  "oidc_flows = Table ''oidc_flows'' (
     [row_id,
      Col ((Column ''state_fingerprint'' (String 64))\<lparr>nullable := False, unique := True\<rparr>),
      Col ((Column ''encrypted_payload'' Text)\<lparr>nullable := False\<rparr>),
      Col ((Column ''redirect_uri'' Text)\<lparr>nullable := False\<rparr>),
      Col ((Column ''expires_at'' UTC_TIMESTAMP)\<lparr>nullable := False\<rparr>),
      Col ((Column ''created_at'' UTC_TIMESTAMP)
        \<lparr>nullable := False, server_default := Some Now\<rparr>)])
     ''identity''"

definition login_grants :: "table" where
  "login_grants = Table ''login_grants'' (
     [row_id,
      Col ((Column ''code_fingerprint'' (String 64))\<lparr>nullable := False, unique := True\<rparr>),
      Col ((Column ''encrypted_payload'' Text)\<lparr>nullable := False\<rparr>),
      Col ((Column ''expires_at'' UTC_TIMESTAMP)\<lparr>nullable := False\<rparr>),
      Col ((Column ''created_at'' UTC_TIMESTAMP)
        \<lparr>nullable := False, server_default := Some Now\<rparr>)])
     ''identity''"

definition websocket_tickets :: "table" where
  "websocket_tickets = Table ''websocket_tickets'' (
     [row_id,
      Col ((Column ''ticket_fingerprint'' (String 64))\<lparr>nullable := False, unique :=
        True\<rparr>),
      Col ((Column ''session_id'' UUID_TYPE)
        \<lparr>foreign_key := Some (ForeignKey ''identity.sessions.id'' CASCADE),
          nullable := False\<rparr>),
      Col ((Column ''channel'' (String 32))\<lparr>nullable := False\<rparr>),
      Col ((Column ''expires_at'' UTC_TIMESTAMP)\<lparr>nullable := False\<rparr>),
      Col ((Column ''created_at'' UTC_TIMESTAMP)
        \<lparr>nullable := False, server_default := Some Now\<rparr>),
      Check_Constraint (In (Ref ''channel'') [''system.health'', ''session.events'']) ''channel''])
     ''identity''"

definition session_events :: "table" where
  "session_events = Table ''session_events'' (
     [row_id,
      Col ((Column ''session_id'' UUID_TYPE)
        \<lparr>foreign_key := Some (ForeignKey ''identity.sessions.id'' CASCADE)\<rparr>),
      Col ((Column ''user_id'' UUID_TYPE)
        \<lparr>foreign_key := Some (ForeignKey ''identity.users.id'' CASCADE),
          nullable := False\<rparr>),
      Col ((Column ''event_type'' (String 80))\<lparr>nullable := False\<rparr>),
      Col ((Column ''payload'' JSON_TYPE)
        \<lparr>nullable := False, server_default := Some (Text_Default ''{}'')\<rparr>),
      Col ((Column ''occurred_at'' UTC_TIMESTAMP)
        \<lparr>nullable := False, server_default := Some Now\<rparr>)])
     ''identity''"

definition ix_identity_oidc_identities_user_id :: index where
  "ix_identity_oidc_identities_user_id = Index ''ix_identity_oidc_identities_user_id'' oidc_identities
    [''user_id'']"

definition ix_identity_oidc_flows_expires_at :: index where
  "ix_identity_oidc_flows_expires_at = Index ''ix_identity_oidc_flows_expires_at'' oidc_flows
    [''expires_at'']"

definition ix_identity_login_grants_expires_at :: index where
  "ix_identity_login_grants_expires_at = Index ''ix_identity_login_grants_expires_at'' login_grants
    [''expires_at'']"

definition ix_identity_websocket_tickets_expires_at :: index where
  "ix_identity_websocket_tickets_expires_at = Index ''ix_identity_websocket_tickets_expires_at''
    websocket_tickets [''expires_at'']"

definition ix_identity_session_events_user_occurred :: index where
  "ix_identity_session_events_user_occurred = Index ''ix_identity_session_events_user_occurred''
    session_events [''user_id'', ''occurred_at'']"

text \<open>The tables in the order they are declared, and the indexes.\<close>

definition metadata :: "table list" where
  "metadata = [users, sessions, oidc_identities, oidc_flows, login_grants, websocket_tickets,
    session_events]"

definition indexes :: "index list" where
  "indexes = [ix_identity_oidc_identities_user_id, ix_identity_oidc_flows_expires_at,
    ix_identity_login_grants_expires_at, ix_identity_websocket_tickets_expires_at,
    ix_identity_session_events_user_occurred]"

definition ADDITION_TABLES :: "table list" where
  "ADDITION_TABLES = [oidc_identities, oidc_flows, login_grants, websocket_tickets, session_events]"

lemmas table_defs =
  users_def sessions_def oidc_identities_def oidc_flows_def login_grants_def websocket_tickets_def
    session_events_def

lemmas index_defs =
  ix_identity_oidc_identities_user_id_def ix_identity_oidc_flows_expires_at_def
    ix_identity_login_grants_expires_at_def ix_identity_websocket_tickets_expires_at_def
    ix_identity_session_events_user_occurred_def

end
