(* ===== verification/Schema_Facts.thy ===== *)
theory Schema_Facts
  imports Metadata Metadata_0001 Metadata_0002
begin

text \<open>
  What the proofs about the schema need to know of each table, computed once from its
  declaration: its names, the columns other tables may refer to, the tables it refers to, and its
  indexes.
\<close>

lemmas shape_defs = Table_def full_name_def references_def foreign_keys_def not_null_def key_columns_def key_paths_def
  primary_columns_def columns_def uniques_def table_names_def pk_name_def uq_name_def row_id_def
  timestamps_def Column_def state_check_def type_defs

named_theorems shapes "the shape of each table"

section \<open>Tables\<close>

lemma users_shape [shapes]:
  "table_schema Metadata.users = ''identity''"
  "full_name Metadata.users = ''identity.users''"
  "references Metadata.users = []"
  "key_columns Metadata.users = [(''identity.users.id'', Uuid), (''identity.users.email'', String
    320)]"
  "table_names Metadata.users = [''users'', ''pk_users'', ''uq_users_email'']"
  by (simp_all add: Metadata.users_def shape_defs)

lemma roles_shape [shapes]:
  "table_schema Metadata.roles = ''identity''"
  "full_name Metadata.roles = ''identity.roles''"
  "references Metadata.roles = []"
  "key_columns Metadata.roles = [(''identity.roles.id'', Uuid), (''identity.roles.name'', String 80)]"
  "table_names Metadata.roles = [''roles'', ''pk_roles'', ''uq_roles_name'']"
  by (simp_all add: Metadata.roles_def shape_defs)

lemma permissions_shape [shapes]:
  "table_schema Metadata.permissions = ''identity''"
  "full_name Metadata.permissions = ''identity.permissions''"
  "references Metadata.permissions = []"
  "key_columns Metadata.permissions = [(''identity.permissions.id'', Uuid),
    (''identity.permissions.code'', String 120)]"
  "table_names Metadata.permissions = [''permissions'', ''pk_permissions'', ''uq_permissions_code'']"
  by (simp_all add: Metadata.permissions_def shape_defs)

lemma user_roles_shape [shapes]:
  "table_schema Metadata.user_roles = ''identity''"
  "full_name Metadata.user_roles = ''identity.user_roles''"
  "references Metadata.user_roles = [''identity.users.id'', ''identity.roles.id'']"
  "key_columns Metadata.user_roles = []"
  "table_names Metadata.user_roles = [''user_roles'', ''pk_user_roles'']"
  by (simp_all add: Metadata.user_roles_def shape_defs)

lemma role_permissions_shape [shapes]:
  "table_schema Metadata.role_permissions = ''identity''"
  "full_name Metadata.role_permissions = ''identity.role_permissions''"
  "references Metadata.role_permissions = [''identity.roles.id'', ''identity.permissions.id'']"
  "key_columns Metadata.role_permissions = []"
  "table_names Metadata.role_permissions = [''role_permissions'', ''pk_role_permissions'']"
  by (simp_all add: Metadata.role_permissions_def shape_defs)

lemma devices_shape [shapes]:
  "table_schema Metadata.devices = ''identity''"
  "full_name Metadata.devices = ''identity.devices''"
  "references Metadata.devices = [''identity.users.id'']"
  "key_columns Metadata.devices = [(''identity.devices.id'', Uuid)]"
  "table_names Metadata.devices = [''devices'', ''pk_devices'', ''uq_devices_user_device'']"
  by (simp_all add: Metadata.devices_def shape_defs)

lemma sessions_shape [shapes]:
  "table_schema Metadata.sessions = ''identity''"
  "full_name Metadata.sessions = ''identity.sessions''"
  "references Metadata.sessions = [''identity.users.id'', ''identity.devices.id'']"
  "key_columns Metadata.sessions = [(''identity.sessions.id'', Uuid),
    (''identity.sessions.token_fingerprint'', String 128)]"
  "table_names Metadata.sessions = [''sessions'', ''pk_sessions'', ''uq_sessions_token_fingerprint'']"
  by (simp_all add: Metadata.sessions_def shape_defs)

lemma oidc_identities_shape [shapes]:
  "table_schema Metadata.oidc_identities = ''identity''"
  "full_name Metadata.oidc_identities = ''identity.oidc_identities''"
  "references Metadata.oidc_identities = [''identity.users.id'']"
  "key_columns Metadata.oidc_identities = [(''identity.oidc_identities.id'', Uuid)]"
  "table_names Metadata.oidc_identities = [''oidc_identities'', ''pk_oidc_identities'',
    ''uq_oidc_identity_issuer_subject'']"
  by (simp_all add: Metadata.oidc_identities_def shape_defs)

lemma oidc_flows_shape [shapes]:
  "table_schema Metadata.oidc_flows = ''identity''"
  "full_name Metadata.oidc_flows = ''identity.oidc_flows''"
  "references Metadata.oidc_flows = []"
  "key_columns Metadata.oidc_flows = [(''identity.oidc_flows.id'', Uuid),
    (''identity.oidc_flows.state_fingerprint'', String 64)]"
  "table_names Metadata.oidc_flows = [''oidc_flows'', ''pk_oidc_flows'',
    ''uq_oidc_flows_state_fingerprint'']"
  by (simp_all add: Metadata.oidc_flows_def shape_defs)

lemma login_grants_shape [shapes]:
  "table_schema Metadata.login_grants = ''identity''"
  "full_name Metadata.login_grants = ''identity.login_grants''"
  "references Metadata.login_grants = []"
  "key_columns Metadata.login_grants = [(''identity.login_grants.id'', Uuid),
    (''identity.login_grants.code_fingerprint'', String 64)]"
  "table_names Metadata.login_grants = [''login_grants'', ''pk_login_grants'',
    ''uq_login_grants_code_fingerprint'']"
  by (simp_all add: Metadata.login_grants_def shape_defs)

lemma websocket_tickets_shape [shapes]:
  "table_schema Metadata.websocket_tickets = ''identity''"
  "full_name Metadata.websocket_tickets = ''identity.websocket_tickets''"
  "references Metadata.websocket_tickets = [''identity.sessions.id'']"
  "key_columns Metadata.websocket_tickets = [(''identity.websocket_tickets.id'', Uuid),
    (''identity.websocket_tickets.ticket_fingerprint'', String 64)]"
  "table_names Metadata.websocket_tickets = [''websocket_tickets'', ''pk_websocket_tickets'',
    ''uq_websocket_tickets_ticket_fingerprint'']"
  by (simp_all add: Metadata.websocket_tickets_def shape_defs)

lemma session_events_shape [shapes]:
  "table_schema Metadata.session_events = ''identity''"
  "full_name Metadata.session_events = ''identity.session_events''"
  "references Metadata.session_events = [''identity.sessions.id'', ''identity.users.id'']"
  "key_columns Metadata.session_events = [(''identity.session_events.id'', Uuid)]"
  "table_names Metadata.session_events = [''session_events'', ''pk_session_events'']"
  by (simp_all add: Metadata.session_events_def shape_defs)

lemma themes_shape [shapes]:
  "table_schema Metadata.themes = ''personalization''"
  "full_name Metadata.themes = ''personalization.themes''"
  "references Metadata.themes = []"
  "key_columns Metadata.themes = [(''personalization.themes.id'', Uuid),
    (''personalization.themes.name'', String 80)]"
  "table_names Metadata.themes = [''themes'', ''pk_themes'', ''uq_themes_name'']"
  by (simp_all add: Metadata.themes_def shape_defs)

lemma background_assets_shape [shapes]:
  "table_schema Metadata.background_assets = ''personalization''"
  "full_name Metadata.background_assets = ''personalization.background_assets''"
  "references Metadata.background_assets = []"
  "key_columns Metadata.background_assets = [(''personalization.background_assets.id'', Uuid),
    (''personalization.background_assets.name'', String 80)]"
  "table_names Metadata.background_assets = [''background_assets'', ''pk_background_assets'',
    ''uq_background_assets_name'']"
  by (simp_all add: Metadata.background_assets_def shape_defs)

lemma sound_assets_shape [shapes]:
  "table_schema Metadata.sound_assets = ''personalization''"
  "full_name Metadata.sound_assets = ''personalization.sound_assets''"
  "references Metadata.sound_assets = []"
  "key_columns Metadata.sound_assets = [(''personalization.sound_assets.id'', Uuid),
    (''personalization.sound_assets.name'', String 80)]"
  "table_names Metadata.sound_assets = [''sound_assets'', ''pk_sound_assets'',
    ''uq_sound_assets_name'']"
  by (simp_all add: Metadata.sound_assets_def shape_defs)

lemma user_preferences_shape [shapes]:
  "table_schema Metadata.user_preferences = ''personalization''"
  "full_name Metadata.user_preferences = ''personalization.user_preferences''"
  "references Metadata.user_preferences = [''identity.users.id'', ''personalization.themes.id'',
    ''personalization.background_assets.id'', ''personalization.sound_assets.id'']"
  "key_columns Metadata.user_preferences = [(''personalization.user_preferences.user_id'', Uuid)]"
  "table_names Metadata.user_preferences = [''user_preferences'', ''pk_user_preferences'']"
  by (simp_all add: Metadata.user_preferences_def shape_defs)

lemma sound_preferences_shape [shapes]:
  "table_schema Metadata.sound_preferences = ''personalization''"
  "full_name Metadata.sound_preferences = ''personalization.sound_preferences''"
  "references Metadata.sound_preferences = [''identity.users.id'',
    ''personalization.sound_assets.id'']"
  "key_columns Metadata.sound_preferences = [(''personalization.sound_preferences.id'', Uuid)]"
  "table_names Metadata.sound_preferences = [''sound_preferences'', ''pk_sound_preferences'',
    ''uq_sound_preference'']"
  by (simp_all add: Metadata.sound_preferences_def shape_defs)

lemma notification_preferences_shape [shapes]:
  "table_schema Metadata.notification_preferences = ''personalization''"
  "full_name Metadata.notification_preferences = ''personalization.notification_preferences''"
  "references Metadata.notification_preferences = [''identity.users.id'']"
  "key_columns Metadata.notification_preferences = [(''personalization.notification_preferences.id'',
    Uuid)]"
  "table_names Metadata.notification_preferences = [''notification_preferences'',
    ''pk_notification_preferences'', ''uq_notification_preference'']"
  by (simp_all add: Metadata.notification_preferences_def shape_defs)

lemma notification_events_shape [shapes]:
  "table_schema Metadata.notification_events = ''personalization''"
  "full_name Metadata.notification_events = ''personalization.notification_events''"
  "references Metadata.notification_events = [''identity.users.id'']"
  "key_columns Metadata.notification_events = [(''personalization.notification_events.id'', Uuid)]"
  "table_names Metadata.notification_events = [''notification_events'', ''pk_notification_events'']"
  by (simp_all add: Metadata.notification_events_def shape_defs)

lemma dashboard_layouts_shape [shapes]:
  "table_schema Metadata.dashboard_layouts = ''personalization''"
  "full_name Metadata.dashboard_layouts = ''personalization.dashboard_layouts''"
  "references Metadata.dashboard_layouts = [''identity.users.id'']"
  "key_columns Metadata.dashboard_layouts = [(''personalization.dashboard_layouts.id'', Uuid)]"
  "table_names Metadata.dashboard_layouts = [''dashboard_layouts'', ''pk_dashboard_layouts'',
    ''uq_dashboard_user_name'']"
  by (simp_all add: Metadata.dashboard_layouts_def shape_defs)

lemma workspaces_shape [shapes]:
  "table_schema Metadata.workspaces = ''workspace''"
  "full_name Metadata.workspaces = ''workspace.workspaces''"
  "references Metadata.workspaces = [''identity.users.id'']"
  "key_columns Metadata.workspaces = [(''workspace.workspaces.id'', Uuid)]"
  "table_names Metadata.workspaces = [''workspaces'', ''pk_workspaces'']"
  by (simp_all add: Metadata.workspaces_def shape_defs)

lemma workspace_members_shape [shapes]:
  "table_schema Metadata.workspace_members = ''workspace''"
  "full_name Metadata.workspace_members = ''workspace.workspace_members''"
  "references Metadata.workspace_members = [''workspace.workspaces.id'', ''identity.users.id'']"
  "key_columns Metadata.workspace_members = []"
  "table_names Metadata.workspace_members = [''workspace_members'', ''pk_workspace_members'']"
  by (simp_all add: Metadata.workspace_members_def shape_defs)

lemma server_connections_shape [shapes]:
  "table_schema Metadata.server_connections = ''operations''"
  "full_name Metadata.server_connections = ''operations.server_connections''"
  "references Metadata.server_connections = [''workspace.workspaces.id'']"
  "key_columns Metadata.server_connections = [(''operations.server_connections.id'', Uuid)]"
  "table_names Metadata.server_connections = [''server_connections'', ''pk_server_connections'',
    ''uq_server_connection'']"
  by (simp_all add: Metadata.server_connections_def shape_defs)

lemma system_health_events_shape [shapes]:
  "table_schema Metadata.system_health_events = ''operations''"
  "full_name Metadata.system_health_events = ''operations.system_health_events''"
  "references Metadata.system_health_events = [''operations.server_connections.id'']"
  "key_columns Metadata.system_health_events = [(''operations.system_health_events.id'', Uuid)]"
  "table_names Metadata.system_health_events = [''system_health_events'', ''pk_system_health_events'']"
  by (simp_all add: Metadata.system_health_events_def shape_defs)

lemma instruments_shape [shapes]:
  "table_schema Metadata.instruments = ''market''"
  "full_name Metadata.instruments = ''market.instruments''"
  "references Metadata.instruments = []"
  "key_columns Metadata.instruments = [(''market.instruments.id'', Uuid)]"
  "table_names Metadata.instruments = [''instruments'', ''pk_instruments'',
    ''uq_instrument_symbol_venue'']"
  by (simp_all add: Metadata.instruments_def shape_defs)

lemma quotes_shape [shapes]:
  "table_schema Metadata.quotes = ''market''"
  "full_name Metadata.quotes = ''market.quotes''"
  "references Metadata.quotes = [''market.instruments.id'']"
  "key_columns Metadata.quotes = [(''market.quotes.id'', Uuid)]"
  "table_names Metadata.quotes = [''quotes'', ''pk_quotes'']"
  by (simp_all add: Metadata.quotes_def shape_defs)

lemma signals_shape [shapes]:
  "table_schema Metadata.signals = ''market''"
  "full_name Metadata.signals = ''market.signals''"
  "references Metadata.signals = [''workspace.workspaces.id'', ''market.instruments.id'']"
  "key_columns Metadata.signals = [(''market.signals.id'', Uuid)]"
  "table_names Metadata.signals = [''signals'', ''pk_signals'']"
  by (simp_all add: Metadata.signals_def shape_defs)

lemma market_feed_health_events_shape [shapes]:
  "table_schema Metadata.market_feed_health_events = ''market''"
  "full_name Metadata.market_feed_health_events = ''market.market_feed_health_events''"
  "references Metadata.market_feed_health_events = [''workspace.workspaces.id'']"
  "key_columns Metadata.market_feed_health_events = [(''market.market_feed_health_events.id'', Uuid)]"
  "table_names Metadata.market_feed_health_events = [''market_feed_health_events'',
    ''pk_market_feed_health_events'']"
  by (simp_all add: Metadata.market_feed_health_events_def shape_defs)

lemma trading_modes_shape [shapes]:
  "table_schema Metadata.trading_modes = ''trading''"
  "full_name Metadata.trading_modes = ''trading.trading_modes''"
  "references Metadata.trading_modes = [''workspace.workspaces.id'', ''identity.users.id'']"
  "key_columns Metadata.trading_modes = [(''trading.trading_modes.workspace_id'', Uuid)]"
  "table_names Metadata.trading_modes = [''trading_modes'', ''pk_trading_modes'']"
  by (simp_all add: Metadata.trading_modes_def shape_defs)

lemma mode_transitions_shape [shapes]:
  "table_schema Metadata.mode_transitions = ''trading''"
  "full_name Metadata.mode_transitions = ''trading.mode_transitions''"
  "references Metadata.mode_transitions = [''workspace.workspaces.id'', ''identity.users.id'']"
  "key_columns Metadata.mode_transitions = [(''trading.mode_transitions.id'', Uuid)]"
  "table_names Metadata.mode_transitions = [''mode_transitions'', ''pk_mode_transitions'']"
  by (simp_all add: Metadata.mode_transitions_def shape_defs)

lemma risk_configurations_shape [shapes]:
  "table_schema Metadata.risk_configurations = ''trading''"
  "full_name Metadata.risk_configurations = ''trading.risk_configurations''"
  "references Metadata.risk_configurations = [''workspace.workspaces.id'', ''identity.users.id'']"
  "key_columns Metadata.risk_configurations = [(''trading.risk_configurations.id'', Uuid)]"
  "table_names Metadata.risk_configurations = [''risk_configurations'', ''pk_risk_configurations'']"
  by (simp_all add: Metadata.risk_configurations_def shape_defs)

lemma risk_states_shape [shapes]:
  "table_schema Metadata.risk_states = ''trading''"
  "full_name Metadata.risk_states = ''trading.risk_states''"
  "references Metadata.risk_states = [''workspace.workspaces.id'', ''trading.risk_configurations.id'']"
  "key_columns Metadata.risk_states = [(''trading.risk_states.workspace_id'', Uuid)]"
  "table_names Metadata.risk_states = [''risk_states'', ''pk_risk_states'']"
  by (simp_all add: Metadata.risk_states_def shape_defs)

lemma orders_shape [shapes]:
  "table_schema Metadata.orders = ''trading''"
  "full_name Metadata.orders = ''trading.orders''"
  "references Metadata.orders = [''workspace.workspaces.id'', ''market.instruments.id'']"
  "key_columns Metadata.orders = [(''trading.orders.id'', Uuid)]"
  "table_names Metadata.orders = [''orders'', ''pk_orders'', ''uq_order_idempotency'']"
  by (simp_all add: Metadata.orders_def shape_defs)

lemma executions_shape [shapes]:
  "table_schema Metadata.executions = ''trading''"
  "full_name Metadata.executions = ''trading.executions''"
  "references Metadata.executions = [''trading.orders.id'']"
  "key_columns Metadata.executions = [(''trading.executions.id'', Uuid)]"
  "table_names Metadata.executions = [''executions'', ''pk_executions'', ''uq_execution_broker'']"
  by (simp_all add: Metadata.executions_def shape_defs)

lemma positions_shape [shapes]:
  "table_schema Metadata.positions = ''trading''"
  "full_name Metadata.positions = ''trading.positions''"
  "references Metadata.positions = [''workspace.workspaces.id'', ''market.instruments.id'']"
  "key_columns Metadata.positions = [(''trading.positions.id'', Uuid)]"
  "table_names Metadata.positions = [''positions'', ''pk_positions'',
    ''uq_position_workspace_instrument'']"
  by (simp_all add: Metadata.positions_def shape_defs)

lemma pnl_shape [shapes]:
  "table_schema Metadata.pnl = ''trading''"
  "full_name Metadata.pnl = ''trading.pnl''"
  "references Metadata.pnl = [''workspace.workspaces.id'', ''market.instruments.id'']"
  "key_columns Metadata.pnl = [(''trading.pnl.id'', Uuid)]"
  "table_names Metadata.pnl = [''pnl'', ''pk_pnl'', ''uq_pnl_snapshot'']"
  by (simp_all add: Metadata.pnl_def shape_defs)

lemma broker_health_shape [shapes]:
  "table_schema Metadata.broker_health = ''trading''"
  "full_name Metadata.broker_health = ''trading.broker_health''"
  "references Metadata.broker_health = [''workspace.workspaces.id'']"
  "key_columns Metadata.broker_health = [(''trading.broker_health.id'', Uuid)]"
  "table_names Metadata.broker_health = [''broker_health'', ''pk_broker_health'']"
  by (simp_all add: Metadata.broker_health_def shape_defs)

lemma manual_broker_exits_shape [shapes]:
  "table_schema Metadata.manual_broker_exits = ''trading''"
  "full_name Metadata.manual_broker_exits = ''trading.manual_broker_exits''"
  "references Metadata.manual_broker_exits = [''workspace.workspaces.id'', ''market.instruments.id'',
    ''identity.users.id'']"
  "key_columns Metadata.manual_broker_exits = [(''trading.manual_broker_exits.id'', Uuid)]"
  "table_names Metadata.manual_broker_exits = [''manual_broker_exits'', ''pk_manual_broker_exits'',
    ''uq_manual_exit_reference'']"
  by (simp_all add: Metadata.manual_broker_exits_def shape_defs)

lemma reconciliation_states_shape [shapes]:
  "table_schema Metadata.reconciliation_states = ''trading''"
  "full_name Metadata.reconciliation_states = ''trading.reconciliation_states''"
  "references Metadata.reconciliation_states = [''workspace.workspaces.id'',
    ''trading.manual_broker_exits.id'', ''identity.users.id'']"
  "key_columns Metadata.reconciliation_states = [(''trading.reconciliation_states.id'', Uuid)]"
  "table_names Metadata.reconciliation_states = [''reconciliation_states'',
    ''pk_reconciliation_states'']"
  by (simp_all add: Metadata.reconciliation_states_def shape_defs)

lemma audit_events_shape [shapes]:
  "table_schema Metadata.audit_events = ''audit''"
  "full_name Metadata.audit_events = ''audit.events''"
  "references Metadata.audit_events = [''workspace.workspaces.id'', ''identity.users.id'']"
  "key_columns Metadata.audit_events = [(''audit.events.id'', Uuid)]"
  "table_names Metadata.audit_events = [''events'', ''pk_events'']"
  by (simp_all add: Metadata.audit_events_def shape_defs)

section \<open>Indexes and names\<close>

text \<open>Names are told apart by a hash, which is computed once for each.\<close>

definition name_hash :: "string \<Rightarrow> int" where
  "name_hash s = foldl (\<lambda>n c. (n * 31 + of_char c) mod 1000003) 7 s"

lemma names_differ: "name_hash a \<noteq> name_hash b \<Longrightarrow> a \<noteq> b"
  by blast

definition dotted :: "string \<times> string \<Rightarrow> string" where
  "dotted p = fst p @ ''.'' @ snd p"

named_theorems hashes "the hashes of names"

named_theorems index_shapes "the indexes of each table"

lemma index_tables [index_shapes]:
  "index_table Metadata.ix_identity_devices_user_id = full_name Metadata.devices"
  "index_table Metadata.ix_identity_sessions_user_id_expires = full_name Metadata.sessions"
  "index_table Metadata.ix_identity_oidc_identities_user_id = full_name Metadata.oidc_identities"
  "index_table Metadata.ix_identity_oidc_flows_expires_at = full_name Metadata.oidc_flows"
  "index_table Metadata.ix_identity_login_grants_expires_at = full_name Metadata.login_grants"
  "index_table Metadata.ix_identity_websocket_tickets_expires_at = full_name Metadata.websocket_tickets"
  "index_table Metadata.ix_identity_session_events_user_occurred = full_name Metadata.session_events"
  "index_table Metadata.ix_personalization_notification_events_user_occurred = full_name Metadata.notification_events"
  "index_table Metadata.ix_workspace_members_user_id = full_name Metadata.workspace_members"
  "index_table Metadata.ix_operations_health_checks_component_observed = full_name Metadata.system_health_events"
  "index_table Metadata.ix_market_quotes_instrument_observed = full_name Metadata.quotes"
  "index_table Metadata.ix_market_signals_workspace_generated = full_name Metadata.signals"
  "index_table Metadata.ix_market_feed_health_workspace_observed = full_name Metadata.market_feed_health_events"
  "index_table Metadata.ix_trading_mode_transitions_workspace_time = full_name Metadata.mode_transitions"
  "index_table Metadata.ix_trading_risk_configurations_workspace_effective = full_name Metadata.risk_configurations"
  "index_table Metadata.ix_trading_orders_workspace_status = full_name Metadata.orders"
  "index_table Metadata.ix_trading_executions_order_time = full_name Metadata.executions"
  "index_table Metadata.ix_trading_broker_health_workspace_observed = full_name Metadata.broker_health"
  "index_table Metadata.ix_trading_reconciliation_workspace_time = full_name Metadata.reconciliation_states"
  "index_table Metadata.ix_audit_events_workspace_occurred = full_name Metadata.audit_events"
  "index_table Metadata.ix_audit_events_aggregate = full_name Metadata.audit_events"
  by (simp_all add: Metadata.index_defs Index_def)

lemma users_hash [hashes]: "name_hash (full_name Metadata.users) = 551990"
  unfolding shapes by code_simp

lemma roles_hash [hashes]: "name_hash (full_name Metadata.roles) = 668596"
  unfolding shapes by code_simp

lemma permissions_hash [hashes]: "name_hash (full_name Metadata.permissions) = 236307"
  unfolding shapes by code_simp

lemma user_roles_hash [hashes]: "name_hash (full_name Metadata.user_roles) = 765220"
  unfolding shapes by code_simp

lemma role_permissions_hash [hashes]: "name_hash (full_name Metadata.role_permissions) = 372315"
  unfolding shapes by code_simp

lemma devices_hash [hashes]: "name_hash (full_name Metadata.devices) = 556136"
  unfolding shapes by code_simp

lemma sessions_hash [hashes]: "name_hash (full_name Metadata.sessions) = 750070"
  unfolding shapes by code_simp

lemma oidc_identities_hash [hashes]: "name_hash (full_name Metadata.oidc_identities) = 105033"
  unfolding shapes by code_simp

lemma oidc_flows_hash [hashes]: "name_hash (full_name Metadata.oidc_flows) = 710208"
  unfolding shapes by code_simp

lemma login_grants_hash [hashes]: "name_hash (full_name Metadata.login_grants) = 353277"
  unfolding shapes by code_simp

lemma websocket_tickets_hash [hashes]: "name_hash (full_name Metadata.websocket_tickets) = 566884"
  unfolding shapes by code_simp

lemma session_events_hash [hashes]: "name_hash (full_name Metadata.session_events) = 552665"
  unfolding shapes by code_simp

lemma themes_hash [hashes]: "name_hash (full_name Metadata.themes) = 108743"
  unfolding shapes by code_simp

lemma background_assets_hash [hashes]: "name_hash (full_name Metadata.background_assets) = 473096"
  unfolding shapes by code_simp

lemma sound_assets_hash [hashes]: "name_hash (full_name Metadata.sound_assets) = 924966"
  unfolding shapes by code_simp

lemma user_preferences_hash [hashes]: "name_hash (full_name Metadata.user_preferences) = 995636"
  unfolding shapes by code_simp

lemma sound_preferences_hash [hashes]: "name_hash (full_name Metadata.sound_preferences) = 883940"
  unfolding shapes by code_simp

lemma notification_preferences_hash [hashes]: "name_hash (full_name Metadata.notification_preferences) = 91153"
  unfolding shapes by code_simp

lemma notification_events_hash [hashes]: "name_hash (full_name Metadata.notification_events) = 632933"
  unfolding shapes by code_simp

lemma dashboard_layouts_hash [hashes]: "name_hash (full_name Metadata.dashboard_layouts) = 820471"
  unfolding shapes by code_simp

lemma workspaces_hash [hashes]: "name_hash (full_name Metadata.workspaces) = 833303"
  unfolding shapes by code_simp

lemma workspace_members_hash [hashes]: "name_hash (full_name Metadata.workspace_members) = 912173"
  unfolding shapes by code_simp

lemma server_connections_hash [hashes]: "name_hash (full_name Metadata.server_connections) = 940184"
  unfolding shapes by code_simp

lemma system_health_events_hash [hashes]: "name_hash (full_name Metadata.system_health_events) = 439800"
  unfolding shapes by code_simp

lemma instruments_hash [hashes]: "name_hash (full_name Metadata.instruments) = 226136"
  unfolding shapes by code_simp

lemma quotes_hash [hashes]: "name_hash (full_name Metadata.quotes) = 845697"
  unfolding shapes by code_simp

lemma signals_hash [hashes]: "name_hash (full_name Metadata.signals) = 98947"
  unfolding shapes by code_simp

lemma market_feed_health_events_hash [hashes]: "name_hash (full_name Metadata.market_feed_health_events) = 214747"
  unfolding shapes by code_simp

lemma trading_modes_hash [hashes]: "name_hash (full_name Metadata.trading_modes) = 269975"
  unfolding shapes by code_simp

lemma mode_transitions_hash [hashes]: "name_hash (full_name Metadata.mode_transitions) = 728203"
  unfolding shapes by code_simp

lemma risk_configurations_hash [hashes]: "name_hash (full_name Metadata.risk_configurations) = 59860"
  unfolding shapes by code_simp

lemma risk_states_hash [hashes]: "name_hash (full_name Metadata.risk_states) = 566540"
  unfolding shapes by code_simp

lemma orders_hash [hashes]: "name_hash (full_name Metadata.orders) = 29329"
  unfolding shapes by code_simp

lemma executions_hash [hashes]: "name_hash (full_name Metadata.executions) = 896874"
  unfolding shapes by code_simp

lemma positions_hash [hashes]: "name_hash (full_name Metadata.positions) = 312535"
  unfolding shapes by code_simp

lemma pnl_hash [hashes]: "name_hash (full_name Metadata.pnl) = 403885"
  unfolding shapes by code_simp

lemma broker_health_hash [hashes]: "name_hash (full_name Metadata.broker_health) = 506155"
  unfolding shapes by code_simp

lemma manual_broker_exits_hash [hashes]: "name_hash (full_name Metadata.manual_broker_exits) = 226117"
  unfolding shapes by code_simp

lemma reconciliation_states_hash [hashes]: "name_hash (full_name Metadata.reconciliation_states) = 379885"
  unfolding shapes by code_simp

lemma audit_events_hash [hashes]: "name_hash (full_name Metadata.audit_events) = 586793"
  unfolding shapes by code_simp

lemma table_indexes_Cons:
  "table_indexes (i # ixs) t = (if index_table i = full_name t then [i] else []) @ table_indexes ixs t"
  "table_indexes [] t = []"
  by (simp_all add: table_indexes_def)

lemma users_indexes [index_shapes]: "table_indexes Metadata.indexes Metadata.users = []"
  by (simp add: Metadata.indexes_def table_indexes_Cons index_tables names_differ hashes)

lemma roles_indexes [index_shapes]: "table_indexes Metadata.indexes Metadata.roles = []"
  by (simp add: Metadata.indexes_def table_indexes_Cons index_tables names_differ hashes)

lemma permissions_indexes [index_shapes]: "table_indexes Metadata.indexes Metadata.permissions = []"
  by (simp add: Metadata.indexes_def table_indexes_Cons index_tables names_differ hashes)

lemma user_roles_indexes [index_shapes]: "table_indexes Metadata.indexes Metadata.user_roles = []"
  by (simp add: Metadata.indexes_def table_indexes_Cons index_tables names_differ hashes)

lemma role_permissions_indexes [index_shapes]: "table_indexes Metadata.indexes Metadata.role_permissions = []"
  by (simp add: Metadata.indexes_def table_indexes_Cons index_tables names_differ hashes)

lemma devices_indexes [index_shapes]: "table_indexes Metadata.indexes Metadata.devices = [Metadata.ix_identity_devices_user_id]"
  by (simp add: Metadata.indexes_def table_indexes_Cons index_tables names_differ hashes)

lemma sessions_indexes [index_shapes]: "table_indexes Metadata.indexes Metadata.sessions = [Metadata.ix_identity_sessions_user_id_expires]"
  by (simp add: Metadata.indexes_def table_indexes_Cons index_tables names_differ hashes)

lemma oidc_identities_indexes [index_shapes]: "table_indexes Metadata.indexes Metadata.oidc_identities = [Metadata.ix_identity_oidc_identities_user_id]"
  by (simp add: Metadata.indexes_def table_indexes_Cons index_tables names_differ hashes)

lemma oidc_flows_indexes [index_shapes]: "table_indexes Metadata.indexes Metadata.oidc_flows = [Metadata.ix_identity_oidc_flows_expires_at]"
  by (simp add: Metadata.indexes_def table_indexes_Cons index_tables names_differ hashes)

lemma login_grants_indexes [index_shapes]: "table_indexes Metadata.indexes Metadata.login_grants = [Metadata.ix_identity_login_grants_expires_at]"
  by (simp add: Metadata.indexes_def table_indexes_Cons index_tables names_differ hashes)

lemma websocket_tickets_indexes [index_shapes]: "table_indexes Metadata.indexes Metadata.websocket_tickets = [Metadata.ix_identity_websocket_tickets_expires_at]"
  by (simp add: Metadata.indexes_def table_indexes_Cons index_tables names_differ hashes)

lemma session_events_indexes [index_shapes]: "table_indexes Metadata.indexes Metadata.session_events = [Metadata.ix_identity_session_events_user_occurred]"
  by (simp add: Metadata.indexes_def table_indexes_Cons index_tables names_differ hashes)

lemma themes_indexes [index_shapes]: "table_indexes Metadata.indexes Metadata.themes = []"
  by (simp add: Metadata.indexes_def table_indexes_Cons index_tables names_differ hashes)

lemma background_assets_indexes [index_shapes]: "table_indexes Metadata.indexes Metadata.background_assets = []"
  by (simp add: Metadata.indexes_def table_indexes_Cons index_tables names_differ hashes)

lemma sound_assets_indexes [index_shapes]: "table_indexes Metadata.indexes Metadata.sound_assets = []"
  by (simp add: Metadata.indexes_def table_indexes_Cons index_tables names_differ hashes)

lemma user_preferences_indexes [index_shapes]: "table_indexes Metadata.indexes Metadata.user_preferences = []"
  by (simp add: Metadata.indexes_def table_indexes_Cons index_tables names_differ hashes)

lemma sound_preferences_indexes [index_shapes]: "table_indexes Metadata.indexes Metadata.sound_preferences = []"
  by (simp add: Metadata.indexes_def table_indexes_Cons index_tables names_differ hashes)

lemma notification_preferences_indexes [index_shapes]: "table_indexes Metadata.indexes Metadata.notification_preferences = []"
  by (simp add: Metadata.indexes_def table_indexes_Cons index_tables names_differ hashes)

lemma notification_events_indexes [index_shapes]: "table_indexes Metadata.indexes Metadata.notification_events = [Metadata.ix_personalization_notification_events_user_occurred]"
  by (simp add: Metadata.indexes_def table_indexes_Cons index_tables names_differ hashes)

lemma dashboard_layouts_indexes [index_shapes]: "table_indexes Metadata.indexes Metadata.dashboard_layouts = []"
  by (simp add: Metadata.indexes_def table_indexes_Cons index_tables names_differ hashes)

lemma workspaces_indexes [index_shapes]: "table_indexes Metadata.indexes Metadata.workspaces = []"
  by (simp add: Metadata.indexes_def table_indexes_Cons index_tables names_differ hashes)

lemma workspace_members_indexes [index_shapes]: "table_indexes Metadata.indexes Metadata.workspace_members = [Metadata.ix_workspace_members_user_id]"
  by (simp add: Metadata.indexes_def table_indexes_Cons index_tables names_differ hashes)

lemma server_connections_indexes [index_shapes]: "table_indexes Metadata.indexes Metadata.server_connections = []"
  by (simp add: Metadata.indexes_def table_indexes_Cons index_tables names_differ hashes)

lemma system_health_events_indexes [index_shapes]: "table_indexes Metadata.indexes Metadata.system_health_events = [Metadata.ix_operations_health_checks_component_observed]"
  by (simp add: Metadata.indexes_def table_indexes_Cons index_tables names_differ hashes)

lemma instruments_indexes [index_shapes]: "table_indexes Metadata.indexes Metadata.instruments = []"
  by (simp add: Metadata.indexes_def table_indexes_Cons index_tables names_differ hashes)

lemma quotes_indexes [index_shapes]: "table_indexes Metadata.indexes Metadata.quotes = [Metadata.ix_market_quotes_instrument_observed]"
  by (simp add: Metadata.indexes_def table_indexes_Cons index_tables names_differ hashes)

lemma signals_indexes [index_shapes]: "table_indexes Metadata.indexes Metadata.signals = [Metadata.ix_market_signals_workspace_generated]"
  by (simp add: Metadata.indexes_def table_indexes_Cons index_tables names_differ hashes)

lemma market_feed_health_events_indexes [index_shapes]: "table_indexes Metadata.indexes Metadata.market_feed_health_events = [Metadata.ix_market_feed_health_workspace_observed]"
  by (simp add: Metadata.indexes_def table_indexes_Cons index_tables names_differ hashes)

lemma trading_modes_indexes [index_shapes]: "table_indexes Metadata.indexes Metadata.trading_modes = []"
  by (simp add: Metadata.indexes_def table_indexes_Cons index_tables names_differ hashes)

lemma mode_transitions_indexes [index_shapes]: "table_indexes Metadata.indexes Metadata.mode_transitions = [Metadata.ix_trading_mode_transitions_workspace_time]"
  by (simp add: Metadata.indexes_def table_indexes_Cons index_tables names_differ hashes)

lemma risk_configurations_indexes [index_shapes]: "table_indexes Metadata.indexes Metadata.risk_configurations = [Metadata.ix_trading_risk_configurations_workspace_effective]"
  by (simp add: Metadata.indexes_def table_indexes_Cons index_tables names_differ hashes)

lemma risk_states_indexes [index_shapes]: "table_indexes Metadata.indexes Metadata.risk_states = []"
  by (simp add: Metadata.indexes_def table_indexes_Cons index_tables names_differ hashes)

lemma orders_indexes [index_shapes]: "table_indexes Metadata.indexes Metadata.orders = [Metadata.ix_trading_orders_workspace_status]"
  by (simp add: Metadata.indexes_def table_indexes_Cons index_tables names_differ hashes)

lemma executions_indexes [index_shapes]: "table_indexes Metadata.indexes Metadata.executions = [Metadata.ix_trading_executions_order_time]"
  by (simp add: Metadata.indexes_def table_indexes_Cons index_tables names_differ hashes)

lemma positions_indexes [index_shapes]: "table_indexes Metadata.indexes Metadata.positions = []"
  by (simp add: Metadata.indexes_def table_indexes_Cons index_tables names_differ hashes)

lemma pnl_indexes [index_shapes]: "table_indexes Metadata.indexes Metadata.pnl = []"
  by (simp add: Metadata.indexes_def table_indexes_Cons index_tables names_differ hashes)

lemma broker_health_indexes [index_shapes]: "table_indexes Metadata.indexes Metadata.broker_health = [Metadata.ix_trading_broker_health_workspace_observed]"
  by (simp add: Metadata.indexes_def table_indexes_Cons index_tables names_differ hashes)

lemma manual_broker_exits_indexes [index_shapes]: "table_indexes Metadata.indexes Metadata.manual_broker_exits = []"
  by (simp add: Metadata.indexes_def table_indexes_Cons index_tables names_differ hashes)

lemma reconciliation_states_indexes [index_shapes]: "table_indexes Metadata.indexes Metadata.reconciliation_states = [Metadata.ix_trading_reconciliation_workspace_time]"
  by (simp add: Metadata.indexes_def table_indexes_Cons index_tables names_differ hashes)

lemma audit_events_indexes [index_shapes]: "table_indexes Metadata.indexes Metadata.audit_events = [Metadata.ix_audit_events_workspace_occurred, Metadata.ix_audit_events_aggregate]"
  by (simp add: Metadata.indexes_def table_indexes_Cons index_tables names_differ hashes)

lemma users_relations [hashes]:
  "map (name_hash \<circ> dotted) (relation_names Metadata.indexes Metadata.users) = [551990, 715618,
    496665]"
  unfolding relation_names_def shapes index_shapes Metadata.index_defs by code_simp

lemma roles_relations [hashes]:
  "map (name_hash \<circ> dotted) (relation_names Metadata.indexes Metadata.roles) = [668596, 832224,
    845970]"
  unfolding relation_names_def shapes index_shapes Metadata.index_defs by code_simp

lemma permissions_relations [hashes]:
  "map (name_hash \<circ> dotted) (relation_names Metadata.indexes Metadata.permissions) = [236307,
    890927, 578801]"
  unfolding relation_names_def shapes index_shapes Metadata.index_defs by code_simp

lemma user_roles_relations [hashes]:
  "map (name_hash \<circ> dotted) (relation_names Metadata.indexes Metadata.user_roles) = [765220,
    431497]"
  unfolding relation_names_def shapes index_shapes Metadata.index_defs by code_simp

lemma role_permissions_relations [hashes]:
  "map (name_hash \<circ> dotted) (relation_names Metadata.indexes Metadata.role_permissions) =
    [372315, 976461]"
  unfolding relation_names_def shapes index_shapes Metadata.index_defs by code_simp

lemma devices_relations [hashes]:
  "map (name_hash \<circ> dotted) (relation_names Metadata.indexes Metadata.devices) = [556136, 802173,
    887645, 600748]"
  unfolding relation_names_def shapes index_shapes Metadata.index_defs by code_simp

lemma sessions_relations [hashes]:
  "map (name_hash \<circ> dotted) (relation_names Metadata.indexes Metadata.sessions) = [750070,
    377193, 680106, 661969]"
  unfolding relation_names_def shapes index_shapes Metadata.index_defs by code_simp

lemma oidc_identities_relations [hashes]:
  "map (name_hash \<circ> dotted) (relation_names Metadata.indexes Metadata.oidc_identities) = [105033,
    608394, 63397, 178245]"
  unfolding relation_names_def shapes index_shapes Metadata.index_defs by code_simp

lemma oidc_flows_relations [hashes]:
  "map (name_hash \<circ> dotted) (relation_names Metadata.indexes Metadata.oidc_flows) = [710208,
    376485, 227097, 449478]"
  unfolding relation_names_def shapes index_shapes Metadata.index_defs by code_simp

lemma login_grants_relations [hashes]:
  "map (name_hash \<circ> dotted) (relation_names Metadata.indexes Metadata.login_grants) = [353277,
    646437, 246666, 403563]"
  unfolding relation_names_def shapes index_shapes Metadata.index_defs by code_simp

lemma websocket_tickets_relations [hashes]:
  "map (name_hash \<circ> dotted) (relation_names Metadata.indexes Metadata.websocket_tickets) =
    [566884, 295353, 764469, 221991]"
  unfolding relation_names_def shapes index_shapes Metadata.index_defs by code_simp

lemma session_events_relations [hashes]:
  "map (name_hash \<circ> dotted) (relation_names Metadata.indexes Metadata.session_events) = [552665,
    278579, 422625]"
  unfolding relation_names_def shapes index_shapes Metadata.index_defs by code_simp

lemma themes_relations [hashes]:
  "map (name_hash \<circ> dotted) (relation_names Metadata.indexes Metadata.themes) = [108743, 91434,
    309055]"
  unfolding relation_names_def shapes index_shapes Metadata.index_defs by code_simp

lemma background_assets_relations [hashes]:
  "map (name_hash \<circ> dotted) (relation_names Metadata.indexes Metadata.background_assets) =
    [473096, 906867, 934849]"
  unfolding relation_names_def shapes index_shapes Metadata.index_defs by code_simp

lemma sound_assets_relations [hashes]:
  "map (name_hash \<circ> dotted) (relation_names Metadata.indexes Metadata.sound_assets) = [924966,
    795802, 823669]"
  unfolding relation_names_def shapes index_shapes Metadata.index_defs by code_simp

lemma user_preferences_relations [hashes]:
  "map (name_hash \<circ> dotted) (relation_names Metadata.indexes Metadata.user_preferences) =
    [995636, 687047]"
  unfolding relation_names_def shapes index_shapes Metadata.index_defs by code_simp

lemma sound_preferences_relations [hashes]:
  "map (name_hash \<circ> dotted) (relation_names Metadata.indexes Metadata.sound_preferences) =
    [883940, 317708, 314789]"
  unfolding relation_names_def shapes index_shapes Metadata.index_defs by code_simp

lemma notification_preferences_relations [hashes]:
  "map (name_hash \<circ> dotted) (relation_names Metadata.indexes Metadata.notification_preferences) =
    [91153, 218735, 48614]"
  unfolding relation_names_def shapes index_shapes Metadata.index_defs by code_simp

lemma notification_events_relations [hashes]:
  "map (name_hash \<circ> dotted) (relation_names Metadata.indexes Metadata.notification_events) =
    [632933, 485613, 706986]"
  unfolding relation_names_def shapes index_shapes Metadata.index_defs by code_simp

lemma dashboard_layouts_relations [hashes]:
  "map (name_hash \<circ> dotted) (relation_names Metadata.indexes Metadata.dashboard_layouts) =
    [820471, 254239, 202117]"
  unfolding relation_names_def shapes index_shapes Metadata.index_defs by code_simp

lemma workspaces_relations [hashes]:
  "map (name_hash \<circ> dotted) (relation_names Metadata.indexes Metadata.workspaces) = [833303,
    118168]"
  unfolding relation_names_def shapes index_shapes Metadata.index_defs by code_simp

lemma workspace_members_relations [hashes]:
  "map (name_hash \<circ> dotted) (relation_names Metadata.indexes Metadata.workspace_members) =
    [912173, 164986, 312891]"
  unfolding relation_names_def shapes index_shapes Metadata.index_defs by code_simp

lemma server_connections_relations [hashes]:
  "map (name_hash \<circ> dotted) (relation_names Metadata.indexes Metadata.server_connections) =
    [940184, 341213, 419584]"
  unfolding relation_names_def shapes index_shapes Metadata.index_defs by code_simp

lemma system_health_events_relations [hashes]:
  "map (name_hash \<circ> dotted) (relation_names Metadata.indexes Metadata.system_health_events) =
    [439800, 830397, 239617]"
  unfolding relation_names_def shapes index_shapes Metadata.index_defs by code_simp

lemma instruments_relations [hashes]:
  "map (name_hash \<circ> dotted) (relation_names Metadata.indexes Metadata.instruments) = [226136,
    634821, 162562]"
  unfolding relation_names_def shapes index_shapes Metadata.index_defs by code_simp

lemma quotes_relations [hashes]:
  "map (name_hash \<circ> dotted) (relation_names Metadata.indexes Metadata.quotes) = [845697, 157594,
    317923]"
  unfolding relation_names_def shapes index_shapes Metadata.index_defs by code_simp

lemma signals_relations [hashes]:
  "map (name_hash \<circ> dotted) (relation_names Metadata.indexes Metadata.signals) = [98947, 767820,
    11698]"
  unfolding relation_names_def shapes index_shapes Metadata.index_defs by code_simp

lemma market_feed_health_events_relations [hashes]:
  "map (name_hash \<circ> dotted) (relation_names Metadata.indexes Metadata.market_feed_health_events)
    = [214747, 192510, 292657]"
  unfolding relation_names_def shapes index_shapes Metadata.index_defs by code_simp

lemma trading_modes_relations [hashes]:
  "map (name_hash \<circ> dotted) (relation_names Metadata.indexes Metadata.trading_modes) = [269975,
    662374]"
  unfolding relation_names_def shapes index_shapes Metadata.index_defs by code_simp

lemma mode_transitions_relations [hashes]:
  "map (name_hash \<circ> dotted) (relation_names Metadata.indexes Metadata.mode_transitions) =
    [728203, 651742, 763467]"
  unfolding relation_names_def shapes index_shapes Metadata.index_defs by code_simp

lemma risk_configurations_relations [hashes]:
  "map (name_hash \<circ> dotted) (relation_names Metadata.indexes Metadata.risk_configurations) =
    [59860, 217043, 659213]"
  unfolding relation_names_def shapes index_shapes Metadata.index_defs by code_simp

lemma risk_states_relations [hashes]:
  "map (name_hash \<circ> dotted) (relation_names Metadata.indexes Metadata.risk_states) = [566540,
    605450]"
  unfolding relation_names_def shapes index_shapes Metadata.index_defs by code_simp

lemma orders_relations [hashes]:
  "map (name_hash \<circ> dotted) (relation_names Metadata.indexes Metadata.orders) = [29329, 934787,
    982014, 836511]"
  unfolding relation_names_def shapes index_shapes Metadata.index_defs by code_simp

lemma executions_relations [hashes]:
  "map (name_hash \<circ> dotted) (relation_names Metadata.indexes Metadata.executions) = [896874,
    865871, 400561, 996996]"
  unfolding relation_names_def shapes index_shapes Metadata.index_defs by code_simp

lemma positions_relations [hashes]:
  "map (name_hash \<circ> dotted) (relation_names Metadata.indexes Metadata.positions) = [312535,
    730891, 496865]"
  unfolding relation_names_def shapes index_shapes Metadata.index_defs by code_simp

lemma pnl_relations [hashes]:
  "map (name_hash \<circ> dotted) (relation_names Metadata.indexes Metadata.pnl) = [403885, 55252,
    349873]"
  unfolding relation_names_def shapes index_shapes Metadata.index_defs by code_simp

lemma broker_health_relations [hashes]:
  "map (name_hash \<circ> dotted) (relation_names Metadata.indexes Metadata.broker_health) = [506155,
    898554, 900511]"
  unfolding relation_names_def shapes index_shapes Metadata.index_defs by code_simp

lemma manual_broker_exits_relations [hashes]:
  "map (name_hash \<circ> dotted) (relation_names Metadata.indexes Metadata.manual_broker_exits) =
    [226117, 383300, 911601]"
  unfolding relation_names_def shapes index_shapes Metadata.index_defs by code_simp

lemma reconciliation_states_relations [hashes]:
  "map (name_hash \<circ> dotted) (relation_names Metadata.indexes Metadata.reconciliation_states) =
    [379885, 432295, 7791]"
  unfolding relation_names_def shapes index_shapes Metadata.index_defs by code_simp

lemma audit_events_relations [hashes]:
  "map (name_hash \<circ> dotted) (relation_names Metadata.indexes Metadata.audit_events) = [586793,
    388732, 426900, 822169]"
  unfolding relation_names_def shapes index_shapes Metadata.index_defs by code_simp

section \<open>The snapshots\<close>

text \<open>The snapshots declare their tables as \<open>metadata.py\<close> does.\<close>

lemma tables_0001:
  "Metadata_0001.users = Metadata.users"
  "Metadata_0001.roles = Metadata.roles"
  "Metadata_0001.permissions = Metadata.permissions"
  "Metadata_0001.user_roles = Metadata.user_roles"
  "Metadata_0001.role_permissions = Metadata.role_permissions"
  "Metadata_0001.devices = Metadata.devices"
  "Metadata_0001.sessions = Metadata.sessions"
  "Metadata_0001.themes = Metadata.themes"
  "Metadata_0001.background_assets = Metadata.background_assets"
  "Metadata_0001.sound_assets = Metadata.sound_assets"
  "Metadata_0001.user_preferences = Metadata.user_preferences"
  "Metadata_0001.sound_preferences = Metadata.sound_preferences"
  "Metadata_0001.notification_preferences = Metadata.notification_preferences"
  "Metadata_0001.notification_events = Metadata.notification_events"
  "Metadata_0001.dashboard_layouts = Metadata.dashboard_layouts"
  "Metadata_0001.workspaces = Metadata.workspaces"
  "Metadata_0001.workspace_members = Metadata.workspace_members"
  "Metadata_0001.server_connections = Metadata.server_connections"
  "Metadata_0001.system_health_events = Metadata.system_health_events"
  "Metadata_0001.instruments = Metadata.instruments"
  "Metadata_0001.quotes = Metadata.quotes"
  "Metadata_0001.signals = Metadata.signals"
  "Metadata_0001.market_feed_health_events = Metadata.market_feed_health_events"
  "Metadata_0001.trading_modes = Metadata.trading_modes"
  "Metadata_0001.mode_transitions = Metadata.mode_transitions"
  "Metadata_0001.risk_configurations = Metadata.risk_configurations"
  "Metadata_0001.risk_states = Metadata.risk_states"
  "Metadata_0001.orders = Metadata.orders"
  "Metadata_0001.executions = Metadata.executions"
  "Metadata_0001.positions = Metadata.positions"
  "Metadata_0001.pnl = Metadata.pnl"
  "Metadata_0001.broker_health = Metadata.broker_health"
  "Metadata_0001.manual_broker_exits = Metadata.manual_broker_exits"
  "Metadata_0001.reconciliation_states = Metadata.reconciliation_states"
  "Metadata_0001.audit_events = Metadata.audit_events"
  by (simp_all only: Metadata.table_defs Metadata_0001.table_defs)

lemma tables_0002:
  "Metadata_0002.oidc_identities = Metadata.oidc_identities"
  "Metadata_0002.oidc_flows = Metadata.oidc_flows"
  "Metadata_0002.login_grants = Metadata.login_grants"
  "Metadata_0002.websocket_tickets = Metadata.websocket_tickets"
  "Metadata_0002.session_events = Metadata.session_events"
  by (simp_all add: Metadata.table_defs Metadata_0002.table_defs state_check_def)

lemma indexes_0001:
  "Metadata_0001.ix_identity_devices_user_id = Metadata.ix_identity_devices_user_id"
  "Metadata_0001.ix_identity_sessions_user_id_expires = Metadata.ix_identity_sessions_user_id_expires"
  "Metadata_0001.ix_personalization_notification_events_user_occurred = Metadata.ix_personalization_notification_events_user_occurred"
  "Metadata_0001.ix_workspace_members_user_id = Metadata.ix_workspace_members_user_id"
  "Metadata_0001.ix_operations_health_checks_component_observed = Metadata.ix_operations_health_checks_component_observed"
  "Metadata_0001.ix_market_quotes_instrument_observed = Metadata.ix_market_quotes_instrument_observed"
  "Metadata_0001.ix_market_signals_workspace_generated = Metadata.ix_market_signals_workspace_generated"
  "Metadata_0001.ix_market_feed_health_workspace_observed = Metadata.ix_market_feed_health_workspace_observed"
  "Metadata_0001.ix_trading_mode_transitions_workspace_time = Metadata.ix_trading_mode_transitions_workspace_time"
  "Metadata_0001.ix_trading_risk_configurations_workspace_effective = Metadata.ix_trading_risk_configurations_workspace_effective"
  "Metadata_0001.ix_trading_orders_workspace_status = Metadata.ix_trading_orders_workspace_status"
  "Metadata_0001.ix_trading_executions_order_time = Metadata.ix_trading_executions_order_time"
  "Metadata_0001.ix_trading_broker_health_workspace_observed = Metadata.ix_trading_broker_health_workspace_observed"
  "Metadata_0001.ix_trading_reconciliation_workspace_time = Metadata.ix_trading_reconciliation_workspace_time"
  "Metadata_0001.ix_audit_events_workspace_occurred = Metadata.ix_audit_events_workspace_occurred"
  "Metadata_0001.ix_audit_events_aggregate = Metadata.ix_audit_events_aggregate"
  by (simp_all add: Metadata.index_defs Metadata_0001.index_defs tables_0001)

lemma indexes_0002:
  "Metadata_0002.ix_identity_oidc_identities_user_id = Metadata.ix_identity_oidc_identities_user_id"
  "Metadata_0002.ix_identity_oidc_flows_expires_at = Metadata.ix_identity_oidc_flows_expires_at"
  "Metadata_0002.ix_identity_login_grants_expires_at = Metadata.ix_identity_login_grants_expires_at"
  "Metadata_0002.ix_identity_websocket_tickets_expires_at = Metadata.ix_identity_websocket_tickets_expires_at"
  "Metadata_0002.ix_identity_session_events_user_occurred = Metadata.ix_identity_session_events_user_occurred"
  by (simp_all add: Metadata.index_defs Metadata_0002.index_defs tables_0002)

lemma reference_tables_0002:
  "full_name Metadata_0002.users = full_name Metadata.users"
  "full_name Metadata_0002.sessions = full_name Metadata.sessions"
  by (simp_all add: Metadata_0002.table_defs Metadata.table_defs shape_defs)

end
