(* ===== verification/Trading_Modes.thy ===== *)
theory Trading_Modes
  imports Schema_Rows Schema_Facts
begin

text \<open>
  The trading modes of a workspace as a state machine: what the checks of the table
  \<open>trading.mode_transitions\<close> allow is exactly one step up or down the ladder from observation to
  live trading, the emergency stop, or the way back from it.
\<close>

datatype mode = Observation | Paper | Small_Live | Live | Emergency

fun mode_value :: "mode \<Rightarrow> string" where
  "mode_value Observation = ''observation''"
| "mode_value Paper = ''paper''"
| "mode_value Small_Live = ''small_live''"
| "mode_value Live = ''live''"
| "mode_value Emergency = ''emergency''"

inductive mode_step :: "mode \<Rightarrow> mode \<Rightarrow> bool" where
  start: "mode_step Observation Paper"
| stop: "mode_step Paper Observation"
| promote: "mode_step Paper Small_Live"
| demote: "mode_step Small_Live Paper"
| go_live: "mode_step Small_Live Live"
| reduce: "mode_step Live Small_Live"
| halt: "m \<noteq> Emergency \<Longrightarrow> mode_step m Emergency"
| recover: "mode_step Emergency Observation"

code_pred mode_step .

inductive_cases to_live: "mode_step m Live"
inductive_cases to_small_live: "mode_step m Small_Live"
inductive_simps mode_step_iff: "mode_step m n"

lemma ex_mode:
  "(\<exists>m. P m) \<longleftrightarrow> P Observation \<or> P Paper \<or> P Small_Live \<or> P Live \<or> P Emergency"
  by (metis mode.exhaust)

lemma transition_checks:
  assumes "cell r ''from_mode'' = Str_Value f" "cell r ''to_mode'' = Str_Value t"
  shows "passes_checks Metadata.mode_transitions r \<longleftrightarrow>
    (\<exists>m n. f = mode_value m \<and> t = mode_value n \<and> mode_step m n)"
proof -
  let ?modes = "{''observation'', ''paper'', ''small_live'', ''live'', ''emergency''}"
  have "passes_checks Metadata.mode_transitions r \<longleftrightarrow> f \<in> ?modes \<and> t \<in> ?modes \<and> f \<noteq> t \<and>
     (f = ''observation'' \<and> t \<in> {''paper'', ''emergency''} \<or>
      f = ''paper'' \<and> t \<in> {''observation'', ''small_live'', ''emergency''} \<or>
      f = ''small_live'' \<and> t \<in> {''paper'', ''live'', ''emergency''} \<or>
      f = ''live'' \<and> t \<in> {''small_live'', ''emergency''} \<or>
      f = ''emergency'' \<and> t = ''observation'')"
    by (simp add: passes_checks_def checks_def Metadata.mode_transitions_def shape_defs assms
        compare_values_def and3_def or3_def)
  also have "\<dots> \<longleftrightarrow> (\<exists>m n. f = mode_value m \<and> t = mode_value n \<and> mode_step m n)"
  proof -
    have steps: "(\<exists>m n. f = mode_value m \<and> t = mode_value n \<and> mode_step m n) \<longleftrightarrow>
      f = ''observation'' \<and> (t = ''paper'' \<or> t = ''emergency'') \<or>
      f = ''paper'' \<and> (t = ''observation'' \<or> t = ''small_live'' \<or> t = ''emergency'') \<or>
      f = ''small_live'' \<and> (t = ''paper'' \<or> t = ''live'' \<or> t = ''emergency'') \<or>
      f = ''live'' \<and> (t = ''small_live'' \<or> t = ''emergency'') \<or>
      f = ''emergency'' \<and> t = ''observation''"
      by (simp add: ex_mode mode_step_iff)
    show ?thesis unfolding steps by (safe; simp)
  qed
  finally show ?thesis .
qed

section \<open>Histories\<close>

text \<open>The rows of a workspace in order, each starting from the mode the one before led to.\<close>

fun history :: "row list \<Rightarrow> mode \<Rightarrow> mode \<Rightarrow> bool" where
  "history [] m n \<longleftrightarrow> m = n"
| "history (r # rs) m n \<longleftrightarrow> passes_checks Metadata.mode_transitions r \<and>
     cell r ''from_mode'' = Str_Value (mode_value m) \<and>
     (\<exists>k. cell r ''to_mode'' = Str_Value (mode_value k) \<and> history rs k n)"

definition row_from_to :: "mode \<Rightarrow> mode \<Rightarrow> row \<Rightarrow> bool" where
  "row_from_to m n r \<longleftrightarrow> cell r ''from_mode'' = Str_Value (mode_value m) \<and>
     cell r ''to_mode'' = Str_Value (mode_value n)"

lemma mode_value_inject [simp]: "mode_value m = mode_value n \<longleftrightarrow> m = n"
  by (cases m; cases n) simp_all

lemma history_step:
  "history (r # rs) m n \<Longrightarrow> \<exists>k. row_from_to m k r \<and> mode_step m k \<and> history rs k n"
  using transition_checks by (auto simp: row_from_to_def)

text \<open>A history into a set of modes that only one step enters contains that step.\<close>

lemma history_enters:
  assumes "history rs m n" "m \<notin> M" "n \<in> M"
    and "\<And>i j. mode_step i j \<Longrightarrow> i \<notin> M \<Longrightarrow> j \<in> M \<Longrightarrow> i = x \<and> j = y"
  shows "\<exists>before r after. rs = before @ r # after \<and> row_from_to x y r \<and> history before m x \<and> history after y n"
  using assms(1,2)
proof (induction rs arbitrary: m)
  case Nil
  then show ?case using assms(3) by simp
next
  case (Cons r rs)
  obtain k where k: "row_from_to m k r" "mode_step m k" "history rs k n"
    using history_step [OF Cons.prems(1)] by blast
  show ?case
  proof (cases "k \<in> M")
    case True
    then have "m = x \<and> k = y" using assms(4) k(2) Cons.prems(2) by blast
    then show ?thesis using k by (intro exI [of _ "[]"] exI [of _ r] exI [of _ rs]) simp
  next
    case False
    from Cons.IH [OF k(3) False] obtain before s after where ih: "rs = before @ s # after"
      "row_from_to x y s" "history before k x" "history after y n" by blast
    have "history (r # before) m x"
      using Cons.prems(1) k(1) ih(3) by (auto simp: row_from_to_def)
    then show ?thesis using ih by (intro exI [of _ "r # before"] exI [of _ s] exI [of _ after]) simp
  qed
qed

section \<open>Properties\<close>

text \<open>C26: The checks of the table accept a change of mode exactly when it is a step of the state
  machine: one rung up or down the ladder, the emergency stop from any other mode, or the return
  from an emergency to observation.\<close>

theorem transition_checks_exact:
  assumes "cell r ''from_mode'' = Str_Value f" "cell r ''to_mode'' = Str_Value t"
  shows "passes_checks Metadata.mode_transitions r \<longleftrightarrow>
    (\<exists>m n. f = mode_value m \<and> t = mode_value n \<and> mode_step m n)"
  using assms by (rule transition_checks)

theorem transition_checks_exact_witness:
  "passes_checks Metadata.mode_transitions
     [(''from_mode'', Str_Value ''live''), (''to_mode'', Str_Value ''emergency'')] \<and>
   \<not> passes_checks Metadata.mode_transitions
     [(''from_mode'', Str_Value ''paper''), (''to_mode'', Str_Value ''live'')]"
proof -
  have row: "cell [(''from_mode'', Str_Value f), (''to_mode'', Str_Value t)] ''from_mode'' = Str_Value f"
    "cell [(''from_mode'', Str_Value f), (''to_mode'', Str_Value t)] ''to_mode'' = Str_Value t" for f t
    by (simp_all add: cell_def)
  show ?thesis
    unfolding transition_checks_exact [OF row] ex_mode by (simp add: mode_step_iff)
qed

text \<open>C27: No history of accepted changes reaches live trading without the whole ladder: if it starts in
  observation, paper trading or an emergency, it first steps from paper to small live trading, and
  later from small live to live.\<close>

theorem live_only_by_the_ladder:
  assumes "history rs m Live" "m \<notin> {Small_Live, Live}"
  shows "\<exists>before promoted between live after. rs = before @ promoted # between @ live # after \<and>
    row_from_to Paper Small_Live promoted \<and> row_from_to Small_Live Live live"
proof -
  obtain b r a where last: "rs = b @ r # a" "row_from_to Small_Live Live r" "history b m Small_Live"
    using history_enters [OF assms(1), of "{Live}" Small_Live Live] assms(2) by (auto elim: to_live)
  obtain b' r' a' where "b = b' @ r' # a'" "row_from_to Paper Small_Live r'"
    using history_enters [OF last(3), of "{Small_Live, Live}" Paper Small_Live] assms(2)
    by (auto elim: to_live to_small_live)
  then have "rs = b' @ r' # a' @ r # a" using last(1) by simp
  then show ?thesis using \<open>row_from_to Paper Small_Live r'\<close> last(2) by blast
qed

theorem live_only_by_the_ladder_witness:
  "\<exists>before promoted between live after.
     [[(''from_mode'', Str_Value ''observation''), (''to_mode'', Str_Value ''paper'')],
      [(''from_mode'', Str_Value ''paper''), (''to_mode'', Str_Value ''small_live'')],
      [(''from_mode'', Str_Value ''small_live''), (''to_mode'', Str_Value ''live'')]] =
       before @ promoted # between @ live # after \<and>
     row_from_to Paper Small_Live promoted \<and> row_from_to Small_Live Live live"
proof (rule live_only_by_the_ladder [where m = Observation])
  have "passes_checks Metadata.mode_transitions [(''from_mode'', Str_Value ''observation''), (''to_mode'', Str_Value ''paper'')]"
    "passes_checks Metadata.mode_transitions [(''from_mode'', Str_Value ''paper''), (''to_mode'', Str_Value ''small_live'')]"
    "passes_checks Metadata.mode_transitions [(''from_mode'', Str_Value ''small_live''), (''to_mode'', Str_Value ''live'')]"
    by code_simp+
  then show "history [[(''from_mode'', Str_Value ''observation''), (''to_mode'', Str_Value ''paper'')],
      [(''from_mode'', Str_Value ''paper''), (''to_mode'', Str_Value ''small_live'')],
      [(''from_mode'', Str_Value ''small_live''), (''to_mode'', Str_Value ''live'')]] Observation Live"
    by (simp add: cell_def ex_mode)
qed simp

end
