(* ===== verification/Schema_Refinement.thy ===== *)
theory Schema_Refinement
  imports Schema_Rows Schema_Facts Auth_Db
begin

text \<open>
  The constraints the repository's tables carry in this development are the ones the schema
  declares: a row of \<open>auth_db\<close>, seen as a row of the declared table, is accepted by the generic
  rules exactly when the constraint of its type allows it and its texts fit their columns.
\<close>

section \<open>Rows of the authentication tables\<close>

text \<open>Columns no statement of the repository sets have their default, the time \<open>t\<close>.\<close>

definition time_cell :: "time option \<Rightarrow> sql_value" where
  "time_cell x = (case x of None \<Rightarrow> Null | Some v \<Rightarrow> Time_Value v)"

definition uuid_cell :: "uuid option \<Rightarrow> sql_value" where
  "uuid_cell x = (case x of None \<Rightarrow> Null | Some v \<Rightarrow> Uuid_Value v)"

definition user_cells :: "time \<Rightarrow> user_row \<Rightarrow> row" where
  "user_cells t r = [(''id'', Uuid_Value (u_id r)), (''email'', Str_Value (u_email r)),
     (''display_name'', Str_Value (u_display_name r)), (''status'', Str_Value (u_status r)),
     (''created_at'', Time_Value t), (''updated_at'', Time_Value (u_updated_at r))]"

definition device_cells :: "device_row \<Rightarrow> row" where
  "device_cells r = [(''id'', Uuid_Value (d_id r)), (''user_id'', Uuid_Value (d_user_id r)),
     (''device_key'', Str_Value (d_device_key r)), (''platform'', Str_Value (d_platform r)),
     (''last_seen_at'', time_cell (d_last_seen_at r)), (''revoked_at'', time_cell (d_revoked_at r)),
     (''created_at'', Time_Value (d_created_at r)), (''updated_at'', Time_Value (d_updated_at r))]"

definition session_cells :: "time \<Rightarrow> session_row \<Rightarrow> row" where
  "session_cells t r = [(''id'', Uuid_Value (s_id r)), (''user_id'', Uuid_Value (s_user_id r)),
     (''device_id'', uuid_cell (s_device_id r)), (''token_fingerprint'', Str_Value (s_token_fingerprint r)),
     (''expires_at'', Time_Value (s_expires_at r)), (''revoked_at'', time_cell (s_revoked_at r)),
     (''created_at'', Time_Value t)]"

definition identity_cells :: "time \<Rightarrow> identity_row \<Rightarrow> row" where
  "identity_cells t r = [(''id'', Uuid_Value (i_id r)), (''user_id'', Uuid_Value (i_user_id r)),
     (''issuer'', Str_Value (i_issuer r)), (''subject'', Str_Value (i_subject r)),
     (''created_at'', Time_Value t)]"

definition flow_cells :: "time \<Rightarrow> flow_row \<Rightarrow> row" where
  "flow_cells t r = [(''id'', Uuid_Value (f_id r)), (''state_fingerprint'', Str_Value (f_state_fingerprint r)),
     (''encrypted_payload'', Str_Value (f_encrypted_payload r)), (''redirect_uri'', Str_Value (f_redirect_uri r)),
     (''expires_at'', Time_Value (f_expires_at r)), (''created_at'', Time_Value t)]"

definition grant_cells :: "time \<Rightarrow> grant_row \<Rightarrow> row" where
  "grant_cells t r = [(''id'', Uuid_Value (g_id r)), (''code_fingerprint'', Str_Value (g_code_fingerprint r)),
     (''encrypted_payload'', Str_Value (g_encrypted_payload r)), (''expires_at'', Time_Value (g_expires_at r)),
     (''created_at'', Time_Value t)]"

definition ticket_cells :: "time \<Rightarrow> ticket_row \<Rightarrow> row" where
  "ticket_cells t r = [(''id'', Uuid_Value (t_id r)), (''ticket_fingerprint'', Str_Value (t_ticket_fingerprint r)),
     (''session_id'', Uuid_Value (t_session_id r)), (''channel'', Str_Value (t_channel r)),
     (''expires_at'', Time_Value (t_expires_at r)), (''created_at'', Time_Value t)]"

definition event_cells :: "event_row \<Rightarrow> row" where
  "event_cells r = [(''id'', Uuid_Value (e_id r)), (''session_id'', uuid_cell (e_session_id r)),
     (''user_id'', Uuid_Value (e_user_id r)), (''event_type'', Str_Value (e_event_type r)),
     (''payload'', Json_Value (e_payload r)), (''occurred_at'', Time_Value (e_occurred_at r))]"

lemmas cells_defs = user_cells_def device_cells_def session_cells_def identity_cells_def
  flow_cells_def grant_cells_def ticket_cells_def event_cells_def

definition auth_store :: "time \<Rightarrow> auth_db \<Rightarrow> store" where
  "auth_store t db n =
     (if n = ''identity.users'' then map (user_cells t) (db_users db)
      else if n = ''identity.devices'' then map device_cells (db_devices db)
      else if n = ''identity.sessions'' then map (session_cells t) (db_sessions db)
      else if n = ''identity.oidc_identities'' then map (identity_cells t) (db_identities db)
      else if n = ''identity.oidc_flows'' then map (flow_cells t) (db_flows db)
      else if n = ''identity.login_grants'' then map (grant_cells t) (db_grants db)
      else if n = ''identity.websocket_tickets'' then map (ticket_cells t) (db_tickets db)
      else if n = ''identity.session_events'' then map event_cells (db_events db)
      else [])"

section \<open>Foreign keys\<close>

lemma refers_to:
  "refers Metadata.metadata st ''identity.users.id'' v \<longleftrightarrow> list_ex (\<lambda>r. cell r ''id'' = v) (st ''identity.users'')"
  "refers Metadata.metadata st ''identity.devices.id'' v \<longleftrightarrow> list_ex (\<lambda>r. cell r ''id'' = v) (st ''identity.devices'')"
  "refers Metadata.metadata st ''identity.sessions.id'' v \<longleftrightarrow> list_ex (\<lambda>r. cell r ''id'' = v) (st ''identity.sessions'')"
  by (simp_all add: refers_def Metadata.metadata_def shapes)

lemma auth_refers:
  "refers Metadata.metadata (auth_store t db) ''identity.users.id'' (Uuid_Value i) \<longleftrightarrow> i \<in> u_id ` set (db_users db)"
  "refers Metadata.metadata (auth_store t db) ''identity.devices.id'' (Uuid_Value i) \<longleftrightarrow> i \<in> d_id ` set (db_devices db)"
  "refers Metadata.metadata (auth_store t db) ''identity.sessions.id'' (Uuid_Value i) \<longleftrightarrow> i \<in> s_id ` set (db_sessions db)"
  unfolding refers_to by (auto simp: auth_store_def cell_def cells_defs list_ex_iff image_iff)

section \<open>Tables\<close>

definition plain :: "string \<Rightarrow> bool" where
  "plain s \<longleftrightarrow> CHR 0x00 \<notin> set s"

lemmas accepted_defs = row_accepted_def passes_checks_def unique_keys_def duplicates_def
  column_accepts_def checks_def shape_defs cell_def plain_def

lemma new_value: "y \<notin> f ` S \<longleftrightarrow> (\<forall>x \<in> S. f x \<noteq> y)"
  by auto

lemmas accepted_simps = accepted_defs cells_defs auth_store_def insertable_defs list_ex_iff new_value
  auth_refers

lemma user_accepted:
  "row_accepted Metadata.metadata (auth_store t db) Metadata.users (user_cells t r) \<longleftrightarrow>
     user_insertable r db \<and> length (u_email r) \<le> 320 \<and> plain (u_email r) \<and>
     length (u_display_name r) \<le> 120 \<and> plain (u_display_name r)"
  by (auto simp: accepted_simps Metadata.users_def)

lemma device_accepted:
  "row_accepted Metadata.metadata (auth_store t db) Metadata.devices (device_cells r) \<longleftrightarrow>
     device_insertable r db \<and>
     (d_user_id r, d_device_key r) \<notin> (\<lambda>d. (d_user_id d, d_device_key d)) ` set (db_devices db) \<and>
     length (d_device_key r) \<le> 200 \<and> plain (d_device_key r) \<and>
     length (d_platform r) \<le> 40 \<and> plain (d_platform r)"
  by (auto simp: accepted_simps time_cell_def Metadata.devices_def split: option.splits)

lemma session_accepted:
  "row_accepted Metadata.metadata (auth_store t db) Metadata.sessions (session_cells t r) \<longleftrightarrow>
     session_insertable r db \<and> length (s_token_fingerprint r) \<le> 128 \<and> plain (s_token_fingerprint r)"
  by (auto simp: accepted_simps time_cell_def uuid_cell_def Metadata.sessions_def split: option.splits)

lemma identity_accepted:
  "row_accepted Metadata.metadata (auth_store t db) Metadata.oidc_identities (identity_cells t r) \<longleftrightarrow>
     identity_insertable r db \<and> length (i_issuer r) \<le> 512 \<and> plain (i_issuer r) \<and>
     length (i_subject r) \<le> 512 \<and> plain (i_subject r)"
  by (auto simp: accepted_simps Metadata.oidc_identities_def)

lemma flow_accepted:
  "row_accepted Metadata.metadata (auth_store t db) Metadata.oidc_flows (flow_cells t r) \<longleftrightarrow>
     flow_insertable r db \<and> length (f_state_fingerprint r) \<le> 64 \<and> plain (f_state_fingerprint r) \<and>
     plain (f_encrypted_payload r) \<and> plain (f_redirect_uri r)"
  by (auto simp: accepted_simps Metadata.oidc_flows_def)

lemma grant_accepted:
  "row_accepted Metadata.metadata (auth_store t db) Metadata.login_grants (grant_cells t r) \<longleftrightarrow>
     grant_insertable r db \<and> length (g_code_fingerprint r) \<le> 64 \<and> plain (g_code_fingerprint r) \<and>
     plain (g_encrypted_payload r)"
  by (auto simp: accepted_simps Metadata.login_grants_def)

lemma ticket_accepted:
  "row_accepted Metadata.metadata (auth_store t db) Metadata.websocket_tickets (ticket_cells t r) \<longleftrightarrow>
     ticket_insertable r db \<and> length (t_ticket_fingerprint r) \<le> 64 \<and> plain (t_ticket_fingerprint r)"
  by (auto simp: accepted_simps Metadata.websocket_tickets_def)

lemma event_accepted:
  "row_accepted Metadata.metadata (auth_store t db) Metadata.session_events (event_cells r) \<longleftrightarrow>
     event_insertable r db \<and> length (e_event_type r) \<le> 80 \<and> plain (e_event_type r)"
  by (auto simp: accepted_simps uuid_cell_def Metadata.session_events_def split: option.splits)

text \<open>C28: For every table the repository writes, the constraint this development uses is the one
  \<open>metadata.py\<close> declares: the declared table accepts a row exactly when the constraint allows it
  and its texts fit the column types.\<close>

theorem constraints_are_the_declared_ones:
  "(row_accepted Metadata.metadata (auth_store t db) Metadata.users (user_cells t u) \<longleftrightarrow>
      user_insertable u db \<and> length (u_email u) \<le> 320 \<and> plain (u_email u) \<and>
      length (u_display_name u) \<le> 120 \<and> plain (u_display_name u)) \<and>
   (row_accepted Metadata.metadata (auth_store t db) Metadata.devices (device_cells d) \<longleftrightarrow>
      device_insertable d db \<and>
      (d_user_id d, d_device_key d) \<notin> (\<lambda>d. (d_user_id d, d_device_key d)) ` set (db_devices db) \<and>
      length (d_device_key d) \<le> 200 \<and> plain (d_device_key d) \<and>
      length (d_platform d) \<le> 40 \<and> plain (d_platform d)) \<and>
   (row_accepted Metadata.metadata (auth_store t db) Metadata.sessions (session_cells t s) \<longleftrightarrow>
      session_insertable s db \<and> length (s_token_fingerprint s) \<le> 128 \<and> plain (s_token_fingerprint s)) \<and>
   (row_accepted Metadata.metadata (auth_store t db) Metadata.oidc_identities (identity_cells t i) \<longleftrightarrow>
      identity_insertable i db \<and> length (i_issuer i) \<le> 512 \<and> plain (i_issuer i) \<and>
      length (i_subject i) \<le> 512 \<and> plain (i_subject i)) \<and>
   (row_accepted Metadata.metadata (auth_store t db) Metadata.oidc_flows (flow_cells t f) \<longleftrightarrow>
      flow_insertable f db \<and> length (f_state_fingerprint f) \<le> 64 \<and> plain (f_state_fingerprint f) \<and>
      plain (f_encrypted_payload f) \<and> plain (f_redirect_uri f)) \<and>
   (row_accepted Metadata.metadata (auth_store t db) Metadata.login_grants (grant_cells t g) \<longleftrightarrow>
      grant_insertable g db \<and> length (g_code_fingerprint g) \<le> 64 \<and> plain (g_code_fingerprint g) \<and>
      plain (g_encrypted_payload g)) \<and>
   (row_accepted Metadata.metadata (auth_store t db) Metadata.websocket_tickets (ticket_cells t k) \<longleftrightarrow>
      ticket_insertable k db \<and> length (t_ticket_fingerprint k) \<le> 64 \<and> plain (t_ticket_fingerprint k)) \<and>
   (row_accepted Metadata.metadata (auth_store t db) Metadata.session_events (event_cells e) \<longleftrightarrow>
      event_insertable e db \<and> length (e_event_type e) \<le> 80 \<and> plain (e_event_type e))"
  by (intro conjI user_accepted device_accepted session_accepted identity_accepted flow_accepted
      grant_accepted ticket_accepted event_accepted)

end
