(* ===== verification/Migrations.thy ===== *)
theory Migrations
  imports Metadata Metadata_0001 Metadata_0002
begin

text \<open>
  The two migrations, \<open>migrations/versions/0001_initial_database.py\<close> and
  \<open>0002_identity_authentication.py\<close>, as functions on the catalog of a PostgreSQL database.  A
  statement the database refuses is \<open>None\<close>: the migration's transaction then changes nothing.
  The order in which SQLAlchemy creates the tables of a \<open>MetaData\<close> is the argument \<open>sorted_tables\<close>.
\<close>

section \<open>The catalog\<close>

datatype event = Update | Delete | Truncate

record trigger =
  trg_name :: string
  trg_table :: string
  trg_events :: "event list"
  trg_function :: string

record catalog =
  cat_schemas :: "string list"
  cat_tables :: "table list"
  cat_indexes :: "index list"
  cat_functions :: "(string \<times> string) list"
  cat_triggers :: "trigger list"

definition empty_catalog :: catalog where
  "empty_catalog = \<lparr>cat_schemas = [], cat_tables = [], cat_indexes = [], cat_functions = [],
     cat_triggers = []\<rparr>"

definition create_schema :: "string \<Rightarrow> catalog \<Rightarrow> catalog option" where
  "create_schema s c =
     (if s \<in> set (cat_schemas c) then None else Some (c\<lparr>cat_schemas := cat_schemas c @ [s]\<rparr>))"

text \<open>\<open>DROP SCHEMA\<close> without \<open>CASCADE\<close> needs an empty schema.\<close>

definition drop_schema :: "string \<Rightarrow> catalog \<Rightarrow> catalog option" where
  "drop_schema s c =
     (if s \<in> set (cat_schemas c) \<and> s \<notin> table_schema ` set (cat_tables c) \<and>
         s \<notin> fst ` set (cat_functions c)
      then Some (c\<lparr>cat_schemas := removeAll s (cat_schemas c)\<rparr>) else None)"

text \<open>\<open>Table.create\<close>: the table, then its indexes.\<close>

definition create_table :: "index list \<Rightarrow> table \<Rightarrow> catalog \<Rightarrow> catalog option" where
  "create_table ixs t c =
     (if table_schema t \<in> set (cat_schemas c) \<and>
         set (references t) \<subseteq> set (concat (map key_paths (cat_tables c @ [t]))) \<and>
         distinct (relation_names ixs t) \<and>
         set (relation_names ixs t) \<inter> set (concat (map (relation_names (cat_indexes c)) (cat_tables c))) = {}
      then Some (c\<lparr>cat_tables := cat_tables c @ [t], cat_indexes := cat_indexes c @ table_indexes ixs t\<rparr>)
      else None)"

text \<open>\<open>DROP TABLE\<close> takes the indexes and triggers along, and is refused while a foreign key of
  another table names the table.\<close>

definition drop_table :: "table \<Rightarrow> catalog \<Rightarrow> catalog option" where
  "drop_table t c =
     (if full_name t \<in> full_name ` set (cat_tables c) \<and>
         list_all (\<lambda>u. full_name u = full_name t \<or> set (references u) \<inter> set (key_paths t) = {}) (cat_tables c)
      then Some (c\<lparr>cat_tables := filter (\<lambda>u. full_name u \<noteq> full_name t) (cat_tables c),
          cat_indexes := filter (\<lambda>i. index_table i \<noteq> full_name t) (cat_indexes c),
          cat_triggers := filter (\<lambda>g. trg_table g \<noteq> full_name t) (cat_triggers c)\<rparr>)
      else None)"

definition create_function :: "string \<times> string \<Rightarrow> catalog \<Rightarrow> catalog option" where
  "create_function f c =
     (if fst f \<in> set (cat_schemas c) \<and> f \<notin> set (cat_functions c)
      then Some (c\<lparr>cat_functions := cat_functions c @ [f]\<rparr>) else None)"

definition drop_function_if_exists :: "string \<times> string \<Rightarrow> catalog \<Rightarrow> catalog option" where
  "drop_function_if_exists f c =
     (if list_ex (\<lambda>g. trg_function g = fst f @ ''.'' @ snd f) (cat_triggers c) then None
      else Some (c\<lparr>cat_functions := removeAll f (cat_functions c)\<rparr>))"

definition create_trigger :: "trigger \<Rightarrow> catalog \<Rightarrow> catalog option" where
  "create_trigger g c =
     (if trg_table g \<in> full_name ` set (cat_tables c) \<and>
         trg_function g \<in> (\<lambda>f. fst f @ ''.'' @ snd f) ` set (cat_functions c) \<and>
         (trg_name g, trg_table g) \<notin> (\<lambda>h. (trg_name h, trg_table h)) ` set (cat_triggers c)
      then Some (c\<lparr>cat_triggers := cat_triggers c @ [g]\<rparr>) else None)"

text \<open>\<open>DROP TRIGGER IF EXISTS\<close> still needs the table.\<close>

definition drop_trigger_if_exists :: "string \<Rightarrow> string \<Rightarrow> catalog \<Rightarrow> catalog option" where
  "drop_trigger_if_exists name t c =
     (if t \<in> full_name ` set (cat_tables c)
      then Some (c\<lparr>cat_triggers := filter (\<lambda>g. trg_name g \<noteq> name \<or> trg_table g \<noteq> t) (cat_triggers c)\<rparr>)
      else None)"

section \<open>The migrations\<close>

text \<open>A script of statements, each on what the one before left.\<close>

fun script :: "('s \<Rightarrow> 's option) list \<Rightarrow> 's \<Rightarrow> 's option" where
  "script [] s = Some s"
| "script (f # fs) s = (case f s of None \<Rightarrow> None | Some t \<Rightarrow> script fs t)"

lemma script_append: "script (fs @ gs) s = (case script fs s of None \<Rightarrow> None | Some t \<Rightarrow> script gs t)"
  by (induction fs arbitrary: s) (auto split: option.splits)

definition SCHEMAS :: "string list" where
  "SCHEMAS = [''identity'', ''personalization'', ''workspace'', ''operations'', ''market'', ''trading'',
     ''audit'']"

definition reject_event_mutation :: "string \<times> string" where
  "reject_event_mutation = (''audit'', ''reject_event_mutation'')"

definition audit_events_append_only :: trigger where
  "audit_events_append_only = \<lparr>trg_name = ''audit_events_append_only'', trg_table = ''audit.events'',
     trg_events = [Update, Delete], trg_function = ''audit.reject_event_mutation''\<rparr>"

definition audit_events_reject_truncate :: trigger where
  "audit_events_reject_truncate = \<lparr>trg_name = ''audit_events_reject_truncate'',
     trg_table = ''audit.events'', trg_events = [Truncate],
     trg_function = ''audit.reject_event_mutation''\<rparr>"

definition upgrade_0001 :: "(table list \<Rightarrow> table list) \<Rightarrow> catalog \<Rightarrow> catalog option" where
  "upgrade_0001 sorted_tables = script (
     map create_schema SCHEMAS @
     map (create_table Metadata_0001.indexes) (sorted_tables Metadata_0001.metadata) @
     [create_function reject_event_mutation,
      create_trigger audit_events_append_only,
      create_trigger audit_events_reject_truncate])"

definition downgrade_0001 :: "(table list \<Rightarrow> table list) \<Rightarrow> catalog \<Rightarrow> catalog option" where
  "downgrade_0001 sorted_tables = script (
     [drop_trigger_if_exists ''audit_events_reject_truncate'' ''audit.events'',
      drop_trigger_if_exists ''audit_events_append_only'' ''audit.events'',
      drop_function_if_exists reject_event_mutation] @
     map drop_table (rev (sorted_tables Metadata_0001.metadata)) @
     map drop_schema (rev SCHEMAS))"

definition upgrade_0002 :: "catalog \<Rightarrow> catalog option" where
  "upgrade_0002 = script (map (create_table Metadata_0002.indexes) ADDITION_TABLES)"

definition downgrade_0002 :: "catalog \<Rightarrow> catalog option" where
  "downgrade_0002 = script (map drop_table (rev ADDITION_TABLES))"

end
