(* ===== verification/Migration_Lemmas.thy ===== *)
theory Migration_Lemmas
  imports Migrations Schema_Facts "HOL-Library.Multiset"
begin

text \<open>
  Creating the tables of a script in dependency order succeeds and dropping them in the reverse
  order undoes it, whatever else the database holds; and the facts about the declared tables that
  the two migrations need for this.
\<close>

section \<open>Dependency order\<close>

text \<open>Every table comes after the tables its foreign keys name; \<open>seen\<close> are the keys of those before.\<close>

fun dependency_order :: "string list \<Rightarrow> table list \<Rightarrow> bool" where
  "dependency_order seen [] \<longleftrightarrow> True"
| "dependency_order seen (t # ts) \<longleftrightarrow>
     list_all (\<lambda>r. r \<in> set seen \<or> r \<in> set (key_paths t)) (references t) \<and>
     dependency_order (key_paths t @ seen) ts"

lemma dependency_order_cong: "set seen = set seen' \<Longrightarrow> dependency_order seen ts = dependency_order seen' ts"
proof (induction ts arbitrary: seen seen')
  case (Cons t ts)
  have "dependency_order (key_paths t @ seen) ts = dependency_order (key_paths t @ seen') ts"
    using Cons.prems by (intro Cons.IH) simp
  then show ?case using Cons.prems by simp
qed simp

lemma dependency_order_append:
  "dependency_order seen (ts @ us) \<longleftrightarrow>
     dependency_order seen ts \<and> dependency_order (concat (map key_paths ts) @ seen) us"
proof (induction ts arbitrary: seen)
  case (Cons t ts)
  have "dependency_order (concat (map key_paths ts) @ key_paths t @ seen) us =
      dependency_order (concat (map key_paths (t # ts)) @ seen) us"
    by (rule dependency_order_cong) auto
  then show ?case using Cons.IH [of "key_paths t @ seen"] by simp
qed simp

lemma dependency_order_references:
  "dependency_order seen ts \<Longrightarrow> t \<in> set ts \<Longrightarrow>
     set (references t) \<subseteq> set seen \<union> (\<Union>u \<in> set ts. set (key_paths u))"
proof (induction ts arbitrary: seen)
  case (Cons u ts)
  show ?case
  proof (cases "t = u")
    case True
    then show ?thesis using Cons.prems(1) by (auto simp: list_all_iff)
  next
    case False
    then show ?thesis using Cons.IH [of "key_paths u @ seen"] Cons.prems by auto
  qed
qed simp

section \<open>Creating tables\<close>

lemma relation_names_cong:
  "table_indexes ixs t = table_indexes ixs' t \<Longrightarrow> relation_names ixs t = relation_names ixs' t"
  by (simp add: relation_names_def)

text \<open>
  What a catalog and the tables to come must satisfy, relative to the indexes \<open>all\<close> of both: names
  are distinct, and the indexes of each table are those of \<open>all\<close>.
\<close>

definition fits :: "index list \<Rightarrow> index list \<Rightarrow> table list \<Rightarrow> catalog \<Rightarrow> bool" where
  "fits all ixs ts c \<longleftrightarrow>
     distinct (map full_name (cat_tables c @ ts)) \<and>
     distinct (concat (map (relation_names all) (cat_tables c @ ts))) \<and>
     (\<forall>t \<in> set ts. table_schema t \<in> set (cat_schemas c) \<and> table_indexes ixs t = table_indexes all t) \<and>
     (\<forall>t \<in> set (cat_tables c). table_indexes (cat_indexes c) t = table_indexes all t) \<and>
     index_table ` set (cat_indexes c) \<subseteq> full_name ` set (cat_tables c)"

definition with_tables :: "index list \<Rightarrow> table list \<Rightarrow> catalog \<Rightarrow> catalog" where
  "with_tables ixs ts c = c\<lparr>cat_tables := cat_tables c @ ts,
     cat_indexes := cat_indexes c @ concat (map (table_indexes ixs) ts)\<rparr>"

lemma table_indexes_append: "table_indexes (xs @ ys) t = table_indexes xs t @ table_indexes ys t"
  by (simp add: table_indexes_def)

lemma table_indexes_other: "full_name u \<noteq> full_name t \<Longrightarrow> table_indexes (table_indexes ixs u) t = []"
  by (auto simp: table_indexes_def filter_empty_conv)

lemma table_indexes_same: "table_indexes (table_indexes ixs t) t = table_indexes ixs t"
  by (simp add: table_indexes_def)

lemma fits_step:
  assumes "fits all ixs (t # ts) c"
  shows "fits all ixs ts (with_tables ixs [t] c)"
proof -
  let ?c = "with_tables ixs [t] c"
  note fits = assms [unfolded fits_def]
  have new: "table_indexes (cat_indexes c) t = []"
  proof -
    have "index_table ` set (cat_indexes c) \<subseteq> full_name ` set (cat_tables c)"
      "full_name t \<notin> full_name ` set (cat_tables c)" using fits by simp_all
    then show ?thesis unfolding table_indexes_def filter_empty_conv by (metis image_eqI subsetD)
  qed
  have old: "table_indexes (table_indexes ixs t) u = []" if "u \<in> set (cat_tables c)" for u
    using fits that by (intro table_indexes_other) auto
  have indexes: "\<forall>u \<in> set (cat_tables ?c). table_indexes (cat_indexes ?c) u = table_indexes all u"
    using fits new old by (simp add: with_tables_def table_indexes_append table_indexes_same)
  have "index_table ` set (cat_indexes c) \<subseteq> full_name ` set (cat_tables c)"
    using fits by simp
  then have owners: "index_table ` set (cat_indexes ?c) \<subseteq> full_name ` set (cat_tables ?c)"
    by (auto simp: with_tables_def table_indexes_def)
  have "cat_tables ?c @ ts = cat_tables c @ t # ts" "cat_schemas ?c = cat_schemas c"
    by (simp_all add: with_tables_def)
  then show ?thesis unfolding fits_def using fits indexes owners by simp
qed

lemma create_table_ok:
  assumes "fits all ixs (t # ts) c"
    and "list_all (\<lambda>r. r \<in> set (concat (map key_paths (cat_tables c))) \<or> r \<in> set (key_paths t)) (references t)"
  shows "create_table ixs t c = Some (with_tables ixs [t] c)"
proof -
  have "relation_names (cat_indexes c) u = relation_names all u" if "u \<in> set (cat_tables c)" for u
    using assms(1) that by (intro relation_names_cong) (simp add: fits_def)
  moreover have "relation_names ixs t = relation_names all t"
    using assms(1) by (intro relation_names_cong) (simp add: fits_def)
  ultimately show ?thesis
    using assms by (auto simp: create_table_def with_tables_def fits_def list_all_iff)
qed

lemma create_tables:
  assumes "fits all ixs ts c" "dependency_order (concat (map key_paths (cat_tables c))) ts"
  shows "script (map (create_table ixs) ts) c = Some (with_tables ixs ts c) \<and>
    fits all ixs [] (with_tables ixs ts c)"
  using assms
proof (induction ts arbitrary: c)
  case Nil
  then show ?case by (simp add: with_tables_def)
next
  case (Cons t ts)
  let ?c = "with_tables ixs [t] c"
  have "dependency_order (concat (map key_paths (cat_tables ?c))) ts =
      dependency_order (key_paths t @ concat (map key_paths (cat_tables c))) ts"
    by (rule dependency_order_cong) (auto simp: with_tables_def)
  then have "script (map (create_table ixs) ts) ?c = Some (with_tables ixs ts ?c) \<and>
      fits all ixs [] (with_tables ixs ts ?c)"
    using Cons.prems by (intro Cons.IH fits_step) simp_all
  moreover have "with_tables ixs ts ?c = with_tables ixs (t # ts) c" by (simp add: with_tables_def)
  ultimately show ?case using Cons.prems create_table_ok [of all ixs t ts c] by simp
qed

section \<open>Dropping tables\<close>

definition without_tables :: "table list \<Rightarrow> catalog \<Rightarrow> catalog" where
  "without_tables ts c = c\<lparr>cat_tables := filter (\<lambda>u. full_name u \<notin> full_name ` set ts) (cat_tables c),
     cat_indexes := filter (\<lambda>i. index_table i \<notin> full_name ` set ts) (cat_indexes c),
     cat_triggers := filter (\<lambda>g. trg_table g \<notin> full_name ` set ts) (cat_triggers c)\<rparr>"

lemma drop_tables:
  assumes "cat_tables c = old @ ts" "distinct (map full_name (old @ ts))"
    and "distinct (concat (map key_paths (old @ ts)))"
    and "\<forall>t \<in> set old. set (references t) \<subseteq> set (concat (map key_paths old))"
    and "dependency_order (concat (map key_paths old)) ts"
  shows "script (map drop_table (rev ts)) c = Some (without_tables ts c)"
  using assms
proof (induction ts arbitrary: c rule: rev_induct)
  case Nil
  then show ?case by (simp add: without_tables_def)
next
  case (snoc t ts)
  let ?c = "without_tables [t] c"
  have keys: "set (concat (map key_paths (old @ ts))) \<inter> set (key_paths t) = {}"
    using snoc.prems(3) by auto
  have order: "dependency_order (concat (map key_paths old)) ts"
    using snoc.prems(5) by (simp add: dependency_order_append)
  have "set (references u) \<inter> set (key_paths t) = {}" if "u \<in> set (old @ ts)" for u
  proof -
    have "set (references u) \<subseteq> set (concat (map key_paths (old @ ts)))"
      using that snoc.prems(4) dependency_order_references [OF order] by fastforce
    then show ?thesis using keys by blast
  qed
  then have drop: "drop_table t c = Some ?c"
    using snoc.prems(1) by (auto simp: drop_table_def without_tables_def list_all_iff)
  have "full_name t \<notin> full_name ` set (old @ ts)" using snoc.prems(2) by auto
  then have "filter (\<lambda>u. full_name u \<noteq> full_name t) (old @ ts) = old @ ts"
    by (intro filter_True ballI) (metis imageI)
  then have tables: "cat_tables ?c = old @ ts"
    using snoc.prems(1) by (simp add: without_tables_def)
  have "script (map drop_table (rev ts)) ?c = Some (without_tables ts ?c)"
    by (rule snoc.IH [OF tables _ _ snoc.prems(4) order]) (use snoc.prems(2,3) in auto)
  moreover have "without_tables ts ?c = without_tables (ts @ [t]) c"
    by (auto simp: without_tables_def intro!: arg_cong [of _ _ "\<lambda>f. filter f _"])
  ultimately show ?case using drop by simp
qed

lemma without_with_tables:
  assumes "fits all ixs ts c" "trg_table ` set (cat_triggers c) \<inter> full_name ` set ts = {}"
  shows "without_tables ts (with_tables ixs ts c) = c"
proof -
  have "filter (\<lambda>u. full_name u \<notin> full_name ` set ts) (cat_tables c) = cat_tables c"
    using assms(1) by (auto simp: fits_def filter_id_conv)
  moreover have "filter (\<lambda>i. index_table i \<notin> full_name ` set ts) (cat_indexes c) = cat_indexes c"
    using assms(1) by (fastforce simp: fits_def filter_id_conv)
  moreover have "filter (\<lambda>i. index_table i \<notin> full_name ` set ts) (concat (map (table_indexes ixs) ts)) = []"
    by (auto simp: filter_empty_conv table_indexes_def)
  moreover have "filter (\<lambda>g. trg_table g \<notin> full_name ` set ts) (cat_triggers c) = cat_triggers c"
    using assms(2) by (auto simp: filter_id_conv)
  ultimately show ?thesis by (simp add: without_tables_def with_tables_def filter_empty_conv)
qed

end
