(* ===== verification/Migration_Facts.thy ===== *)
theory Migration_Facts
  imports Migration_Lemmas
begin

text \<open>
  Facts about the declared tables that the migrations need: names are distinct, the snapshots have
  the tables and indexes of the metadata, and both are in dependency order.
\<close>

section \<open>Facts about the declarations\<close>

lemmas metadata_eval = Metadata.metadata_def Metadata_0001.metadata_def [unfolded tables_0001]
  ADDITION_TABLES_def [unfolded tables_0002]

lemma metadata_split:
  "Metadata.metadata = take 7 Metadata_0001.metadata @ ADDITION_TABLES @ drop 7 Metadata_0001.metadata"
  by (simp add: metadata_eval)

lemma metadata_mset: "mset Metadata.metadata = mset Metadata_0001.metadata + mset ADDITION_TABLES"
proof -
  have "mset Metadata_0001.metadata = mset (take 7 Metadata_0001.metadata) + mset (drop 7 Metadata_0001.metadata)"
    by (metis append_take_drop_id mset_append)
  then show ?thesis by (simp add: metadata_split)
qed

lemma full_names_distinct: "distinct (map full_name Metadata.metadata)"
  by (simp add: metadata_eval names_differ hashes)

lemma key_paths_distinct: "distinct (concat (map key_paths Metadata.metadata))"
  by (simp add: metadata_eval key_paths_def shapes)

lemma relation_names_distinct: "distinct (concat (map (relation_names Metadata.indexes) Metadata.metadata))"
proof -
  have "distinct (map (name_hash \<circ> dotted) (concat (map (relation_names Metadata.indexes) Metadata.metadata)))"
    unfolding map_concat map_map by (simp add: metadata_eval hashes)
  then show ?thesis unfolding distinct_map by blast
qed

lemma snapshot_indexes_0001:
  "list_all (\<lambda>t. table_indexes Metadata_0001.indexes t = table_indexes Metadata.indexes t) Metadata_0001.metadata"
  by (simp add: metadata_eval Metadata_0001.indexes_def indexes_0001 table_indexes_Cons names_differ hashes index_shapes)

lemma snapshot_indexes_0002:
  "list_all (\<lambda>t. table_indexes Metadata_0002.indexes t = table_indexes Metadata.indexes t) ADDITION_TABLES"
  by (simp add: metadata_eval Metadata_0002.indexes_def indexes_0002 table_indexes_Cons names_differ hashes index_shapes)

lemma table_schemas: "list_all (\<lambda>t. table_schema t \<in> set SCHEMAS) Metadata.metadata"
  by (simp add: metadata_eval SCHEMAS_def shapes)

lemma additions_in_order: "dependency_order (concat (map key_paths Metadata_0001.metadata)) ADDITION_TABLES"
  by (simp add: metadata_eval key_paths_def shapes)

lemma declared_in_order: "dependency_order [] Metadata_0001.metadata"
  by (simp add: metadata_eval key_paths_def shapes)

lemma indexes_owned: "list_all (\<lambda>i. index_table i \<in> set (map full_name Metadata.metadata)) Metadata.indexes"
  by (simp add: metadata_eval Metadata.indexes_def index_shapes)

section \<open>Migrations\<close>

text \<open>
  What SQLAlchemy documents of \<open>sorted_tables\<close>: the tables of the metadata in an order where each
  comes after those it depends on by foreign keys.
\<close>

definition sorts_tables :: "(table list \<Rightarrow> table list) \<Rightarrow> table list \<Rightarrow> bool" where
  "sorts_tables f ts \<longleftrightarrow> mset (f ts) = mset ts \<and> dependency_order [] (f ts)"

lemma distinct_concat_mset: "mset xs = mset ys \<Longrightarrow> distinct (concat (map f xs)) = distinct (concat (map f ys))"
proof -
  assume "mset xs = mset ys"
  then have "mset (concat (map f xs)) = mset (concat (map f ys))"
    by (simp add: mset_concat flip: sum_mset_sum_list)
  then show ?thesis by (rule mset_eq_imp_distinct_iff)
qed

text \<open>The catalog after the first migration, and after both.\<close>

definition initial_catalog :: "table list \<Rightarrow> catalog" where
  "initial_catalog ts = (with_tables Metadata_0001.indexes ts (empty_catalog\<lparr>cat_schemas := SCHEMAS\<rparr>))
     \<lparr>cat_functions := [reject_event_mutation],
      cat_triggers := [audit_events_append_only, audit_events_reject_truncate]\<rparr>"

definition full_catalog :: "table list \<Rightarrow> catalog" where
  "full_catalog ts = with_tables Metadata_0002.indexes ADDITION_TABLES (initial_catalog ts)"

lemma create_schemas: "script (map create_schema SCHEMAS) empty_catalog = Some (empty_catalog\<lparr>cat_schemas := SCHEMAS\<rparr>)"
  by code_simp

end
