(* ===== verification/Schema_Types.thy ===== *)
theory Schema_Types
  imports Migration_Facts
begin

text \<open>
  The declared schema is well formed: each constraint, foreign key and index is about columns that
  exist and have the types it needs.
\<close>

text \<open>The columns that foreign keys name.\<close>

definition referenced :: "string list" where
  "referenced = [''identity.users.id'', ''identity.roles.id'', ''identity.permissions.id'',
     ''identity.devices.id'', ''identity.sessions.id'', ''personalization.themes.id'',
     ''personalization.background_assets.id'', ''personalization.sound_assets.id'',
     ''workspace.workspaces.id'', ''operations.server_connections.id'', ''market.instruments.id'',
     ''trading.risk_configurations.id'', ''trading.orders.id'', ''trading.manual_broker_exits.id'']"

lemma key_of_Cons: "key_of (t # ts) r = filter (\<lambda>k. fst k = r) (key_columns t) @ key_of ts r" "key_of [] r = []"
  by (simp_all add: key_of_def)

lemma keys_ok: "list_all (\<lambda>r. key_of Metadata.metadata r = [(r, Uuid)]) referenced"
  by (simp add: referenced_def metadata_eval key_of_Cons shapes)

lemma tables_ok: "list_all table_ok Metadata.metadata"
  by code_simp

lemma foreign_keys_shape:
  "list_all (\<lambda>t. list_all (\<lambda>(ref, type, action, nn).
     ref \<in> set referenced \<and> type = Uuid \<and> (action = SET_NULL \<longrightarrow> \<not> nn)) (foreign_keys t)) Metadata.metadata"
  by code_simp

lemma foreign_keys_ok: "list_all (foreign_keys_ok Metadata.metadata) Metadata.metadata"
  using foreign_keys_shape keys_ok
  by (fastforce simp: foreign_keys_ok_def list_all_iff)

definition named :: "table list \<Rightarrow> string \<Rightarrow> table list" where
  "named md n = filter (\<lambda>t. full_name t = n) md"

lemma named_Cons: "named (t # ts) n = (if full_name t = n then [t] else []) @ named ts n" "named [] n = []"
  by (simp_all add: named_def)

lemma named_table: "distinct (map full_name md) \<Longrightarrow> t \<in> set md \<Longrightarrow> named md (full_name t) = [t]"
proof (induction md)
  case (Cons u md)
  have "named md (full_name u) = []"
    using Cons.prems(1) unfolding named_def filter_empty_conv by (metis distinct.simps(2) imageI list.simps(9) set_map)
  then show ?case using Cons by (cases "t = u") (auto simp: named_Cons image_iff)
qed simp

lemma indexes_ok_for:
  assumes "\<And>t. t \<in> set Metadata.metadata \<Longrightarrow> filter (\<lambda>u. full_name u = full_name t) M = [t]"
  shows "list_all (index_ok M) Metadata.indexes"
  unfolding Metadata.indexes_def list.pred_inject
  by (intro conjI; simp add: index_ok_def index_shapes assms Metadata.metadata_def)
    (simp_all add: Metadata.index_defs Index_def Metadata.table_defs shape_defs)

lemma indexes_ok: "list_all (index_ok Metadata.metadata) Metadata.indexes"
  by (rule indexes_ok_for) (use named_table [OF full_names_distinct] in \<open>simp add: named_def\<close>)

lemma names_ok: "names_ok Metadata.metadata Metadata.indexes"
proof -
  have "list_all (\<lambda>t. list_all (\<lambda>n. length (snd n) \<le> 63) (relation_names Metadata.indexes t)) Metadata.metadata"
    by (simp add: metadata_eval relation_names_def shapes index_shapes Metadata.index_defs Index_def)
  then show ?thesis
    unfolding names_ok_def using full_names_distinct relation_names_distinct by blast
qed

lemma schema_ok_metadata: "schema_ok Metadata.metadata Metadata.indexes"
  unfolding schema_ok_def using tables_ok foreign_keys_ok indexes_ok names_ok by blast

end
