(* ===== verification/Schema_Properties.thy ===== *)
theory Schema_Properties
  imports Schema_Types
begin

text \<open>
  The correctness properties of the database schema and its migrations.
\<close>

section \<open>Running the migrations\<close>

lemma sorted_facts:
  assumes "sorts_tables f Metadata_0001.metadata"
  shows "mset (f Metadata_0001.metadata @ ADDITION_TABLES) = mset Metadata.metadata"
    and "set (f Metadata_0001.metadata) = set Metadata_0001.metadata"
    and "dependency_order [] (f Metadata_0001.metadata)"
  using assms metadata_mset by (auto simp: sorts_tables_def dest: mset_eq_setD)

lemma fits_initial:
  assumes "sorts_tables f Metadata_0001.metadata"
  shows "fits Metadata.indexes Metadata_0001.indexes (f Metadata_0001.metadata)
    (empty_catalog\<lparr>cat_schemas := SCHEMAS\<rparr>)"
proof -
  let ?ts = "f Metadata_0001.metadata"
  note m = sorted_facts [OF assms]
  have "distinct (map full_name (?ts @ ADDITION_TABLES))"
    using full_names_distinct m(1) by (metis mset_eq_imp_distinct_iff mset_map)
  moreover have "distinct (concat (map (relation_names Metadata.indexes) (?ts @ ADDITION_TABLES)))"
    using relation_names_distinct distinct_concat_mset [OF m(1)] by blast
  moreover have "table_schema t \<in> set SCHEMAS" if "t \<in> set ?ts" for t
    using that table_schemas mset_eq_setD [OF m(1)] by (auto simp: list_all_iff)
  ultimately show ?thesis
    using snapshot_indexes_0001 m(2) by (auto simp: fits_def empty_catalog_def list_all_iff)
qed

lemma fits_full:
  assumes "sorts_tables f Metadata_0001.metadata"
  shows "fits Metadata.indexes Metadata_0002.indexes ADDITION_TABLES (initial_catalog (f Metadata_0001.metadata))"
proof -
  let ?ts = "f Metadata_0001.metadata"
  note m = sorted_facts [OF assms]
  have c: "cat_tables (initial_catalog ?ts) = ?ts" "cat_schemas (initial_catalog ?ts) = SCHEMAS"
    "cat_indexes (initial_catalog ?ts) = concat (map (table_indexes Metadata_0001.indexes) ?ts)"
    by (simp_all add: initial_catalog_def with_tables_def empty_catalog_def)
  have "fits Metadata.indexes Metadata_0001.indexes [] (with_tables Metadata_0001.indexes ?ts (empty_catalog\<lparr>cat_schemas := SCHEMAS\<rparr>))"
    using create_tables [OF fits_initial [OF assms]] m(3) by (simp add: empty_catalog_def)
  then have "\<forall>t \<in> set ?ts. table_indexes (cat_indexes (initial_catalog ?ts)) t = table_indexes Metadata.indexes t"
    "index_table ` set (cat_indexes (initial_catalog ?ts)) \<subseteq> full_name ` set ?ts"
    by (simp_all add: fits_def initial_catalog_def with_tables_def empty_catalog_def)
  moreover have "distinct (map full_name (?ts @ ADDITION_TABLES))"
    using full_names_distinct m(1) by (metis mset_eq_imp_distinct_iff mset_map)
  moreover have "distinct (concat (map (relation_names Metadata.indexes) (?ts @ ADDITION_TABLES)))"
    using relation_names_distinct distinct_concat_mset [OF m(1)] by blast
  moreover have "table_schema t \<in> set SCHEMAS" if "t \<in> set ADDITION_TABLES" for t
    using that table_schemas mset_eq_setD [OF m(1)] by (auto simp: list_all_iff)
  ultimately show ?thesis
    unfolding fits_def c(1,2) using snapshot_indexes_0002 by (auto simp: list_all_iff)
qed

lemma upgrade_0001_ok:
  assumes "sorts_tables f Metadata_0001.metadata"
  shows "upgrade_0001 f empty_catalog = Some (initial_catalog (f Metadata_0001.metadata))"
proof -
  let ?ts = "f Metadata_0001.metadata" and ?c = "empty_catalog\<lparr>cat_schemas := SCHEMAS\<rparr>"
  have tables: "script (map (create_table Metadata_0001.indexes) ?ts) ?c = Some (with_tables Metadata_0001.indexes ?ts ?c)"
    using create_tables [OF fits_initial [OF assms]] sorted_facts(3) [OF assms] by (simp add: empty_catalog_def)
  have "Metadata.audit_events \<in> set ?ts"
    using sorted_facts(2) [OF assms] by (simp add: metadata_eval)
  then have audit: "''audit.events'' \<in> full_name ` set ?ts"
    using audit_events_shape(2) by (metis imageI)
  have rest: "script [create_function reject_event_mutation, create_trigger audit_events_append_only,
      create_trigger audit_events_reject_truncate] (with_tables Metadata_0001.indexes ?ts ?c) =
      Some (initial_catalog ?ts)"
    using audit
    by (simp add: create_function_def create_trigger_def initial_catalog_def with_tables_def
        empty_catalog_def reject_event_mutation_def audit_events_append_only_def
        audit_events_reject_truncate_def SCHEMAS_def)
  show ?thesis
    unfolding upgrade_0001_def script_append create_schemas by (simp add: tables rest [simplified])
qed

lemma upgrade_0002_ok:
  assumes "sorts_tables f Metadata_0001.metadata"
  shows "upgrade_0002 (initial_catalog (f Metadata_0001.metadata)) = Some (full_catalog (f Metadata_0001.metadata))"
proof -
  let ?ts = "f Metadata_0001.metadata"
  have "dependency_order (concat (map key_paths ?ts)) ADDITION_TABLES"
    using additions_in_order sorted_facts(2) [OF assms] dependency_order_cong by (metis set_concat set_map)
  then show ?thesis
    using create_tables [OF fits_full [OF assms]]
    by (simp add: upgrade_0002_def full_catalog_def initial_catalog_def with_tables_def empty_catalog_def)
qed

lemma downgrade_0002_ok:
  assumes "sorts_tables f Metadata_0001.metadata"
  shows "downgrade_0002 (full_catalog (f Metadata_0001.metadata)) = Some (initial_catalog (f Metadata_0001.metadata))"
proof -
  let ?ts = "f Metadata_0001.metadata"
  note m = sorted_facts [OF assms]
  have tables: "cat_tables (full_catalog ?ts) = ?ts @ ADDITION_TABLES"
    by (simp add: full_catalog_def initial_catalog_def with_tables_def empty_catalog_def)
  have names: "distinct (map full_name (?ts @ ADDITION_TABLES))"
    using full_names_distinct m(1) by (metis mset_eq_imp_distinct_iff mset_map)
  have keys: "distinct (concat (map key_paths (?ts @ ADDITION_TABLES)))"
    using key_paths_distinct distinct_concat_mset [OF m(1)] by blast
  have closed: "\<forall>t \<in> set ?ts. set (references t) \<subseteq> set (concat (map key_paths ?ts))"
    using dependency_order_references [OF m(3)] by fastforce
  have order: "dependency_order (concat (map key_paths ?ts)) ADDITION_TABLES"
    using additions_in_order m(2) dependency_order_cong by (metis set_concat set_map)
  have "Metadata.audit_events \<notin> set ADDITION_TABLES"
  proof -
    have "Metadata.audit_events \<in> set ?ts" using m(2) by (simp add: metadata_eval)
    then show ?thesis using names by (auto simp: image_iff)
  qed
  moreover have "Metadata.audit_events \<in> set (?ts @ ADDITION_TABLES)"
    using mset_eq_setD [OF m(1)] by (simp add: metadata_eval)
  ultimately have "full_name Metadata.audit_events \<notin> full_name ` set ADDITION_TABLES"
    using names by (auto simp: image_iff)
  then have "''audit.events'' \<notin> full_name ` set ADDITION_TABLES" by (simp add: audit_events_shape(2))
  then have "without_tables ADDITION_TABLES (full_catalog ?ts) = initial_catalog ?ts"
    unfolding full_catalog_def
    by (intro without_with_tables [OF fits_full [OF assms]])
      (simp add: initial_catalog_def audit_events_append_only_def audit_events_reject_truncate_def)
  then show ?thesis
    unfolding downgrade_0002_def using drop_tables [OF tables names keys closed order] by simp
qed

lemma downgrade_0001_ok:
  assumes "sorts_tables f Metadata_0001.metadata"
  shows "downgrade_0001 f (initial_catalog (f Metadata_0001.metadata)) = Some empty_catalog"
proof -
  let ?ts = "f Metadata_0001.metadata" and ?c = "empty_catalog\<lparr>cat_schemas := SCHEMAS\<rparr>"
  let ?c1 = "with_tables Metadata_0001.indexes ?ts ?c"
  note m = sorted_facts [OF assms]
  have "Metadata.audit_events \<in> set ?ts" using m(2) by (simp add: metadata_eval)
  then have audit: "''audit.events'' \<in> full_name ` set ?ts" using audit_events_shape(2) by (metis imageI)
  have first: "script [drop_trigger_if_exists ''audit_events_reject_truncate'' ''audit.events'',
      drop_trigger_if_exists ''audit_events_append_only'' ''audit.events'',
      drop_function_if_exists reject_event_mutation] (initial_catalog ?ts) = Some ?c1"
    using audit
    by (simp add: drop_trigger_if_exists_def drop_function_if_exists_def initial_catalog_def
        with_tables_def empty_catalog_def audit_events_append_only_def audit_events_reject_truncate_def)
  have tables: "cat_tables ?c1 = [] @ ?ts" by (simp add: with_tables_def empty_catalog_def)
  have names: "distinct (map full_name ([] @ ?ts))"
    using fits_initial [OF assms] by (simp add: fits_def empty_catalog_def)
  have "distinct (concat (map key_paths (?ts @ ADDITION_TABLES)))"
    using key_paths_distinct distinct_concat_mset [OF m(1)] by blast
  then have keys: "distinct (concat (map key_paths ([] @ ?ts)))" by simp
  have "script (map drop_table (rev ?ts)) ?c1 = Some ?c"
    using drop_tables [OF tables names keys] m(3) without_with_tables [OF fits_initial [OF assms]]
    by (simp add: empty_catalog_def)
  moreover have "script (map drop_schema (rev SCHEMAS)) ?c = Some empty_catalog" by code_simp
  ultimately show ?thesis
    unfolding downgrade_0001_def script_append first by simp
qed

lemma full_catalog_tables:
  assumes "sorts_tables f Metadata_0001.metadata"
  shows "set (cat_tables (full_catalog (f Metadata_0001.metadata))) = set Metadata.metadata"
    and "set (cat_indexes (full_catalog (f Metadata_0001.metadata))) = set Metadata.indexes"
proof -
  let ?ts = "f Metadata_0001.metadata"
  note m = sorted_facts [OF assms]
  show "set (cat_tables (full_catalog ?ts)) = set Metadata.metadata"
    using mset_eq_setD [OF m(1)]
    by (simp add: full_catalog_def initial_catalog_def with_tables_def empty_catalog_def)
  have "cat_indexes (full_catalog ?ts) = concat (map (table_indexes Metadata_0001.indexes) ?ts) @
      concat (map (table_indexes Metadata_0002.indexes) ADDITION_TABLES)"
    by (simp add: full_catalog_def initial_catalog_def with_tables_def empty_catalog_def)
  also have "\<dots> = concat (map (table_indexes Metadata.indexes) (?ts @ ADDITION_TABLES))"
    using snapshot_indexes_0001 snapshot_indexes_0002 m(2)
    by (auto simp: list_all_iff intro!: arg_cong2 [of _ _ _ _ append] arg_cong [of _ _ concat])
  finally have "set (cat_indexes (full_catalog ?ts)) =
      {i \<in> set Metadata.indexes. index_table i \<in> full_name ` set (?ts @ ADDITION_TABLES)}"
    by (auto simp: table_indexes_def)
  moreover have "set (?ts @ ADDITION_TABLES) = set Metadata.metadata"
    using mset_eq_setD [OF m(1)] by simp
  ultimately show "set (cat_indexes (full_catalog ?ts)) = set Metadata.indexes"
    using indexes_owned unfolding list_all_iff set_map by blast
qed

section \<open>Properties\<close>

text \<open>C24: In whatever dependency order the tables are created, the two migrations succeed on an empty
  database and leave exactly the tables and indexes that \<open>metadata.py\<close> declares, in the seven
  schemas, with the triggers that guard the audit events.\<close>

theorem migrations_reach_metadata:
  assumes "sorts_tables f Metadata_0001.metadata"
  shows "\<exists>c1 c2. upgrade_0001 f empty_catalog = Some c1 \<and> upgrade_0002 c1 = Some c2 \<and>
    set (cat_tables c2) = set Metadata.metadata \<and> set (cat_indexes c2) = set Metadata.indexes \<and>
    cat_schemas c2 = SCHEMAS \<and> cat_triggers c2 = [audit_events_append_only, audit_events_reject_truncate]"
  using upgrade_0001_ok [OF assms] upgrade_0002_ok [OF assms] full_catalog_tables [OF assms]
  by (simp add: full_catalog_def initial_catalog_def with_tables_def empty_catalog_def)

theorem migrations_reach_metadata_witness:
  "\<exists>c1 c2. upgrade_0001 id empty_catalog = Some c1 \<and> upgrade_0002 c1 = Some c2 \<and>
    set (cat_tables c2) = set Metadata.metadata"
proof -
  have "sorts_tables id Metadata_0001.metadata" by (simp add: sorts_tables_def declared_in_order)
  from migrations_reach_metadata [OF this] show ?thesis by blast
qed

text \<open>C25: The downgrades undo the upgrades: the second takes the database back to what the first
  migration left, the first to an empty database.\<close>

theorem downgrade_round_trip:
  assumes "sorts_tables f Metadata_0001.metadata"
    and "upgrade_0001 f empty_catalog = Some c1" "upgrade_0002 c1 = Some c2"
  shows "downgrade_0002 c2 = Some c1 \<and> downgrade_0001 f c1 = Some empty_catalog"
  using assms(2,3) upgrade_0001_ok [OF assms(1)] upgrade_0002_ok [OF assms(1)]
    downgrade_0001_ok [OF assms(1)] downgrade_0002_ok [OF assms(1)] by simp

theorem downgrade_round_trip_witness:
  "\<exists>c1 c2. upgrade_0001 id empty_catalog = Some c1 \<and> upgrade_0002 c1 = Some c2 \<and>
    downgrade_0002 c2 = Some c1 \<and> downgrade_0001 id c1 = Some empty_catalog"
proof -
  have id: "sorts_tables id Metadata_0001.metadata" by (simp add: sorts_tables_def declared_in_order)
  from downgrade_round_trip [OF id upgrade_0001_ok [OF id] upgrade_0002_ok [OF id]]
  show ?thesis using upgrade_0001_ok [OF id] upgrade_0002_ok [OF id] by blast
qed

end
