(* ===== verification/Audit_Events.thy ===== *)
theory Audit_Events
  imports Schema_Properties Schema_Rows
begin

text \<open>
  The audit log as the migrated database keeps it: statements on rows, with the triggers of
  migration 0001 and the actions of foreign keys.  \<open>delete_rows\<close> follows foreign keys to a depth
  of \<open>n\<close>; a statement that is refused is \<open>None\<close>.
\<close>

section \<open>Statements\<close>

definition raises :: "catalog \<Rightarrow> string \<Rightarrow> event \<Rightarrow> bool" where
  "raises c n e \<longleftrightarrow> list_ex (\<lambda>g. trg_table g = n \<and> e \<in> set (trg_events g) \<and>
     trg_function g = ''audit.reject_event_mutation'') (cat_triggers c)"

definition links :: "table \<Rightarrow> (string \<times> string \<times> on_delete) list" where
  "links t = concat (map (\<lambda>c. case foreign_key c of None \<Rightarrow> []
     | Some (ForeignKey ref action) \<Rightarrow> [(col_name c, ref, action)]) (columns t))"

text \<open>The foreign keys to a table: table and column they are on, the column they name, the action.\<close>

definition links_to :: "catalog \<Rightarrow> string \<Rightarrow> (string \<times> string \<times> string \<times> on_delete) list" where
  "links_to c n = concat (map (\<lambda>u. map (\<lambda>(col, ref, action). (full_name u, col, drop (length n + 1) ref, action))
     (filter (\<lambda>(col, ref, action). take (length n + 1) ref = n @ ''.'') (links u))) (cat_tables c))"

definition set_cell :: "string \<Rightarrow> sql_value \<Rightarrow> row \<Rightarrow> row" where
  "set_cell col v r = (col, v) # filter (\<lambda>p. fst p \<noteq> col) r"

definition pointing_at :: "row list \<Rightarrow> string \<Rightarrow> string \<Rightarrow> row \<Rightarrow> bool" where
  "pointing_at gone key col r \<longleftrightarrow> cell r col \<noteq> Null \<and> list_ex (\<lambda>g. cell g key = cell r col) gone"

definition follow ::
    "(string \<Rightarrow> (row \<Rightarrow> bool) \<Rightarrow> store \<Rightarrow> store option) \<Rightarrow> catalog \<Rightarrow> row list \<Rightarrow>
     string \<times> string \<times> string \<times> on_delete \<Rightarrow> store \<Rightarrow> store option" where
  "follow delete c gone link s =
     (case link of (u, col, key, action) \<Rightarrow>
        let hit = pointing_at gone key col in
        case action of
          RESTRICT \<Rightarrow> if list_ex hit (s u) then None else Some s
        | CASCADE \<Rightarrow> delete u hit s
        | SET_NULL \<Rightarrow>
            if list_ex hit (s u) \<and> raises c u Update then None
            else Some (s(u := map (\<lambda>r. if hit r then set_cell col Null r else r) (s u))))"

primrec delete_rows :: "nat \<Rightarrow> catalog \<Rightarrow> string \<Rightarrow> (row \<Rightarrow> bool) \<Rightarrow> store \<Rightarrow> store option" where
  "delete_rows 0 c n P st = None"
| "delete_rows (Suc k) c n P st =
     (let gone = filter P (st n) in
      if gone = [] then Some st
      else if raises c n Delete then None
      else script (map (follow (delete_rows k c) c gone) (links_to c n)) (st(n := filter (\<lambda>r. \<not> P r) (st n))))"

datatype statement =
    Insert_Row string row
  | Update_Rows string "row \<Rightarrow> bool" "row \<Rightarrow> row"
  | Delete_Rows string "row \<Rightarrow> bool"
  | Truncate_Table string

fun execute :: "nat \<Rightarrow> catalog \<Rightarrow> statement \<Rightarrow> store \<Rightarrow> store option" where
  "execute k c (Insert_Row n r) st = Some (st(n := st n @ [r]))"
| "execute k c (Update_Rows n P f) st =
     (if list_ex P (st n) \<and> raises c n Update then None
      else Some (st(n := map (\<lambda>r. if P r then f r else r) (st n))))"
| "execute k c (Delete_Rows n P) st = delete_rows k c n P st"
| "execute k c (Truncate_Table n) st = (if raises c n Truncate then None else Some (st(n := [])))"

section \<open>What keeps the log\<close>

lemma script_keeps:
  assumes "\<And>f s t. f \<in> set fs \<Longrightarrow> f s = Some t \<Longrightarrow> g t = g s" "script fs s = Some t"
  shows "g t = g s"
  using assms
proof (induction fs arbitrary: s)
  case (Cons f fs)
  then obtain u where u: "f s = Some u" "script fs u = Some t" by (auto split: option.splits)
  have "g t = g u" by (rule Cons.IH [OF _ u(2)]) (use Cons.prems(1) in auto)
  then show ?case using Cons.prems(1) [of f s u] u(1) by simp
qed simp

lemma follow_keeps:
  assumes "raises c a Update" "\<And>u P s t. delete u P s = Some t \<Longrightarrow> t a = s a"
    and "follow delete c gone link s = Some t"
  shows "t a = s a"
proof -
  obtain u col key action where link: "link = (u, col, key, action)" by (cases link) auto
  let ?hit = "pointing_at gone key col"
  show ?thesis
  proof (cases action)
    case CASCADE
    then show ?thesis using assms(2,3) by (simp add: follow_def link)
  next
    case SET_NULL
    then have t: "t = s(u := map (\<lambda>r. if ?hit r then set_cell col Null r else r) (s u))"
      and ok: "\<not> (list_ex ?hit (s u) \<and> raises c u Update)"
      using assms(3) by (auto simp: follow_def link Let_def split: if_splits)
    show ?thesis
    proof (cases "u = a")
      case True
      then have "\<forall>r \<in> set (s a). \<not> ?hit r" using ok assms(1) by (auto simp: list_ex_iff)
      then show ?thesis using True by (simp add: t map_idI)
    qed (simp add: t)
  next
    case RESTRICT
    then show ?thesis using assms(3) by (simp add: follow_def link split: if_splits)
  qed
qed

lemma delete_keeps:
  assumes "raises c a Delete" "raises c a Update" "delete_rows k c n P st = Some st'"
  shows "st' a = st a"
  using assms(3)
proof (induction k arbitrary: n P st st')
  case (Suc k)
  let ?gone = "filter P (st n)" and ?st = "st(n := filter (\<lambda>r. \<not> P r) (st n))"
  show ?case
  proof (cases "?gone = []")
    case True
    then show ?thesis using Suc.prems by simp
  next
    case False
    with Suc.prems assms(1) have "n \<noteq> a"
      and run: "script (map (follow (delete_rows k c) c ?gone) (links_to c n)) ?st = Some st'"
      by (auto split: if_splits)
    have "st' a = ?st a"
      using run by (rule script_keeps [where g = "\<lambda>s. s a", rotated])
        (auto elim: follow_keeps [OF assms(2), rotated] intro: Suc.IH)
    then show ?thesis using \<open>n \<noteq> a\<close> by simp
  qed
qed simp

lemma script_refuses:
  assumes "\<And>f s t. f \<in> set fs \<Longrightarrow> f s = Some t \<Longrightarrow> g t = g s"
    and "f \<in> set fs" "\<And>t. g t = g s \<Longrightarrow> f t = None"
  shows "script fs s = None"
  using assms
proof (induction fs arbitrary: s)
  case (Cons h fs)
  show ?case
  proof (cases "h s")
    case (Some u)
    have u: "g u = g s" by (rule Cons.prems(1) [where f = h]) (simp_all add: Some)
    have "f \<in> set fs" using Cons.prems(2,3) Some by auto
    moreover have "f t = None" if "g t = g u" for t using Cons.prems(3) that u by simp
    ultimately have "script fs u = None"
      by (intro Cons.IH) (auto intro: Cons.prems(1))
    then show ?thesis using Some by simp
  qed simp
qed simp

lemma migrated_raises:
  assumes "cat_triggers c = [audit_events_append_only, audit_events_reject_truncate]"
  shows "raises c ''audit.events'' Update" "raises c ''audit.events'' Delete" "raises c ''audit.events'' Truncate"
  using assms by (simp_all add: raises_def audit_events_append_only_def audit_events_reject_truncate_def)

section \<open>Properties\<close>

text \<open>C29: In the migrated database no statement changes or loses an audit event, not even through the
  foreign keys of other tables: whatever runs, the rows of \<open>audit.events\<close> are those from before,
  possibly with new ones after them.\<close>

theorem audit_log_append_only:
  assumes "sorts_tables f Metadata_0001.metadata"
    and "script [upgrade_0001 f, upgrade_0002] empty_catalog = Some c"
    and "script (map (execute k c) statements) st = Some st'"
  shows "\<exists>new. st' ''audit.events'' = st ''audit.events'' @ new"
proof -
  have "cat_triggers c = [audit_events_append_only, audit_events_reject_truncate]"
    using assms(2) upgrade_0001_ok [OF assms(1)] upgrade_0002_ok [OF assms(1)]
    by (auto simp: full_catalog_def initial_catalog_def with_tables_def)
  note guard = migrated_raises [OF this]
  have step: "\<exists>new. t ''audit.events'' = s ''audit.events'' @ new" if "execute k c x s = Some t" for x s t
  proof (cases x)
    case (Update_Rows n P g)
    have "map (\<lambda>r. if P r then g r else r) (s ''audit.events'') = s ''audit.events''"
      if "\<not> list_ex P (s ''audit.events'')"
      using that by (auto simp: list_ex_iff intro: map_idI)
    then show ?thesis using that guard Update_Rows
      by (cases "n = ''audit.events''") (auto split: if_splits)
  next
    case (Delete_Rows n P)
    then show ?thesis using delete_keeps [OF guard(2,1), of k n P s t] that by simp
  qed (use that guard in \<open>auto split: if_splits\<close>)
  show ?thesis
    using assms(3)
  proof (induction statements arbitrary: st)
    case (Cons x statements)
    then obtain s where s: "execute k c x st = Some s" "script (map (execute k c) statements) s = Some st'"
      by (auto split: option.splits)
    then show ?case using step [OF s(1)] Cons.IH [OF s(2)] by auto
  qed simp
qed

lemma in_concat_map: "x \<in> set (f t) \<Longrightarrow> t \<in> set ts \<Longrightarrow> x \<in> set (concat (map f ts))"
  by auto

text \<open>The links by which users and workspaces are named in audit events.\<close>

lemma audit_links:
  assumes "Metadata.audit_events \<in> set (cat_tables c)"
  shows "(''audit.events'', ''actor_user_id'', ''id'', SET_NULL) \<in> set (links_to c ''identity.users'')"
    and "(''audit.events'', ''workspace_id'', ''id'', SET_NULL) \<in> set (links_to c ''workspace.workspaces'')"
proof -
  have links: "links Metadata.audit_events = [(''workspace_id'', ''workspace.workspaces.id'', SET_NULL),
      (''actor_user_id'', ''identity.users.id'', SET_NULL)]"
    by (simp add: links_def Metadata.audit_events_def shape_defs)
  have named: "link \<in> set (links_to c n)"
    if "link \<in> set (map (\<lambda>(col, ref, action). (full_name Metadata.audit_events, col, drop (length n + 1) ref, action))
      (filter (\<lambda>(col, ref, action). take (length n + 1) ref = n @ ''.'') (links Metadata.audit_events)))" for link n
    unfolding links_to_def by (rule in_concat_map, rule that, rule assms)
  show "(''audit.events'', ''actor_user_id'', ''id'', SET_NULL) \<in> set (links_to c ''identity.users'')"
    by (rule named) (simp add: links audit_events_shape)
  show "(''audit.events'', ''workspace_id'', ''id'', SET_NULL) \<in> set (links_to c ''workspace.workspaces'')"
    by (rule named) (simp add: links audit_events_shape)
qed

lemma audited_not_deleted:
  assumes c: "cat_triggers c = [audit_events_append_only, audit_events_reject_truncate]"
    and link: "(''audit.events'', col, ''id'', SET_NULL) \<in> set (links_to c n)"
    and rows: "r \<in> set (st n)" "P r" "e \<in> set (st ''audit.events'')" "cell e col = cell r ''id''" "cell r ''id'' \<noteq> Null"
    and n: "n \<noteq> ''audit.events''"
  shows "delete_rows (Suc k) c n P st = None"
proof -
  note guard = migrated_raises [OF c]
  let ?gone = "filter P (st n)" and ?st = "st(n := filter (\<lambda>r. \<not> P r) (st n))"
  have "pointing_at ?gone ''id'' col e" using rows by (auto simp: pointing_at_def list_ex_iff)
  then have refused: "follow (delete_rows k c) c ?gone (''audit.events'', col, ''id'', SET_NULL) t = None"
    if "t ''audit.events'' = ?st ''audit.events''" for t
    using that rows(3) guard(1) n by (auto simp: follow_def Let_def list_ex_iff)
  have "script (map (follow (delete_rows k c) c ?gone) (links_to c n)) ?st = None"
    by (rule script_refuses [where g = "\<lambda>s. s ''audit.events''" and f = "follow (delete_rows k c) c ?gone (''audit.events'', col, ''id'', SET_NULL)"])
      (use link refused in \<open>auto elim: follow_keeps [OF guard(1), rotated] intro: delete_keeps [OF guard(2,1)]\<close>)
  moreover have "?gone \<noteq> []" using rows(1,2) by (auto simp: filter_empty_conv)
  ultimately show ?thesis by simp
qed

text \<open>C30: In the migrated database a user or workspace that an audit event names cannot be deleted: the
  foreign key would set the reference to null, and the trigger refuses that update.\<close>

theorem audited_rows_cannot_be_deleted:
  assumes "sorts_tables f Metadata_0001.metadata"
    and "script [upgrade_0001 f, upgrade_0002] empty_catalog = Some c"
    and "(n, col) \<in> {(''identity.users'', ''actor_user_id''), (''workspace.workspaces'', ''workspace_id'')}"
    and "r \<in> set (st n)" "P r" "e \<in> set (st ''audit.events'')" "cell e col = cell r ''id''" "cell r ''id'' \<noteq> Null"
  shows "execute (Suc k) c (Delete_Rows n P) st = None"
proof -
  have c: "c = full_catalog (f Metadata_0001.metadata)"
    using assms(2) upgrade_0001_ok [OF assms(1)] upgrade_0002_ok [OF assms(1)] by simp
  then have t: "cat_triggers c = [audit_events_append_only, audit_events_reject_truncate]"
    by (simp add: full_catalog_def initial_catalog_def with_tables_def)
  have "Metadata.audit_events \<in> set (cat_tables c)"
    unfolding c full_catalog_tables [OF assms(1)] by (simp add: Metadata.metadata_def)
  then have "(''audit.events'', col, ''id'', SET_NULL) \<in> set (links_to c n)" "n \<noteq> ''audit.events''"
    using audit_links assms(3) by auto
  then show ?thesis
    unfolding execute.simps by (intro audited_not_deleted [where r = r and e = e, OF t]) (use assms(4-8) in auto)
qed

section \<open>Example\<close>

definition demo_store :: store where
  "demo_store n = (if n = ''identity.users'' then [[(''id'', Uuid_Value 1)]]
     else if n = ''audit.events'' then [[(''id'', Uuid_Value 2), (''actor_user_id'', Uuid_Value 1)]] else [])"

lemma demo_sorted: "sorts_tables id Metadata_0001.metadata"
  by (simp add: sorts_tables_def declared_in_order)

lemma demo_migrated:
  "script [upgrade_0001 id, upgrade_0002] empty_catalog = Some (full_catalog Metadata_0001.metadata)"
  using upgrade_0001_ok [OF demo_sorted] upgrade_0002_ok [OF demo_sorted] by simp

theorem audit_log_append_only_witness:
  "\<exists>new. (demo_store(''audit.events'' := demo_store ''audit.events'' @ [[(''id'', Uuid_Value 3)]])) ''audit.events'' =
     demo_store ''audit.events'' @ new"
  using audit_log_append_only [OF demo_sorted demo_migrated, of 1
      "[Insert_Row ''audit.events'' [(''id'', Uuid_Value 3)]]" demo_store]
  by simp

theorem audited_rows_cannot_be_deleted_witness:
  "execute 1 (full_catalog Metadata_0001.metadata) (Delete_Rows ''identity.users'' (\<lambda>r. True)) demo_store = None"
  using audited_rows_cannot_be_deleted [OF demo_sorted demo_migrated, of "''identity.users''" "''actor_user_id''"
      "[(''id'', Uuid_Value 1)]" demo_store "\<lambda>r. True" "[(''id'', Uuid_Value 2), (''actor_user_id'', Uuid_Value 1)]" 0]
  by (simp add: demo_store_def cell_def)

end
