(* ===== verification/App.thy ===== *)
theory App
  imports Envelopes Auth_Service
begin

text \<open>
  The HTTP routes of \<open>pentagon5_auth/app.py\<close>: what each requires of its request, the service call it
  makes, and the error it turns each exception into.  FastAPI finds the route and parses the JSON
  body; a route is modelled from there to its response, or to the exception it lets through.
\<close>

section \<open>Errors\<close>

text \<open>
  What stops a request: an \<open>ApiError\<close>, a request that fails validation, with the field of its first
  error, FastAPI's \<open>HTTPException\<close>, the one of Starlette it derives from, which the router raises,
  or any other exception.
\<close>

datatype failure =
    Api_Error int string string bool
  | Request_Invalid "string option"
  | Http_Exception int
  | Starlette_Exception int
  | Uncaught exn

type_synonym ('s, 'a) route = "'s \<Rightarrow> (failure + 'a) \<times> 's"

definition attempt :: "(exn \<Rightarrow> failure option) \<Rightarrow> ('s, 'a) op \<Rightarrow> ('s, 'a) route" where
  "attempt h m s =
     (case m s of
        (Inr x, t) \<Rightarrow> (Inr x, t)
      | (Inl e, t) \<Rightarrow> (Inl (case h e of Some f \<Rightarrow> f | None \<Rightarrow> Uncaught e), t))"

definition stop :: "failure \<Rightarrow> ('s, 'a) route" where
  "stop f s = (Inl f, s)"

definition and_then :: "('s, 'a) route \<Rightarrow> ('a \<Rightarrow> ('s, 'b) route) \<Rightarrow> ('s, 'b) route" where
  "and_then m f s = (case m s of (Inl e, t) \<Rightarrow> (Inl e, t) | (Inr x, t) \<Rightarrow> f x t)"

definition reply :: "'a \<Rightarrow> ('s, 'a) route" where
  "reply x s = (Inr x, s)"

fun is_authentication_error :: "exn \<Rightarrow> bool" where
  "is_authentication_error (AuthenticationError m) \<longleftrightarrow> True"
| "is_authentication_error _ \<longleftrightarrow> False"

section \<open>Request validation\<close>

text \<open>
  Fields in the order they are declared, each with what it accepts.  The first field that is missing
  or not accepted is reported, and then, for a body, the first key that is not a field.
\<close>

type_synonym fields = "(string \<times> (json \<Rightarrow> bool)) list"

definition str_between :: "nat \<Rightarrow> nat \<Rightarrow> json \<Rightarrow> bool" where
  "str_between low high v \<longleftrightarrow> (case v of JStr s \<Rightarrow> low \<le> length s \<and> length s \<le> high | _ \<Rightarrow> False)"

definition one_of :: "string list \<Rightarrow> json \<Rightarrow> bool" where
  "one_of values v \<longleftrightarrow> (case v of JStr s \<Rightarrow> s \<in> set values | _ \<Rightarrow> False)"

definition bad_field :: "fields \<Rightarrow> (string \<times> json) list \<Rightarrow> string option" where
  "bad_field fs d = map_option fst (List.find (\<lambda>(k, ok). case map_of d k of None \<Rightarrow> True | Some v \<Rightarrow> \<not> ok v) fs)"

definition extra_field :: "fields \<Rightarrow> (string \<times> json) list \<Rightarrow> string option" where
  "extra_field fs d = List.find (\<lambda>k. k \<notin> fst ` set fs) (map fst d)"

text \<open>A body that is not an object has no field to report.\<close>

definition validate_body :: "fields \<Rightarrow> json \<Rightarrow> failure + (string \<times> json) list" where
  "validate_body fs v =
     (case v of
        JObj d \<Rightarrow>
          (case bad_field fs d of
             Some k \<Rightarrow> Inl (Request_Invalid (Some k))
           | None \<Rightarrow> (case extra_field fs d of
                 Some k \<Rightarrow> Inl (Request_Invalid (if k = [] then None else Some k))
               | None \<Rightarrow> Inr d))
      | _ \<Rightarrow> Inl (Request_Invalid None))"

definition validate_query :: "fields \<Rightarrow> (string \<times> string) list \<Rightarrow> failure + (string \<times> json) list" where
  "validate_query fs q =
     (let d = map (\<lambda>(k, v). (k, JStr v)) q in
      case bad_field fs d of Some k \<Rightarrow> Inl (Request_Invalid (Some k)) | None \<Rightarrow> Inr d)"

definition checked :: "(failure + 'a) \<Rightarrow> ('a \<Rightarrow> ('s, 'b) route) \<Rightarrow> ('s, 'b) route" where
  "checked r f = (case r of Inl e \<Rightarrow> stop e | Inr x \<Rightarrow> f x)"

definition str_field :: "(string \<times> json) list \<Rightarrow> string \<Rightarrow> string" where
  "str_field d k = (case dict_get d k of JStr s \<Rightarrow> s | _ \<Rightarrow> [])"

definition LoginStart :: fields where
  "LoginStart = [(''device_key'', str_between 8 200),
     (''platform'', one_of [''macos'', ''windows'', ''linux'', ''ios'', ''android'', ''web''])]"

definition LoginGrantExchange :: fields where
  "LoginGrantExchange = [(''code'', str_between 32 512)]"

definition TicketRequest :: fields where
  "TicketRequest = [(''channel'', one_of [''system.health'', ''session.events''])]"

definition callback_query :: fields where
  "callback_query = [(''code'', str_between 1 4096), (''state'', str_between 32 512)]"

section \<open>Responses\<close>

record session_response =
  sr_user_id :: uuid
  sr_session_id :: uuid
  sr_email :: string
  sr_display_name :: string
  sr_roles :: "string list"
  sr_permissions :: "string set"
  sr_expires_at :: time

record device_response =
  dr_id :: uuid
  dr_platform :: string
  dr_last_seen_at :: "time option"
  dr_revoked_at :: "time option"

datatype body =
    Envelope json
  | Login_Start_Response string
  | Session_Body session_response
  | Login_Grant_Response string session_response
  | Device_List "device_response list"
  | Ticket_Response string string int
  | Redirect string
  | No_Content
  | Framework_Detail int

text \<open>The cookie is always \<open>Secure\<close>, \<open>HttpOnly\<close>, \<open>SameSite=Strict\<close> with path \<open>/\<close>.\<close>

datatype cookie = Set_Cookie string string int | Delete_Cookie string

record response =
  status_code :: int
  body :: body
  cookies :: "cookie list"

definition ok_response :: "body \<Rightarrow> response" where
  "ok_response b = \<lparr>status_code = 200, body = b, cookies = []\<rparr>"

definition COOKIE_NAME :: string where
  "COOKIE_NAME = ''__Host-p5_session''"

definition session_response_of :: "principal \<Rightarrow> session_response" where
  "session_response_of p = \<lparr>sr_user_id = pri_user_id p, sr_session_id = pri_session_id p,
     sr_email = pri_email p, sr_display_name = pri_display_name p, sr_roles = pri_roles p,
     sr_permissions = pri_permissions p, sr_expires_at = pri_expires_at p\<rparr>"

definition device_response_of :: "device \<Rightarrow> device_response" where
  "device_response_of d = \<lparr>dr_id = dev_id d, dr_platform = dev_platform d,
     dr_last_seen_at = dev_last_seen_at d, dr_revoked_at = dev_revoked_at d\<rparr>"

section \<open>Who is asking\<close>

record credentials =
  cr_authorization :: string
  cr_cookie :: string

text \<open>The token of a request, \<open>None\<close> for an authorization header that is not Bearer.\<close>

definition request_token :: "auth_settings \<Rightarrow> credentials \<Rightarrow> string option" where
  "request_token S cr =
     (if cr_authorization cr \<noteq> [] then
        (let (scheme, separator, token) = partition_on CHR '' '' (cr_authorization cr)
         in if \<not> separator \<or> lower scheme \<noteq> ''bearer'' then None else Some token)
      else if as_web_cookie_mode S then Some (cr_cookie cr)
      else Some [])"

definition current_principal ::
    "crypto \<Rightarrow> auth_settings \<Rightarrow> 'd repo_ops \<Rightarrow> time \<Rightarrow> credentials \<Rightarrow> ('d, principal) route" where
  "current_principal C S R now cr =
     (case request_token S cr of
        None \<Rightarrow> stop (Api_Error 401 ''AUTHORIZATION_SCHEME_INVALID'' ''Authorization must use Bearer'' False)
      | Some token \<Rightarrow>
          attempt (\<lambda>e. if is_authentication_error e
            then Some (Api_Error 401 ''SESSION_INVALID'' ''Session is invalid or expired'' False) else None)
          (authenticate C S R now token))"

section \<open>Routes\<close>

text \<open>\<open>database_is_ready\<close>: what the round trip gave.\<close>

definition database_is_ready :: "int res \<Rightarrow> bool" where
  "database_is_ready probe = (case probe of Inl e \<Rightarrow> False | Inr v \<Rightarrow> v = 1)"

text \<open>The check of the database, \<open>None\<close> when it does not answer in time.\<close>

definition ready :: "int res option \<Rightarrow> ('s, unit) route" where
  "ready probe =
     (if (case probe of None \<Rightarrow> False | Some p \<Rightarrow> database_is_ready p) then reply ()
      else stop (Api_Error 503 ''DATABASE_UNAVAILABLE'' ''Database is unavailable'' True))"

definition start_login_route ::
    "crypto \<Rightarrow> auth_settings \<Rightarrow> 'd repo_ops \<Rightarrow> 'c oidc_ops \<Rightarrow> inputs \<Rightarrow> json \<Rightarrow> ('d \<times> 'c, response) route" where
  "start_login_route C S R Q I v =
     checked (validate_body LoginStart v) (\<lambda>d.
     and_then
       (attempt (\<lambda>e. if is_authentication_error e
          then Some (Api_Error 400 ''LOGIN_REQUEST_INVALID'' ''Login request is invalid'' False) else None)
        (start_login C S R Q I (str_field d ''device_key'') (str_field d ''platform'')))
       (\<lambda>url. reply (ok_response (Login_Start_Response url))))"

definition callback_error :: "exn \<Rightarrow> failure option" where
  "callback_error e =
     (case e of
        AuthenticationError m \<Rightarrow> Some (Api_Error 401 ''OIDC_LOGIN_FAILED'' ''OIDC login failed'' False)
      | OIDCError m \<Rightarrow> Some (Api_Error 401 ''OIDC_LOGIN_FAILED'' ''OIDC login failed'' False)
      | HTTPError \<Rightarrow> Some (Api_Error 401 ''OIDC_LOGIN_FAILED'' ''OIDC login failed'' False)
      | _ \<Rightarrow> None)"

definition callback_route ::
    "crypto \<Rightarrow> auth_settings \<Rightarrow> 'd repo_ops \<Rightarrow> 'c oidc_ops \<Rightarrow> nat \<Rightarrow> inputs \<Rightarrow> (string \<times> string) list \<Rightarrow>
     ('d \<times> 'c, response) route" where
  "callback_route C S R Q limit I query =
     checked (validate_query callback_query query) (\<lambda>d.
     and_then
       (attempt callback_error
        (complete_login C S R Q limit I (str_field d ''state'') (str_field d ''code'')))
       (\<lambda>red. reply \<lparr>status_code = 303, body = Redirect (red_redirect_uri red), cookies = []\<rparr>))"

definition exchange_route ::
    "crypto \<Rightarrow> auth_settings \<Rightarrow> 'd repo_ops \<Rightarrow> nat \<Rightarrow> inputs \<Rightarrow> json \<Rightarrow> ('d, response) route" where
  "exchange_route C S R limit I v =
     checked (validate_body LoginGrantExchange v) (\<lambda>d.
     and_then
       (attempt (\<lambda>e. if is_authentication_error e
          then Some (Api_Error 401 ''LOGIN_GRANT_INVALID'' ''Login grant is invalid or expired'' False) else None)
        (exchange_login_grant C S R limit I (str_field d ''code'')))
       (\<lambda>grant. reply \<lparr>status_code = 200,
          body = Login_Grant_Response (gra_token grant) (session_response_of (gra_principal grant)),
          cookies = (if as_web_cookie_mode S
            then [Set_Cookie COOKIE_NAME (gra_token grant) (as_session_ttl_seconds S)] else [])\<rparr>))"

definition session_route ::
    "crypto \<Rightarrow> auth_settings \<Rightarrow> 'd repo_ops \<Rightarrow> time \<Rightarrow> credentials \<Rightarrow> ('d, response) route" where
  "session_route C S R now cr =
     and_then (current_principal C S R now cr) (\<lambda>p. reply (ok_response (Session_Body (session_response_of p))))"

definition logout_route ::
    "crypto \<Rightarrow> auth_settings \<Rightarrow> 'd repo_ops \<Rightarrow> time \<Rightarrow> call_env \<Rightarrow> time \<Rightarrow> credentials \<Rightarrow> ('d, response) route" where
  "logout_route C S R now env t cr =
     and_then (current_principal C S R now cr) (\<lambda>p.
     and_then (attempt (\<lambda>e. None) (logout R env t p)) (\<lambda>_.
     reply \<lparr>status_code = 204, body = No_Content,
       cookies = (if as_web_cookie_mode S then [Delete_Cookie COOKIE_NAME] else [])\<rparr>))"

definition devices_route ::
    "crypto \<Rightarrow> auth_settings \<Rightarrow> 'd repo_ops \<Rightarrow> time \<Rightarrow> credentials \<Rightarrow> ('d, response) route" where
  "devices_route C S R now cr =
     and_then (current_principal C S R now cr) (\<lambda>p.
     and_then (attempt (\<lambda>e. None) (devices R p)) (\<lambda>ds.
     reply (ok_response (Device_List (map device_response_of ds)))))"

text \<open>The path parameter is \<open>None\<close> when it is not a UUID, which is reported after authentication.\<close>

definition revoke_device_route ::
    "crypto \<Rightarrow> auth_settings \<Rightarrow> 'd repo_ops \<Rightarrow> time \<Rightarrow> time \<Rightarrow> credentials \<Rightarrow> uuid option \<Rightarrow> ('d, response) route" where
  "revoke_device_route C S R now t cr device_id =
     and_then (current_principal C S R now cr) (\<lambda>p.
     case device_id of
       None \<Rightarrow> stop (Request_Invalid (Some ''device_id''))
     | Some i \<Rightarrow>
         and_then
           (attempt (\<lambda>e. if is_authentication_error e
              then Some (Api_Error 404 ''DEVICE_NOT_FOUND'' ''Device was not found'' False) else None)
            (service_revoke_device R t p i))
           (\<lambda>_. reply \<lparr>status_code = 204, body = No_Content, cookies = []\<rparr>))"

definition ws_ticket_route ::
    "crypto \<Rightarrow> auth_settings \<Rightarrow> 'd repo_ops \<Rightarrow> time \<Rightarrow> inputs \<Rightarrow> credentials \<Rightarrow> json \<Rightarrow> ('d, response) route" where
  "ws_ticket_route C S R now I cr v =
     and_then (current_principal C S R now cr) (\<lambda>p.
     checked (validate_body TicketRequest v) (\<lambda>d.
     and_then
       (attempt (\<lambda>e. case e of
            PermissionDenied m \<Rightarrow> Some (Api_Error 403 ''PERMISSION_DENIED'' ''Permission denied'' False)
          | _ \<Rightarrow> None)
        (issue_ws_ticket C S R I p (str_field d ''channel'')))
       (\<lambda>ticket. reply (ok_response
          (Ticket_Response ticket (str_field d ''channel'') (as_ws_ticket_ttl_seconds S))))))"

section \<open>The application\<close>

text \<open>
  A request that has found its route, with what the route reads from it and from outside.  FastAPI
  itself refuses a body that is not JSON, one it cannot read (\<open>HTTPException(400)\<close>), and a path or
  method without a route.
\<close>

datatype request =
    Startup_Request
  | Live_Request
  | Ready_Request "int res option"
  | Start_Login_Request inputs json
  | Callback_Request nat inputs "(string \<times> string) list"
  | Exchange_Request nat inputs json
  | Session_Request time credentials
  | Logout_Request time call_env time credentials
  | Devices_Request time credentials
  | Revoke_Device_Request time time credentials "uuid option"
  | Ws_Ticket_Request time inputs credentials json
  | Malformed_Body nat
  | Unreadable_Body
  | Not_Routed int

definition health_route ::
    "auth_settings \<Rightarrow> draws \<Rightarrow> string \<Rightarrow> string option \<Rightarrow> uuid7_state \<Rightarrow> response \<times> uuid7_state" where
  "health_route S D correlation_id detail u =
     (case health_envelope D correlation_id (rs_service_name (as_runtime S)) ''healthy'' detail u of
        (e, t) \<Rightarrow> (ok_response (Envelope e), t))"

text \<open>
  The handlers of exceptions; an exception without one leaves the application.  The handler
  registered for FastAPI's \<open>HTTPException\<close> is not found for Starlette's, its base class, which the
  framework answers itself.
\<close>

definition error_response ::
    "draws \<Rightarrow> string \<Rightarrow> int \<Rightarrow> string \<Rightarrow> string \<Rightarrow> bool \<Rightarrow> string option \<Rightarrow> uuid7_state \<Rightarrow> response \<times> uuid7_state" where
  "error_response D correlation_id status ecode message retryable field u =
     (case error_envelope D correlation_id ecode message retryable field u of
        (e, t) \<Rightarrow> (\<lparr>status_code = status, body = Envelope e, cookies = []\<rparr>, t))"

definition http_error :: "int \<Rightarrow> string \<times> string \<times> bool" where
  "http_error status =
     (if status = 404 then (''NOT_FOUND'', ''Resource not found'', False)
      else if status = 405 then (''METHOD_NOT_ALLOWED'', ''Method not allowed'', False)
      else (''HTTP_ERROR'', ''Request could not be completed'', False))"

definition handle_failure ::
    "draws \<Rightarrow> string \<Rightarrow> failure \<Rightarrow> uuid7_state \<Rightarrow> response res \<times> uuid7_state" where
  "handle_failure D correlation_id f u =
     (case f of
        Api_Error status ecode message retryable \<Rightarrow>
          (case error_response D correlation_id status ecode message retryable None u of (r, t) \<Rightarrow> (Inr r, t))
      | Http_Exception status \<Rightarrow>
          (case http_error status of (ecode, message, retryable) \<Rightarrow>
           case error_response D correlation_id status ecode message retryable None u of (r, t) \<Rightarrow> (Inr r, t))
      | Request_Invalid field \<Rightarrow>
          (case error_response D correlation_id 422 ''REQUEST_VALIDATION_FAILED'' ''Request validation failed''
             False field u of (r, t) \<Rightarrow> (Inr r, t))
      | Starlette_Exception status \<Rightarrow>
          (Inr \<lparr>status_code = status, body = Framework_Detail status, cookies = []\<rparr>, u)
      | Uncaught e \<Rightarrow> (Inl e, u))"

definition on_repository :: "('d, 'a) route \<Rightarrow> ('d \<times> 'c, 'a) route" where
  "on_repository m s = (case m (fst s) of (r, d) \<Rightarrow> (r, (d, snd s)))"

text \<open>The route of a request that needs the service.\<close>

fun run_route ::
    "crypto \<Rightarrow> auth_settings \<Rightarrow> 'd repo_ops \<Rightarrow> 'c oidc_ops \<Rightarrow> request \<Rightarrow> ('d \<times> 'c, response option) route" where
  "run_route C S R Q Startup_Request = reply None"
| "run_route C S R Q Live_Request = reply None"
| "run_route C S R Q (Ready_Request probe) = and_then (ready probe) (\<lambda>_. reply None)"
| "run_route C S R Q (Start_Login_Request I v) = and_then (start_login_route C S R Q I v) (\<lambda>r. reply (Some r))"
| "run_route C S R Q (Callback_Request limit I q) = and_then (callback_route C S R Q limit I q) (\<lambda>r. reply (Some r))"
| "run_route C S R Q (Exchange_Request limit I v) =
     on_repository (and_then (exchange_route C S R limit I v) (\<lambda>r. reply (Some r)))"
| "run_route C S R Q (Session_Request now cr) =
     on_repository (and_then (session_route C S R now cr) (\<lambda>r. reply (Some r)))"
| "run_route C S R Q (Logout_Request now env t cr) =
     on_repository (and_then (logout_route C S R now env t cr) (\<lambda>r. reply (Some r)))"
| "run_route C S R Q (Devices_Request now cr) =
     on_repository (and_then (devices_route C S R now cr) (\<lambda>r. reply (Some r)))"
| "run_route C S R Q (Revoke_Device_Request now t cr i) =
     on_repository (and_then (revoke_device_route C S R now t cr i) (\<lambda>r. reply (Some r)))"
| "run_route C S R Q (Ws_Ticket_Request now I cr v) =
     on_repository (and_then (ws_ticket_route C S R now I cr v) (\<lambda>r. reply (Some r)))"
| "run_route C S R Q (Malformed_Body position) = stop (Request_Invalid (Some (int_text (int position))))"
| "run_route C S R Q Unreadable_Body = stop (Http_Exception 400)"
| "run_route C S R Q (Not_Routed status) = stop (Starlette_Exception status)"

definition health_detail :: "request \<Rightarrow> string option" where
  "health_detail q = (case q of
       Startup_Request \<Rightarrow> Some ''application startup completed''
     | Ready_Request p \<Rightarrow> Some ''database connection available''
     | _ \<Rightarrow> None)"

definition application ::
    "crypto \<Rightarrow> auth_settings \<Rightarrow> 'd repo_ops \<Rightarrow> 'c oidc_ops \<Rightarrow> request \<Rightarrow> draws \<Rightarrow> string \<Rightarrow>
     (('d \<times> 'c) \<times> uuid7_state) \<Rightarrow> response res \<times> (('d \<times> 'c) \<times> uuid7_state)" where
  "application C S R Q q D correlation_id s =
     (case run_route C S R Q q (fst s) of
        (Inr (Some r), t) \<Rightarrow> (Inr r, (t, snd s))
      | (Inr None, t) \<Rightarrow>
          (case health_route S D correlation_id (health_detail q) (snd s) of (r, u) \<Rightarrow> (Inr r, (t, u)))
      | (Inl f, t) \<Rightarrow>
          (case handle_failure D correlation_id f (snd s) of (r, u) \<Rightarrow> (r, (t, u))))"

end
