(* ===== verification/Observability.thy ===== *)
theory Observability
  imports App
begin

text \<open>
  The middleware of \<open>pentagon5_runtime/observability.py\<close> around an application: the correlation
  identifier, the bounds on the body, the mapping of every failure to an error envelope, and the
  metrics.  The application, with FastAPI's CORS middleware, is the argument \<open>call_next\<close>; it may not
  answer within the time limit.
\<close>

section \<open>Bodies\<close>

text \<open>
  \<open>limited_receive\<close> over the chunks of a body: those it hands on, and whether it then raised
  \<open>BodyTooLargeError\<close>.
\<close>

fun limited_receive :: "int \<Rightarrow> int \<Rightarrow> string list \<Rightarrow> string list \<times> bool" where
  "limited_receive max_body received [] = ([], False)"
| "limited_receive max_body received (chunk # chunks) =
     (let n = received + int (length chunk) in
      if max_body < n then ([], True)
      else (case limited_receive max_body n chunks of (cs, e) \<Rightarrow> (chunk # cs, e)))"

section \<open>The middleware\<close>

record http_head =
  hd_method :: string
  hd_request_id :: string
  hd_content_length :: "string option"
  hd_origin :: string

datatype outcome = Answered response | Body_Too_Large | Timed_Out | Threw exn

text \<open>The labels of the two metrics: service, method, route and, for the counter, the status.\<close>

record observation =
  ob_service :: string
  ob_method :: string
  ob_route :: string
  ob_status :: int

record answer =
  an_response :: response
  an_request_id :: string
  an_observation :: observation

definition correlation_id :: "draws \<Rightarrow> string \<Rightarrow> uuid7_state \<Rightarrow> string \<times> uuid7_state" where
  "correlation_id D supplied u = (if is_uuid7 supplied then (supplied, u) else new_id D 0 u)"

text \<open>What the declared length of the body says, before the application runs.\<close>

definition length_check :: "runtime_settings \<Rightarrow> string option \<Rightarrow> outcome option" where
  "length_check S content_length =
     (case content_length of
        None \<Rightarrow> None
      | Some s \<Rightarrow>
          if s = [] then None
          else (case py_int 10 s of
              None \<Rightarrow> Some (Threw (ValueError ''invalid literal for int()''))
            | Some n \<Rightarrow> if rs_max_body_bytes S < n then Some Body_Too_Large else None))"

text \<open>The response to each outcome.\<close>

definition settle ::
    "http_head \<Rightarrow> draws \<Rightarrow> string \<Rightarrow> outcome \<Rightarrow> uuid7_state \<Rightarrow> response \<times> uuid7_state" where
  "settle h D cid r u =
     (case r of
        Answered resp \<Rightarrow>
          if hd_method h = ''OPTIONS'' \<and> hd_origin h \<noteq> [] \<and> 400 \<le> status_code resp
          then error_response D cid 400 ''CORS_ORIGIN_DENIED'' ''Cross-origin request is not allowed'' False None u
          else (resp, u)
      | Body_Too_Large \<Rightarrow>
          error_response D cid 413 ''REQUEST_BODY_TOO_LARGE'' ''Request body exceeds the configured limit'' False None u
      | Timed_Out \<Rightarrow>
          error_response D cid 504 ''REQUEST_TIMEOUT'' ''Request processing timed out'' True None u
      | Threw e \<Rightarrow>
          error_response D cid 500 ''INTERNAL_ERROR'' ''An internal error occurred'' True None u)"

definition observe ::
    "runtime_settings \<Rightarrow> draws \<Rightarrow> draws \<Rightarrow> http_head \<Rightarrow> string option \<Rightarrow>
     (string \<Rightarrow> 's \<times> uuid7_state \<Rightarrow> outcome \<times> ('s \<times> uuid7_state)) \<Rightarrow>
     's \<times> uuid7_state \<Rightarrow> answer \<times> ('s \<times> uuid7_state)" where
  "observe S D1 D2 h route call_next s =
     (let (cid, u1) = correlation_id D1 (hd_request_id h) (snd s);
          (r, t) = (case length_check S (hd_content_length h) of
              Some early \<Rightarrow> (early, (fst s, u1))
            | None \<Rightarrow> call_next cid (fst s, u1));
          (resp, u2) = settle h D2 cid r (snd t)
      in (\<lparr>an_response = resp, an_request_id = cid,
           an_observation = \<lparr>ob_service = rs_service_name S, ob_method = hd_method h,
             ob_route = (case route of None \<Rightarrow> ''unmatched'' | Some p \<Rightarrow> p), ob_status = status_code resp\<rparr>\<rparr>,
          (fst t, u2)))"

section \<open>The service\<close>

text \<open>
  The authentication process without its CORS middleware: the middleware around the application,
  whose body arrives in chunks.  FastAPI turns the error of a body that is too large into one that
  cannot be read, where the route has a body.
\<close>

fun reads_body :: "request \<Rightarrow> bool" where
  "reads_body (Start_Login_Request I v) \<longleftrightarrow> True"
| "reads_body (Exchange_Request limit I v) \<longleftrightarrow> True"
| "reads_body (Ws_Ticket_Request now I cr v) \<longleftrightarrow> True"
| "reads_body (Malformed_Body position) \<longleftrightarrow> True"
| "reads_body _ \<longleftrightarrow> False"

definition received_request :: "auth_settings \<Rightarrow> string list \<Rightarrow> request \<Rightarrow> request" where
  "received_request S chunks q =
     (if reads_body q \<and> snd (limited_receive (rs_max_body_bytes (as_runtime S)) 0 chunks)
      then Unreadable_Body else q)"

definition call_application ::
    "crypto \<Rightarrow> auth_settings \<Rightarrow> 'd repo_ops \<Rightarrow> 'c oidc_ops \<Rightarrow> draws \<Rightarrow> string list \<Rightarrow> request \<Rightarrow>
     string \<Rightarrow> ('d \<times> 'c) \<times> uuid7_state \<Rightarrow> outcome \<times> (('d \<times> 'c) \<times> uuid7_state)" where
  "call_application C S R Q D chunks q cid s =
     (case application C S R Q (received_request S chunks q) D cid s of
        (Inl e, t) \<Rightarrow> (Threw e, t)
      | (Inr r, t) \<Rightarrow> (Answered r, t))"

text \<open>
  \<open>asyncio.timeout\<close> ends the wait for the answer, not the application: it runs in a task of its own
  (and its database calls in threads), so what it does to the state stays although \<open>TimeoutError\<close> is
  what the middleware sees.  \<open>late\<close> says that the answer was not there in time.
\<close>

definition within_timeout ::
    "bool \<Rightarrow> (string \<Rightarrow> 's \<Rightarrow> outcome \<times> 's) \<Rightarrow> string \<Rightarrow> 's \<Rightarrow> outcome \<times> 's" where
  "within_timeout late call_next cid s = (case call_next cid s of (r, t) \<Rightarrow> (if late then Timed_Out else r, t))"

definition serve ::
    "crypto \<Rightarrow> auth_settings \<Rightarrow> 'd repo_ops \<Rightarrow> 'c oidc_ops \<Rightarrow> draws \<Rightarrow> draws \<Rightarrow> draws \<Rightarrow> http_head \<Rightarrow>
     string option \<Rightarrow> bool \<Rightarrow> string list \<Rightarrow> request \<Rightarrow> ('d \<times> 'c) \<times> uuid7_state \<Rightarrow>
     answer \<times> (('d \<times> 'c) \<times> uuid7_state)" where
  "serve C S R Q D1 D2 D3 h route late chunks q =
     observe (as_runtime S) D1 D3 h route (within_timeout late (call_application C S R Q D2 chunks q))"

end
