(* ===== verification/App_Properties.thy ===== *)
theory App_Properties
  imports Observability Websocket_Properties
begin

text \<open>
  The correctness properties of the HTTP surface: the routes over the PostgreSQL repository, the
  handlers of exceptions, and the middleware around them.
\<close>

lemma and_then_simps [simp]:
  "and_then (stop f) g = stop f"
  "and_then (reply x) g = g x"
  by (simp_all add: and_then_def stop_def reply_def fun_eq_iff)

section \<open>Authentication\<close>

text \<open>A request with a live session: its token resolves at the time it is authenticated.\<close>

definition live_request ::
    "crypto \<Rightarrow> auth_settings \<Rightarrow> (string \<Rightarrow> string) \<Rightarrow> auth_db \<Rightarrow> time \<Rightarrow> credentials \<Rightarrow> bool" where
  "live_request C S col db now cr \<longleftrightarrow>
     (\<exists>token. request_token S cr = Some token \<and> token \<noteq> [] \<and> resolves_view col db (token_fp C S token) now \<noteq> None)"

lemma current_principal_cases:
  assumes "32 \<le> length (as_hmac_key S)" "db_inv db"
  shows "(\<exists>p. current_principal C S (postgres col) now cr db = (Inr p, db) \<and> live_request C S col db now cr) \<or>
    (\<exists>ecode message. current_principal C S (postgres col) now cr db = (Inl (Api_Error 401 ecode message False), db)) \<and>
      \<not> live_request C S col db now cr"
  using postgres.authenticate_eq [OF assms, of C col now]
  by (auto simp: current_principal_def attempt_def live_request_def stop_def split: option.splits if_splits)

text \<open>The routes that need a principal, with the time and credentials they authenticate.\<close>

fun authenticated :: "request \<Rightarrow> (time \<times> credentials) option" where
  "authenticated (Session_Request now cr) = Some (now, cr)"
| "authenticated (Logout_Request now env t cr) = Some (now, cr)"
| "authenticated (Devices_Request now cr) = Some (now, cr)"
| "authenticated (Revoke_Device_Request now t cr i) = Some (now, cr)"
| "authenticated (Ws_Ticket_Request now I cr v) = Some (now, cr)"
| "authenticated _ = None"

lemma principal_required:
  assumes "32 \<le> length (as_hmac_key S)" "db_inv db" "authenticated q = Some (now, cr)"
    and "\<not> live_request C S col db now cr"
  shows "\<exists>ecode message. run_route C S (postgres col) Q q (db, c) =
    (Inl (Api_Error 401 ecode message False), (db, c))"
proof -
  obtain ecode message where
    "current_principal C S (postgres col) now cr db = (Inl (Api_Error 401 ecode message False), db)"
    using current_principal_cases [OF assms(1,2)] assms(4) by blast
  then show ?thesis
    using assms(3)
    by (cases q) (auto simp: on_repository_def and_then_def session_route_def logout_route_def
        devices_route_def revoke_device_route_def ws_ticket_route_def)
qed

text \<open>C31: A route that needs a principal refuses a request without a live session with status 401 and
  changes nothing.\<close>

theorem protected_routes_need_a_session:
  assumes "32 \<le> length (as_hmac_key S)" "db_inv db" "authenticated q = Some (now, cr)"
    and "\<not> live_request C S col db now cr"
  shows "\<exists>ecode message. run_route C S (postgres col) Q q (db, c) =
    (Inl (Api_Error 401 ecode message False), (db, c))"
  using assms by (rule principal_required)

theorem protected_routes_need_a_session_witness:
  "\<exists>ecode message. run_route demo_crypto demo_settings (postgres id) demo_oidc
     (Logout_Request 5 (demo_env 5) 5 \<lparr>cr_authorization = ''Basic x'', cr_cookie = []\<rparr>) (demo_db, ()) =
    (Inl (Api_Error 401 ecode message False), (demo_db, ()))"
proof -
  have "request_token demo_settings \<lparr>cr_authorization = ''Basic x'', cr_cookie = []\<rparr> = None"
    unfolding demo_settings_def by code_simp
  then have "\<not> live_request demo_crypto demo_settings id demo_db 5 \<lparr>cr_authorization = ''Basic x'', cr_cookie = []\<rparr>"
    by (simp add: live_request_def)
  then show ?thesis by (intro protected_routes_need_a_session [OF demo_key demo_inv, of _ 5]) simp_all
qed

section \<open>Errors\<close>

text \<open>The status and code of every error the application answers itself.\<close>

definition error_table :: "(int \<times> string) list" where
  "error_table = [(400, ''LOGIN_REQUEST_INVALID''), (400, ''HTTP_ERROR''), (401, ''OIDC_LOGIN_FAILED''),
     (401, ''LOGIN_GRANT_INVALID''), (401, ''SESSION_INVALID''), (401, ''AUTHORIZATION_SCHEME_INVALID''),
     (403, ''PERMISSION_DENIED''), (404, ''DEVICE_NOT_FOUND''), (422, ''REQUEST_VALIDATION_FAILED''),
     (503, ''DATABASE_UNAVAILABLE'')]"

text \<open>An envelope with a correlation identifier and an error code.\<close>

definition is_error :: "string \<Rightarrow> string \<Rightarrow> response \<Rightarrow> bool" where
  "is_error cid ecode r \<longleftrightarrow> cookies r = [] \<and>
     (\<exists>v m p. body r = Envelope v \<and> envelope_ok ''error'' cid v \<and> v = JObj m \<and>
        dict_get m ''payload'' = JObj p \<and> dict_get p ''code'' = JStr ecode)"

lemma error_response_ok:
  assumes "state_ok u" "draws_ok D" "error_response D cid status ecode message retryable field u = (r, t)"
  shows "status_code r = status \<and> is_error cid ecode r \<and> state_ok t"
proof -
  obtain i w where i: "new_id D 0 u = (i, w)" by fastforce
  have ok: "is_uuid7 i" "state_ok w" using new_id_ok [OF assms(1,2) i] by blast+
  let ?p = "[(''code'', JStr ecode), (''message'', JStr message), (''retryable'', JBool retryable)] @
    (case field of None \<Rightarrow> [] | Some f \<Rightarrow> if f = [] then [] else [(''field'', JStr f)])"
  have "r = \<lparr>status_code = status, body = Envelope (base_envelope ''error'' cid ?p (utc_z (dr_now D 0)) i), cookies = []\<rparr>" "t = w"
    using assms(3) i by (auto simp: error_response_def error_envelope_def Let_def)
  moreover have "envelope_ok ''error'' cid (base_envelope ''error'' cid ?p (utc_z (dr_now D 0)) i)"
    using ok(1) utc_z_ok [OF assms(2)] by (intro base_envelope_ok) (auto split: option.splits)
  ultimately show ?thesis
    using ok(2) by (auto simp: is_error_def base_envelope_def dict_get_def)
qed

fun failure_code :: "failure \<Rightarrow> (int \<times> string) option" where
  "failure_code (Api_Error status ecode message retryable) = Some (status, ecode)"
| "failure_code (Http_Exception status) = Some (status, fst (http_error status))"
| "failure_code (Request_Invalid field) = Some (422, ''REQUEST_VALIDATION_FAILED'')"
| "failure_code _ = None"

fun known_failure :: "request \<Rightarrow> failure \<Rightarrow> bool" where
  "known_failure q (Uncaught e) \<longleftrightarrow> True"
| "known_failure q (Starlette_Exception status) \<longleftrightarrow> q = Not_Routed status"
| "known_failure q f \<longleftrightarrow> (case failure_code f of None \<Rightarrow> False | Some c \<Rightarrow> c \<in> set error_table)"

definition fails_in :: "(failure \<Rightarrow> bool) \<Rightarrow> ('s, 'a) route \<Rightarrow> bool" where
  "fails_in P m \<longleftrightarrow> (\<forall>s f t. m s = (Inl f, t) \<longrightarrow> P f)"

named_theorems fails_rules "the failures a route can end in"

lemma fails_and_then [fails_rules]: "fails_in P m \<Longrightarrow> (\<And>x. fails_in P (f x)) \<Longrightarrow> fails_in P (and_then m f)"
  unfolding fails_in_def and_then_def by (fastforce split: prod.splits sum.splits)

lemma fails_simple [fails_rules]:
  "fails_in P (reply x)"
  "P f \<Longrightarrow> fails_in P (stop f)"
  "fails_in P m \<Longrightarrow> fails_in P (on_repository m)"
  by (auto simp: fails_in_def reply_def stop_def on_repository_def split: prod.splits)

lemma fails_attempt [fails_rules]:
  "(\<And>e. P (case h e of Some f \<Rightarrow> f | None \<Rightarrow> Uncaught e)) \<Longrightarrow> fails_in P (attempt h m)"
  by (auto simp: fails_in_def attempt_def split: prod.splits sum.splits)

lemma fails_checked [fails_rules]:
  "(\<And>e. r = Inl e \<Longrightarrow> P e) \<Longrightarrow> (\<And>x. fails_in P (g x)) \<Longrightarrow> fails_in P (checked r g)"
  by (cases r) (simp_all add: checked_def fails_simple)

lemma fails_option [fails_rules]:
  "fails_in P m \<Longrightarrow> (\<And>x. fails_in P (g x)) \<Longrightarrow> fails_in P (case v of None \<Rightarrow> m | Some x \<Rightarrow> g x)"
  by (cases v) simp_all

lemma fails_if [fails_rules]: "fails_in P m \<Longrightarrow> fails_in P n \<Longrightarrow> fails_in P (if b then m else n)"
  by simp

lemma validation_failures:
  "validate_body fs v = Inl f \<Longrightarrow> \<exists>field. f = Request_Invalid field"
  "validate_query fs qs = Inl f \<Longrightarrow> \<exists>field. f = Request_Invalid field"
  by (auto simp: validate_body_def validate_query_def Let_def split: json.splits option.splits)

lemma in_error_table [simp]: "c \<in> set error_table \<longleftrightarrow> c \<in> {(400, ''LOGIN_REQUEST_INVALID''), (400, ''HTTP_ERROR''),
    (401, ''OIDC_LOGIN_FAILED''), (401, ''LOGIN_GRANT_INVALID''), (401, ''SESSION_INVALID''),
    (401, ''AUTHORIZATION_SCHEME_INVALID''), (403, ''PERMISSION_DENIED''), (404, ''DEVICE_NOT_FOUND''),
    (422, ''REQUEST_VALIDATION_FAILED''), (503, ''DATABASE_UNAVAILABLE'')}"
  by (simp add: error_table_def)

lemma principal_failures [fails_rules]: "fails_in (known_failure q) (current_principal C S R now cr)"
  unfolding current_principal_def by (intro fails_rules) (auto split: if_splits)

lemma callback_failures: "known_failure q (case callback_error e of Some f \<Rightarrow> f | None \<Rightarrow> Uncaught e)"
  by (cases e) (simp_all add: callback_error_def)

lemma denied_failures:
  "known_failure q (case (case e of
      PermissionDenied m \<Rightarrow> Some (Api_Error 403 ''PERMISSION_DENIED'' ''Permission denied'' False)
    | _ \<Rightarrow> None) of Some f \<Rightarrow> f | None \<Rightarrow> Uncaught e)"
  by (cases e) simp_all

lemma handled_failures:
  "known_failure q f \<Longrightarrow> known_failure q (case (if b then Some f else None) of Some f \<Rightarrow> f | None \<Rightarrow> Uncaught e)"
  "known_failure q (case None of Some f \<Rightarrow> f | None \<Rightarrow> Uncaught e)"
  by simp_all

lemma invalid_failures:
  "validate_body fs v = Inl f \<Longrightarrow> known_failure q f"
  "validate_query fs qs = Inl f \<Longrightarrow> known_failure q f"
  by (auto dest: validation_failures)

lemmas failure_intros = fails_rules callback_failures denied_failures handled_failures

lemma ready_failures [fails_rules]: "fails_in (known_failure q) (ready probe)"
  unfolding ready_def by (intro failure_intros; (erule invalid_failures)?; simp?)

lemma start_login_route_failures [fails_rules]: "fails_in (known_failure q) (start_login_route C S R Q I v)"
  unfolding start_login_route_def by (intro failure_intros; (erule invalid_failures)?; simp?)

lemma callback_route_failures [fails_rules]: "fails_in (known_failure q) (callback_route C S R Q limit I query)"
  unfolding callback_route_def by (intro failure_intros; (erule invalid_failures)?; simp?)

lemma exchange_route_failures [fails_rules]: "fails_in (known_failure q) (exchange_route C S R limit I v)"
  unfolding exchange_route_def by (intro failure_intros; (erule invalid_failures)?; simp?)

lemma session_route_failures [fails_rules]: "fails_in (known_failure q) (session_route C S R now cr)"
  unfolding session_route_def by (intro failure_intros; (erule invalid_failures)?; simp?)

lemma logout_route_failures [fails_rules]: "fails_in (known_failure q) (logout_route C S R now env t cr)"
  unfolding logout_route_def by (intro failure_intros; (erule invalid_failures)?; simp?)

lemma devices_route_failures [fails_rules]: "fails_in (known_failure q) (devices_route C S R now cr)"
  unfolding devices_route_def by (intro failure_intros; (erule invalid_failures)?; simp?)

lemma revoke_device_route_failures [fails_rules]: "fails_in (known_failure q) (revoke_device_route C S R now t cr i)"
  unfolding revoke_device_route_def by (intro failure_intros; (erule invalid_failures)?; simp?)

lemma ws_ticket_route_failures [fails_rules]: "fails_in (known_failure q) (ws_ticket_route C S R now I cr v)"
  unfolding ws_ticket_route_def by (intro failure_intros; (erule invalid_failures)?; simp?)

lemma route_failures: "fails_in (known_failure q) (run_route C S R Q q)"
  by (cases q; simp only: run_route.simps; intro fails_rules; simp add: http_error_def)

declare in_error_table [simp del]

lemma and_then_Inr: "and_then m f s = (Inr y, u) \<longleftrightarrow> (\<exists>x t. m s = (Inr x, t) \<and> f x t = (Inr y, u))"
  by (auto simp: and_then_def split: prod.splits sum.splits)

lemma checked_Inr: "checked r f s = (Inr y, t) \<longleftrightarrow> (\<exists>x. r = Inr x \<and> f x s = (Inr y, t))"
  by (cases r) (simp_all add: checked_def stop_def)

lemma reply_Inr [simp]: "reply x s = (Inr y, t) \<longleftrightarrow> x = y \<and> s = t"
  by (auto simp: reply_def)

lemma stop_Inr [simp]: "stop f s \<noteq> (Inr y, t)"
  by (simp add: stop_def)

lemma on_repository_Inr:
  "on_repository m s = (Inr y, t) \<longleftrightarrow> m (fst s) = (Inr y, fst t) \<and> snd t = snd s"
  by (cases t) (auto simp: on_repository_def split: prod.splits)

lemmas route_Inr = and_then_Inr checked_Inr on_repository_Inr

lemma route_status:
  "run_route C S R Q q s = (Inr (Some r), t) \<Longrightarrow> status_code r \<in> {200, 204, 303}"
  by (cases q)
    (auto simp: route_Inr start_login_route_def callback_route_def exchange_route_def session_route_def
      logout_route_def devices_route_def revoke_device_route_def ws_ticket_route_def ok_response_def
      split: option.splits)

lemma handled_response:
  assumes "state_ok u" "draws_ok D" "handle_failure D cid f u = (Inr r, u')" "failure_code f = Some (status, ecode)"
  shows "status_code r = status \<and> is_error cid ecode r \<and> state_ok u'"
  using assms(3,4) error_response_ok [OF assms(1,2)]
  by (cases f) (auto simp: handle_failure_def split: prod.splits)

lemma known_failure_cases:
  assumes "known_failure q f"
  obtains status where "f = Starlette_Exception status" "q = Not_Routed status"
  | status ecode where "failure_code f = Some (status, ecode)" "(status, ecode) \<in> set error_table"
  | e where "f = Uncaught e"
  using assms by (cases f) auto

lemma application_answers:
  assumes "state_ok u" "draws_ok D" "application C S R Q q D cid (s, u) = (Inr r, (s', u'))"
  shows "case fst (run_route C S R Q q s) of
     Inr x \<Rightarrow> status_code r \<in> {200, 204, 303}
   | Inl f \<Rightarrow> (\<exists>status. q = Not_Routed status \<and> body r = Framework_Detail status) \<or>
       (\<exists>ecode. (status_code r, ecode) \<in> set error_table \<and> is_error cid ecode r)"
proof -
  obtain x t where run: "run_route C S R Q q s = (x, t)" by (metis surj_pair)
  show ?thesis
  proof (cases x)
    case (Inl f)
    have known: "known_failure q f" using route_failures run Inl unfolding fails_in_def by blast
    obtain w where handled: "handle_failure D cid f u = (Inr r, w)"
      using assms(3) run Inl by (auto simp: application_def split: prod.splits)
    from known have "(\<exists>status. q = Not_Routed status \<and> body r = Framework_Detail status) \<or>
       (\<exists>ecode. (status_code r, ecode) \<in> set error_table \<and> is_error cid ecode r)"
    proof (cases rule: known_failure_cases)
      case (1 status)
      then show ?thesis using handled by (auto simp: handle_failure_def)
    next
      case (2 status ecode)
      then show ?thesis using handled_response [OF assms(1,2) handled 2(1)] by metis
    next
      case (3 e)
      then show ?thesis using handled by (simp add: handle_failure_def)
    qed
    then show ?thesis using run Inl by simp
  next
    case (Inr y)
    have "status_code r \<in> {200, 204, 303}"
    proof (cases y)
      case None
      then show ?thesis using assms(3) run Inr
        by (auto simp: application_def health_route_def ok_response_def split: prod.splits)
    next
      case (Some z)
      then have "r = z" using assms(3) run Inr by (simp add: application_def)
      then show ?thesis using route_status [of C S R Q q s z t] run Inr Some by simp
    qed
    then show ?thesis using run Inr by simp
  qed
qed

text \<open>Every error the application answers is an error envelope with the request's correlation
  identifier, a status and code of a fixed table and no cookie, except that the framework answers
  paths and methods without a route; every other answer has status 200, 204 or 303.\<close>

theorem errors_are_envelopes:
  assumes "state_ok u" "draws_ok D" "application C S R Q q D cid (s, u) = (Inr r, (s', u'))"
  shows "case fst (run_route C S R Q q s) of
     Inr x \<Rightarrow> status_code r \<in> {200, 204, 303}
   | Inl f \<Rightarrow> (\<exists>status. q = Not_Routed status \<and> body r = Framework_Detail status) \<or>
       (\<exists>ecode. (status_code r, ecode) \<in> set error_table \<and> is_error cid ecode r)"
  using assms by (rule application_answers)

theorem errors_are_envelopes_witness:
  "\<exists>r ecode t. application demo_crypto demo_settings (postgres id) demo_oidc (Ready_Request None) demo_draws demo_id
     ((demo_db, ()), uuid7_init) = (Inr r, t) \<and> (status_code r, ecode) \<in> set error_table \<and> is_error demo_id ecode r"
proof -
  have fails: "run_route demo_crypto demo_settings (postgres id) demo_oidc (Ready_Request None) (demo_db, ()) =
      (Inl (Api_Error 503 ''DATABASE_UNAVAILABLE'' ''Database is unavailable'' True), (demo_db, ()))"
    by (simp add: ready_def stop_def)
  obtain r u where err: "error_response demo_draws demo_id 503 ''DATABASE_UNAVAILABLE'' ''Database is unavailable'' True
      None uuid7_init = (r, u)" by (metis surj_pair)
  then have run: "application demo_crypto demo_settings (postgres id) demo_oidc (Ready_Request None)
      demo_draws demo_id ((demo_db, ()), uuid7_init) = (Inr r, ((demo_db, ()), u))"
    using fails by (simp add: application_def handle_failure_def)
  have "\<exists>ecode. (status_code r, ecode) \<in> set error_table \<and> is_error demo_id ecode r"
    using errors_are_envelopes [OF state_ok_init demo_draws_ok run] fails by simp
  then show ?thesis using run by blast
qed

end
