(* ===== verification/Http_Properties.thy ===== *)
theory Http_Properties
  imports App_Properties
begin

text \<open>
  The correctness properties of the process as a whole: the middleware around the application, and
  the login that a client drives over its routes.
\<close>

section \<open>Bodies\<close>

definition body_length :: "string list \<Rightarrow> int" where
  "body_length chunks = int (length (concat chunks))"

lemma limited_receive_exact:
  assumes "n \<le> m"
  shows "snd (limited_receive m n chunks) \<longleftrightarrow> m < n + body_length chunks"
    and "n + body_length (fst (limited_receive m n chunks)) \<le> m"
  using assms
proof (induction m n chunks rule: limited_receive.induct)
  case (2 m n c cs)
  { case 1 show ?case using 2 1 by (auto simp: body_length_def Let_def split: prod.splits) }
  { case 2 show ?case using "2.IH" 2 by (auto simp: body_length_def Let_def split: prod.splits) }
qed (simp_all add: body_length_def)

section \<open>The application keeps its generator\<close>

lemma application_keeps:
  assumes "state_ok u" "draws_ok D" "application C S R Q q D cid (s, u) = (x, (s', u'))"
  shows "state_ok u'"
proof -
  obtain y t where run: "run_route C S R Q q s = (y, t)" by (metis surj_pair)
  have health: "state_ok w" if "health_route S D cid d u = (r, w)" for d r w
    using that new_id_ok [OF _ assms(2)] assms(1)
    by (auto simp: health_route_def health_envelope_def Let_def split: prod.splits) blast
  have failure: "state_ok w" if "handle_failure D cid f u = (r, w)" for f r w
  proof (cases "failure_code f")
    case None
    then show ?thesis using that assms(1) by (cases f) (auto simp: handle_failure_def)
  next
    case (Some c)
    then show ?thesis using that error_response_ok [OF assms(1,2)]
      by (cases f) (auto simp: handle_failure_def split: prod.splits)
  qed
  show ?thesis
    using assms(1,3) run health failure
    by (auto simp: application_def split: prod.splits sum.splits option.splits)
qed


section \<open>Every request is answered\<close>

text \<open>The status and code of every error of the middleware.\<close>

definition middleware_table :: "(int \<times> string) list" where
  "middleware_table = [(400, ''CORS_ORIGIN_DENIED''), (413, ''REQUEST_BODY_TOO_LARGE''),
     (504, ''REQUEST_TIMEOUT''), (500, ''INTERNAL_ERROR'')]"

definition error_in :: "(int \<times> string) list \<Rightarrow> string \<Rightarrow> response \<Rightarrow> bool" where
  "error_in table cid r \<longleftrightarrow> (\<exists>ecode. (status_code r, ecode) \<in> set table \<and> is_error cid ecode r)"

lemma error_inI:
  "is_error cid ecode r \<Longrightarrow> (status_code r, ecode) \<in> set table \<Longrightarrow> error_in table cid r"
  by (auto simp: error_in_def)

lemma error_in_table: "set table \<subseteq> set table' \<Longrightarrow> error_in table cid r \<Longrightarrow> error_in table' cid r"
  by (auto simp: error_in_def)

lemma in_middleware_table [simp]:
  "(413, ''REQUEST_BODY_TOO_LARGE'') \<in> set middleware_table" "(500, ''INTERNAL_ERROR'') \<in> set middleware_table"
  "(400, ''CORS_ORIGIN_DENIED'') \<in> set middleware_table" "(504, ''REQUEST_TIMEOUT'') \<in> set middleware_table"
  by (simp_all add: middleware_table_def)

lemma correlation_ok:
  assumes "state_ok u" "draws_ok D" "correlation_id D supplied u = (cid, t)"
  shows "is_uuid7 cid \<and> (is_uuid7 supplied \<longrightarrow> cid = supplied) \<and> state_ok t"
  using assms new_id_ok [OF assms(1,2)] by (auto simp: correlation_id_def split: if_splits)

lemma settle_answers:
  assumes "state_ok u" "draws_ok D" "settle h D cid r u = (resp, t)"
  shows "(r = Answered resp \<or> error_in middleware_table cid resp) \<and> state_ok t"
  using assms(1,3) error_response_ok [OF assms(1,2)]
  by (cases r) (force simp: settle_def error_in_def middleware_table_def split: if_splits)+

lemma settle_errors:
  assumes "state_ok u" "draws_ok D" "settle h D cid r u = (resp, t)"
  shows "r = Body_Too_Large \<Longrightarrow> status_code resp = 413 \<and> is_error cid ''REQUEST_BODY_TOO_LARGE'' resp"
    and "r = Threw e \<Longrightarrow> status_code resp = 500 \<and> is_error cid ''INTERNAL_ERROR'' resp"
    and "r = Timed_Out \<Longrightarrow> status_code resp = 504 \<and> is_error cid ''REQUEST_TIMEOUT'' resp"
  using assms(3) error_response_ok [OF assms(1,2)] by (auto simp: settle_def)

lemma call_application_cases:
  assumes "call_application C S R Q D chunks q cid s = (r, t)"
  obtains e where "r = Threw e" "application C S R Q (received_request S chunks q) D cid s = (Inl e, t)"
  | resp where "r = Answered resp" "application C S R Q (received_request S chunks q) D cid s = (Inr resp, t)"
  using assms by (auto simp: call_application_def split: prod.splits sum.splits)

lemma call_application_keeps:
  assumes "state_ok (snd s)" "draws_ok D" "call_application C S R Q D chunks q cid s = (r, t)"
  shows "state_ok (snd t)"
  using assms(3)
proof (cases rule: call_application_cases)
  case (1 e)
  then show ?thesis using application_keeps [OF assms(1,2), of C S R Q _ cid "fst s" _ "fst t" "snd t"] by simp
next
  case (2 resp)
  then show ?thesis using application_keeps [OF assms(1,2), of C S R Q _ cid "fst s" _ "fst t" "snd t"] by simp
qed

text \<open>What an answer of the application looks like.\<close>

definition proper_answer :: "request \<Rightarrow> string \<Rightarrow> response \<Rightarrow> bool" where
  "proper_answer q cid r \<longleftrightarrow> status_code r \<in> {200, 204, 303} \<or> error_in (error_table @ middleware_table) cid r \<or>
     (\<exists>status. q = Not_Routed status \<and> body r = Framework_Detail status)"

lemma received_routed: "received_request S chunks q = Not_Routed status \<Longrightarrow> q = Not_Routed status"
  by (auto simp: received_request_def split: if_splits)

lemma application_proper:
  assumes "state_ok (snd s)" "draws_ok D" "application C S R Q q D cid s = (Inr resp, t)"
  shows "proper_answer q cid resp"
  using application_answers [OF assms(1,2), of C S R Q q cid "fst s" resp "fst t" "snd t"] assms(3)
  by (auto simp: proper_answer_def error_in_def split: sum.splits)

lemma call_application_proper:
  assumes "state_ok (snd s)" "draws_ok D" "call_application C S R Q D chunks q cid s = (Answered resp, t)"
  shows "proper_answer q cid resp"
  using assms(3)
proof (cases rule: call_application_cases)
  case (2 r)
  then have "proper_answer (received_request S chunks q) cid resp"
    using application_proper [OF assms(1,2)] by simp
  then show ?thesis unfolding proper_answer_def using received_routed by blast
qed simp

lemma within_timeout_cases:
  assumes "within_timeout late call_next cid s = (r, t)"
  obtains r' where "call_next cid s = (r', t)" "r = (if late then Timed_Out else r')"
  using assms by (auto simp: within_timeout_def split: prod.splits)

lemma serve_cases:
  assumes "serve C S R Q D1 D2 D3 h route late chunks q s = (a, t)"
  obtains cid u1 r w u2 where "correlation_id D1 (hd_request_id h) (snd s) = (cid, u1)"
    "an_request_id a = cid" "settle h D3 cid r (snd w) = (an_response a, u2)" "t = (fst w, u2)"
    "ob_status (an_observation a) = status_code (an_response a)"
    "ob_service (an_observation a) = rs_service_name (as_runtime S)" "ob_method (an_observation a) = hd_method h"
    "case length_check (as_runtime S) (hd_content_length h) of
       Some early \<Rightarrow> r = early \<and> w = (fst s, u1)
     | None \<Rightarrow> within_timeout late (call_application C S R Q D2 chunks q) cid (fst s, u1) = (r, w)"
proof -
  obtain cid u1 where 1: "correlation_id D1 (hd_request_id h) (snd s) = (cid, u1)" by (metis surj_pair)
  obtain r w where 2: "(case length_check (as_runtime S) (hd_content_length h) of Some early \<Rightarrow> (early, (fst s, u1))
      | None \<Rightarrow> within_timeout late (call_application C S R Q D2 chunks q) cid (fst s, u1)) = (r, w)" by (metis surj_pair)
  obtain resp u2 where 3: "settle h D3 cid r (snd w) = (resp, u2)" by (metis surj_pair)
  show thesis
    using assms 1 2 3
    by (intro that [of cid u1 r w u2]) (auto simp: serve_def observe_def Let_def split: option.splits)
qed

lemma length_check_outcome:
  "length_check S c = Some r \<Longrightarrow> r = Body_Too_Large \<or> (\<exists>e. r = Threw e)"
  by (auto simp: length_check_def split: option.splits if_splits)

lemma middleware_outcome:
  assumes "state_ok u1" "draws_ok D"
    and "case length_check (as_runtime S) c of Some early \<Rightarrow> r = early \<and> w = (s, u1)
      | None \<Rightarrow> within_timeout late (call_application C S R Q D chunks q) cid (s, u1) = (r, w)"
  shows "state_ok (snd w) \<and> (\<forall>resp. r = Answered resp \<longrightarrow> proper_answer q cid resp)"
proof (cases "length_check (as_runtime S) c")
  case None
  then obtain r' where call: "call_application C S R Q D chunks q cid (s, u1) = (r', w)"
    and r: "r = (if late then Timed_Out else r')"
    using assms(3) by (auto elim: within_timeout_cases)
  show ?thesis
    using call_application_keeps [OF _ assms(2) call]
      call_application_proper [of "(s, u1)" D C S R Q chunks q cid _ w] assms(1,2) call r by simp
next
  case (Some early)
  then show ?thesis using assms(1,3) length_check_outcome by fastforce
qed

lemma serve_answers:
  assumes "state_ok (snd s)" "draws_ok D1" "draws_ok D2" "draws_ok D3"
    and "serve C S R Q D1 D2 D3 h route late chunks q s = (a, t)"
  shows "is_uuid7 (an_request_id a) \<and> (is_uuid7 (hd_request_id h) \<longrightarrow> an_request_id a = hd_request_id h) \<and>
    proper_answer q (an_request_id a) (an_response a) \<and>
    ob_status (an_observation a) = status_code (an_response a) \<and> state_ok (snd t)"
  using assms(5)
proof (cases rule: serve_cases)
  case (1 cid u1 r w u2)
  note corr = correlation_ok [OF assms(1,2) 1(1)]
  then have u1: "state_ok u1" by blast
  have w: "state_ok (snd w)" and r: "\<And>resp. r = Answered resp \<Longrightarrow> proper_answer q cid resp"
    using middleware_outcome [OF u1 assms(3) 1(8)] by blast+
  have "proper_answer q cid (an_response a)"
    using settle_answers [OF w assms(4) 1(3)] r error_in_table [of middleware_table "error_table @ middleware_table"]
    unfolding proper_answer_def by auto
  moreover have "state_ok u2" using settle_answers [OF w assms(4) 1(3)] by blast
  ultimately show ?thesis using 1 corr by simp
qed

text \<open>C33: Every request is answered, in time or late: with the correlation identifier the client chose
  when that is a version 7 UUID and a fresh one otherwise, with success or with an error envelope of a
  known status and code, and it is counted under the status it was answered with.  The one exception,
  which the documents do not make, is a path or method without a route: the framework answers it with its
  own plain detail.\<close>

theorem every_request_is_answered:
  assumes "state_ok (snd s)" "draws_ok D1" "draws_ok D2" "draws_ok D3"
    and "serve C S R Q D1 D2 D3 h route late chunks q s = (a, t)"
  shows "is_uuid7 (an_request_id a) \<and> (is_uuid7 (hd_request_id h) \<longrightarrow> an_request_id a = hd_request_id h) \<and>
    proper_answer q (an_request_id a) (an_response a) \<and>
    ob_status (an_observation a) = status_code (an_response a) \<and> state_ok (snd t)"
  using assms by (rule serve_answers)

theorem every_request_is_answered_witness:
  "is_uuid7 (an_request_id (fst (serve demo_crypto demo_settings (postgres id) demo_oidc demo_draws demo_draws demo_draws
     \<lparr>hd_method = ''GET'', hd_request_id = ''x'', hd_content_length = Some ''7'', hd_origin = []\<rparr> None False [] (Not_Routed 404)
     ((demo_db, ()), uuid7_init))))"
  using every_request_is_answered [OF _ demo_draws_ok demo_draws_ok demo_draws_ok prod.collapse [symmetric],
      of "((demo_db, ()), uuid7_init)"] state_ok_init
  by simp

lemma oversize_unreadable:
  assumes "state_ok u" "draws_ok D" "0 \<le> rs_max_body_bytes (as_runtime S)"
    and "reads_body q" "rs_max_body_bytes (as_runtime S) < body_length chunks"
    and "call_application C S R Q D chunks q cid (s, u) = (r, w)"
  shows "fst w = s \<and> state_ok (snd w) \<and>
    (\<exists>resp. r = Answered resp \<and> status_code resp = 400 \<and> is_error cid ''HTTP_ERROR'' resp)"
proof -
  have "received_request S chunks q = Unreadable_Body"
    using limited_receive_exact(1) [OF assms(3)] assms(4,5) by (simp add: received_request_def)
  moreover obtain resp t where
    e: "error_response D cid 400 ''HTTP_ERROR'' ''Request could not be completed'' False None u = (resp, t)"
    by (metis surj_pair)
  ultimately have "r = Answered resp" "w = (s, t)"
    using assms(6) by (auto simp: call_application_def application_def stop_def handle_failure_def http_error_def)
  then show ?thesis using error_response_ok [OF assms(1,2) e] by simp
qed

lemma bad_request_settled:
  assumes "state_ok u" "draws_ok D" "settle h D cid x u = (r, t)"
    and "x = Answered resp" "status_code resp = 400" "is_error cid ''HTTP_ERROR'' resp"
  shows "status_code r = 400 \<and> error_in (error_table @ middleware_table) cid r"
proof -
  have "r = resp \<or> (status_code r = 400 \<and> is_error cid ''CORS_ORIGIN_DENIED'' r)"
    using assms(3-5) error_response_ok [OF assms(1,2)] by (auto simp: settle_def split: if_splits)
  moreover have "(400, ''HTTP_ERROR'') \<in> set error_table" by (simp add: in_error_table)
  ultimately show ?thesis using assms(5,6) by (auto intro: error_inI)
qed

text \<open>C34: A request whose declared body, or whose body as it arrives, exceeds the configured bound never
  reaches a route that reads a body: the state is unchanged and the answer is an error, 413 for the
  declared length, and 504 only when the answer was late.\<close>

theorem oversize_bodies_refused:
  assumes "state_ok (snd s)" "draws_ok D1" "draws_ok D2" "draws_ok D3" "0 \<le> rs_max_body_bytes (as_runtime S)"
    and "serve C S R Q D1 D2 D3 h route late chunks q s = (a, t)"
  shows "(length_check (as_runtime S) (hd_content_length h) = Some Body_Too_Large \<longrightarrow>
      fst t = fst s \<and> status_code (an_response a) = 413 \<and>
      is_error (an_request_id a) ''REQUEST_BODY_TOO_LARGE'' (an_response a)) \<and>
    (reads_body q \<and> rs_max_body_bytes (as_runtime S) < body_length chunks \<longrightarrow>
      fst t = fst s \<and> status_code (an_response a) \<in> (if late then {400, 413, 500, 504} else {400, 413, 500}) \<and>
      error_in (error_table @ middleware_table) (an_request_id a) (an_response a))"
  using assms(6)
proof (cases rule: serve_cases)
  case (1 cid u1 r w u2)
  note corr = correlation_ok [OF assms(1,2) 1(1)]
  then have u1: "state_ok u1" by blast
  show ?thesis
  proof (cases "length_check (as_runtime S) (hd_content_length h)")
    case (Some early)
    then have w: "w = (fst s, u1)" "r = early" "state_ok (snd w)" using 1(8) u1 by simp_all
    consider "r = Body_Too_Large" | e where "r = Threw e" using length_check_outcome [OF Some] w by blast
    then show ?thesis
      using settle_errors [OF w(3) assms(4) 1(3)] w(1,2) 1(2,4) Some
      by cases (auto intro: error_inI)
  next
    case None
    then obtain r' where call: "call_application C S R Q D2 chunks q cid (fst s, u1) = (r', w)"
      and r: "r = (if late then Timed_Out else r')"
      using 1(8) by (auto elim: within_timeout_cases)
    note unread = oversize_unreadable [OF u1 assms(3,5) _ _ call]
    show ?thesis
    proof (cases late)
      case True
      then show ?thesis
        using unread settle_errors(3) [OF _ assms(4) 1(3)] r None 1(2,4) by (auto intro: error_inI)
    next
      case False
      then show ?thesis
        using unread bad_request_settled [OF _ assms(4) 1(3)] r None 1(2,4) by fastforce
    qed
  qed
qed

theorem oversize_bodies_refused_witness:
  "status_code (an_response (fst (serve demo_crypto demo_settings (postgres id) demo_oidc demo_draws demo_draws demo_draws
     \<lparr>hd_method = ''POST'', hd_request_id = [], hd_content_length = None, hd_origin = []\<rparr> None False
     [replicate 1048000 CHR ''a'', replicate 577 CHR ''b''] (Start_Login_Request (demo_inputs 5 3) JNull)
     ((demo_db, ()), uuid7_init)))) \<in> {400, 413, 500}"
proof -
  have "rs_max_body_bytes (as_runtime demo_settings) < body_length [replicate 1048000 CHR ''a'', replicate 577 CHR ''b'']"
    "0 \<le> rs_max_body_bytes (as_runtime demo_settings)"
    by (simp_all add: body_length_def demo_settings_def)
  then show ?thesis
    using oversize_bodies_refused [OF _ demo_draws_ok demo_draws_ok demo_draws_ok _ prod.collapse [symmetric],
        of "((demo_db, ()), uuid7_init)" demo_settings _ _ _ _ _ False] state_ok_init
    by simp
qed

section \<open>A login over the routes\<close>

lemma length_encoded: "length (urlsafe_b64encode s) = (length s + 2) div 3 * 4"
proof (induction s rule: urlsafe_b64encode.induct)
  case (1 a b c bs)
  have "(length bs + 5) div 3 = (length bs + 2) div 3 + 1" by simp
  then show ?case using 1 by (simp add: Let_def add.commute)
qed (simp_all add: Let_def)

lemma length_token:
  assumes "length s = 32"
  shows "32 \<le> length (token_urlsafe s) \<and> length (token_urlsafe s) \<le> 512"
proof -
  obtain body k where e: "urlsafe_b64encode s = body @ replicate k CHR ''=''" "k \<le> 2"
    "body \<noteq> [] \<longrightarrow> last body \<noteq> CHR ''=''" using urlsafe_b64encode_padding by blast
  then have "token_urlsafe s = body" by (simp add: token_urlsafe_def rstrip_char_replicate)
  moreover have "length body + k = 44" using length_encoded [of s] assms e(1) by simp
  ultimately show ?thesis using e(2) by simp
qed

lemma redirect_to_code:
  "complete_login C S R Q limit I state c s = (Inr red, t) \<Longrightarrow>
   red_redirect_uri red = as_desktop_callback_uri S @ ''?'' @ query_string [(''code'', red_code red)]"
  unfolding complete_login_def login_from_flow_def grant_session_def
  by (auto simp: bind_Inr_iff ret_def split: option.splits if_splits)

lemma valid_exchange:
  "32 \<le> length c \<Longrightarrow> length c \<le> 512 \<Longrightarrow>
   validate_body LoginGrantExchange (JObj [(''code'', JStr c)]) = Inr [(''code'', JStr c)]"
  by (simp add: validate_body_def LoginGrantExchange_def bad_field_def extra_field_def str_between_def)

definition bearer :: "string \<Rightarrow> string \<Rightarrow> credentials" where
  "bearer token cookie = \<lparr>cr_authorization = ''Bearer '' @ token, cr_cookie = cookie\<rparr>"

lemma request_token_simps [simp]:
  "request_token S (bearer token cookie) = Some token"
  "as_web_cookie_mode S \<Longrightarrow> request_token S \<lparr>cr_authorization = [], cr_cookie = token\<rparr> = Some token"
proof -
  have "lower ''Bearer'' = ''bearer''" by code_simp
  then show "request_token S (bearer token cookie) = Some token"
    by (simp add: request_token_def bearer_def partition_on_def Let_def)
qed (simp add: request_token_def)

lemma attempt_Inr: "attempt h m s = (Inr y, t) \<longleftrightarrow> m s = (Inr y, t)"
  by (auto simp: attempt_def split: prod.splits sum.splits)

lemma session_answers:
  assumes "request_token S cr = Some token" "authenticate C S R now token d = (Inr p, d)"
  shows "session_route C S R now cr d = (Inr (ok_response (Session_Body (session_response_of p))), d)"
  using assms by (simp add: session_route_def current_principal_def attempt_def and_then_def reply_def)

text \<open>C32: A login answered with a redirect gives the desktop a code; the exchange route answers that code,
  in time, with a token and its session, and until the session expires the session route answers
  the token, as a bearer or in the cookie mode as the cookie, with the same session.\<close>

theorem login_over_http:
  assumes "crypto_ok C" "32 \<le> length (as_hmac_key S)" "0 < limit" "db_inv db"
    and "length (in_random I 0) = 32" "length (in_random I 1) = 32" "length (in_random I 2) = 12"
    and "callback_route C S (postgres col) Q limit I query (db, q) = (Inr resp, (db1, q1))"
    and "in_now J 0 < in_now I 0 + seconds (as_login_grant_ttl_seconds S)"
    and "in_now J 1 < in_now I 0 + seconds (as_session_ttl_seconds S)"
  shows "\<exists>grant token ses db2 ok.
    resp = \<lparr>status_code = 303,
      body = Redirect (as_desktop_callback_uri S @ ''?'' @ query_string [(''code'', grant)]), cookies = []\<rparr> \<and>
    exchange_route C S (postgres col) limit J (JObj [(''code'', JStr grant)]) db1 = (Inr ok, db2) \<and>
    body ok = Login_Grant_Response token ses \<and> sr_expires_at ses = in_now I 0 + seconds (as_session_ttl_seconds S) \<and>
    (\<forall>now < sr_expires_at ses. \<forall>cookie.
       session_route C S (postgres col) now (bearer token cookie) db2 = (Inr (ok_response (Session_Body ses)), db2)) \<and>
    (as_web_cookie_mode S \<longrightarrow> cookies ok = [Set_Cookie COOKIE_NAME token (as_session_ttl_seconds S)] \<and>
       (\<forall>now < sr_expires_at ses. session_route C S (postgres col) now \<lparr>cr_authorization = [], cr_cookie = token\<rparr> db2 =
          (Inr (ok_response (Session_Body ses)), db2)))"
proof -
  obtain d red where red: "complete_login C S (postgres col) Q limit I (str_field d ''state'') (str_field d ''code'') (db, q) =
      (Inr red, (db1, q1))" and resp: "resp = \<lparr>status_code = 303, body = Redirect (red_redirect_uri red), cookies = []\<rparr>"
    using assms(8) by (auto simp: callback_route_def route_Inr attempt_Inr)
  have ne: "in_random I 0 \<noteq> []" "in_random I 1 \<noteq> []" using assms(5,6) by auto
  from postgres.complete_login_ok [OF assms(1,2) _ red] assms(4)
  have grant: "red_code red = token_urlsafe (in_random I 1)" and g: "postgres.granted col C S I db1" by simp_all
  let ?c = "token_urlsafe (in_random I 1)" and ?t = "token_urlsafe (in_random I 0)"
  from postgres.exchange_granted [OF assms(1-3,7) ne g assms(9,10)]
  obtain p db2 where ex: "exchange_login_grant C S (postgres col) limit J ?c db1 =
      (Inr \<lparr>gra_token = ?t, gra_principal = p\<rparr>, db2)"
    and p: "pri_expires_at p = in_now I 0 + seconds (as_session_ttl_seconds S)"
      "\<And>now. now < pri_expires_at p \<Longrightarrow> authenticate C S (postgres col) now ?t db2 = (Inr p, db2)" by blast
  let ?s = "session_response_of p"
  let ?ok = "\<lparr>status_code = 200, body = Login_Grant_Response ?t ?s, cookies = (if as_web_cookie_mode S
      then [Set_Cookie COOKIE_NAME ?t (as_session_ttl_seconds S)] else [])\<rparr>"
  have "exchange_route C S (postgres col) limit J (JObj [(''code'', JStr ?c)]) db1 = (Inr ?ok, db2)"
    using ex length_token [OF assms(6)]
    by (simp add: exchange_route_def valid_exchange checked_def str_field_def dict_get_def attempt_def
        and_then_def reply_def)
  moreover have "sr_expires_at ?s = pri_expires_at p" by (simp add: session_response_of_def)
  moreover have "session_route C S (postgres col) now cr db2 = (Inr (ok_response (Session_Body ?s)), db2)"
    if "now < pri_expires_at p" "request_token S cr = Some ?t" for now cr
    using session_answers [OF that(2) p(2) [OF that(1)]] .
  ultimately show ?thesis
    using p(1) by (intro exI [of _ ?c] exI [of _ ?t] exI [of _ ?s] exI [of _ db2] exI [of _ ?ok])
      (simp add: resp redirect_to_code [OF red] grant)
qed

theorem login_over_http_witness:
  "\<exists>grant token ses db2 ok.
    exchange_route demo_crypto demo_settings (postgres id) 10 (demo_inputs 3000 9) (JObj [(''code'', JStr grant)])
      (fst (snd demo_completed)) = (Inr ok, db2) \<and>
    body ok = Login_Grant_Response token ses \<and>
    session_route demo_crypto demo_settings (postgres id) 4000 (bearer token []) db2 =
      (Inr (ok_response (Session_Body ses)), db2)"
proof -
  obtain red where red: "demo_completed = (Inr red, snd demo_completed)" using demo_login_ok by blast
  let ?query = "[(''code'', ''code''), (''state'', demo_state)]"
  have len: "32 \<le> length demo_state \<and> length demo_state \<le> 512"
    unfolding demo_state_def by (rule length_token) simp
  then have valid: "validate_query callback_query ?query = Inr [(''code'', JStr ''code''), (''state'', JStr demo_state)]"
    by (simp add: validate_query_def callback_query_def bad_field_def str_between_def)
  have run: "complete_login demo_crypto demo_settings (postgres id) demo_oidc 10 (demo_inputs 2000 2)
      demo_state ''code'' (fst demo_started, ()) = (Inr red, (fst (snd demo_completed), ()))"
  proof -
    have "(fst demo_started, ()) = demo_started" "(fst (snd demo_completed), ()) = snd demo_completed"
      by (simp_all add: prod_eq_iff)
    then show ?thesis using red by (simp only: demo_completed_def [symmetric])
  qed
  have route: "callback_route demo_crypto demo_settings (postgres id) demo_oidc 10 (demo_inputs 2000 2) ?query
      (fst demo_started, ()) = (Inr \<lparr>status_code = 303, body = Redirect (red_redirect_uri red), cookies = []\<rparr>,
      (fst (snd demo_completed), ()))"
    by (simp add: callback_route_def valid checked_def str_field_def dict_get_def run attempt_def and_then_def reply_def)
  have rand: "length (in_random (demo_inputs 2000 2) 0) = 32" "length (in_random (demo_inputs 2000 2) 1) = 32"
    "length (in_random (demo_inputs 2000 2) 2) = 12" by (simp_all add: demo_inputs_def)
  have now: "in_now (demo_inputs 3000 9) 0 < in_now (demo_inputs 2000 2) 0 + seconds (as_login_grant_ttl_seconds demo_settings)"
    "in_now (demo_inputs 3000 9) 1 < in_now (demo_inputs 2000 2) 0 + seconds (as_session_ttl_seconds demo_settings)"
    "4000 < in_now (demo_inputs 2000 2) 0 + seconds (as_session_ttl_seconds demo_settings)"
    by (simp_all add: demo_inputs_def demo_settings_def seconds_def)
  have "0 < (10 :: nat)" by simp
  from login_over_http [OF demo_crypto_ok demo_key this demo_started_inv rand route now(1,2)]
  obtain grant token ses db2 ok where
    "exchange_route demo_crypto demo_settings (postgres id) 10 (demo_inputs 3000 9) (JObj [(''code'', JStr grant)])
      (fst (snd demo_completed)) = (Inr ok, db2)" "body ok = Login_Grant_Response token ses"
    and ses: "sr_expires_at ses = in_now (demo_inputs 2000 2) 0 + seconds (as_session_ttl_seconds demo_settings)"
      "\<forall>now < sr_expires_at ses. \<forall>cookie. session_route demo_crypto demo_settings (postgres id) now
         (bearer token cookie) db2 = (Inr (ok_response (Session_Body ses)), db2)"
    by blast
  moreover have "session_route demo_crypto demo_settings (postgres id) 4000 (bearer token []) db2 =
      (Inr (ok_response (Session_Body ses)), db2)"
    using ses(2) now(3) unfolding ses(1) by blast
  ultimately show ?thesis by blast
qed

end
