(* ===== verification/Http_Traces.thy ===== *)
theory Http_Traces
  imports Http_Properties
begin

text \<open>
  What a request does to the database, as the sequence of repository transactions it makes: which
  ones each route may make, what therefore holds whatever requests a process serves, and what
  stays true however the transactions of other requests come between.
\<close>

section \<open>Operations as sequences of transactions\<close>

text \<open>
  \<open>traced col P v m\<close>: what \<open>m\<close> does to the database \<open>v s\<close> is a run of repository calls that
  satisfy \<open>P\<close>.
\<close>

definition traced ::
    "(string \<Rightarrow> string) \<Rightarrow> (repo_call \<Rightarrow> bool) \<Rightarrow> ('s \<Rightarrow> auth_db) \<Rightarrow> ('s \<Rightarrow> 'x \<times> 's) \<Rightarrow> bool" where
  "traced col P v m \<longleftrightarrow>
     (\<forall>s. \<exists>es. repo_trace col (v s) es (v (snd (m s))) \<and> (\<forall>e \<in> set es. P (fst e)))"

named_theorems traced_rules "operations that are runs of repository calls"

lemma tracedI: "(\<And>s. \<exists>es. repo_trace col (v s) es (v (snd (m s))) \<and> (\<forall>e \<in> set es. P (fst e))) \<Longrightarrow> traced col P v m"
  by (simp add: traced_def)

lemma traced_same: "(\<And>s. v (snd (m s)) = v s) \<Longrightarrow> traced col P v m"
  by (intro tracedI exI [of _ "[]"]) (simp add: trace.nil)

lemma traced_sum:
  assumes "traced col P v m" "\<And>x. traced col P v (f x)"
    and "\<And>s. snd (n s) = (case m s of (Inl e, t) \<Rightarrow> t | (Inr x, t) \<Rightarrow> snd (f x t))"
  shows "traced col P v n"
proof (rule tracedI)
  fix s
  obtain r t where m: "m s = (r, t)" by (metis surj_pair)
  obtain es where es: "repo_trace col (v s) es (v t)" "\<forall>e \<in> set es. P (fst e)"
    using assms(1) m unfolding traced_def by (metis snd_conv)
  show "\<exists>es. repo_trace col (v s) es (v (snd (n s))) \<and> (\<forall>e \<in> set es. P (fst e))"
  proof (cases r)
    case (Inl e)
    then show ?thesis using es m assms(3) [of s] by auto
  next
    case (Inr x)
    obtain fs where fs: "repo_trace col (v t) fs (v (snd (f x t)))" "\<forall>e \<in> set fs. P (fst e)"
      using assms(2) [of x] unfolding traced_def by metis
    have "snd (n s) = snd (f x t)" using assms(3) [of s] m Inr by simp
    then show ?thesis using trace_append [OF fs(1) es(1)] es(2) fs(2) by (intro exI [of _ "es @ fs"]) auto
  qed
qed

lemma traced_bind [traced_rules]:
  "traced col P v m \<Longrightarrow> (\<And>x. traced col P v (f x)) \<Longrightarrow> traced col P v (bind m f)"
  by (erule traced_sum) (auto simp: bind_def split: prod.splits sum.splits)

lemma traced_and_then [traced_rules]:
  "traced col P v m \<Longrightarrow> (\<And>x. traced col P v (f x)) \<Longrightarrow> traced col P v (and_then m f)"
  by (erule traced_sum) (auto simp: and_then_def split: prod.splits sum.splits)

lemma traced_simple [traced_rules]:
  "traced col P v (ret x)" "traced col P v (raise e)" "traced col P v (lift r)"
  "traced col P v (reply y)" "traced col P v (stop f)"
  by (rule traced_same, simp add: ret_def raise_def lift_def reply_def stop_def)+

lemma traced_attempt [traced_rules]: "traced col P v m \<Longrightarrow> traced col P v (attempt h m)"
  by (erule traced_sum [where f = reply]) (auto simp: traced_simple attempt_def reply_def split: prod.splits sum.splits)

lemma traced_checked [traced_rules]: "(\<And>x. traced col P v (f x)) \<Longrightarrow> traced col P v (checked r f)"
  by (cases r) (simp_all add: checked_def traced_simple)

lemma traced_cases [traced_rules]:
  "traced col P v m \<Longrightarrow> traced col P v n \<Longrightarrow> traced col P v (if b then m else n)"
  "traced col P v m \<Longrightarrow> (\<And>x. traced col P v (g x)) \<Longrightarrow> traced col P v (case o' of None \<Rightarrow> m | Some x \<Rightarrow> g x)"
  by (auto split: option.splits)

lemma traced_on_oidc [traced_rules]: "traced col P fst (on_oidc m)"
  by (rule traced_same) (simp add: on_oidc_def split: prod.splits)

lemma traced_fst:
  assumes "traced col P (\<lambda>d. d) m" "\<And>s. fst (snd (n s)) = snd (m (fst s))"
  shows "traced col P fst n"
  using assms unfolding traced_def by auto

lemma traced_on_repo [traced_rules]: "traced col P (\<lambda>d. d) m \<Longrightarrow> traced col P fst (on_repo m)"
  by (erule traced_fst) (auto simp: on_repo_def split: prod.splits)

lemma traced_on_repository [traced_rules]: "traced col P (\<lambda>d. d) m \<Longrightarrow> traced col P fst (on_repository m)"
  by (erule traced_fst) (auto simp: on_repository_def split: prod.splits)

text \<open>Each operation of the repository is one call.\<close>

lemma traced_call:
  assumes "P c" "\<And>db. repo_do col c db = outcome f (m db)"
  shows "traced col P (\<lambda>d. d) m"
proof (rule tracedI)
  fix db
  obtain r db' where m: "m db = (r, db')" by (metis surj_pair)
  obtain x where "repo_do col c db = (x, db')" using assms(2) m by (auto simp: outcome_def)
  then have "repo_step col db (c, x) db'" by (simp add: repo_step_def)
  then show "\<exists>es. repo_trace col db es (snd (m db)) \<and> (\<forall>e \<in> set es. P (fst e))"
    using assms(1) m by (intro exI [of _ "[(c, x)]"]) (simp add: trace_single)
qed

lemma traced_postgres [traced_rules]:
  "P (Put_Flow env fp p u e) \<Longrightarrow> traced col P (\<lambda>d. d) (rp_put_flow (postgres col) env fp p u e)"
  "P (Consume_Flow fp now) \<Longrightarrow> traced col P (\<lambda>d. d) (rp_consume_flow (postgres col) fp now)"
  "P (Put_Grant env fp p e) \<Longrightarrow> traced col P (\<lambda>d. d) (rp_put_login_grant (postgres col) env fp p e)"
  "P (Consume_Grant fp now) \<Longrightarrow> traced col P (\<lambda>d. d) (rp_consume_login_grant (postgres col) fp now)"
  "P (Provision env i) \<Longrightarrow> traced col P (\<lambda>d. d) (rp_provision_identity (postgres col) env i)"
  "P (Register env uid fp pl now) \<Longrightarrow> traced col P (\<lambda>d. d) (rp_register_device (postgres col) env uid fp pl now)"
  "P (Create_Session env uid did fp e) \<Longrightarrow> traced col P (\<lambda>d. d) (rp_create_session (postgres col) env uid did fp e)"
  "P (Resolve fp now) \<Longrightarrow> traced col P (\<lambda>d. d) (rp_resolve_session (postgres col) fp now)"
  "P (Revoke_Session env sid now) \<Longrightarrow> traced col P (\<lambda>d. d) (rp_revoke_session (postgres col) env sid now)"
  "P (List_Devices uid) \<Longrightarrow> traced col P (\<lambda>d. d) (rp_list_devices (postgres col) uid)"
  "P (Revoke_Device uid did now) \<Longrightarrow> traced col P (\<lambda>d. d) (rp_revoke_device (postgres col) uid did now)"
  "P (Put_Ticket env fp sid c e) \<Longrightarrow> traced col P (\<lambda>d. d) (rp_put_ws_ticket (postgres col) env fp sid c e)"
  "P (Consume_Ticket fp c now) \<Longrightarrow> traced col P (\<lambda>d. d) (rp_consume_ws_ticket (postgres col) fp c now)"
  by (erule traced_call, simp add: postgres_def)+

section \<open>The transactions of each route\<close>

definition may_call :: "request \<Rightarrow> repo_call \<Rightarrow> bool" where
  "may_call q c \<longleftrightarrow>
     (case q of
        Start_Login_Request I v \<Rightarrow> (case c of Put_Flow env fp p u e \<Rightarrow> True | _ \<Rightarrow> False)
      | Callback_Request limit I query \<Rightarrow>
          (case c of
             Consume_Flow fp now \<Rightarrow> True | Provision env i \<Rightarrow> True | Register env uid fp p now \<Rightarrow> True
           | Create_Session env uid did fp e \<Rightarrow> True | Resolve fp now \<Rightarrow> True | Put_Grant env fp p e \<Rightarrow> True
           | _ \<Rightarrow> False)
      | Exchange_Request limit I v \<Rightarrow>
          (case c of Consume_Grant fp now \<Rightarrow> True | Resolve fp now \<Rightarrow> True | _ \<Rightarrow> False)
      | Session_Request now cr \<Rightarrow> (case c of Resolve fp now \<Rightarrow> True | _ \<Rightarrow> False)
      | Logout_Request now env t cr \<Rightarrow>
          (case c of Resolve fp now \<Rightarrow> True | Revoke_Session env sid now \<Rightarrow> True | _ \<Rightarrow> False)
      | Devices_Request now cr \<Rightarrow>
          (case c of Resolve fp now \<Rightarrow> True | List_Devices uid \<Rightarrow> True | _ \<Rightarrow> False)
      | Revoke_Device_Request now t cr i \<Rightarrow>
          (case c of Resolve fp now \<Rightarrow> True | Revoke_Device uid did now \<Rightarrow> True | _ \<Rightarrow> False)
      | Ws_Ticket_Request now I cr v \<Rightarrow>
          (case c of Resolve fp now \<Rightarrow> True | Put_Ticket env fp sid ch e \<Rightarrow> True | _ \<Rightarrow> False)
      | _ \<Rightarrow> False)"

lemma authenticate_traced [traced_rules]:
  "(\<And>fp. P (Resolve fp now)) \<Longrightarrow> traced col P (\<lambda>d. d) (authenticate C S (postgres col) now token)"
  unfolding authenticate_def by (intro traced_rules)

lemma current_principal_traced [traced_rules]:
  "(\<And>fp. P (Resolve fp now)) \<Longrightarrow> traced col P (\<lambda>d. d) (current_principal C S (postgres col) now cr)"
  unfolding current_principal_def by (intro traced_rules)

lemma start_login_traced [traced_rules]:
  "(\<And>env fp p u e. P (Put_Flow env fp p u e)) \<Longrightarrow> traced col P fst (start_login C S (postgres col) Q I device_key platform)"
  unfolding start_login_def Let_def by (intro traced_rules)

lemma grant_session_traced [traced_rules]:
  assumes "\<And>env i. P (Provision env i)" "\<And>env uid fp pl now. P (Register env uid fp pl now)"
    "\<And>env uid did fp e. P (Create_Session env uid did fp e)" "\<And>fp now. P (Resolve fp now)"
    "\<And>env fp p e. P (Put_Grant env fp p e)"
  shows "traced col P fst (grant_session C S (postgres col) I payload ident)"
  unfolding grant_session_def by (intro traced_rules assms)

lemma complete_login_traced [traced_rules]:
  assumes "\<And>fp now. P (Consume_Flow fp now)" "\<And>env i. P (Provision env i)"
    "\<And>env uid fp pl now. P (Register env uid fp pl now)" "\<And>env uid did fp e. P (Create_Session env uid did fp e)"
    "\<And>fp now. P (Resolve fp now)" "\<And>env fp p e. P (Put_Grant env fp p e)"
  shows "traced col P fst (complete_login C S (postgres col) Q limit I state c)"
  unfolding complete_login_def login_from_flow_def by (intro traced_rules assms)

lemma exchange_traced [traced_rules]:
  assumes "\<And>fp now. P (Consume_Grant fp now)" "\<And>fp now. P (Resolve fp now)"
  shows "traced col P (\<lambda>d. d) (exchange_login_grant C S (postgres col) limit I c)"
  unfolding exchange_login_grant_def session_from_grant_def by (intro traced_rules assms)

lemma service_traced [traced_rules]:
  "P (Revoke_Session env (pri_session_id p) t) \<Longrightarrow> traced col P (\<lambda>d. d) (logout (postgres col) env t p)"
  "P (List_Devices (pri_user_id p)) \<Longrightarrow> traced col P (\<lambda>d. d) (devices (postgres col) p)"
  "P (Revoke_Device (pri_user_id p) i t) \<Longrightarrow> traced col P (\<lambda>d. d) (service_revoke_device (postgres col) t p i)"
  "(\<And>env fp e. P (Put_Ticket env fp (pri_session_id p) channel e)) \<Longrightarrow>
     traced col P (\<lambda>d. d) (issue_ws_ticket C S (postgres col) I p channel)"
  unfolding logout_def devices_def service_revoke_device_def issue_ws_ticket_def by (intro traced_rules; assumption)+

lemma ready_traced [traced_rules]: "traced col P v (ready probe)"
  unfolding ready_def by (intro traced_rules)

lemmas route_defs = start_login_route_def callback_route_def exchange_route_def session_route_def
  logout_route_def devices_route_def revoke_device_route_def ws_ticket_route_def

lemma route_traced: "traced col (may_call q) fst (run_route C S (postgres col) Q q)"
  by (cases q; simp only: run_route.simps route_defs; intro traced_rules; simp add: may_call_def)

section \<open>A process and its requests\<close>

lemma application_traced:
  assumes "application C S (postgres col) Q q D cid s = (r, t)"
  shows "\<exists>es. repo_trace col (fst (fst s)) es (fst (fst t)) \<and> (\<forall>e \<in> set es. may_call q (fst e))"
proof -
  have "fst t = snd (run_route C S (postgres col) Q q (fst s))"
    using assms by (auto simp: application_def split: prod.splits sum.splits option.splits)
  then show ?thesis using route_traced [of col q C S Q] unfolding traced_def by metis
qed

lemma received_calls: "may_call (received_request S chunks q) c \<Longrightarrow> may_call q c"
  by (auto simp: received_request_def may_call_def split: if_splits)

lemma serve_traced:
  assumes "serve C S (postgres col) Q D1 D2 D3 h route late chunks q s = (a, t)"
  shows "\<exists>es. repo_trace col (fst (fst s)) es (fst (fst t)) \<and> (\<forall>e \<in> set es. may_call q (fst e))"
  using assms
proof (cases rule: serve_cases)
  case (1 cid u1 r w u2)
  show ?thesis
  proof (cases "length_check (as_runtime S) (hd_content_length h)")
    case (Some early)
    then show ?thesis using 1(4,8) by (intro exI [of _ "[]"]) (simp add: trace.nil)
  next
    case None
    then obtain r' where "call_application C S (postgres col) Q D2 chunks q cid (fst s, u1) = (r', w)"
      using 1(8) by (auto elim: within_timeout_cases)
    then obtain x where "application C S (postgres col) Q (received_request S chunks q) D2 cid (fst s, u1) = (x, w)"
      by (cases rule: call_application_cases) auto
    from application_traced [OF this] show ?thesis using 1(4) received_calls by fastforce
  qed
qed

text \<open>
  What arrives at the process: the draws it is served with, its head, route, body and request, and whether
  its answer is late.
\<close>

record arrival =
  ar_draws :: "draws \<times> draws \<times> draws"
  ar_head :: http_head
  ar_route :: "string option"
  ar_late :: bool
  ar_chunks :: "string list"
  ar_request :: request

definition serve_arrival ::
    "crypto \<Rightarrow> auth_settings \<Rightarrow> 'd repo_ops \<Rightarrow> 'c oidc_ops \<Rightarrow> arrival \<Rightarrow>
     ('d \<times> 'c) \<times> uuid7_state \<Rightarrow> answer \<times> (('d \<times> 'c) \<times> uuid7_state)" where
  "serve_arrival C S R Q x =
     (case ar_draws x of (D1, D2, D3) \<Rightarrow>
        serve C S R Q D1 D2 D3 (ar_head x) (ar_route x) (ar_late x) (ar_chunks x) (ar_request x))"

fun serve_all ::
    "crypto \<Rightarrow> auth_settings \<Rightarrow> 'd repo_ops \<Rightarrow> 'c oidc_ops \<Rightarrow> arrival list \<Rightarrow>
     ('d \<times> 'c) \<times> uuid7_state \<Rightarrow> answer list \<times> (('d \<times> 'c) \<times> uuid7_state)" where
  "serve_all C S R Q [] s = ([], s)"
| "serve_all C S R Q (x # xs) s =
     (let (a, t) = serve_arrival C S R Q x s; (as, u) = serve_all C S R Q xs t in (a # as, u))"

definition arrival_ok :: "arrival \<Rightarrow> bool" where
  "arrival_ok x \<longleftrightarrow> draws_ok (fst (ar_draws x)) \<and> draws_ok (fst (snd (ar_draws x))) \<and> draws_ok (snd (snd (ar_draws x)))"

definition answers :: "arrival \<Rightarrow> answer \<Rightarrow> bool" where
  "answers x a \<longleftrightarrow> is_uuid7 (an_request_id a) \<and>
     (is_uuid7 (hd_request_id (ar_head x)) \<longrightarrow> an_request_id a = hd_request_id (ar_head x)) \<and>
     proper_answer (ar_request x) (an_request_id a) (an_response a)"

lemma serve_all_ok:
  assumes "serve_all C S (postgres col) Q xs s = (as, t)" "\<forall>x \<in> set xs. arrival_ok x"
    and "db_inv (fst (fst s))" "state_ok (snd s)"
  shows "db_inv (fst (fst t)) \<and> state_ok (snd t) \<and> list_all2 answers xs as \<and>
    (\<exists>es. repo_trace col (fst (fst s)) es (fst (fst t)) \<and>
       (\<forall>e \<in> set es. \<exists>x \<in> set xs. may_call (ar_request x) (fst e)))"
  using assms
proof (induction xs arbitrary: s as)
  case Nil
  then show ?case by (auto intro!: exI [of _ "[]"] trace.nil)
next
  case (Cons x xs)
  obtain a s1 where a: "serve_arrival C S (postgres col) Q x s = (a, s1)" by (metis surj_pair)
  obtain bs where bs: "serve_all C S (postgres col) Q xs s1 = (bs, t)" "as = a # bs"
    using Cons.prems(1) a by (auto split: prod.splits)
  obtain D1 D2 D3 where d: "ar_draws x = (D1, D2, D3)" by (metis surj_pair)
  have served: "serve C S (postgres col) Q D1 D2 D3 (ar_head x) (ar_route x) (ar_late x) (ar_chunks x) (ar_request x) s = (a, s1)"
    using a d by (simp add: serve_arrival_def)
  have ok: "draws_ok D1" "draws_ok D2" "draws_ok D3" using Cons.prems(2) d by (simp_all add: arrival_ok_def)
  have first: "answers x a" "state_ok (snd s1)"
    using serve_answers [OF Cons.prems(4) ok served] unfolding answers_def by blast+
  obtain es where es: "repo_trace col (fst (fst s)) es (fst (fst s1))" "\<forall>e \<in> set es. may_call (ar_request x) (fst e)"
    using serve_traced [OF served] by blast
  have inv: "db_inv (fst (fst s1))" using repo_trace_inv [OF es(1) Cons.prems(3)] .
  have "\<forall>x \<in> set xs. arrival_ok x" using Cons.prems(2) by simp
  from Cons.IH [OF bs(1) this inv first(2)] obtain fs where
    rest: "db_inv (fst (fst t))" "state_ok (snd t)" "list_all2 answers xs bs"
    "repo_trace col (fst (fst s1)) fs (fst (fst t))" "\<forall>e \<in> set fs. \<exists>x \<in> set xs. may_call (ar_request x) (fst e)"
    by blast
  have "\<forall>e \<in> set (es @ fs). \<exists>y \<in> set (x # xs). may_call (ar_request y) (fst e)" using es(2) rest(5) by auto
  with trace_append [OF rest(4) es(1)] show ?case using rest(1-3) first(1) by (auto simp: bs(2) intro!: exI [of _ "es @ fs"])
qed

text \<open>C37: Whatever requests a process serves, it answers each of them properly, what it does to the database
  is a run of the transactions those requests may make, and the constraints of the database and the
  identifier generator's state are kept.\<close>

theorem served_requests_keep_the_database:
  assumes "serve_all C S (postgres col) Q xs s = (as, t)" "\<forall>x \<in> set xs. arrival_ok x"
    and "db_inv (fst (fst s))" "state_ok (snd s)"
  shows "db_inv (fst (fst t)) \<and> state_ok (snd t) \<and> list_all2 answers xs as \<and>
    (\<exists>es. repo_trace col (fst (fst s)) es (fst (fst t)) \<and>
       (\<forall>e \<in> set es. \<exists>x \<in> set xs. may_call (ar_request x) (fst e)))"
  using assms by (rule serve_all_ok)

definition demo_arrival :: "request \<Rightarrow> arrival" where
  "demo_arrival q = \<lparr>ar_draws = (demo_draws, demo_draws, demo_draws),
     ar_head = \<lparr>hd_method = ''POST'', hd_request_id = [], hd_content_length = None, hd_origin = []\<rparr>,
     ar_route = None, ar_late = False, ar_chunks = [], ar_request = q\<rparr>"

lemma demo_arrival_ok: "arrival_ok (demo_arrival q)"
  by (simp add: arrival_ok_def demo_arrival_def demo_draws_ok)

theorem served_requests_keep_the_database_witness:
  "db_inv (fst (fst (snd (serve_all demo_crypto demo_settings (postgres id) demo_oidc
     [demo_arrival (Exchange_Request 10 (demo_inputs 3000 9) (JObj [(''code'', JStr ''x'')])), demo_arrival (Not_Routed 404)]
     ((demo_db, ()), uuid7_init)))))"
proof -
  have "\<forall>x \<in> set [demo_arrival (Exchange_Request 10 (demo_inputs 3000 9) (JObj [(''code'', JStr ''x'')])),
      demo_arrival (Not_Routed 404)]. arrival_ok x" by (simp add: demo_arrival_ok)
  moreover have "db_inv (fst (fst ((demo_db, ()), uuid7_init)))" "state_ok (snd ((demo_db, ()), uuid7_init))"
    by (simp_all add: demo_inv state_ok_init)
  ultimately show ?thesis
    using served_requests_keep_the_database [OF prod.collapse [symmetric]] by blast
qed

section \<open>After a logout\<close>

lemma revoked_resolves_nothing:
  assumes "db_inv db" "token_revoked fp db"
  shows "resolves_view col db fp now = None"
proof (rule ccontr)
  assume "resolves_view col db fp now \<noteq> None"
  then obtain s where "s \<in> set (db_sessions db)" "s_token_fingerprint s = fp" "s_revoked_at s = None"
    using resolves_view_Some [OF assms(1)] by (auto simp: live_session_def)
  then show False using same_fingerprint [OF assms(1)] assms(2) by (force simp: token_revoked_def)
qed

lemma logout_revokes:
  assumes "32 \<le> length (as_hmac_key S)" "db_inv db"
    and "logout_route C S (postgres col) now env t cr db = (Inr r, db1)" "request_token S cr = Some token"
  shows "db_inv db1 \<and> token_revoked (token_fp C S token) db1"
proof -
  obtain p where p: "authenticate C S (postgres col) now token db = (Inr p, db)"
      "revoke_session env (pri_session_id p) t db = (Inr (), db1)"
    using assms(3,4) postgres.authenticate_eq [OF assms(1,2), of C col now token]
    by (auto simp: logout_route_def route_Inr attempt_Inr current_principal_def logout_def postgres_def
        split: if_splits option.splits)
  then have "resolves_view col db (token_fp C S token) now = Some p"
    using postgres.authenticate_eq [OF assms(1,2), of C col now token] by (auto split: if_splits option.splits)
  then obtain s where s: "s \<in> set (db_sessions db)" "s_token_fingerprint s = token_fp C S token"
      "s_id s = pri_session_id p" "s_revoked_at s = None"
    unfolding resolves_view_Some [OF assms(2)] by (auto simp: live_session_def make_principal_def)
  from assms(2) p(2) have "s\<lparr>s_revoked_at := Some t\<rparr> \<in> set (db_sessions db1)"
  proof (cases rule: revoke_session_ok)
    case absent
    then show ?thesis using s by auto
  next
    case (revoked r ev)
    then show ?thesis using s by (auto simp: set_update_where intro!: image_eqI [of _ _ s])
  qed
  then have "token_revoked (token_fp C S token) db1"
    using s(2) unfolding token_revoked_def by (intro bexI [of _ "s\<lparr>s_revoked_at := Some t\<rparr>"]) simp_all
  then show ?thesis using inv_revoke_session [OF assms(2) p(2)] by blast
qed

text \<open>C38: Once a logout has been answered, every route that needs a principal refuses its token with 401
  for good, whatever transactions of other requests and processes come between.\<close>

theorem logged_out_for_good:
  assumes "32 \<le> length (as_hmac_key S)" "db_inv db"
    and "run_route C S (postgres col) Q (Logout_Request now env t cr) (db, c) = (Inr r, (db1, c1))"
    and "request_token S cr = Some token" "repo_trace col db1 es db2"
    and "authenticated q = Some (later, cr')" "request_token S cr' = Some token"
  shows "\<exists>ecode message. run_route C S (postgres col) Q q (db2, c2) =
    (Inl (Api_Error 401 ecode message False), (db2, c2))"
proof -
  obtain x where "logout_route C S (postgres col) now env t cr db = (Inr x, db1)"
    using assms(3) by (auto simp: route_Inr)
  from logout_revokes [OF assms(1,2) this assms(4)] have db2: "db_inv db2" "token_revoked (token_fp C S token) db2"
    using token_revoked_trace [OF assms(5)] by blast+
  then have "\<not> live_request C S col db2 later cr'"
    using assms(7) by (simp add: live_request_def revoked_resolves_nothing)
  from principal_required [OF assms(1) db2(1) assms(6) this] show ?thesis .
qed

theorem logged_out_for_good_witness:
  "\<exists>r db1 ecode message. run_route demo_crypto demo_settings (postgres id) demo_oidc
      (Logout_Request 5 (demo_env 70) 6 (bearer ''token'' [])) (Service_Properties.demo_session, ()) = (Inr r, (db1, ())) \<and>
    run_route demo_crypto demo_settings (postgres id) demo_oidc (Session_Request 7 (bearer ''token'' [])) (db1, ()) =
      (Inl (Api_Error 401 ecode message False), (db1, ()))"
proof -
  obtain p where p: "authenticate demo_crypto demo_settings (postgres id) 5 ''token'' Service_Properties.demo_session =
      (Inr p, Service_Properties.demo_session)" "pri_session_id p = 60" using demo_authenticates by blast
  have "fst (revoke_session (demo_env 70) 60 6 Service_Properties.demo_session) = Inr ()"
    unfolding demo_session_defs by code_simp
  then obtain db1 where "logout (postgres id) (demo_env 70) 6 p Service_Properties.demo_session = (Inr (), db1)"
    using p(2) by (cases "revoke_session (demo_env 70) 60 6 Service_Properties.demo_session") (simp add: logout_def postgres_def)
  then have out: "run_route demo_crypto demo_settings (postgres id) demo_oidc
      (Logout_Request 5 (demo_env 70) 6 (bearer ''token'' [])) (Service_Properties.demo_session, ()) =
      (Inr (Some \<lparr>status_code = 204, body = No_Content,
        cookies = (if as_web_cookie_mode demo_settings then [Delete_Cookie COOKIE_NAME] else [])\<rparr>), (db1, ()))"
    using p by (simp add: logout_route_def current_principal_def attempt_def and_then_def reply_def on_repository_def)
  from logged_out_for_good [OF demo_key demo_session_inv out request_token_simps(1) trace.nil,
      of "Session_Request 7 (bearer ''token'' [])" 7 "bearer ''token'' []"]
  show ?thesis using out by auto
qed

section \<open>After an exchange\<close>

definition grant_spent :: "string \<Rightarrow> time \<Rightarrow> auth_db \<Rightarrow> bool" where
  "grant_spent fp now db \<longleftrightarrow> (\<forall>r \<in> set (db_grants db). g_code_fingerprint r = fp \<longrightarrow> g_expires_at r \<le> now)"

lemma grant_spent_step:
  assumes step: "repo_step col db e db'" and inv: "db_inv db" and put: "\<not> grant_put fp e" and spent: "grant_spent fp now db"
  shows "grant_spent fp now db'"
proof (cases "grant_call (fst e)")
  case False
  then show ?thesis using repo_step_framed [OF step inv] spent by (simp add: framed_def grant_spent_def)
next
  case True
  then consider env f p x where "fst e = Put_Grant env f p x" | f t where "fst e = Consume_Grant f t"
    by (cases "fst e") auto
  then show ?thesis
  proof cases
    case 1
    then obtain r where e: "e = (Put_Grant env f p x, r)" by (cases e) auto
    from step e consider "db' = db" | "put_login_grant env f p x db = (Inr (), db')" "r = Done"
      by (auto simp: repo_step_def outcome_eq dest: method_error)
    then show ?thesis
    proof cases
      case 2
      from put_login_grant_ok [OF 2(1)] show ?thesis
        using put spent by (auto simp: e 2(2) grant_spent_def)
    qed (use spent in simp)
  next
    case 2
    then have "set (db_grants db') \<subseteq> set (db_grants db)"
      using step by (cases e) (auto simp: repo_step_def outcome_eq consume_login_grant_eq [OF inv])
    then show ?thesis using spent by (auto simp: grant_spent_def)
  qed
qed

lemma grant_spent_trace:
  assumes "repo_trace col db es db'" "db_inv db" "grant_spent fp now db" "\<forall>e \<in> set es. \<not> grant_put fp e"
  shows "db_inv db' \<and> grant_spent fp now db'"
  using assms
proof (induction rule: trace.induct)
  case (snoc s es t e u)
  then show ?case using repo_step_inv grant_spent_step by simp
qed simp

lemma exchange_spends:
  assumes "32 \<le> length (as_hmac_key S)" "db_inv db" "c \<noteq> []"
    and "exchange_login_grant C S (postgres col) limit I c db = (r, db1)"
  shows "db_inv db1 \<and> grant_spent (token_fp C S c) (in_now I 0) db1"
proof -
  let ?db = "db\<lparr>db_grants := filter (\<lambda>r. \<not> grant_matches (token_fp C S c) (in_now I 0) r) (db_grants db)\<rparr>"
  have consumed: "rp_consume_login_grant (postgres col) (token_fp C S c) (in_now I 0) db =
      (Inr (map_option g_encrypted_payload (List.find (grant_matches (token_fp C S c) (in_now I 0)) (db_grants db))), ?db)"
    by (simp add: postgres_def consume_login_grant_eq [OF assms(2)])
  then have inv: "db_inv ?db" using inv_consume_login_grant [OF assms(2)] by (simp add: postgres_def)
  have "snd (session_from_grant C S (postgres col) limit I x ?db) = ?db" for x
    using postgres.authenticate_eq [OF assms(1) inv, of C col "in_now I 1"]
    by (auto simp: session_from_grant_def bind_def lift_def ret_def split: prod.splits sum.splits option.splits)
  then have "db1 = ?db"
    using assms(3,4) consumed
    by (auto simp: exchange_login_grant_def fingerprint_ok [OF assms(1)] token_fp_def [symmetric]
        bind_def [of "rp_consume_login_grant _ _ _"] raise_def split: option.splits) (metis snd_conv)
  then show ?thesis using inv by (auto simp: grant_spent_def grant_matches_def)
qed

lemma exchange_refused:
  assumes "32 \<le> length (as_hmac_key S)" "db_inv db" "c \<noteq> []" "grant_spent (token_fp C S c) now db" "now \<le> in_now J 0"
  shows "\<exists>db1. exchange_login_grant C S (postgres col) limit J c db =
    (Inl (AuthenticationError ''login grant is invalid or expired''), db1)"
proof -
  have "List.find (grant_matches (token_fp C S c) (in_now J 0)) (db_grants db) = None"
    using assms(4,5) by (force simp: find_None_all grant_matches_def grant_spent_def)
  then show ?thesis
    using assms(3) by (simp add: exchange_login_grant_def fingerprint_ok [OF assms(1)] token_fp_def [symmetric]
        bind_def postgres_def consume_login_grant_eq [OF assms(2)] raise_def)
qed

text \<open>C39: A code the exchange route has answered is refused by it for good, whatever transactions come
  between that do not store a grant under the same fingerprint.\<close>

theorem code_exchanged_once:
  assumes "32 \<le> length (as_hmac_key S)" "db_inv db"
    and "exchange_route C S (postgres col) limit I (JObj [(''code'', JStr grant)]) db = (Inr r, db1)"
    and "repo_trace col db1 es db2" "\<forall>e \<in> set es. \<not> grant_put (token_fp C S grant) e" "in_now I 0 \<le> in_now J 0"
  shows "\<exists>db3. exchange_route C S (postgres col) limit J (JObj [(''code'', JStr grant)]) db2 =
    (Inl (Api_Error 401 ''LOGIN_GRANT_INVALID'' ''Login grant is invalid or expired'' False), db3)"
proof -
  obtain d where d: "validate_body LoginGrantExchange (JObj [(''code'', JStr grant)]) = Inr d"
    using assms(3) by (auto simp: exchange_route_def route_Inr)
  then have len: "32 \<le> length grant" and d': "d = [(''code'', JStr grant)]"
    by (auto simp: validate_body_def LoginGrantExchange_def bad_field_def extra_field_def str_between_def split: if_splits)
  then have ne: "grant \<noteq> []" "str_field d ''code'' = grant" by (auto simp: str_field_def dict_get_def)
  obtain g where "exchange_login_grant C S (postgres col) limit I grant db = (Inr g, db1)"
    using assms(3) \<open>validate_body _ _ = Inr d\<close> ne(2) by (auto simp: exchange_route_def route_Inr attempt_Inr)
  from exchange_spends [OF assms(1,2) ne(1) this]
  have "db_inv db2 \<and> grant_spent (token_fp C S grant) (in_now I 0) db2"
    using grant_spent_trace [OF assms(4) _ _ assms(5)] by blast
  then obtain db3 where "exchange_login_grant C S (postgres col) limit J grant db2 =
      (Inl (AuthenticationError ''login grant is invalid or expired''), db3)"
    using exchange_refused [OF assms(1) _ ne(1) _ assms(6)] by blast
  then show ?thesis
    using \<open>validate_body _ _ = Inr d\<close> ne(2)
    by (simp add: exchange_route_def checked_def attempt_def and_then_def)
qed

theorem code_exchanged_once_witness:
  "\<exists>r db1 db3. exchange_route demo_crypto demo_settings (postgres id) 10 (demo_inputs 3000 9)
      (JObj [(''code'', JStr (token_urlsafe (replicate 32 CHR ''B'')))]) (fst (snd demo_completed)) = (Inr r, db1) \<and>
    exchange_route demo_crypto demo_settings (postgres id) 10 (demo_inputs 3001 9)
      (JObj [(''code'', JStr (token_urlsafe (replicate 32 CHR ''B'')))]) db1 =
      (Inl (Api_Error 401 ''LOGIN_GRANT_INVALID'' ''Login grant is invalid or expired'' False), db3)"
proof -
  let ?c = "token_urlsafe (replicate 32 CHR ''B'')"
  obtain token p db1 where "exchange_login_grant demo_crypto demo_settings (postgres id) 10 (demo_inputs 3000 9) ?c
      (fst (snd demo_completed)) = (Inr \<lparr>gra_token = token, gra_principal = p\<rparr>, db1)"
    using completed_login_authenticates_witness by blast
  moreover have "32 \<le> length ?c \<and> length ?c \<le> 512" by (rule length_token) simp
  ultimately obtain r where first: "exchange_route demo_crypto demo_settings (postgres id) 10 (demo_inputs 3000 9)
      (JObj [(''code'', JStr ?c)]) (fst (snd demo_completed)) = (Inr r, db1)"
    by (simp add: exchange_route_def valid_exchange checked_def str_field_def dict_get_def attempt_def
        and_then_def reply_def)
  have inv: "db_inv (fst (snd demo_completed))" unfolding demo_defs by code_simp
  have "in_now (demo_inputs 3000 9) 0 \<le> in_now (demo_inputs 3001 9) 0" by (simp add: demo_inputs_def)
  from code_exchanged_once [OF demo_key inv first trace.nil _ this] first show ?thesis by auto
qed

end
