(* ===== verification/Logging.thy ===== *)
theory Logging
  imports PyJson IsoTime "HOL-Library.AList"
begin

text \<open>
  \<open>pentagon5_runtime/logging.py\<close>: the payload of a log record, in which named details and the secrets
  of the message are redacted.  Text is ASCII, as in \<open>PyStr\<close>.
\<close>

section \<open>Details\<close>

text \<open>Python values, with those of other types in \<open>V_Other\<close>; a value holds itself nowhere.\<close>

datatype 'o py_value =
    V_None
  | V_Bool bool
  | V_Int int
  | V_Float pyfloat
  | V_Str string
  | V_List "'o py_value list"
  | V_Tuple "'o py_value list"
  | V_Dict "('o py_value \<times> 'o py_value) list"
  | V_Other 'o

definition REDACTED_KEYS :: "string list" where
  "REDACTED_KEYS = [''authorization'', ''cookie'', ''id_token'', ''password'', ''refresh_token'',
     ''secret'', ''session'', ''token'']"

definition sensitive :: "string \<Rightarrow> bool" where
  "sensitive key \<longleftrightarrow> list_ex (\<lambda>fragment. sublist fragment (lower key)) REDACTED_KEYS"

text \<open>\<open>str(key)\<close>, given that of the values that are not a \<open>str\<close>.\<close>

definition key_text :: "('o py_value \<Rightarrow> string) \<Rightarrow> 'o py_value \<Rightarrow> string" where
  "key_text str k = (case k of V_Str s \<Rightarrow> s | _ \<Rightarrow> str k)"

text \<open>\<open>_safe\<close> of a value whose key is not sensitive, of the items of a dict, and of those of a list.\<close>

fun safe_value :: "('o py_value \<Rightarrow> string) \<Rightarrow> 'o py_value \<Rightarrow> json"
  and safe_items :: "('o py_value \<Rightarrow> string) \<Rightarrow> ('o py_value \<times> 'o py_value) list \<Rightarrow> (string \<times> json) list \<Rightarrow>
    (string \<times> json) list"
  and safe_list :: "('o py_value \<Rightarrow> string) \<Rightarrow> 'o py_value list \<Rightarrow> json list" where
  "safe_value str (V_Dict d) = JObj (safe_items str d [])"
| "safe_value str (V_List vs) = JArr (safe_list str vs)"
| "safe_value str (V_Tuple vs) = JArr (safe_list str vs)"
| "safe_value str (V_Str s) = JStr s"
| "safe_value str (V_Int n) = JInt n"
| "safe_value str (V_Float x) = JFloat x"
| "safe_value str (V_Bool b) = JBool b"
| "safe_value str V_None = JNull"
| "safe_value str (V_Other x) = JStr (str (V_Other x))"
| "safe_items str [] acc = acc"
| "safe_items str ((k, v) # d) acc =
     (let key = key_text str k in
      safe_items str d (AList.update key
        (if sensitive key then JStr ''[REDACTED]'' else safe_value str v) acc))"
| "safe_list str [] = []"
| "safe_list str (v # vs) = safe_value str v # safe_list str vs"

definition safe :: "('o py_value \<Rightarrow> string) \<Rightarrow> 'o py_value \<Rightarrow> string \<Rightarrow> json" where
  "safe str v key = (if sensitive key then JStr ''[REDACTED]'' else safe_value str v)"

section \<open>Messages\<close>

definition is_alnum :: "char \<Rightarrow> bool" where
  "is_alnum c \<longleftrightarrow> (48 \<le> code c \<and> code c \<le> 57) \<or> (65 \<le> code c \<and> code c \<le> 90) \<or> (97 \<le> code c \<and> code c \<le> 122)"

definition word_char :: "char \<Rightarrow> bool" where
  "word_char c \<longleftrightarrow> is_alnum c \<or> c = CHR ''_''"

definition token_char :: "char \<Rightarrow> bool" where
  "token_char c \<longleftrightarrow> is_alnum c \<or> c \<in> set ''._~+/-=''"

definition value_char :: "char \<Rightarrow> bool" where
  "value_char c \<longleftrightarrow> c \<noteq> CHR ''&'' \<and> \<not> py_isspace c"

text \<open>
  What one of the two patterns matches at the start of a text, and its replacement.  The classes of
  neighbouring repetitions are disjoint, so that each takes all it can.
\<close>

type_synonym pattern = "string \<Rightarrow> (nat \<times> string) option"

definition bearer_pattern :: pattern where
  "bearer_pattern s =
     (let spaces = takeWhile py_isspace (drop 6 s);
          credentials = takeWhile token_char (drop (6 + length spaces) s)
      in if lower (take 6 s) = ''bearer'' \<and> spaces \<noteq> [] \<and> credentials \<noteq> []
         then Some (6 + length spaces + length credentials, ''Bearer [REDACTED]'') else None)"

definition SECRET_NAMES :: "string list" where
  "SECRET_NAMES = [''token'', ''secret'', ''password'', ''authorization'', ''cookie'']"

definition secret_pattern :: pattern where
  "secret_pattern s =
     (case List.find (\<lambda>n. lower (take (length n) s) = n \<and> take 1 (drop (length n) s) = ''='') SECRET_NAMES of
        None \<Rightarrow> None
      | Some n \<Rightarrow>
          let secret = takeWhile value_char (drop (length n + 1) s)
          in if secret = [] then None
             else Some (length n + 1 + length secret, take (length n) s @ ''=[REDACTED]''))"

text \<open>
  \<open>pattern.sub\<close> from left to right after the character \<open>prev\<close>: both patterns begin with a letter, so
  that \<open>\b\<close> asks that it is not a word character.
\<close>

function sub :: "pattern \<Rightarrow> char option \<Rightarrow> string \<Rightarrow> string" where
  "sub m prev [] = []"
| "sub m prev (c # cs) =
     (case (if (case prev of None \<Rightarrow> True | Some b \<Rightarrow> \<not> word_char b) then m (c # cs) else None) of
        None \<Rightarrow> c # sub m (Some c) cs
      | Some (n, replacement) \<Rightarrow> replacement @ sub m (Some ((c # cs) ! (n - 1))) (drop (n - 1) cs))"
  by pat_completeness auto
termination
  by (relation "measure (\<lambda>(m, prev, s). length s)") auto

definition safe_message :: "string \<Rightarrow> string" where
  "safe_message message = sub secret_pattern None (sub bearer_pattern None message)"

section \<open>Records\<close>

text \<open>A record, with its details, \<open>V_None\<close> for none, and the text of its exception if it has one.\<close>

record 'o log_record =
  lr_level :: string
  lr_name :: string
  lr_message :: string
  lr_details :: "'o py_value"
  lr_exception :: "string option"

definition include_exceptions :: "string \<Rightarrow> bool" where
  "include_exceptions environment \<longleftrightarrow> environment \<in> {''development'', ''test''}"

text \<open>What \<open>JsonFormatter.format\<close> hands to \<open>json.dumps\<close>; \<open>str\<close> is that of values that are not \<open>str\<close>.\<close>

definition format_payload ::
    "('o py_value \<Rightarrow> string) \<Rightarrow> string \<Rightarrow> string option \<Rightarrow> int \<Rightarrow> 'o log_record \<Rightarrow> json" where
  "format_payload str environment correlation_id now r =
     JObj ([(''timestamp'', JStr (isoformat now @ ''+00:00'')), (''level'', JStr (lr_level r)), (''logger'', JStr (lr_name r)),
         (''message'', JStr (safe_message (lr_message r)))] @
       (case correlation_id of None \<Rightarrow> [] | Some i \<Rightarrow> if i = [] then [] else [(''request_id'', JStr i)]) @
       (case lr_details r of V_None \<Rightarrow> [] | d \<Rightarrow> [(''details'', safe str d [])]) @
       (case lr_exception r of None \<Rightarrow> []
        | Some e \<Rightarrow> if include_exceptions environment then [(''exception'', JStr e)] else []))"

end
