(* ===== verification/Assembly.thy ===== *)
theory Assembly
  imports Http_Traces Logging
begin

text \<open>
  How the processes are put together: \<open>create_app\<close> of \<open>pentagon5_auth/app.py\<close> and of the gateway,
  \<open>configure_logging\<close>, \<open>create_database_engine\<close> and what \<open>instrument\<close> sets up.  FastAPI, httpx and
  OpenTelemetry are given what is recorded here.  SQLAlchemy is the argument \<open>create_engine\<close>, which
  makes an engine from a URL and options, or raises: for a URL it cannot parse, and for one whose
  driver is not installed.
\<close>

section \<open>Logging\<close>

text \<open>The root logger, and the module's \<open>_INCLUDE_EXCEPTIONS\<close>.\<close>

datatype 'h handler = Json_Handler | Other_Handler 'h

record 'h root_logging =
  lo_handlers :: "'h handler list"
  lo_level :: string
  lo_include_exceptions :: bool

text \<open>The names \<open>setLevel\<close> knows; it raises for others.\<close>

definition LEVEL_NAMES :: "string list" where
  "LEVEL_NAMES = [''CRITICAL'', ''FATAL'', ''ERROR'', ''WARN'', ''WARNING'', ''INFO'', ''DEBUG'', ''NOTSET'']"

definition set_level :: "string \<Rightarrow> ('h root_logging, unit) op" where
  "set_level level =
     (if level \<notin> set LEVEL_NAMES then raise (ValueError (''Unknown level: '' @ level))
      else modify (\<lambda>l. l\<lparr>lo_level := level\<rparr>))"

definition configure_logging :: "string \<Rightarrow> string \<Rightarrow> ('h root_logging, unit) op" where
  "configure_logging level environment =
     bind (modify (\<lambda>l. l\<lparr>lo_include_exceptions := include_exceptions environment\<rparr>)) (\<lambda>_.
     bind (modify (\<lambda>l. l\<lparr>lo_handlers := []\<rparr>)) (\<lambda>_.
     bind (modify (\<lambda>l. l\<lparr>lo_handlers := lo_handlers l @ [Json_Handler]\<rparr>)) (\<lambda>_.
     set_level level)))"

section \<open>The database engine\<close>

record pool_options =
  po_pool_pre_ping :: bool
  po_pool_size :: nat
  po_max_overflow :: nat
  po_pool_recycle :: nat

type_synonym 'e create_engine = "string \<Rightarrow> pool_options \<Rightarrow> 'e res"

definition create_database_engine :: "'e create_engine \<Rightarrow> string \<Rightarrow> 'e res" where
  "create_database_engine create_engine database_url =
     create_engine database_url
       \<lparr>po_pool_pre_ping = True, po_pool_size = 5, po_max_overflow = 5, po_pool_recycle = 1800\<rparr>"

section \<open>The application\<close>

record cors_policy =
  co_allow_origins :: "string list"
  co_allow_credentials :: bool
  co_allow_methods :: "string list"
  co_allow_headers :: "string list"
  co_expose_headers :: "string list"
  co_max_age :: nat

record http_options =
  ht_timeout_seconds :: nat
  ht_follow_redirects :: bool

text \<open>What the spans of a process carry, and where they are sent.\<close>

record tracing =
  tr_service_name :: string
  tr_endpoint :: string

text \<open>The middleware the code adds; what is added later is outside of what was added before.\<close>

datatype middleware = Cors_Middleware cors_policy | Observe_Middleware

text \<open>
  \<open>ap_middleware\<close> lists the middleware from the outside in, \<open>ap_oidc_http\<close> is the client the application
  makes for itself, and \<open>ap_owns_engine\<close> whether it made its engine.
\<close>

record 'e app =
  ap_title :: string
  ap_description :: string
  ap_version :: string
  ap_docs_url :: "string option"
  ap_redoc_url :: "string option"
  ap_middleware :: "middleware list"
  ap_tracing :: "tracing option"
  ap_settings :: auth_settings
  ap_engine :: 'e
  ap_owns_engine :: bool
  ap_oidc_http :: "http_options option"

definition cors_of :: "runtime_settings \<Rightarrow> cors_policy option" where
  "cors_of s =
     (if rs_cors_origins s = [] then None
      else Some \<lparr>co_allow_origins = rs_cors_origins s, co_allow_credentials = False,
        co_allow_methods = [''GET'', ''POST'', ''DELETE''],
        co_allow_headers = [''Authorization'', ''Content-Type'', ''X-Request-ID''],
        co_expose_headers = [''X-Request-ID''], co_max_age = 600\<rparr>)"

definition add_cors :: "runtime_settings \<Rightarrow> middleware list \<Rightarrow> middleware list" where
  "add_cors s ms = (case cors_of s of None \<Rightarrow> ms | Some c \<Rightarrow> Cors_Middleware c # ms)"

text \<open>\<open>instrument\<close>: spans are exported when an endpoint is configured, and \<open>observe\<close> is added.\<close>

definition tracing_of :: "runtime_settings \<Rightarrow> tracing option" where
  "tracing_of s =
     (case rs_otlp_endpoint s of
        None \<Rightarrow> None
      | Some url \<Rightarrow> if url = [] then None
          else Some \<lparr>tr_service_name = rs_service_name s, tr_endpoint = url\<rparr>)"

definition instrument :: "runtime_settings \<Rightarrow> 'e app \<Rightarrow> 'e app" where
  "instrument s a = a\<lparr>ap_tracing := tracing_of s, ap_middleware := Observe_Middleware # ap_middleware a\<rparr>"

text \<open>
  \<open>create_app\<close>, with what it is given and with what \<open>load_auth_settings()\<close> would return.  A service
  that is given brings its own OIDC client.
\<close>

definition create_app ::
    "'e create_engine \<Rightarrow> auth_settings res \<Rightarrow> auth_settings option \<Rightarrow> bool \<Rightarrow> 'e option \<Rightarrow>
     ('h root_logging, 'e app) op" where
  "create_app create_engine loaded settings service_given given_engine =
     bind (lift (case settings of Some s \<Rightarrow> Inr s | None \<Rightarrow> loaded)) (\<lambda>s.
     bind (configure_logging (rs_log_level (as_runtime s)) (rs_environment (as_runtime s))) (\<lambda>_.
     bind (lift (case given_engine of Some e \<Rightarrow> Inr e
        | None \<Rightarrow> create_database_engine create_engine (rs_database_url (as_runtime s)))) (\<lambda>engine.
     ret (instrument (as_runtime s)
       \<lparr>ap_title = ''PENTAGON5 Authentication'', ap_description = [], ap_version = ''1.0.0'',
       ap_docs_url = (if rs_environment (as_runtime s) = ''production'' then None else Some ''/docs''),
       ap_redoc_url = None, ap_middleware = add_cors (as_runtime s) [], ap_tracing = None, ap_settings = s,
       ap_engine = engine, ap_owns_engine = (given_engine = None),
       ap_oidc_http = (if service_given then None
         else Some \<lparr>ht_timeout_seconds = 10, ht_follow_redirects = False\<rparr>)\<rparr>))))"

text \<open>What \<open>lifespan\<close> does when the application stops, in order.\<close>

datatype shutdown_step = Close_Http | Dispose_Engine

definition lifespan_shutdown :: "'e app \<Rightarrow> shutdown_step list" where
  "lifespan_shutdown a =
     (if ap_oidc_http a \<noteq> None then [Close_Http] else []) @ (if ap_owns_engine a then [Dispose_Engine] else [])"

definition create_gateway ::
    "'e create_engine \<Rightarrow> auth_settings res \<Rightarrow> auth_settings option \<Rightarrow> bool \<Rightarrow> 'e option \<Rightarrow>
     ('h root_logging, 'e app) op" where
  "create_gateway create_engine loaded settings service_given given_engine =
     bind (create_app create_engine loaded settings service_given given_engine) (\<lambda>a.
     ret (a\<lparr>ap_title := ''PENTAGON5 API Gateway'',
       ap_description := ''Milestone 3 gateway exposing only system health, authentication, '' @
         ''device, session, and ticketed WebSocket routes.''\<rparr>))"

end
