(* ===== verification/Assembly_Properties.thy ===== *)
theory Assembly_Properties
  imports Assembly Config_Properties
begin

text \<open>
  The correctness properties of the assembly: on settings that load, both processes start when
  SQLAlchemy makes an engine from the database URL, with the logging, the documentation, the tracing and
  the cross-origin policy their environment asks for, and fail with its exception when it does not.
\<close>

section \<open>Origins\<close>

lemma parse_all_error: "fold (\<lambda>u acc. rbind acc (\<lambda>ps. rbind (urlparse u) (\<lambda>p. Inr (ps @ [p])))) os (Inl e) = Inl e"
  by (induction os) simp_all

lemma parse_all:
  "fold (\<lambda>u acc. rbind acc (\<lambda>ps. rbind (urlparse u) (\<lambda>p. Inr (ps @ [p])))) os (Inr qs) = Inr ps \<Longrightarrow>
   \<exists>rs. ps = qs @ rs \<and> list_all2 (\<lambda>u p. urlparse u = Inr p) os rs"
proof (induction os arbitrary: qs)
  case (Cons u os)
  show ?case
  proof (cases "urlparse u")
    case (Inl e)
    then show ?thesis using Cons.prems by (simp add: parse_all_error)
  next
    case (Inr p)
    then show ?thesis using Cons.prems Cons.IH [of "qs @ [p]"] by auto
  qed
qed simp

lemma parsed_origins:
  assumes "parse_origins raw = Inr os" "u \<in> set os"
  shows "\<exists>p. urlparse u = Inr p \<and> \<not> origin_rejected u p"
proof -
  let ?os = "filter (\<lambda>origin. origin \<noteq> []) (map strip (split_on CHR '','' raw))"
  obtain ps where ps: "fold (\<lambda>u acc. rbind acc (\<lambda>ps. rbind (urlparse u) (\<lambda>p. Inr (ps @ [p])))) ?os (Inr []) = Inr ps"
    and ok: "\<not> (\<exists>(u, p) \<in> set (zip ?os ps). origin_rejected u p)" and os: "os = ?os"
    using assms(1) by (auto simp: parse_origins_def Let_def rbind_Inr_iff split: if_splits)
  from parse_all [OF ps] have parsed: "list_all2 (\<lambda>u p. urlparse u = Inr p) os ps" by (simp add: os)
  obtain i where i: "i < length os" "u = os ! i" using assms(2) by (auto simp: in_set_conv_nth)
  then have "(u, ps ! i) \<in> set (zip os ps)" "urlparse u = Inr (ps ! i)"
    using parsed by (auto simp: list_all2_conv_all_nth set_zip)
  then show ?thesis using ok os by auto
qed

section \<open>Starting\<close>

lemma configure_logging_ok:
  "level \<in> set LEVEL_NAMES \<Longrightarrow> configure_logging level environment st =
     (Inr (), st\<lparr>lo_include_exceptions := include_exceptions environment, lo_handlers := [Json_Handler], lo_level := level\<rparr>)"
  by (simp add: configure_logging_def set_level_def bind_def modify_def)

lemma loaded_endpoint:
  assumes "load_runtime_settings files env extra = Inr s"
  shows "rs_otlp_endpoint s = (let v = env_get env ''P5_OTLP_ENDPOINT'' [] in if v = [] then None else Some v)"
  using assms [unfolded load_runtime_settings_def Let_def rbind_Inr_iff guard_Inr_iff]
  by (elim exE conjE) (drule sum.inject(2) [THEN iffD1], hypsubst, simp add: env_get_def split: option.splits)

text \<open>The application \<open>create_app\<close> makes on its own settings and an engine.\<close>

definition app_for :: "auth_settings \<Rightarrow> bool \<Rightarrow> bool \<Rightarrow> 'e \<Rightarrow> 'e app" where
  "app_for s given own engine = instrument (as_runtime s)
    \<lparr>ap_title = ''PENTAGON5 Authentication'', ap_description = [], ap_version = ''1.0.0'',
     ap_docs_url = (if rs_environment (as_runtime s) = ''production'' then None else Some ''/docs''),
     ap_redoc_url = None, ap_middleware = add_cors (as_runtime s) [], ap_tracing = None, ap_settings = s,
     ap_engine = engine, ap_owns_engine = own,
     ap_oidc_http = (if given then None else Some \<lparr>ht_timeout_seconds = 10, ht_follow_redirects = False\<rparr>)\<rparr>"

definition engine_for :: "'e create_engine \<Rightarrow> auth_settings \<Rightarrow> 'e option \<Rightarrow> 'e res" where
  "engine_for create_engine s engine = (case engine of Some e \<Rightarrow> Inr e
     | None \<Rightarrow> create_database_engine create_engine (rs_database_url (as_runtime s)))"

lemma create_app_ok:
  assumes "rs_log_level (as_runtime s) \<in> set LEVEL_NAMES"
  shows "create_app create_engine (Inr s) None given engine st =
    (case engine_for create_engine s engine of Inl e \<Rightarrow> Inl e | Inr en \<Rightarrow> Inr (app_for s given (engine = None) en),
     st\<lparr>lo_include_exceptions := include_exceptions (rs_environment (as_runtime s)), lo_handlers := [Json_Handler],
      lo_level := rs_log_level (as_runtime s)\<rparr>)"
  unfolding create_app_def app_for_def engine_for_def [symmetric]
  by (simp add: bind_def configure_logging_ok [OF assms] lift_def ret_def split: sum.splits)

definition exact_origin :: "string \<Rightarrow> bool" where
  "exact_origin u \<longleftrightarrow> u \<noteq> ''*'' \<and> (\<exists>p. urlparse u = Inr p \<and> url_scheme p \<in> {''http'', ''https''} \<and>
     url_netloc p \<noteq> [] \<and> url_path p \<in> {[], ''/''} \<and> url_query p = [] \<and> url_fragment p = [])"

text \<open>What the code makes of an application on loaded settings.\<close>

definition app_as_configured :: "environ \<Rightarrow> auth_settings \<Rightarrow> bool \<Rightarrow> 'e option \<Rightarrow> 'e app \<Rightarrow> bool" where
  "app_as_configured env s given engine a \<longleftrightarrow> ap_settings a = s \<and>
     (ap_docs_url a = None \<longleftrightarrow> rs_environment (as_runtime s) = ''production'') \<and>
     map_option tr_endpoint (ap_tracing a) =
       (let v = env_get env ''P5_OTLP_ENDPOINT'' [] in if v = [] then None else Some v) \<and>
     hd (ap_middleware a) = Observe_Middleware \<and>
     (if rs_cors_origins (as_runtime s) = [] then tl (ap_middleware a) = []
      else \<exists>c. tl (ap_middleware a) = [Cors_Middleware c] \<and> \<not> co_allow_credentials c \<and>
        co_allow_origins c = rs_cors_origins (as_runtime s) \<and> list_all exact_origin (co_allow_origins c)) \<and>
     lifespan_shutdown a = (if given then [] else [Close_Http]) @ (if engine = None then [Dispose_Engine] else [])"

lemma app_for_as_configured:
  assumes "load_auth_settings files env = Inr s"
  shows "app_as_configured env s given engine (app_for s given (engine = None) en)"
proof -
  have runtime: "load_runtime_settings files env AUTH_KEYS = Inr (as_runtime s)"
    using load_auth_settings_ok [OF assms] by blast
  have "parse_origins (env_get env ''P5_CORS_ORIGINS'' []) = Inr (rs_cors_origins (as_runtime s))"
    using load_runtime_settings_ok [OF runtime] by blast
  then have "list_all exact_origin (rs_cors_origins (as_runtime s))"
    by (auto simp: list_all_iff exact_origin_def origin_rejected_def dest!: parsed_origins)
  then show ?thesis
    using loaded_endpoint [OF runtime]
    by (auto simp: app_as_configured_def app_for_def instrument_def add_cors_def cors_of_def tracing_of_def
        lifespan_shutdown_def Let_def)
qed

lemma configured_title [simp]:
  "app_as_configured env s given engine (a\<lparr>ap_title := t, ap_description := d\<rparr>) = app_as_configured env s given engine a"
  by (simp add: app_as_configured_def lifespan_shutdown_def)

text \<open>C40: On settings that load, the authentication process and the gateway configure the log (the JSON
  handler as the only one, the level that was asked for, tracebacks only in development and test) and
  then start exactly when an engine was given or SQLAlchemy makes one from the database URL; if it
  raises, so do they, with its exception.  The process that starts shows no documentation in production,
  exports spans only to a configured endpoint, runs its own middleware outside of the CORS
  middleware, which accepts only exact origins and no credentials, and releases what it made for itself,
  and only that, when it stops.\<close>

theorem loaded_settings_start:
  assumes "load_auth_settings files env = Inr s" "start \<in> {create_app create_engine, create_gateway create_engine}"
  shows "\<exists>r l. start (load_auth_settings files env) None given engine st = (r, l) \<and>
    lo_handlers l = [Json_Handler] \<and> lo_level l = rs_log_level (as_runtime s) \<and>
    (lo_include_exceptions l \<longleftrightarrow> rs_environment (as_runtime s) \<in> {''development'', ''test''}) \<and>
    (case (case engine of Some e \<Rightarrow> Inr e
       | None \<Rightarrow> create_database_engine create_engine (rs_database_url (as_runtime s))) of
       Inl e \<Rightarrow> r = Inl e
     | Inr en \<Rightarrow> \<exists>a. r = Inr a \<and> ap_engine a = en \<and> app_as_configured env s given engine a)"
proof -
  have runtime: "load_runtime_settings files env AUTH_KEYS = Inr (as_runtime s)"
    using load_auth_settings_ok [OF assms(1)] by blast
  have level: "rs_log_level (as_runtime s) \<in> set LEVEL_NAMES"
    using loaded_runtime [OF runtime] by (auto simp: LEVEL_NAMES_def)
  have engine: "ap_engine (app_for s given own en) = en" for own en by (simp add: app_for_def instrument_def)
  note started = create_app_ok [OF level, of create_engine given engine st]
  show ?thesis
    unfolding assms(1) engine_for_def [symmetric]
    using assms(2) app_for_as_configured [OF assms(1), of given engine] engine
    by (cases "engine_for create_engine s engine")
      (auto simp: create_gateway_def started bind_def ret_def include_exceptions_def)
qed

text \<open>An SQLAlchemy with the driver the program depends on, and an environment for another one.\<close>

definition demo_create_engine :: "string create_engine" where
  "demo_create_engine url options =
     (if prefix ''postgresql+psycopg://'' url then Inr url else Inl (RuntimeError ''No module named psycopg2''))"

definition plain_environ :: environ where
  "plain_environ = AList.update ''P5_DATABASE_URL'' ''postgresql://u:p@db/p5'' demo_environ"

lemma demo_urls:
  "\<exists>s. load_auth_settings demo_files demo_environ = Inr s \<and>
     rs_database_url (as_runtime s) = ''postgresql+psycopg://u:p@db/p5''"
  "\<exists>s. load_auth_settings demo_files plain_environ = Inr s \<and>
     rs_database_url (as_runtime s) = ''postgresql://u:p@db/p5''"
proof -
  have "case load_auth_settings demo_files demo_environ of Inr s \<Rightarrow>
      rs_database_url (as_runtime s) = ''postgresql+psycopg://u:p@db/p5'' | Inl _ \<Rightarrow> False"
    "case load_auth_settings demo_files plain_environ of Inr s \<Rightarrow>
      rs_database_url (as_runtime s) = ''postgresql://u:p@db/p5'' | Inl _ \<Rightarrow> False"
    unfolding plain_environ_def demo_environ_def by code_simp+
  then show
    "\<exists>s. load_auth_settings demo_files demo_environ = Inr s \<and>
       rs_database_url (as_runtime s) = ''postgresql+psycopg://u:p@db/p5''"
    "\<exists>s. load_auth_settings demo_files plain_environ = Inr s \<and>
       rs_database_url (as_runtime s) = ''postgresql://u:p@db/p5''"
    by (auto split: sum.splits)
qed

definition fresh_logging :: "unit root_logging" where
  "fresh_logging = \<lparr>lo_handlers = [Other_Handler ()], lo_level = ''WARNING'', lo_include_exceptions = False\<rparr>"

theorem loaded_settings_start_witness:
  "(\<exists>a l. create_gateway demo_create_engine (load_auth_settings demo_files demo_environ) None False None fresh_logging =
      (Inr a, l) \<and> lo_handlers l = [Json_Handler] \<and> lifespan_shutdown a = [Close_Http, Dispose_Engine]) \<and>
   (\<exists>l. create_app demo_create_engine (load_auth_settings demo_files plain_environ) None False None fresh_logging =
      (Inl (RuntimeError ''No module named psycopg2''), l))"
proof -
  have engine: "create_database_engine demo_create_engine ''postgresql+psycopg://u:p@db/p5'' =
      Inr ''postgresql+psycopg://u:p@db/p5''"
    "create_database_engine demo_create_engine ''postgresql://u:p@db/p5'' =
      Inl (RuntimeError ''No module named psycopg2'')"
    by (simp_all add: create_database_engine_def demo_create_engine_def)
  obtain s where s: "load_auth_settings demo_files demo_environ = Inr s"
    "rs_database_url (as_runtime s) = ''postgresql+psycopg://u:p@db/p5''" using demo_urls(1) by blast
  obtain p where p: "load_auth_settings demo_files plain_environ = Inr p"
    "rs_database_url (as_runtime p) = ''postgresql://u:p@db/p5''" using demo_urls(2) by blast
  from loaded_settings_start [OF s(1), of "create_gateway demo_create_engine" demo_create_engine False None fresh_logging]
    loaded_settings_start [OF p(1), of "create_app demo_create_engine" demo_create_engine False None fresh_logging]
  show ?thesis using engine by (auto simp: s(2) p(2) app_as_configured_def)
qed

end
