(* ===== verification/Logging_Properties.thy ===== *)
theory Logging_Properties
  imports Logging
begin

text \<open>The correctness properties of the log formatter: what it hides at any depth of the details and in the message.\<close>

section \<open>Details\<close>

text \<open>Values that differ only below sensitive keys.\<close>

inductive alike :: "('o py_value \<Rightarrow> string) \<Rightarrow> 'o py_value \<Rightarrow> 'o py_value \<Rightarrow> bool" for str where
  same: "alike str v v"
| lists: "list_all2 (alike str) vs ws \<Longrightarrow> alike str (V_List vs) (V_List ws)"
| tuples: "list_all2 (alike str) vs ws \<Longrightarrow> alike str (V_Tuple vs) (V_Tuple ws)"
| dicts: "list_all2 (\<lambda>x y. fst x = fst y \<and> (sensitive (key_text str (fst x)) \<or> alike str (snd x) (snd y))) d e \<Longrightarrow>
    alike str (V_Dict d) (V_Dict e)"

text \<open>Every member with a sensitive name is redacted.\<close>

fun redacted :: "json \<Rightarrow> bool" where
  "redacted (JArr vs) \<longleftrightarrow> list_all redacted vs"
| "redacted (JObj d) \<longleftrightarrow> list_all (\<lambda>(k, v). if sensitive k then v = JStr ''[REDACTED]'' else redacted v) d"
| "redacted _ \<longleftrightarrow> True"

lemma safe_items_alike:
  "list_all2 (\<lambda>x y. fst x = fst y \<and> (sensitive (key_text str (fst x)) \<or> safe_value str (snd x) = safe_value str (snd y))) d e \<Longrightarrow>
   safe_items str d acc = safe_items str e acc"
  by (induction d e arbitrary: acc rule: list_all2_induct) (auto simp: Let_def split: prod.splits)

lemma safe_list_map: "safe_list str vs = map (safe_value str) vs"
  by (induction vs) simp_all

lemma safe_value_alike: "alike str v w \<Longrightarrow> safe_value str v = safe_value str w"
proof (induction rule: alike.induct)
  case (dicts d e)
  then have "list_all2 (\<lambda>x y. fst x = fst y \<and> (sensitive (key_text str (fst x)) \<or> safe_value str (snd x) = safe_value str (snd y))) d e"
    by (rule list_all2_mono) blast
  then show ?case by (simp add: safe_items_alike)
qed (simp_all add: safe_list_map list_all2_conv_all_nth list_eq_iff_nth_eq)

lemma update_redacted:
  "redacted (JObj acc) \<Longrightarrow> (if sensitive k then v = JStr ''[REDACTED]'' else redacted v) \<Longrightarrow>
   redacted (JObj (AList.update k v acc))"
  by (induction acc) auto

lemma safe_redacted:
  "redacted (safe_value str v)"
  "redacted (JObj acc) \<Longrightarrow> redacted (JObj (safe_items str d acc))"
  "list_all redacted (safe_list str vs)"
proof (induction str v and str d acc and str vs rule: safe_value_safe_items_safe_list.induct)
  case (11 str k v d acc)
  then show ?case using update_redacted [of acc] by (simp del: redacted.simps(2) add: Let_def)
qed simp_all

text \<open>C35: The details of a log record are the same whatever is stored below a sensitive key, at any depth,
  and every member with such a key is redacted.\<close>

theorem details_hide_secrets:
  assumes "alike str v w"
  shows "safe str v key = safe str w key \<and> redacted (safe str v key)"
  using safe_value_alike [OF assms] safe_redacted(1) [of str w] by (simp add: safe_def)

theorem details_hide_secrets_witness:
  "safe (\<lambda>v :: unit py_value. []) (V_List [V_Dict [(V_Str ''Session_Token'', V_Str ''abc''), (V_Int 1, V_None)]]) [] =
   safe (\<lambda>v :: unit py_value. []) (V_List [V_Dict [(V_Str ''Session_Token'', V_Int 7), (V_Int 1, V_None)]]) []"
proof -
  have "lower ''Session_Token'' = ''session_token''" by code_simp
  then have "sensitive ''Session_Token''" by (simp add: sensitive_def REDACTED_KEYS_def)
  then have "alike (\<lambda>v :: unit py_value. []) (V_List [V_Dict [(V_Str ''Session_Token'', V_Str ''abc''), (V_Int 1, V_None)]])
      (V_List [V_Dict [(V_Str ''Session_Token'', V_Int 7), (V_Int 1, V_None)]])"
    by (intro alike.lists list_all2_Cons [THEN iffD2] conjI alike.dicts)
      (auto simp: key_text_def intro: alike.same)
  then show ?thesis by (rule details_hide_secrets [THEN conjunct1])
qed

section \<open>Messages\<close>

text \<open>A text in which a pattern matches nowhere before \<open>s\<close>.\<close>

definition prev_of :: "char option \<Rightarrow> string \<Rightarrow> char option" where
  "prev_of prev pre = (if pre = [] then prev else Some (last pre))"

lemma sub_skip:
  assumes "\<And>i. i < length pre \<Longrightarrow> m (drop i pre @ s) = None"
  shows "sub m prev (pre @ s) = pre @ sub m (prev_of prev pre) s"
  using assms
proof (induction pre arbitrary: prev)
  case Nil
  then show ?case by (simp add: prev_of_def)
next
  case (Cons c cs)
  have "m (drop i cs @ s) = None" if "i < length cs" for i using Cons.prems [of "Suc i"] that by simp
  moreover have "m (c # cs @ s) = None" using Cons.prems [of 0] by simp
  ultimately show ?case using Cons.IH by (simp add: prev_of_def)
qed

lemma sub_none: "(\<And>i. i < length s \<Longrightarrow> m (drop i s) = None) \<Longrightarrow> sub m prev s = s"
  using sub_skip [of s m "[]"] by simp

text \<open>The text behind a match does not depend on what was matched, unless a match could begin there.\<close>

lemma sub_prev: "m s = None \<Longrightarrow> sub m p s = sub m q s"
  by (cases s) (simp_all split: option.splits)

lemma sub_match:
  assumes "m s = Some (n, r)" "s \<noteq> []" "case prev of None \<Rightarrow> True | Some b \<Rightarrow> \<not> word_char b" "0 < n"
  shows "sub m prev s = r @ sub m (Some (s ! (n - 1))) (drop n s)"
  using assms by (cases s; cases n) auto

lemma lower_letters: "list_all is_alnum (lower s) \<Longrightarrow> list_all word_char s"
proof (induction s)
  case (Cons c s)
  have "is_alnum c" if "is_alnum (char_lower c)"
    using that code_range [of c] by (auto simp: is_alnum_def char_lower_def code_def split: if_splits)
  then show ?case using Cons by (simp add: lower_def word_char_def)
qed simp

text \<open>A word that does not occur in \<open>pre\<close> does not begin there when \<open>pre\<close> ends outside a word.\<close>

lemma no_straddle:
  assumes "lower (take (length w) (drop i pre @ s)) = w" "i < length pre" "list_all is_alnum w"
    and "\<not> sublist w (lower pre)" "\<not> word_char (last pre)"
  shows False
proof (cases "length w \<le> length pre - i")
  case True
  then have "w = lower (take (length w) (drop i pre))" using assms(1) by simp
  then have "w = take (length w) (drop i (lower pre))" by (simp add: lower_def take_map drop_map)
  then show False using assms(4) by (metis sublist_drop sublist_take sublist_order.order_trans)
next
  case False
  then have "take (length w) (drop i pre @ s) = drop i pre @ take (length w - (length pre - i)) s" by simp
  then have "list_all word_char (drop i pre)" using lower_letters assms(1,3) by (metis list_all_append)
  moreover have "last pre \<in> set (drop i pre)" using assms(2) by (metis drop_eq_Nil last_drop last_in_set not_le)
  ultimately show False using assms(5) by (auto simp: list_all_iff)
qed

definition ends_word :: "string \<Rightarrow> bool" where
  "ends_word pre \<longleftrightarrow> pre = [] \<or> \<not> word_char (last pre)"

lemma bearer_starts: "bearer_pattern s = Some x \<Longrightarrow> lower (take (length ''bearer'') s) = ''bearer''"
  by (simp add: bearer_pattern_def Let_def numeral_eq_Suc split: if_splits)

lemma bearer_skip:
  assumes "\<not> sublist ''bearer'' (lower pre)" "ends_word pre" "i < length pre"
  shows "bearer_pattern (drop i pre @ s) = None"
proof (rule ccontr)
  assume "bearer_pattern (drop i pre @ s) \<noteq> None"
  then have "lower (take (length ''bearer'') (drop i pre @ s)) = ''bearer''"
    using bearer_starts by blast
  moreover have "list_all is_alnum ''bearer''" by code_simp
  moreover have "\<not> word_char (last pre)" using assms(2,3) by (auto simp: ends_word_def)
  ultimately show False using no_straddle [OF _ assms(3)] assms(1) by blast
qed

lemma secret_starts:
  assumes "secret_pattern s = Some x"
  obtains n where "n \<in> set SECRET_NAMES" "lower (take (length n) s) = n" "take 1 (drop (length n) s) = ''=''"
proof -
  from assms obtain n where "List.find (\<lambda>n. lower (take (length n) s) = n \<and> take 1 (drop (length n) s) = ''='')
      SECRET_NAMES = Some n" by (auto simp: secret_pattern_def split: option.splits)
  then show thesis by (intro that [of n]) (auto simp: find_Some_iff)
qed

lemma secret_letters: "n \<in> set SECRET_NAMES \<Longrightarrow> list_all is_alnum n"
proof -
  have "list_all (list_all is_alnum) SECRET_NAMES" by code_simp
  then show "n \<in> set SECRET_NAMES \<Longrightarrow> list_all is_alnum n" by (simp add: list_all_iff)
qed

text \<open>Messages without any of the words a pattern looks for.\<close>

definition no_bearer :: "string \<Rightarrow> bool" where
  "no_bearer s \<longleftrightarrow> \<not> sublist ''bearer'' (lower s)"

definition no_secret_name :: "string \<Rightarrow> bool" where
  "no_secret_name s \<longleftrightarrow> (\<forall>n \<in> set SECRET_NAMES. \<not> sublist n (lower s))"

lemma secret_skip:
  assumes "no_secret_name pre" "ends_word pre" "i < length pre"
  shows "secret_pattern (drop i pre @ s) = None"
proof (rule ccontr)
  assume "secret_pattern (drop i pre @ s) \<noteq> None"
  then obtain n where n: "n \<in> set SECRET_NAMES" "lower (take (length n) (drop i pre @ s)) = n"
    using secret_starts by blast
  moreover have "\<not> word_char (last pre)" using assms(2,3) by (auto simp: ends_word_def)
  ultimately show False
    using no_straddle [OF n(2) assms(3) secret_letters] assms(1) by (auto simp: no_secret_name_def)
qed

text \<open>What follows a value: nothing, or a character that cannot be part of it.\<close>

definition ends_at :: "(char \<Rightarrow> bool) \<Rightarrow> string \<Rightarrow> bool" where
  "ends_at P s \<longleftrightarrow> s = [] \<or> \<not> P (hd s)"

lemma takeWhile_ends: "list_all P s \<Longrightarrow> ends_at P t \<Longrightarrow> takeWhile P (s @ t) = s"
  by (cases t) (auto simp: ends_at_def list_all_iff takeWhile_append)

lemma bearer_match:
  assumes "token \<noteq> []" "list_all token_char token" "ends_at token_char post"
  shows "bearer_pattern (''Bearer '' @ token @ post) = Some (7 + length token, ''Bearer [REDACTED]'')"
proof -
  have l: "lower ''Bearer'' = ''bearer''" by code_simp
  obtain c cs where t: "token = c # cs" using assms(1) by (cases token) auto
  then have "\<not> py_isspace c" using assms(2) code_range [of c]
    by (auto simp: token_char_def is_alnum_def py_isspace_def code_def)
  then have s: "takeWhile py_isspace (CHR '' '' # token @ post) = '' ''"
    by (simp add: t py_isspace_def code_def)
  show ?thesis
    using takeWhile_ends [OF assms(2,3)] assms(1) l s by (simp add: bearer_pattern_def)
qed

lemma bearer_redacted:
  assumes "no_bearer pre" "ends_word pre" "token \<noteq> []" "list_all token_char token" "ends_at token_char post"
  shows "sub bearer_pattern None (pre @ ''Bearer '' @ token @ post) =
    pre @ ''Bearer [REDACTED]'' @ sub bearer_pattern None post"
proof -
  let ?s = "''Bearer '' @ token @ post"
  have "bearer_pattern post = None"
  proof (cases post)
    case (Cons c cs)
    then have "\<not> is_alnum c" using assms(5) by (simp add: ends_at_def token_char_def)
    then have "char_lower c \<noteq> CHR ''b''"
      using code_range [of c] by (auto simp: is_alnum_def char_lower_def code_def split: if_splits)
    then show ?thesis using Cons by (auto simp: bearer_pattern_def Let_def lower_def)
  qed (simp add: bearer_pattern_def Let_def lower_def)
  then have rest: "sub bearer_pattern p post = sub bearer_pattern None post" for p by (rule sub_prev)
  have "sub bearer_pattern None (pre @ ?s) = pre @ sub bearer_pattern (prev_of None pre) ?s"
    using assms(1,2) by (intro sub_skip bearer_skip) (auto simp: no_bearer_def)
  also have "sub bearer_pattern (prev_of None pre) ?s =
      ''Bearer [REDACTED]'' @ sub bearer_pattern (Some (?s ! (7 + length token - 1))) (drop (7 + length token) ?s)"
    using assms(2) by (intro sub_match bearer_match assms(3-5)) (auto simp: prev_of_def ends_word_def)
  also have "drop (7 + length token) ?s = post"
  proof -
    have d: "drop (length (''Bearer '' @ token)) ((''Bearer '' @ token) @ post) = post"
      by (rule append_eq_conv_conj [THEN iffD1, THEN conjunct2, symmetric]) (rule refl)
    have "length (''Bearer '' @ token) = 7 + length token" by simp
    then show ?thesis using d by (simp only: append_assoc)
  qed
  finally show ?thesis by (simp only: rest [of "Some c" for c])
qed

lemma secret_redacted:
  assumes "no_secret_name pre" "ends_word pre" "lower name \<in> set SECRET_NAMES" "secret \<noteq> []"
    "list_all value_char secret" "ends_at value_char post"
  shows "sub secret_pattern None (pre @ name @ ''='' @ secret @ post) =
    pre @ name @ ''=[REDACTED]'' @ sub secret_pattern None post"
proof -
  let ?s = "name @ ''='' @ secret @ post" let ?n = "lower name"
  have len: "length ?n = length name" by (simp add: lower_def)
  have distinct: "n = ?n" if n: "n \<in> set SECRET_NAMES" "lower (take (length n) ?s) = n"
      "take 1 (drop (length n) ?s) = ''=''" for n
  proof (cases "length n \<le> length name")
    case True
    then have "take (length n) ?n = n" using n(2) by (simp add: lower_def take_map)
    then have p: "prefix n ?n" by (metis take_is_prefix)
    have "\<forall>a \<in> set SECRET_NAMES. \<forall>b \<in> set SECRET_NAMES. prefix a b \<longrightarrow> a = b" by code_simp
    then show ?thesis using p n(1) assms(3) by blast
  next
    case False
    then have "CHR ''='' \<in> set (take (length n) ?s)" by (simp add: take_Cons')
    moreover have "char_lower CHR ''='' = CHR ''=''" by code_simp
    ultimately have "CHR ''='' \<in> set n" using n(2) by (metis imageI list.set_map lower_def)
    moreover have "list_all is_alnum n" using secret_letters n(1) by blast
    ultimately show ?thesis by (auto simp: list_all_iff is_alnum_def code_def)
  qed
  have name: "take 1 (drop (length ?n) ?s) = ''=''" "lower (take (length ?n) ?s) = ?n" by (simp_all add: len)
  have found: "List.find (\<lambda>n. lower (take (length n) ?s) = n \<and> take 1 (drop (length n) ?s) = ''='') SECRET_NAMES = Some ?n"
  proof (cases "List.find (\<lambda>n. lower (take (length n) ?s) = n \<and> take 1 (drop (length n) ?s) = ''='') SECRET_NAMES")
    case None
    then show ?thesis using assms(3) name unfolding find_None_iff by blast
  next
    case (Some n)
    then have "n \<in> set SECRET_NAMES" "lower (take (length n) ?s) = n" "take 1 (drop (length n) ?s) = ''=''"
      by (auto simp: find_Some_iff)
    then have "n = ?n" by (rule distinct)
    then show ?thesis using Some by simp
  qed
  have taken: "takeWhile value_char (drop (length ?n + 1) ?s) = secret"
    using takeWhile_ends [OF assms(5,6)] by (simp add: len)
  have m: "secret_pattern ?s = Some (length name + 1 + length secret, name @ ''=[REDACTED]'')"
    unfolding secret_pattern_def found option.case Let_def taken using assms(4) by (simp add: len)
  have "secret_pattern post = None"
  proof (cases post)
    case (Cons c cs)
    then have "c = CHR ''&'' \<or> py_isspace c" using assms(6) by (simp add: ends_at_def value_char_def)
    then have c: "\<not> is_alnum (char_lower c)"
      using code_range [of c] by (auto simp: is_alnum_def char_lower_def py_isspace_def code_def)
    have "lower (take (length n) post) \<noteq> n" if "n \<in> set SECRET_NAMES" for n
    proof -
      have "n \<noteq> []" using that by (auto simp: SECRET_NAMES_def)
      then show ?thesis using secret_letters [OF that] c Cons by (cases n) (auto simp: lower_def)
    qed
    then have "secret_pattern post \<noteq> Some x" for x using secret_starts by blast
    then show ?thesis by (cases "secret_pattern post") auto
  qed (auto simp: secret_pattern_def SECRET_NAMES_def lower_def)
  then have rest: "sub secret_pattern p post = sub secret_pattern None post" for p by (rule sub_prev)
  have "sub secret_pattern None (pre @ ?s) = pre @ sub secret_pattern (prev_of None pre) ?s"
    using assms(1,2) by (intro sub_skip secret_skip)
  also have "sub secret_pattern (prev_of None pre) ?s = (name @ ''=[REDACTED]'') @
      sub secret_pattern (Some (?s ! (length name + 1 + length secret - 1))) (drop (length name + 1 + length secret) ?s)"
    using assms(2) by (intro sub_match m) (auto simp: prev_of_def ends_word_def)
  also have "drop (length name + 1 + length secret) ?s = post" by simp
  finally show ?thesis by (simp only: rest [of "Some c" for c] append_assoc)
qed

lemma sublist_take_drop: "sublist (take n (drop i s)) s"
  by (meson sublist_drop sublist_order.order_trans sublist_take)

lemma no_bearer_matches: "no_bearer s \<Longrightarrow> bearer_pattern (drop i s) = None"
proof (rule ccontr)
  assume n: "no_bearer s" and m: "bearer_pattern (drop i s) \<noteq> None"
  then have "lower (take (length ''bearer'') (drop i s)) = ''bearer''" using bearer_starts by blast
  then have "take (length ''bearer'') (drop i (lower s)) = ''bearer''" by (simp only: lower_def take_map drop_map)
  then show False using n sublist_take_drop [of "length ''bearer''" i "lower s"] unfolding no_bearer_def by argo
qed

lemma no_bearer_suffix: "no_bearer (s @ t) \<Longrightarrow> no_bearer t"
  by (simp add: no_bearer_def lower_def sublist_append)

text \<open>C36: Credentials after the first Bearer of a message, up to a character that cannot be part of them, do
  not show in the log: it is the same for any other credentials.\<close>

theorem messages_hide_bearer_tokens:
  assumes "no_bearer pre" "ends_word pre" "ends_at token_char post"
    and "token \<noteq> []" "list_all token_char token" "token' \<noteq> []" "list_all token_char token'"
  shows "safe_message (pre @ ''Bearer '' @ token @ post) = safe_message (pre @ ''Bearer '' @ token' @ post)"
  using bearer_redacted [OF assms(1,2,4,5,3)] bearer_redacted [OF assms(1,2,6,7,3)]
  unfolding safe_message_def by simp

theorem messages_hide_bearer_tokens_witness:
  "safe_message (''GET /: '' @ ''Bearer '' @ ''abc.def'' @ '', denied'') = safe_message (''GET /: '' @ ''Bearer '' @ ''x'' @ '', denied'')"
proof (rule messages_hide_bearer_tokens)
  show "no_bearer ''GET /: ''" unfolding no_bearer_def by code_simp
  show "ends_word ''GET /: ''" "ends_at token_char '', denied''" "list_all token_char ''abc.def''" "list_all token_char ''x''"
    by code_simp+
qed simp_all

text \<open>The first secret a message gives by name, up to an ampersand or white space, is replaced whatever
  it is, and the rest is redacted in the same way.\<close>

theorem messages_hide_named_secrets:
  assumes "no_bearer (pre @ name @ ''='' @ secret @ post)" "no_secret_name pre" "ends_word pre"
    and "lower name \<in> set SECRET_NAMES" "secret \<noteq> []" "list_all value_char secret" "ends_at value_char post"
  shows "safe_message (pre @ name @ ''='' @ secret @ post) = pre @ name @ ''=[REDACTED]'' @ safe_message post"
proof -
  have "no_bearer post" using no_bearer_suffix [of "pre @ name @ ''='' @ secret" post] assms(1) by simp
  then have "sub bearer_pattern None post = post" by (intro sub_none no_bearer_matches)
  moreover have "sub bearer_pattern None (pre @ name @ ''='' @ secret @ post) = pre @ name @ ''='' @ secret @ post"
    using assms(1) by (intro sub_none no_bearer_matches)
  ultimately show ?thesis using secret_redacted [OF assms(2-7)] by (simp add: safe_message_def)
qed

theorem messages_hide_named_secrets_witness:
  "safe_message (''login?'' @ ''Token'' @ ''='' @ ''abc'' @ ''&code=1'') = ''login?'' @ ''Token'' @ ''=[REDACTED]'' @ safe_message ''&code=1''"
proof (rule messages_hide_named_secrets)
  show "no_bearer (''login?'' @ ''Token'' @ ''='' @ ''abc'' @ ''&code=1'')" unfolding no_bearer_def by code_simp
  show "no_secret_name ''login?''" unfolding no_secret_name_def by code_simp
  show "ends_word ''login?''" "lower ''Token'' \<in> set SECRET_NAMES" "list_all value_char ''abc''" "ends_at value_char ''&code=1''"
    by code_simp+
qed simp

text \<open>The words must begin the name: a secret named by a longer word shows, and so does what follows a
  second Bearer.\<close>

lemma longer_names_show: "safe_message ''refresh_token=abc'' = ''refresh_token=abc''"
  by code_simp

lemma repeated_bearer_shows: "safe_message ''Bearer Bearer abc'' = ''Bearer [REDACTED] abc''"
  by code_simp

end
