(* ===== verification/Migration_Env.thy ===== *)
theory Migration_Env
  imports Schema_Properties
begin

text \<open>
  \<open>migrations/env.py\<close>: which database Alembic migrates, and how.  Alembic itself is the argument
  \<open>migrate\<close> (online) and \<open>render\<close> (offline, the script it writes).
\<close>

text \<open>
  The database of the migrations: the attribute of the configuration, the environment variable or
  the option of the configuration file, the first that is neither missing nor empty.
\<close>

definition database_url :: "string option \<Rightarrow> string option \<Rightarrow> string option \<Rightarrow> string res" where
  "database_url attribute env_variable main_option =
     (case List.find (\<lambda>u. u \<noteq> None \<and> u \<noteq> Some []) [attribute, env_variable, main_option] of
        Some (Some url) \<Rightarrow> Inr url
      | _ \<Rightarrow> Inl (RuntimeError ''database URL must be configured''))"

text \<open>What \<open>context.configure\<close> is given; \<open>None\<close> for what is left to Alembic.\<close>

record migration_context =
  mc_url :: string
  mc_literal_binds :: "bool option"
  mc_paramstyle :: "string option"
  mc_compare_type :: "bool option"
  mc_include_schemas :: bool
  mc_transactional_ddl :: bool

definition offline_context :: "string \<Rightarrow> migration_context" where
  "offline_context url = \<lparr>mc_url = url, mc_literal_binds = Some True, mc_paramstyle = Some ''named'',
     mc_compare_type = None, mc_include_schemas = True, mc_transactional_ddl = True\<rparr>"

definition online_context :: "string \<Rightarrow> migration_context" where
  "online_context url = \<lparr>mc_url = url, mc_literal_binds = None, mc_paramstyle = None,
     mc_compare_type = Some True, mc_include_schemas = True, mc_transactional_ddl = True\<rparr>"

text \<open>The databases by their URL; connecting to one may raise.\<close>

type_synonym servers = "string \<Rightarrow> catalog res"

definition run_migrations_offline ::
    "string res \<Rightarrow> (migration_context \<Rightarrow> 'script res) \<Rightarrow> (servers, 'script) op" where
  "run_migrations_offline url render = bind (lift url) (\<lambda>u. lift (render (offline_context u)))"

text \<open>The migrations run in one transaction, which is rolled back when they raise.\<close>

definition run_migrations_online ::
    "string res \<Rightarrow> (migration_context \<Rightarrow> catalog \<Rightarrow> catalog res) \<Rightarrow> (servers, unit) op" where
  "run_migrations_online url migrate =
     bind (lift url) (\<lambda>u.
     bind (gets (\<lambda>servers. servers u)) (\<lambda>connection.
     bind (lift connection) (\<lambda>c.
     bind (lift (migrate (online_context u) c)) (\<lambda>c'.
     modify (\<lambda>servers. servers(u := Inr c'))))))"

text \<open>Offline mode writes a script and changes no database.\<close>

lemma offline_changes_nothing: "snd (run_migrations_offline url render s) = s"
  by (auto simp: run_migrations_offline_def bind_def lift_def split: sum.splits)

text \<open>
  The two migrations, run on an empty database from the configured URL, leave the declared schema
  there and nothing else anywhere; if they raise, every database is as it was.
\<close>

theorem migrations_run_where_configured:
  assumes "sorts_tables f Metadata_0001.metadata" "database_url a v m = Inr u" "servers u = Inr empty_catalog"
    and "\<And>c. migrate (online_context u) c =
      (case script [upgrade_0001 f, upgrade_0002] c of None \<Rightarrow> Inl e | Some c' \<Rightarrow> Inr c')"
  shows "\<exists>c. run_migrations_online (database_url a v m) migrate servers = (Inr (), servers(u := Inr c)) \<and>
    set (cat_tables c) = set Metadata.metadata \<and> set (cat_indexes c) = set Metadata.indexes"
proof -
  have "script [upgrade_0001 f, upgrade_0002] empty_catalog = Some (full_catalog (f Metadata_0001.metadata))"
    using upgrade_0001_ok [OF assms(1)] upgrade_0002_ok [OF assms(1)] by simp
  then show ?thesis
    using full_catalog_tables [OF assms(1)] assms(2-4)
    by (intro exI [of _ "full_catalog (f Metadata_0001.metadata)"])
      (simp add: run_migrations_online_def bind_def lift_def gets_def modify_def)
qed

theorem failed_migrations_change_nothing:
  assumes "run_migrations_online url migrate servers = (Inl e, servers')"
  shows "servers' = servers"
  using assms by (auto simp: run_migrations_online_def bind_def lift_def gets_def modify_def split: sum.splits)

text \<open>The first configured URL counts, and an empty one is not configured.\<close>

lemma database_url_first:
  "database_url (Some (c # cs)) v m = Inr (c # cs)"
  "database_url None (Some (c # cs)) m = Inr (c # cs)"
  "database_url (Some []) (Some []) (Some (c # cs)) = Inr (c # cs)"
  "database_url None None None = Inl (RuntimeError ''database URL must be configured'')"
  by (simp_all add: database_url_def)

end
