(* ===== verification/Spec2Isabelle.thy ===== *)
theory Spec2Isabelle
  imports Broker_Properties Uuid7_Properties Market_Properties Auth_Properties Config_Properties Service_Properties
    Websocket_Properties Trading_Modes Schema_Refinement Audit_Events Assembly_Properties
    Logging_Properties Migration_Env
begin

text \<open>
  A verification development of the Python backend of PENTAGON5: the trading packages under
  \<open>src/src\<close>, the shared runtime under \<open>src/backend/pentagon5_runtime\<close>, the authentication process
  under \<open>src/services/authentication/pentagon5_auth\<close>, and the database schema with its migrations
  under \<open>src/infrastructure/database\<close>.

  \<^bold>\<open>How code is modelled.\<close>  A function that may raise is a function into \<open>exn + 'a\<close>; a method is a
  function from the state to a result and the state it leaves behind, which is there also when it
  raises (\<open>Prelude\<close>).  Dictionaries are association lists in insertion order, integers are unbounded
  as in Python, text is made of characters below 256 with the ASCII meaning of case and white space.
  What the code reads from outside (clocks, random bytes, generated identifiers, environment,
  files, HTTP answers) is an argument, and so are the libraries it calls: hashes and AES-GCM
  (\<open>crypto\<close>), httpx, PyJWT, the text of floats.  \<open>PyDecimal\<close>, \<open>PyStr\<close>, \<open>PyJson\<close>, \<open>PyRepr\<close>, \<open>Base64\<close>,
  \<open>Url\<close>, \<open>IsoTime\<close> and \<open>Json_Text\<close> model what the sources use of the standard library.

  \<^bold>\<open>Trading.\<close>  \<open>Broker_Models\<close> and \<open>Broker_Provider\<close> are \<open>broker/models.py\<close> and \<open>broker/provider.py\<close>
  with decimals of 28 digits.  \<open>Broker_Interface\<close> states the abstract \<open>BrokerProvider\<close> as a locale,
  interpreted on the in-memory broker; \<open>Broker_Lemmas\<close> and \<open>Broker_Safety\<close> hold its invariant and
  what clients can reach.  \<open>Strategy\<close> and \<open>Strategy_Runner\<close> are the signals, the abstract \<open>Strategy\<close>
  as a locale and the runner over both interfaces.  \<open>Market_Data\<close> has the mock and the Yahoo
  provider.  \<open>Broker_Properties\<close> and \<open>Market_Properties\<close>: cash and equity are conserved, a refused order changes
  nothing, a valid signal becomes an order, the bar is the last complete one, and which exceptions
  escape.

  \<^bold>\<open>Runtime.\<close>  \<open>Uuid7\<close> (\<open>uuid7.py\<close>): identifiers strictly increase whatever the clock does and the
  checker accepts exactly the canonical ones.  \<open>Runtime_Config\<close> and \<open>Auth_Config\<close> (both \<open>config.py\<close>):
  whatever loads is within bounds and safe (\<open>Config_Properties\<close>).  \<open>Security\<close> (\<open>security.py\<close>).
  \<open>Envelopes\<close> (\<open>envelopes.py\<close>): every envelope is well formed.  \<open>Observability\<close> (\<open>observability.py\<close>):
  the middleware around an application \<open>call_next\<close>; a call may time out, which ends the wait for the answer
  but not the application, whose effects stay.
  \<open>Logging\<close> (\<open>logging.py\<close>): the payload of a record; the log is the same whatever sensitive keys, the
  first Bearer and the first named secret hold (\<open>Logging_Properties\<close>).

  \<^bold>\<open>Authentication.\<close>  \<open>Auth_Models\<close> (\<open>models.py\<close>), \<open>Auth_Db\<close> (the tables as lists of rows with their
  constraints) and \<open>Auth_Repository\<close> (\<open>repository.py\<close>, one operation per method, each a transaction
  that leaves the tables alone when it raises).  \<open>Auth_Effects\<close>, \<open>Auth_Safety\<close>, \<open>Auth_Traces\<close>,
  \<open>Auth_One_Time\<close> and \<open>Auth_Identity\<close> hold the invariant, the effect of each method under it, and what is true of every
  sequence of calls; \<open>Auth_Contract\<close> is the abstract repository as a locale (one-time stores with expiry and a
  map from tokens to principals), interpreted on the tables.  \<open>Oidc\<close> (\<open>oidc.py\<close>) and \<open>Auth_Service\<close>
  (\<open>service.py\<close>) run over any repository; \<open>Service_Lemmas\<close> proves what the service promises from the
  contract alone.  \<open>Websocket\<close> and \<open>App\<close> are \<open>app.py\<close>: the ticketed endpoint with its loop over frames,
  and the HTTP routes from the parsed request to the response or the error envelope.
  \<open>Auth_Properties\<close>, \<open>Service_Properties\<close>, \<open>Websocket_Properties\<close>, \<open>App_Properties\<close> and \<open>Http_Properties\<close>
  state the properties: codes and tickets are used once, a login over the routes ends in a session
  that its token opens until it expires, a logout ends it, protected routes refuse
  everyone else, every request is answered, in time or late, and no oversize body reaches a route.  \<open>Http_Traces\<close> shows that
  what a request does to the database is a run of the transactions its route may make (\<open>may_call\<close>), so
  that the facts about sequences of repository calls carry over to requests, however those of several
  processes interleave: the database invariant is kept, a token that was logged out and a code that was
  exchanged are refused for good.

  \<^bold>\<open>Processes.\<close>  \<open>Assembly\<close> is \<open>create_app\<close> with what it hands to FastAPI, httpx and OpenTelemetry, the
  gateway that renames the same application, \<open>configure_logging\<close> and \<open>create_database_engine\<close>, with
  SQLAlchemy's \<open>create_engine\<close> as an argument that may raise.  \<open>Assembly_Properties\<close> shows what a
  configuration that loads starts: both processes, if SQLAlchemy makes an engine from its URL, and otherwise
  nothing.  The loader does not see to that: it accepts \<open>postgresql\<close> URLs, whose driver is no dependency.

  \<^bold>\<open>Database.\<close>  \<open>Schema\<close> is the vocabulary of table declarations; \<open>Metadata\<close>, \<open>Metadata_0001\<close> and
  \<open>Metadata_0002\<close> are the declarations of the three modules, table by table; \<open>Migrations\<close> runs both
  migrations on a catalog.  \<open>Schema_Facts\<close>, \<open>Schema_Types\<close>, \<open>Migration_Facts\<close> and \<open>Migration_Lemmas\<close>
  lead to \<open>Schema_Properties\<close>: the migrations reach the declared schema from an empty
  database and the downgrades undo them.  \<open>Migration_Env\<close> is \<open>migrations/env.py\<close>, with Alembic as a
  parameter: the database it migrates, in one transaction.  \<open>Schema_Rows\<close> says which rows a declared table
  accepts; \<open>Schema_Refinement\<close> shows that the constraints of \<open>Auth_Db\<close> are the declared ones,
  \<open>Trading_Modes\<close> that the checks on mode transitions are a state machine in which live trading is
  reached only by its ladder, and \<open>Audit_Events\<close> that the triggers keep the audit log append only.

  \<^bold>\<open>Fuel and bounds.\<close>  \<open>json_loads\<close> gives its scanner \<open>3 * length + 3\<close> steps, which \<open>Json_Lemmas\<close> shows
  to be enough, and \<open>Json_Escapes\<close> that it fails on no text for want of characters unless a \<open>\u\<close> escape
  asks for one; \<open>limit\<close> is the depth Python's recursion limit leaves room for, and the theorems
  that need a result ask for \<open>0 < limit\<close>.  \<open>delete_rows\<close> follows foreign keys to a depth \<open>n\<close>: the
  properties of the audit log hold for every \<open>n\<close>.  Everything else is total.

  \<^bold>\<open>Not modelled.\<close>  FastAPI's routing, parsing of bodies and CORS middleware are outside: a request comes
  with its route and its parsed values, the query being the framework's dictionary of parameters.  Transactions are atomic steps: what two
  transactions see of each other under READ COMMITTED is left out.  Code points above 255,
  failures to send on a socket, cyclic values in log records, the names of foreign keys (which
  SQLAlchemy may shorten), the text and the latencies of the metrics, and the spans of tracing (but not
  where they are sent) are left out too.  A frame with a \<open>\u\<close> escape above 255 is not read as Python reads
  it, and the properties of frames exclude it by name (\<open>wide_escape\<close>).  Of an answer that is late only
  the order is modelled in which the application finishes before the next request.  The lifetime of a
  process is \<open>create_app\<close>, a list of arrivals and \<open>lifespan_shutdown\<close>; that connections fail in between is
  an exception of the call that uses them.  The Rust and TypeScript applications, the packages, the
  scripts and the tests are not part of the development.
\<close>

end
